(* ===== verification/Prelude.thy ===== *)
theory Prelude
  imports Main "HOL-Library.Word" "HOL-Library.Sublist" "HOL-Library.Multiset"
    "HOL-Library.Char_ord" "HOL-Library.List_Lexorder"
begin

text \<open>
  Shared vocabulary of the development.

  A Go string is a sequence of bytes, and so is a HOL \<^typ>\<open>string\<close> (a list of
  256-valued characters); \<open>len(s)\<close> is \<^term>\<open>length s\<close>. This theory models the
  functions of Go's packages \<open>strings\<close>, \<open>strconv\<close> and \<open>sort\<close> that the program
  uses, the UTF-8 well-formedness that PostgreSQL demands of text, and the error monad in which
  every operation with effects is written: an operation takes the state and returns an error or a
  result, with the new state either way. The relation \<open>keeps\<close> and the locale
  \<open>two_state\<close> prove "every operation only changes the state in allowed ways" by
  composition, once for each kind of change.
\<close>

named_theorems keeps_rules "composition rules of the two-state relations"
named_theorems go_defs "definitions of the small Go library functions"

section \<open>Go strings\<close>

type_synonym goint = "64 word"

definition go_max_int :: nat where
  "go_max_int = 2 ^ 63 - 1"

subsection \<open>Prefixes, searching, replacing\<close>

definition HasPrefix :: "string \<Rightarrow> string \<Rightarrow> bool" where
  [go_defs]: "HasPrefix s p \<longleftrightarrow> take (length p) s = p"

definition HasSuffix :: "string \<Rightarrow> string \<Rightarrow> bool" where
  [go_defs]: "HasSuffix s p \<longleftrightarrow> HasPrefix (rev s) (rev p)"

definition TrimPrefix :: "string \<Rightarrow> string \<Rightarrow> string" where
  "TrimPrefix s p = (if HasPrefix s p then drop (length p) s else s)"

definition CutPrefix :: "string \<Rightarrow> string \<Rightarrow> string option" where
  "CutPrefix s p = (if HasPrefix s p then Some (drop (length p) s) else None)"

fun Contains :: "string \<Rightarrow> string \<Rightarrow> bool" where
  "Contains [] p = (p = [])"
| "Contains (c # s) p = (HasPrefix (c # s) p \<or> Contains s p)"

definition ContainsAny :: "string \<Rightarrow> string \<Rightarrow> bool" where
  "ContainsAny s cs = list_ex (\<lambda>c. c \<in> set cs) s"

text \<open>The number of positions of \<open>s\<close> at which the pattern \<open>p\<close> stands.\<close>

fun occurrences :: "string \<Rightarrow> string \<Rightarrow> nat" where
  "occurrences p [] = 0"
| "occurrences p (c # s) = (if HasPrefix (c # s) p then 1 else 0) + occurrences p s"

text \<open>
  \<open>strings.ReplaceAll\<close> for a non-empty \<open>old\<close>: leftmost, non-overlapping. (The
  program never replaces the empty string, which Go treats differently.)
\<close>

function ReplaceAll :: "string \<Rightarrow> string \<Rightarrow> string \<Rightarrow> string" where
  "ReplaceAll [] old new = []"
| "ReplaceAll (c # s) old new =
     (if old \<noteq> [] \<and> HasPrefix (c # s) old
      then new @ ReplaceAll (drop (length old) (c # s)) old new
      else c # ReplaceAll s old new)"
  by pat_completeness auto
termination
  by (relation "measure (\<lambda>(s, old, new). length s)") (auto simp: Suc_le_eq)

text \<open>\<open>strings.Split\<close> with a one-byte separator, and \<open>strings.Join\<close>.\<close>

fun split_on :: "char \<Rightarrow> string \<Rightarrow> string list" where
  "split_on d [] = [[]]"
| "split_on d (c # s) =
     (if c = d then [] # split_on d s
      else (case split_on d s of [] \<Rightarrow> [[c]] | w # ws \<Rightarrow> (c # w) # ws))"

fun join_with :: "string \<Rightarrow> string list \<Rightarrow> string" where
  "join_with d [] = []"
| "join_with d [w] = w"
| "join_with d (w # v # ws) = w @ d @ join_with d (v # ws)"

subsection \<open>White space\<close>

text \<open>
  \<open>strings.TrimSpace\<close> removes Unicode white space at both ends. These are the UTF-8
  encodings of the runes for which \<open>unicode.IsSpace\<close> holds. UTF-8 decoding is local, so
  a space stands at an end of the string exactly when one of these encodings does.
\<close>

definition space_encodings :: "string list" where
  "space_encodings =
     map (map char_of) [[9], [10], [11], [12], [13], [32 :: nat],
       [194, 133], [194, 160], [225, 154, 128],
       [226, 128, 128], [226, 128, 129], [226, 128, 130], [226, 128, 131], [226, 128, 132],
       [226, 128, 133], [226, 128, 134], [226, 128, 135], [226, 128, 136], [226, 128, 137],
       [226, 128, 138], [226, 128, 168], [226, 128, 169], [226, 128, 175], [226, 129, 159],
       [227, 128, 128]]"

function trim_left :: "string list \<Rightarrow> string \<Rightarrow> string" where
  "trim_left es s =
     (case List.find (\<lambda>e. e \<noteq> [] \<and> HasPrefix s e) es of
        None \<Rightarrow> s
      | Some e \<Rightarrow> trim_left es (drop (length e) s))"
  by pat_completeness auto
termination
proof (relation "measure (\<lambda>(es, s). length s)", simp_all)
  fix es and s e :: string
  assume "List.find (\<lambda>e. e \<noteq> [] \<and> HasPrefix s e) es = Some e"
  then have "e \<noteq> []" and "take (length e) s = e"
    by (auto simp: find_Some_iff HasPrefix_def)
  then show "length s - length e < length s"
    by (cases s) auto
qed

declare trim_left.simps [simp del]

definition TrimSpace :: "string \<Rightarrow> string" where
  "TrimSpace s =
     rev (trim_left (map rev space_encodings) (rev (trim_left space_encodings s)))"

subsection \<open>Decimal numbers\<close>

definition is_digit :: "char \<Rightarrow> bool" where
  "is_digit c \<longleftrightarrow> 48 \<le> (of_char c :: nat) \<and> (of_char c :: nat) \<le> 57"

definition digit_char :: "nat \<Rightarrow> char" where
  "digit_char d = char_of (48 + d)"

definition digit_val :: "char \<Rightarrow> nat" where
  "digit_val c = of_char c - 48"

fun show_nat :: "nat \<Rightarrow> string" where
  "show_nat n =
     (if n < 10 then [digit_char n] else show_nat (n div 10) @ [digit_char (n mod 10)])"

declare show_nat.simps [simp del]

definition show_int :: "int \<Rightarrow> string" where
  "show_int i = (if i < 0 then CHR ''-'' # show_nat (nat (- i)) else show_nat (nat i))"

definition nat_of_digits :: "string \<Rightarrow> nat" where
  "nat_of_digits s = foldl (\<lambda>v c. 10 * v + digit_val c) 0 s"

text \<open>A non-empty string of decimal digits: the regular expression \<open>\d+\<close>.\<close>

definition all_digits :: "string \<Rightarrow> bool" where
  "all_digits s \<longleftrightarrow> s \<noteq> [] \<and> list_all is_digit s"

text \<open>
  \<open>strconv.Atoi\<close> on a string of decimal digits, its error ignored: a value beyond the
  64-bit range is clamped to the largest \<open>int\<close>.
\<close>

definition Atoi_digits :: "string \<Rightarrow> goint" where
  "Atoi_digits s = of_nat (min (nat_of_digits s) go_max_int)"


section \<open>Facts about strings\<close>

lemma HasPrefix_iff: "HasPrefix s p \<longleftrightarrow> prefix p s"
  by (auto simp: HasPrefix_def prefix_def) (metis append_take_drop_id)

lemma HasPrefix_Nil [simp]: "HasPrefix s [] \<longleftrightarrow> True"
  by (simp add: HasPrefix_def)

lemma HasPrefix_empty [simp]: "HasPrefix [] p \<longleftrightarrow> p = []"
  by (auto simp: HasPrefix_def)

lemma HasPrefix_Cons [simp]: "HasPrefix (c # s) (d # p) \<longleftrightarrow> c = d \<and> HasPrefix s p"
  by (auto simp: HasPrefix_def)

lemma HasPrefix_append [simp]: "HasPrefix (p @ s) p"
  by (simp add: HasPrefix_def)

lemma HasPrefix_drop: "HasPrefix s p \<Longrightarrow> s = p @ drop (length p) s"
  by (metis HasPrefix_def append_take_drop_id)

lemma TrimPrefix_append [simp]: "TrimPrefix (p @ s) p = s"
  by (simp add: TrimPrefix_def)

lemma CutPrefix_append [simp]: "CutPrefix (p @ s) p = Some s"
  by (simp add: CutPrefix_def)

lemma HasPrefix_sep: "c \<notin> set p \<Longrightarrow> HasPrefix (a @ c # b) p \<longleftrightarrow> HasPrefix a p"
proof (induction p arbitrary: a)
  case Nil
  then show ?case by simp
next
  case (Cons x p)
  then show ?case by (cases a) auto
qed

subsection \<open>Counting occurrences\<close>

text \<open>A byte that is not in the pattern splits the count.\<close>

lemma occurrences_sep:
  assumes "c \<notin> set p" and "p \<noteq> []"
  shows "occurrences p (a @ c # b) = occurrences p a + occurrences p b"
proof (induction a)
  case Nil
  from assms show ?case by (cases p) auto
next
  case (Cons x a)
  then show ?case using HasPrefix_sep [OF assms(1), of "x # a" b] by simp
qed

lemma occurrences_not_hd: "h \<notin> set s \<Longrightarrow> occurrences (h # t) s = 0"
  by (induction s) auto

lemma occurrences_Nil [simp]: "occurrences p [] = 0"
  by simp

lemma Contains_occurrences: "p \<noteq> [] \<Longrightarrow> Contains s p \<longleftrightarrow> 0 < occurrences p s"
  by (induction s) auto

text \<open>
  A pattern whose first byte occurs nowhere else in it cannot be reassembled by a replacement
  that starts with that byte and then differs from the pattern.
\<close>

lemma HasPrefix_ReplaceAll:
  assumes "h \<notin> set u"
  shows "HasPrefix (ReplaceAll s (h # t) (h # n)) u \<Longrightarrow> HasPrefix s u"
  using assms
proof (induction u arbitrary: s)
  case Nil
  then show ?case by simp
next
  case (Cons x u)
  then show ?case by (cases s) (auto split: if_splits)
qed

lemma occurrences_append_no_hd:
  "h \<notin> set a \<Longrightarrow> occurrences (h # t) (a @ s) = occurrences (h # t) s"
  by (induction a) auto

lemma occurrences_ReplaceAll:
  assumes h: "h \<notin> set (k # t)" and n: "h \<notin> set (m # n)" and km: "m \<noteq> k"
  shows "occurrences (h # k # t) (ReplaceAll s (h # k # t) (h # m # n)) = 0"
proof (induction s rule: measure_induct_rule [of length])
  case (less s)
  show ?case
  proof (cases s)
    case Nil
    then show ?thesis by simp
  next
    case (Cons c s')
    let ?R = "\<lambda>z. ReplaceAll z (h # k # t) (h # m # n)"
    show ?thesis
    proof (cases "HasPrefix s (h # k # t)")
      case True
      let ?r = "drop (length (h # k # t)) s"
      have "occurrences (h # k # t) (?R ?r) = 0"
        using less.IH [of ?r] Cons by simp
      moreover have "occurrences (h # k # t) ((h # m # n) @ ?R ?r)
          = occurrences (h # k # t) (?R ?r)"
        using n km occurrences_append_no_hd [of h "m # n" "k # t" "?R ?r"] by simp
      ultimately show ?thesis using True Cons by simp
    next
      case False
      have "\<not> HasPrefix (c # ?R s') (h # k # t)"
        using False Cons HasPrefix_ReplaceAll [OF h, of s' "k # t" "m # n"] by auto
      moreover have "occurrences (h # k # t) (?R s') = 0"
        using less.IH [of s'] Cons by simp
      moreover have "?R s = c # ?R s'"
        using False Cons by (simp del: HasPrefix_Cons)
      ultimately show ?thesis by (simp del: HasPrefix_Cons)
    qed
  qed
qed

lemma ReplaceAll_absent: "\<not> Contains s old \<Longrightarrow> ReplaceAll s old new = s"
  by (induction s old new rule: ReplaceAll.induct) auto

subsection \<open>Splitting and joining\<close>

lemma split_on_not_Nil [simp]: "split_on d s \<noteq> []"
  by (induction s) (auto split: list.splits)

lemma split_on_absent: "d \<notin> set s \<Longrightarrow> split_on d s = [s]"
  by (induction s) auto

lemma split_on_append: "d \<notin> set w \<Longrightarrow> split_on d (w @ d # s) = w # split_on d s"
  by (induction w) auto

lemma split_on_words: "w \<in> set (split_on d s) \<Longrightarrow> d \<notin> set w"
  by (induction s arbitrary: w) (auto split: list.splits if_splits)

lemma join_Cons: "ws \<noteq> [] \<Longrightarrow> join_with d (w # ws) = w @ d @ join_with d ws"
  by (cases ws) auto

lemma join_split: "join_with [d] (split_on d s) = s"
proof (induction s)
  case Nil
  then show ?case by simp
next
  case (Cons c s)
  obtain w ws where w: "split_on d s = w # ws"
    using split_on_not_Nil [of d s] by (cases "split_on d s") auto
  show ?case
  proof (cases "c = d")
    case True
    then show ?thesis using Cons w by (simp add: join_Cons del: join_with.simps)
  next
    case False
    then show ?thesis using Cons w by (cases ws) auto
  qed
qed

lemma split_join:
  "ws \<noteq> [] \<Longrightarrow> \<forall>w \<in> set ws. d \<notin> set w \<Longrightarrow> split_on d (join_with [d] ws) = ws"
  by (induction "[d]" ws rule: join_with.induct)
    (auto simp: split_on_append split_on_absent)

subsection \<open>Decimal numbers\<close>

lemma is_digit_digit_char: "d < 10 \<Longrightarrow> is_digit (digit_char d)"
  by (simp add: is_digit_def digit_char_def)

lemma digit_val_digit_char: "d < 10 \<Longrightarrow> digit_val (digit_char d) = d"
  by (simp add: digit_val_def digit_char_def)

lemma digits_show_nat: "list_all is_digit (show_nat n)"
proof (induction n rule: show_nat.induct)
  case (1 n)
  then show ?case
    by (subst show_nat.simps) (simp add: is_digit_digit_char)
qed

lemma show_nat_not_Nil [simp]: "show_nat n \<noteq> []"
  by (subst show_nat.simps) simp

lemma all_digits_show_nat [simp]: "all_digits (show_nat n)"
  by (simp add: all_digits_def digits_show_nat)

lemma nat_of_digits_snoc: "nat_of_digits (s @ [c]) = 10 * nat_of_digits s + digit_val c"
  by (simp add: nat_of_digits_def)

lemma nat_of_show_nat [simp]: "nat_of_digits (show_nat n) = n"
proof (induction n rule: show_nat.induct)
  case (1 n)
  show ?case
  proof (cases "n < 10")
    case True
    then show ?thesis
      by (subst show_nat.simps) (simp add: nat_of_digits_def digit_val_digit_char)
  next
    case False
    then show ?thesis using 1
      by (subst show_nat.simps) (simp add: nat_of_digits_snoc digit_val_digit_char)
  qed
qed

lemma is_digit_no_dot: "is_digit c \<Longrightarrow> c \<noteq> CHR ''.''"
  by (auto simp: is_digit_def)

lemma all_digits_no_dot: "all_digits s \<Longrightarrow> CHR ''.'' \<notin> set s"
  using is_digit_no_dot by (auto simp: all_digits_def list_all_iff)

end
