(* ===== verification/Authz.thy ===== *)
theory Authz
  imports Prelude
begin

text \<open>
  The RBAC kernel, \<open>internal/authz/authz.go\<close>: actions, roles, the constant grant matrix,
  and \<open>Can\<close>, which returns no denial or a structured one. Roles are strings because they
  come from the database unparsed; actions are the constants of the source and so a datatype.
  The lemmas show that the matrix is a ladder of privileges (an abstract specification by ranks)
  and that everything outside it is denied.
\<close>

section \<open>Actions and roles\<close>

datatype Action =
    ContextRead | ArtifactRead | ArtifactWrite | ProposalCreate | ProposalMerge
  | ReleaseCreate | MemoryRead | MemoryWrite | ActivityRead | ProjectAdmin

fun action_name :: "Action \<Rightarrow> string" where
  "action_name ContextRead = ''context.read''"
| "action_name ArtifactRead = ''artifact.read''"
| "action_name ArtifactWrite = ''artifact.write''"
| "action_name ProposalCreate = ''proposal.create''"
| "action_name ProposalMerge = ''proposal.merge''"
| "action_name ReleaseCreate = ''release.create''"
| "action_name MemoryRead = ''memory.read''"
| "action_name MemoryWrite = ''memory.write''"
| "action_name ActivityRead = ''activity.read''"
| "action_name ProjectAdmin = ''project.admin''"

type_synonym Role = string
type_synonym OrgRole = string

definition RoleNone :: Role where "RoleNone = ''''"
definition RoleViewer :: Role where "RoleViewer = ''viewer''"
definition RoleContributor :: Role where "RoleContributor = ''contributor''"
definition RoleMaintainer :: Role where "RoleMaintainer = ''maintainer''"

definition OrgNone :: OrgRole where "OrgNone = ''''"
definition OrgGuest :: OrgRole where "OrgGuest = ''guest''"
definition OrgMember :: OrgRole where "OrgMember = ''member''"
definition OrgAdmin :: OrgRole where "OrgAdmin = ''admin''"
definition OrgOwner :: OrgRole where "OrgOwner = ''owner''"

lemmas role_defs = RoleNone_def RoleViewer_def RoleContributor_def RoleMaintainer_def
lemmas org_role_defs = OrgNone_def OrgGuest_def OrgMember_def OrgAdmin_def OrgOwner_def

section \<open>The grant matrix\<close>

text \<open>
  The nested Go map, one list of granted actions per role; a role or an action that is not in
  the map reads as \<open>false\<close>.
\<close>

definition grants :: "Role \<Rightarrow> Action list" where
  "grants role =
     (if role = RoleViewer then [ContextRead, ArtifactRead, MemoryRead, ActivityRead]
      else if role = RoleContributor then
        [ContextRead, ArtifactRead, MemoryRead, ActivityRead,
         ArtifactWrite, ProposalCreate, MemoryWrite]
      else if role = RoleMaintainer then
        [ContextRead, ArtifactRead, MemoryRead, ActivityRead,
         ArtifactWrite, ProposalCreate, MemoryWrite,
         ProposalMerge, ReleaseCreate, ProjectAdmin]
      else [])"

fun alternative :: "Action \<Rightarrow> string" where
  "alternative ProposalMerge = ''call ubiqo_propose_merge and ask a maintainer to merge''"
| "alternative ReleaseCreate = ''ask a maintainer to release, or request the maintainer role''"
| "alternative ArtifactWrite = ''ask for the contributor role on this project''"
| "alternative ProjectAdmin = ''ask an org admin or project maintainer''"
| "alternative _ = ''''"

record Denial =
  Reason :: string
  CallerRole :: string
  Alternative :: string

text \<open>The bytes of the em dash, U+2014, in UTF-8.\<close>

definition em_dash :: string where
  "em_dash = map char_of [226, 128, 148 :: nat]"

definition Denial_Error :: "Denial \<Rightarrow> string" where
  "Denial_Error d =
     (if Alternative d \<noteq> '''' then
        ''permission denied: '' @ Reason d @ '' (your role: '' @ CallerRole d @ '') ''
          @ em_dash @ '' '' @ Alternative d
      else ''permission denied: '' @ Reason d @ '' (your role: '' @ CallerRole d @ '')'')"

text \<open>\<open>Can\<close>: \<open>None\<close> is Go's nil denial. The action names need no escaping by \<open>%q\<close>.\<close>

definition Can :: "Role \<Rightarrow> Action \<Rightarrow> Denial option" where
  "Can role action =
     (if action \<in> set (grants role) then None
      else Some \<lparr>
        Reason = ''action '' @ [CHR 34] @ action_name action @ [CHR 34]
          @ '' requires a role that grants it'',
        CallerRole = (if role = RoleNone then ''no role on this project'' else role),
        Alternative = alternative action \<rparr>)"

definition ValidRole :: "string \<Rightarrow> bool" where
  "ValidRole s \<longleftrightarrow> s = RoleViewer \<or> s = RoleContributor \<or> s = RoleMaintainer"

definition ValidOrgRole :: "string \<Rightarrow> bool" where
  "ValidOrgRole s \<longleftrightarrow> s = OrgGuest \<or> s = OrgMember \<or> s = OrgAdmin \<or> s = OrgOwner"

definition OrgCanManage :: "OrgRole \<Rightarrow> bool" where
  "OrgCanManage r \<longleftrightarrow> r = OrgAdmin \<or> r = OrgOwner"

section \<open>The matrix as a ladder of privileges\<close>

text \<open>
  The abstract specification: every role has a rank, every action needs one. Unknown roles have
  rank 0 and no action needs less than 1.
\<close>

definition role_rank :: "Role \<Rightarrow> nat" where
  "role_rank role =
     (if role = RoleViewer then 1 else if role = RoleContributor then 2
      else if role = RoleMaintainer then 3 else 0)"

fun required_rank :: "Action \<Rightarrow> nat" where
  "required_rank ContextRead = 1"
| "required_rank ArtifactRead = 1"
| "required_rank MemoryRead = 1"
| "required_rank ActivityRead = 1"
| "required_rank ArtifactWrite = 2"
| "required_rank ProposalCreate = 2"
| "required_rank MemoryWrite = 2"
| "required_rank ProposalMerge = 3"
| "required_rank ReleaseCreate = 3"
| "required_rank ProjectAdmin = 3"

lemma roles_distinct [simp]:
  "RoleViewer \<noteq> RoleNone" "RoleContributor \<noteq> RoleNone" "RoleMaintainer \<noteq> RoleNone"
  "RoleViewer \<noteq> RoleContributor" "RoleViewer \<noteq> RoleMaintainer"
  "RoleContributor \<noteq> RoleMaintainer"
  "RoleNone \<noteq> RoleViewer" "RoleNone \<noteq> RoleContributor" "RoleNone \<noteq> RoleMaintainer"
  "RoleContributor \<noteq> RoleViewer" "RoleMaintainer \<noteq> RoleViewer"
  "RoleMaintainer \<noteq> RoleContributor"
  by (simp_all add: role_defs)

lemma required_rank_pos: "0 < required_rank a"
  by (cases a) simp_all

lemma grants_rank: "a \<in> set (grants r) \<longleftrightarrow> required_rank a \<le> role_rank r"
  by (cases a) (simp_all add: grants_def role_rank_def)

lemma role_rank_valid: "0 < role_rank r \<longleftrightarrow> ValidRole r"
  by (simp add: role_rank_def ValidRole_def)

lemma Can_None: "Can r a = None \<longleftrightarrow> required_rank a \<le> role_rank r"
  by (simp add: Can_def grants_rank)

lemma Can_mono: "role_rank r \<le> role_rank r' \<Longrightarrow> Can r a = None \<Longrightarrow> Can r' a = None"
  by (simp add: Can_None)

lemma Can_invalid_role: "\<not> ValidRole r \<Longrightarrow> Can r a \<noteq> None"
  using required_rank_pos [of a] role_rank_valid [of r] by (simp add: Can_None)

lemma Can_maintainer [simp]: "Can RoleMaintainer a = None"
  by (cases a) (simp_all add: Can_None role_rank_def)

text \<open>The RBAC kernel is deny-by-default and its matrix is a ladder of privileges:
  \<open>Can\<close> lets a role perform an action exactly when the role is one of the three assignable
  roles and its rank reaches the rank that the action requires. Every other string, the empty one
  included, is denied every action.\<close>

theorem Can_is_ladder:
  "Can r a = None \<longleftrightarrow> ValidRole r \<and> required_rank a \<le> role_rank r"
  using required_rank_pos [of a] role_rank_valid [of r] by (auto simp: Can_None)

end
