(* ===== verification/Effects.thy ===== *)
theory Effects
  imports Prelude
begin

text \<open>
  The effects of the program. An operation of Go that returns \<open>(T, error)\<close> and changes
  state is an \<open>act\<close>: it takes the state and returns an error (\<open>Inl\<close>) or a result
  (\<open>Inr\<close>) together with the state it leaves, so the state an error path leaves behind
  is part of the model. \<open>andThen\<close> is the sequence with Go's early
  \<open>if err != nil { return err }\<close>; \<open>ignoring\<close> is \<open>_ = op\<close>.

  \<open>keeps R m\<close> says that \<open>m\<close>, whatever it returns, takes every state to one
  related by \<open>R\<close>. For a preorder \<open>R\<close> (the locale \<open>two_state\<close>) this
  composes, so a property of every step is a property of every operation built from them.
\<close>

type_synonym ('s, 'e, 'a) act = "'s \<Rightarrow> ('e + 'a) \<times> 's"

section \<open>Sequencing\<close>

definition ret :: "'a \<Rightarrow> ('s, 'e, 'a) act" where
  "ret x = (\<lambda>s. (Inr x, s))"

definition failwith :: "'e \<Rightarrow> ('s, 'e, 'a) act" where
  "failwith e = (\<lambda>s. (Inl e, s))"

definition andThen :: "('s, 'e, 'a) act \<Rightarrow> ('a \<Rightarrow> ('s, 'e, 'b) act) \<Rightarrow> ('s, 'e, 'b) act" where
  "andThen m f = (\<lambda>s. case m s of (Inl e, s') \<Rightarrow> (Inl e, s') | (Inr x, s') \<Rightarrow> f x s')"

text \<open>\<open>handle m h f\<close> runs \<open>h\<close> on an error of \<open>m\<close> and \<open>f\<close> on its result.\<close>

definition handle ::
  "('s, 'e, 'a) act \<Rightarrow> ('e \<Rightarrow> ('s, 'f, 'b) act) \<Rightarrow> ('a \<Rightarrow> ('s, 'f, 'b) act) \<Rightarrow> ('s, 'f, 'b) act" where
  "handle m h f = (\<lambda>s. case m s of (Inl e, s') \<Rightarrow> h e s' | (Inr x, s') \<Rightarrow> f x s')"

definition ignoring :: "('s, 'e, 'a) act \<Rightarrow> ('s, 'f, unit) act" where
  "ignoring m = (\<lambda>s. (Inr (), snd (m s)))"

definition guarded :: "bool \<Rightarrow> 'e \<Rightarrow> ('s, 'e, unit) act" where
  "guarded b e = (if b then ret () else failwith e)"

definition ofSum :: "'e + 'a \<Rightarrow> ('s, 'e, 'a) act" where
  "ofSum r = (\<lambda>s. (r, s))"

text \<open>A loop over a list that stops at the first error.\<close>

fun forEach :: "'x list \<Rightarrow> ('x \<Rightarrow> ('s, 'e, 'a) act) \<Rightarrow> ('s, 'e, 'a list) act" where
  "forEach [] f = ret []"
| "forEach (x # xs) f =
     andThen (f x) (\<lambda>y. andThen (forEach xs f) (\<lambda>ys. ret (y # ys)))"

text \<open>Reading a value of the state.\<close>

definition reading :: "('s \<Rightarrow> 'x) \<Rightarrow> ('x \<Rightarrow> ('s, 'e, 'a) act) \<Rightarrow> ('s, 'e, 'a) act" where
  "reading f k = (\<lambda>s. k (f s) s)"

text \<open>An operation on a part of the state, seen as one on the whole.\<close>

definition zoom :: "('w \<Rightarrow> 's) \<Rightarrow> ('s \<Rightarrow> 'w \<Rightarrow> 'w) \<Rightarrow> ('s \<Rightarrow> 'r \<times> 's) \<Rightarrow> 'w \<Rightarrow> 'r \<times> 'w" where
  "zoom get put m = (\<lambda>w. case m (get w) of (r, s') \<Rightarrow> (r, put s' w))"

lemma andThen_Inr:
  "andThen m f s = (Inr y, s'') \<longleftrightarrow> (\<exists>x s'. m s = (Inr x, s') \<and> f x s' = (Inr y, s''))"
  by (auto simp: andThen_def split: sum.splits prod.splits)

lemma andThen_Inl:
  "andThen m f s = (Inl e, s'') \<longleftrightarrow>
     m s = (Inl e, s'') \<or> (\<exists>x s'. m s = (Inr x, s') \<and> f x s' = (Inl e, s''))"
  by (auto simp: andThen_def split: sum.splits prod.splits)

lemma andThen_eq_Inl: "m s = (Inl e, s') \<Longrightarrow> andThen m f s = (Inl e, s')"
  by (simp add: andThen_def)

lemma andThen_eq_Inr: "m s = (Inr x, s') \<Longrightarrow> andThen m f s = f x s'"
  by (simp add: andThen_def)

lemma ret_apply [simp]: "ret x s = (Inr x, s)"
  by (simp add: ret_def)

lemma failwith_apply [simp]: "failwith e s = (Inl e, s)"
  by (simp add: failwith_def)

lemma ofSum_apply [simp]: "ofSum r s = (r, s)"
  by (simp add: ofSum_def)

lemma ignoring_apply [simp]: "ignoring m s = (Inr (), snd (m s))"
  by (simp add: ignoring_def)

lemma guarded_True [simp]: "guarded True e = ret ()"
  by (simp add: guarded_def)

lemma guarded_False [simp]: "guarded False e = failwith e"
  by (simp add: guarded_def)

lemma guarded_Inr: "guarded b e s = (Inr u, s') \<longleftrightarrow> b \<and> s' = s"
  by (auto simp: guarded_def)

lemma andThen_ret [simp]: "andThen (ret x) f = f x"
  by (simp add: andThen_def ret_def)

lemma andThen_failwith [simp]: "andThen (failwith e) f = failwith e"
  by (simp add: andThen_def failwith_def)

section \<open>Errors that may be raised\<close>

text \<open>Every error of \<open>m\<close> satisfies \<open>P\<close>.\<close>

definition raises :: "('e \<Rightarrow> bool) \<Rightarrow> ('s \<Rightarrow> ('e + 'a) \<times> 's) \<Rightarrow> bool" where
  "raises P m \<longleftrightarrow> (\<forall>s e s'. m s = (Inl e, s') \<longrightarrow> P e)"

lemma raisesD: "raises P m \<Longrightarrow> m s = (Inl e, s') \<Longrightarrow> P e"
  by (auto simp: raises_def)

named_theorems raises_rules "composition of the errors that may be raised"

lemma raises_ret [raises_rules]: "raises P (ret x)"
  by (simp add: raises_def)

lemma raises_ofSum [raises_rules]: "(\<And>e. r = Inl e \<Longrightarrow> P e) \<Longrightarrow> raises P (ofSum r)"
  by (simp add: raises_def)

lemma raises_andThen [raises_rules]:
  "raises P m \<Longrightarrow> (\<And>x. raises P (f x)) \<Longrightarrow> raises P (andThen m f)"
  unfolding raises_def andThen_Inl by blast

lemma raises_failwith [raises_rules]: "P e \<Longrightarrow> raises P (failwith e)"
  by (simp add: raises_def)

lemma raises_ignoring [raises_rules]: "raises P (ignoring m)"
  by (simp add: raises_def)

lemma raises_handle:
  "raises Q m \<Longrightarrow> (\<And>e. Q e \<Longrightarrow> raises P (h e)) \<Longrightarrow> (\<And>x. raises P (f x)) \<Longrightarrow> raises P (handle m h f)"
  unfolding raises_def handle_def by (fastforce split: prod.splits sum.splits)

lemma raises_forEach [raises_rules]: "(\<And>x. raises P (f x)) \<Longrightarrow> raises P (forEach xs f)"
  by (induction xs) (auto intro!: raises_andThen raises_ret)

lemma raises_reading [raises_rules]: "(\<And>x. raises P (k x)) \<Longrightarrow> raises P (reading f k)"
  by (simp add: raises_def reading_def)

lemma raises_case_option [raises_rules]:
  "raises P m \<Longrightarrow> (\<And>x. raises P (f x)) \<Longrightarrow> raises P (case v of None \<Rightarrow> m | Some x \<Rightarrow> f x)"
  by (cases v) auto

lemma raises_case_prod [raises_rules]: "(\<And>x y. raises P (f x y)) \<Longrightarrow> raises P (case v of (x, y) \<Rightarrow> f x y)"
  by (cases v) auto

lemma raises_if [raises_rules]: "raises P m \<Longrightarrow> raises P m' \<Longrightarrow> raises P (if b then m else m')"
  by simp

lemma raises_zoom: "raises P m \<Longrightarrow> raises P (zoom get put m)"
  by (fastforce simp: raises_def zoom_def split: prod.splits)

lemma raises_weaken: "raises P m \<Longrightarrow> (\<And>e. P e \<Longrightarrow> Q e) \<Longrightarrow> raises Q m"
  by (auto simp: raises_def)

section \<open>Two-state properties\<close>

definition keeps :: "('s \<Rightarrow> 's \<Rightarrow> bool) \<Rightarrow> ('s \<Rightarrow> 'r \<times> 's) \<Rightarrow> bool" where
  "keeps R m \<longleftrightarrow> (\<forall>s. R s (snd (m s)))"

lemma keepsI: "(\<And>s. R s (snd (m s))) \<Longrightarrow> keeps R m"
  by (simp add: keeps_def)

lemma keepsD: "keeps R m \<Longrightarrow> R s (snd (m s))"
  by (simp add: keeps_def)

lemma keeps_zoom:
  assumes "keeps Q m" and "\<And>w s'. Q (get w) s' \<Longrightarrow> R w (put s' w)"
  shows "keeps R (zoom get put m)"
proof (rule keepsI)
  fix w
  have "R w (put (snd (m (get w))) w)"
    by (rule assms(2), rule keepsD [OF assms(1)])
  then show "R w (snd (zoom get put m w))"
    by (cases "m (get w)") (simp add: zoom_def)
qed

locale two_state =
  fixes R :: "'s \<Rightarrow> 's \<Rightarrow> bool"
  assumes step_refl: "R s s"
    and step_trans: "R s t \<Longrightarrow> R t u \<Longrightarrow> R s u"
begin

lemma keeps_ret [keeps_rules]: "keeps R (ret x)"
  by (simp add: keeps_def step_refl)

lemma keeps_failwith [keeps_rules]: "keeps R (failwith e)"
  by (simp add: keeps_def step_refl)

lemma keeps_ofSum [keeps_rules]: "keeps R (ofSum r)"
  by (simp add: keeps_def step_refl)

lemma keeps_guarded [keeps_rules]: "keeps R (guarded b e)"
  by (simp add: keeps_def guarded_def step_refl)

lemma keeps_andThen [keeps_rules]:
  assumes "keeps R m" and "\<And>x. keeps R (f x)"
  shows "keeps R (andThen m f)"
proof (rule keepsI)
  fix s
  show "R s (snd (andThen m f s))"
    using assms(1) [THEN keepsD, of s] assms(2) [THEN keepsD]
    by (auto simp: andThen_def split: prod.splits sum.splits intro: step_trans)
qed

lemma keeps_handle [keeps_rules]:
  assumes "keeps R m" and "\<And>e. keeps R (h e)" and "\<And>x. keeps R (f x)"
  shows "keeps R (handle m h f)"
proof (rule keepsI)
  fix s
  show "R s (snd (handle m h f s))"
    using assms(1) [THEN keepsD, of s] assms(2,3) [THEN keepsD]
    by (auto simp: handle_def split: prod.splits sum.splits intro: step_trans)
qed

lemma keeps_ignoring [keeps_rules]: "keeps R m \<Longrightarrow> keeps R (ignoring m)"
  by (simp add: keeps_def)

lemma keeps_forEach [keeps_rules]:
  "(\<And>x. keeps R (f x)) \<Longrightarrow> keeps R (forEach xs f)"
  by (induction xs) (auto intro!: keeps_ret keeps_andThen)

lemma keeps_forEach_set:
  "(\<And>x. x \<in> set xs \<Longrightarrow> keeps R (f x)) \<Longrightarrow> keeps R (forEach xs f)"
  by (induction xs) (auto intro!: keeps_ret keeps_andThen)

lemma keeps_reading [keeps_rules]: "(\<And>x. keeps R (k x)) \<Longrightarrow> keeps R (reading f k)"
  by (simp add: keeps_def reading_def)

lemma keeps_if [keeps_rules]:
  "keeps R m \<Longrightarrow> keeps R m' \<Longrightarrow> keeps R (if b then m else m')"
  by simp

lemma keeps_case_option [keeps_rules]:
  "keeps R m \<Longrightarrow> (\<And>x. keeps R (f x)) \<Longrightarrow> keeps R (case v of None \<Rightarrow> m | Some x \<Rightarrow> f x)"
  by (cases v) auto

lemma keeps_case_prod [keeps_rules]:
  "(\<And>x y. keeps R (f x y)) \<Longrightarrow> keeps R (case v of (x, y) \<Rightarrow> f x y)"
  by (cases v) auto

lemma keeps_let [keeps_rules]: "keeps R (f x) \<Longrightarrow> keeps R (let y = x in f y)"
  by simp

end

end
