(* ===== verification/Errors.thy ===== *)
theory Errors
  imports Authz Effects
begin

text \<open>
  The errors of the program, one constructor for each place that makes one, with the data its
  message shows. Two of them are told apart by the code: \<open>errors.As(err, &denial)\<close> finds a
  \<open>Denied\<close>, and \<open>errors.Is(err, store.ErrNotFound)\<close> finds \<open>NotFound\<close> or an error
  that wraps it.
\<close>

datatype dberr =
    Unavailable                  \<comment> \<open>the backend failed before or after executing the statement\<close>
  | BadText                      \<comment> \<open>a text parameter is not valid UTF-8 or holds a NUL byte\<close>
  | Violates string              \<comment> \<open>a constraint of the schema, by name\<close>
  | NegativeLimit

datatype goerr =
    NotFound
  | ProjectNotFound string string
  | Denied Denial
  | DbError dberr
  | InvalidOrgRole string
  | InvalidProjectRole string
  | RandFailed
  | InvalidVersion string
  | InvalidBump string
  | InvalidSlugs
  | InvalidArtifact string
  | BadFileCount
  | InvalidPath string
  | InvalidPathChars string
  | PathNotClean string
  | PathForbidden string
  | FileTooBig string
  | SymlinkRefused string
  | InvalidRef string
  | GitFailed "string list" string string
  | OsFailed string
  | FileNotFound string string string
  | SoloNeedsNoProposal
  | InvalidProposalId string
  | ProposalNotMergeable string
  | BadScope

definition is_denial :: "goerr \<Rightarrow> Denial option" where
  "is_denial e = (case e of Denied d \<Rightarrow> Some d | _ \<Rightarrow> None)"

definition is_not_found :: "goerr \<Rightarrow> bool" where
  "is_not_found e \<longleftrightarrow> (case e of NotFound \<Rightarrow> True | ProjectNotFound _ _ \<Rightarrow> True | _ \<Rightarrow> False)"

type_synonym ('s, 'a) go = "('s, goerr, 'a) act"

end
