(* ===== verification/GoText.thy ===== *)
theory GoText
  imports Prelude
begin

text \<open>
  Text beyond plain bytes: UTF-8 decoding as Go's \<open>unicode/utf8\<close> does it (and PostgreSQL
  checks it), \<open>strconv.Quote\<close> (the verb \<open>%q\<close>), and hexadecimal encoding. What the
  program takes from Go's library without depending on its details is the record \<open>golib\<close>:
  the SHA-256 digest, the table of printable runes beyond ASCII and the formatting of times. The
  program's definitions take it as an argument and the theorems hold for every value of it.
\<close>

record golib =
  sha256 :: "string \<Rightarrow> string"
  isPrint :: "nat \<Rightarrow> bool"
  formatTime :: "string \<Rightarrow> nat \<Rightarrow> string"
  uuidString :: "nat \<Rightarrow> string"
  uuidParse :: "string \<Rightarrow> nat option"

section \<open>UTF-8\<close>

definition byte :: "char \<Rightarrow> nat" where
  "byte c = of_char c"

definition cont_byte :: "char \<Rightarrow> bool" where
  "cont_byte c \<longleftrightarrow> 128 \<le> byte c \<and> byte c \<le> 191"

text \<open>
  The bounds on the second byte, by the first one (they exclude overlong forms, surrogates and
  values beyond U+10FFFF), and the length of the encoding; 0 is an illegal first byte.
\<close>

definition utf8_class :: "nat \<Rightarrow> nat \<times> nat \<times> nat" where
  "utf8_class b =
     (if b < 128 then (1, 0, 0)
      else if b < 194 then (0, 0, 0)
      else if b < 224 then (2, 128, 191)
      else if b = 224 then (3, 160, 191)
      else if b = 237 then (3, 128, 159)
      else if b < 240 then (3, 128, 191)
      else if b = 240 then (4, 144, 191)
      else if b < 244 then (4, 128, 191)
      else if b = 244 then (4, 128, 143)
      else (0, 0, 0))"

text \<open>The length of the valid encoding at the front of the string, 0 if there is none.\<close>

definition rune_size :: "string \<Rightarrow> nat" where
  "rune_size s =
     (case s of [] \<Rightarrow> 0
      | c # r \<Rightarrow>
        (case utf8_class (byte c) of (n, lo, hi) \<Rightarrow>
           if n \<le> 1 then n
           else if n - 1 \<le> length r \<and> lo \<le> byte (r ! 0) \<and> byte (r ! 0) \<le> hi
                \<and> list_all cont_byte (take (n - 1) r)
           then n else 0))"

definition rune_value :: "string \<Rightarrow> nat" where
  "rune_value s =
     (case rune_size s of
        0 \<Rightarrow> 65533
      | Suc 0 \<Rightarrow> byte (s ! 0)
      | Suc (Suc 0) \<Rightarrow> (byte (s ! 0) - 192) * 64 + (byte (s ! 1) - 128)
      | Suc (Suc (Suc 0)) \<Rightarrow>
          (byte (s ! 0) - 224) * 4096 + (byte (s ! 1) - 128) * 64 + (byte (s ! 2) - 128)
      | _ \<Rightarrow> (byte (s ! 0) - 240) * 262144 + (byte (s ! 1) - 128) * 4096
               + (byte (s ! 2) - 128) * 64 + (byte (s ! 3) - 128))"

function valid_utf8 :: "string \<Rightarrow> bool" where
  "valid_utf8 s =
     (if s = [] then True
      else if rune_size s = 0 then False
      else valid_utf8 (drop (rune_size s) s))"
  by pat_completeness auto
termination
  by (relation "measure length") auto

declare valid_utf8.simps [simp del]

text \<open>The number of code points of a valid string: its bytes that are not continuation bytes.\<close>

definition rune_count :: "string \<Rightarrow> nat" where
  "rune_count s = length (filter (\<lambda>c. \<not> cont_byte c) s)"

section \<open>Hexadecimal and quoting\<close>

definition hex_digit :: "nat \<Rightarrow> char" where
  "hex_digit d = (if d < 10 then char_of (48 + d) else char_of (87 + d))"

fun hex_fixed :: "nat \<Rightarrow> nat \<Rightarrow> string" where
  "hex_fixed 0 v = []"
| "hex_fixed (Suc k) v = hex_fixed k (v div 16) @ [hex_digit (v mod 16)]"

definition hex_EncodeToString :: "string \<Rightarrow> string" where
  "hex_EncodeToString s = concat (map (\<lambda>c. hex_fixed 2 (byte c)) s)"

text \<open>One rune of \<open>strconv.Quote\<close>: the text written for the rune at the front of \<open>s\<close>.\<close>

definition quote_rune :: "(nat \<Rightarrow> bool) \<Rightarrow> string \<Rightarrow> string" where
  "quote_rune ip s =
     (let b = byte (s ! 0); r = rune_value s in
      if 128 \<le> b \<and> rune_size s = 0 then [CHR 92, CHR ''x''] @ hex_fixed 2 b
      else if b = 34 \<or> b = 92 then [CHR 92, s ! 0]
      else if 32 \<le> b \<and> b < 127 then [s ! 0]
      else if 128 \<le> b \<and> ip r then take (rune_size s) s
      else if b = 7 then [CHR 92, CHR ''a'']
      else if b = 8 then [CHR 92, CHR ''b'']
      else if b = 12 then [CHR 92, CHR ''f'']
      else if b = 10 then [CHR 92, CHR ''n'']
      else if b = 13 then [CHR 92, CHR ''r'']
      else if b = 9 then [CHR 92, CHR ''t'']
      else if b = 11 then [CHR 92, CHR ''v'']
      else if b < 32 \<or> b = 127 then [CHR 92, CHR ''x''] @ hex_fixed 2 b
      else if r < 65536 then [CHR 92, CHR ''u''] @ hex_fixed 4 r
      else [CHR 92, CHR ''U''] @ hex_fixed 8 r)"

function quote_body :: "(nat \<Rightarrow> bool) \<Rightarrow> string \<Rightarrow> string" where
  "quote_body ip s =
     (if s = [] then []
      else quote_rune ip s @ quote_body ip (drop (max 1 (rune_size s)) s))"
  by pat_completeness auto
termination
  by (relation "measure (\<lambda>(ip, s). length s)") auto

declare quote_body.simps [simp del]

definition Quote :: "(nat \<Rightarrow> bool) \<Rightarrow> string \<Rightarrow> string" where
  "Quote ip s = [CHR 34] @ quote_body ip s @ [CHR 34]"

section \<open>Facts about quoting\<close>

text \<open>Bytes that quoting leaves alone.\<close>

definition plain :: "char \<Rightarrow> bool" where
  "plain c \<longleftrightarrow> 32 \<le> byte c \<and> byte c < 127 \<and> byte c \<noteq> 34 \<and> byte c \<noteq> 92"

lemma byte_CHR_92: "byte (CHR 92) = 92"
  by (simp add: byte_def)

lemma utf8_class_ascii: "b < 128 \<Longrightarrow> utf8_class b = (1, 0, 0)"
  by (simp add: utf8_class_def)

lemma rune_size_ascii: "byte c < 128 \<Longrightarrow> rune_size (c # s) = 1"
  by (simp add: rune_size_def utf8_class_ascii)

lemma quote_body_Nil [simp]: "quote_body ip [] = []"
  by (simp add: quote_body.simps)

lemma quote_body_plain: "plain c \<Longrightarrow> quote_body ip (c # s) = c # quote_body ip s"
  by (subst quote_body.simps) (simp add: quote_rune_def plain_def rune_size_ascii Let_def)

text \<open>Any other first byte is written as a non-plain byte, and no byte \<open>h\<close> that is plain and
  no letter or digit appears in what is written for its rune.\<close>

lemma hex_digit_alnum: "d < 16 \<Longrightarrow> byte (hex_digit d) \<in> {48..57} \<union> {97..102}"
  by (auto simp: hex_digit_def byte_def)

lemma hex_fixed_alnum: "c \<in> set (hex_fixed k v) \<Longrightarrow> byte c \<in> {48..57} \<union> {97..102}"
proof (induction k arbitrary: v)
  case 0
  then show ?case by simp
next
  case (Suc k)
  then show ?case using hex_digit_alnum [of "v mod 16"] by auto
qed

lemma rune_size_bytes:
  assumes "128 \<le> byte c" and "d \<in> set (take (max 1 (rune_size (c # s))) (c # s))"
  shows "128 \<le> byte d"
  using assms
  by (auto simp: rune_size_def cont_byte_def list_all_iff take_Cons' split: prod.splits if_splits)

lemma quote_rune_shape:
  assumes "\<not> plain c"
  shows "\<exists>d w. quote_rune ip (c # s) = d # w \<and> \<not> plain d"
proof -
  have "take (rune_size (c # s)) (c # s) = c # take (rune_size (c # s) - 1) s"
    if "rune_size (c # s) \<noteq> 0"
    using that by (cases "rune_size (c # s)") auto
  then show ?thesis using assms
    by (auto simp: quote_rune_def Let_def plain_def byte_def)
qed

lemma quote_rune_no_lt:
  assumes "\<not> plain c"
  shows "CHR ''<'' \<notin> set (quote_rune ip (c # s))"
proof -
  have hex: "CHR ''<'' \<notin> set (hex_fixed k v)" for k v
    using hex_fixed_alnum [of "CHR ''<''" k v] by (auto simp: byte_def)
  have high: "CHR ''<'' \<notin> set (take (rune_size (c # s)) (c # s))" if "128 \<le> byte c"
  proof
    assume "CHR ''<'' \<in> set (take (rune_size (c # s)) (c # s))"
    moreover have "set (take (rune_size (c # s)) (c # s))
        \<subseteq> set (take (max 1 (rune_size (c # s))) (c # s))"
      by (rule set_take_subset_set_take) simp
    ultimately have "CHR ''<'' \<in> set (take (max 1 (rune_size (c # s))) (c # s))"
      by (rule rev_subsetD)
    from rune_size_bytes [OF that this] show False by (simp add: byte_def)
  qed
  show ?thesis
    using hex high assms by (auto simp: quote_rune_def Let_def plain_def byte_def)
qed

lemma HasPrefix_quote_body:
  "list_all plain u \<Longrightarrow> HasPrefix (quote_body ip s) u \<longleftrightarrow> HasPrefix s u"
proof (induction u arbitrary: s)
  case Nil
  then show ?case by simp
next
  case (Cons x u)
  show ?case
  proof (cases s)
    case Nil
    then show ?thesis by simp
  next
    case s: (Cons c s')
    show ?thesis
    proof (cases "plain c")
      case True
      then show ?thesis using Cons s by (simp add: quote_body_plain)
    next
      case False
      obtain d w where "quote_rune ip (c # s') = d # w" and "\<not> plain d"
        using quote_rune_shape [OF False] by blast
      then show ?thesis using False Cons.prems s
        by (subst quote_body.simps) auto
    qed
  qed
qed

text \<open>
  A pattern of plain bytes that begins with \<open><\<close> occurs in a quoted string exactly as often
  as in the string itself.
\<close>

lemma occurrences_quote_body:
  assumes pl: "list_all plain (CHR ''<'' # t)"
  shows "occurrences (CHR ''<'' # t) (quote_body ip s) = occurrences (CHR ''<'' # t) s"
proof (induction s rule: measure_induct_rule [of length])
  case (less s)
  let ?p = "CHR ''<'' # t"
  show ?case
  proof (cases s)
    case Nil
    then show ?thesis by simp
  next
    case s: (Cons c s')
    show ?thesis
    proof (cases "plain c")
      case True
      have "HasPrefix (quote_body ip (c # s')) ?p \<longleftrightarrow> HasPrefix (c # s') ?p"
        using pl by (rule HasPrefix_quote_body)
      then show ?thesis using True s less.IH [of s']
        by (simp add: quote_body_plain del: HasPrefix_Cons)
    next
      case False
      let ?k = "max 1 (rune_size s)"
      have no_lt: "CHR ''<'' \<notin> set (take ?k s)"
      proof (cases "128 \<le> byte c")
        case True
        then show ?thesis using rune_size_bytes [of c _ s'] s by (force simp: byte_def)
      next
        case small: False
        then have "c \<noteq> CHR ''<''" using False by (auto simp: plain_def byte_def)
        then show ?thesis using small s by (simp add: rune_size_ascii)
      qed
      have "occurrences ?p (quote_body ip s) = occurrences ?p (quote_body ip (drop ?k s))"
        using quote_rune_no_lt [OF False] s
        by (subst quote_body.simps) (simp add: occurrences_append_no_hd)
      also have "\<dots> = occurrences ?p (drop ?k s)"
        using less.IH [of "drop ?k s"] s by simp
      also have "\<dots> = occurrences ?p (take ?k s @ drop ?k s)"
        using no_lt by (rule occurrences_append_no_hd [symmetric])
      finally show ?thesis by simp
    qed
  qed
qed

end
