(* ===== verification/Store.thy ===== *)
theory Store
  imports Errors GoText
begin

text \<open>
  The PostgreSQL control plane: the schema of
  \<open>internal/store/migrations/0001_init.sql\<close> as a record of tables, and one definition per
  method of \<open>internal/store/store.go\<close>, each SQL statement written out over the tables with
  the constraints of the schema as error results.

  The database server itself is the record \<open>dbms\<close>. Statement number \<open>n\<close> (the counter
  \<open>tick\<close>) may fail before or after it takes effect, reads the clock \<open>now n\<close> and draws
  the UUID \<open>gen_uuid n\<close>; nothing is assumed of these functions, so a UUID that is already
  taken violates the primary key. Full-text search and the collation of text are functions of
  \<open>dbms\<close> too. Where SQL leaves the order of equal keys open, the model takes the newest row
  first.
\<close>

type_synonym uuid = nat
type_synonym time = nat

datatype db_fault = NoFault | FaultBefore | FaultAfter

record dbms =
  fault :: "nat \<Rightarrow> db_fault"
  now :: "nat \<Rightarrow> time"
  gen_uuid :: "nat \<Rightarrow> uuid"
  rand_bytes :: "nat \<Rightarrow> string option"
  fts_match :: "string \<Rightarrow> string \<Rightarrow> bool"
  fts_rank :: "string \<Rightarrow> string \<Rightarrow> nat"
  collate_key :: "string \<Rightarrow> string"
  to_char :: "time \<Rightarrow> string"

section \<open>The tables\<close>

record org_row =
  o_id :: uuid
  o_slug :: string
  o_name :: string
  o_instructions :: string
  o_created_at :: time

record user_row =
  u_id :: uuid
  u_username :: string
  u_display_name :: string
  u_created_at :: time

record org_member_row =
  om_org_id :: uuid
  om_user_id :: uuid
  om_role :: string
  om_created_at :: time

record project_row =
  p_id :: uuid
  p_org_id :: uuid
  p_slug :: string
  p_name :: string
  p_instructions :: string
  p_solo_mode :: bool
  p_created_at :: time

record project_member_row =
  pm_project_id :: uuid
  pm_org_id :: uuid
  pm_user_id :: uuid
  pm_role :: string
  pm_created_at :: time

record token_row =
  t_id :: uuid
  t_org_id :: uuid
  t_user_id :: uuid
  t_hash :: string
  t_label :: string
  t_client_kind :: string
  t_created_at :: time
  t_last_seen_at :: "time option"
  t_revoked_at :: "time option"

record event_row =
  e_id :: nat
  e_org_id :: uuid
  e_project_id :: "uuid option"
  e_actor_user_id :: "uuid option"
  e_identity_label :: string
  e_kind :: string
  e_summary :: string
  e_created_at :: time

record memory_row =
  m_id :: uuid
  m_org_id :: uuid
  m_scope :: string
  m_user_id :: "uuid option"
  m_project_id :: "uuid option"
  m_content :: string
  m_created_by :: "uuid option"
  m_created_at :: time
  m_deleted_at :: "time option"

record proposal_row =
  mp_id :: uuid
  mp_org_id :: uuid
  mp_project_id :: uuid
  mp_artifact :: string
  mp_branch :: string
  mp_proposer :: uuid
  mp_summary :: string
  mp_status :: string
  mp_conflict_files :: "string list"
  mp_created_at :: time
  mp_resolved_at :: "time option"
  mp_resolved_by :: "uuid option"

record release_row =
  r_id :: uuid
  r_org_id :: uuid
  r_project_id :: uuid
  r_artifact :: string
  r_version :: string
  r_tag :: string
  r_notes :: string
  r_created_by :: "uuid option"
  r_created_at :: time

record db =
  orgs :: "org_row list"
  users :: "user_row list"
  org_memberships :: "org_member_row list"
  projects :: "project_row list"
  project_memberships :: "project_member_row list"
  device_tokens :: "token_row list"
  events :: "event_row list"
  event_seq :: nat
  memories :: "memory_row list"
  merge_proposals :: "proposal_row list"
  releases :: "release_row list"
  tick :: nat

section \<open>Statements\<close>

text \<open>PostgreSQL takes a text value only if it is valid UTF-8 without a NUL byte.\<close>

definition pg_text :: "string \<Rightarrow> bool" where
  "pg_text s \<longleftrightarrow> valid_utf8 s \<and> CHR 0x00 \<notin> set s"

text \<open>
  One statement: it consumes a tick, fails before having any effect, or has its effect and
  returns (or fails after it). \<open>texts\<close> are its text parameters.
\<close>

definition sql ::
  "dbms \<Rightarrow> string list \<Rightarrow> (nat \<Rightarrow> db \<Rightarrow> (dberr + 'a) \<times> db) \<Rightarrow> (db, 'a) go" where
  "sql E texts stmt = (\<lambda>d.
     let n = tick d; d = d\<lparr>tick := Suc n\<rparr> in
     if fault E n = FaultBefore then (Inl (DbError Unavailable), d)
     else if \<not> list_all pg_text texts then (Inl (DbError BadText), d)
     else (case stmt n d of
         (Inl e, d') \<Rightarrow> (Inl (DbError e), d')
       | (Inr x, d') \<Rightarrow>
           if fault E n = FaultAfter then (Inl (DbError Unavailable), d') else (Inr x, d')))"

definition query :: "dbms \<Rightarrow> string list \<Rightarrow> (db \<Rightarrow> 'a) \<Rightarrow> (db, 'a) go" where
  "query E texts q = sql E texts (\<lambda>n d. (Inr (q d), d))"

text \<open>
  The constraints of a statement, checked in order: at the first that fails, the statement fails
  with its name and leaves the tables as they are.
\<close>

fun check_all :: "(bool \<times> string) list \<Rightarrow> (dberr + 'a) \<times> db \<Rightarrow> db \<Rightarrow> (dberr + 'a) \<times> db" where
  "check_all [] r d = r"
| "check_all ((b, c) # cs) r d = (if b then check_all cs r d else (Inl (Violates c), d))"

definition has_row :: "('r \<Rightarrow> 'k) \<Rightarrow> 'k \<Rightarrow> 'r list \<Rightarrow> bool" where
  "has_row f k rows \<longleftrightarrow> list_ex (\<lambda>r. f r = k) rows"

definition first_row :: "('r \<Rightarrow> 'k) \<Rightarrow> 'k \<Rightarrow> 'r list \<Rightarrow> 'r option" where
  "first_row f k rows = List.find (\<lambda>r. f r = k) rows"

definition opt_ref :: "('r \<Rightarrow> 'k) \<Rightarrow> 'k option \<Rightarrow> 'r list \<Rightarrow> bool" where
  "opt_ref f k rows \<longleftrightarrow> (case k of None \<Rightarrow> True | Some i \<Rightarrow> has_row f i rows)"

text \<open>\<open>insert ... on conflict (key) do update\<close>.\<close>

definition upsert :: "('r \<Rightarrow> 'k) \<Rightarrow> ('r \<Rightarrow> 'r) \<Rightarrow> 'r \<Rightarrow> 'r list \<Rightarrow> 'r list" where
  "upsert key upd r rows =
     (if has_row key (key r) rows
      then map (\<lambda>r'. if key r' = key r then upd r' else r') rows
      else rows @ [r])"

definition slug_char :: "char \<Rightarrow> bool" where
  "slug_char c \<longleftrightarrow> (97 \<le> byte c \<and> byte c \<le> 122) \<or> (48 \<le> byte c \<and> byte c \<le> 57)
     \<or> c = CHR ''-''"

text \<open>The check \<open>slug ~ '^[a-z0-9][a-z0-9-]{1,38}[a-z0-9]$'\<close>.\<close>

definition slug_check :: "string \<Rightarrow> bool" where
  "slug_check s \<longleftrightarrow> 3 \<le> length s \<and> length s \<le> 40 \<and> list_all slug_char s
     \<and> hd s \<noteq> CHR ''-'' \<and> last s \<noteq> CHR ''-''"

section \<open>Orgs, users, projects, memberships\<close>

record Org =
  Org_ID :: uuid
  Org_Slug :: string
  Org_Name :: string
  Org_Instructions :: string

record User =
  User_ID :: uuid
  User_Username :: string
  User_DisplayName :: string

record Project =
  Project_ID :: uuid
  Project_OrgID :: uuid
  Project_Slug :: string
  Project_Name :: string
  Project_Instructions :: string
  Project_SoloMode :: bool

definition org_of :: "org_row \<Rightarrow> Org" where
  "org_of r = \<lparr> Org_ID = o_id r, Org_Slug = o_slug r, Org_Name = o_name r,
     Org_Instructions = o_instructions r \<rparr>"

definition project_of :: "project_row \<Rightarrow> Project" where
  "project_of r = \<lparr> Project_ID = p_id r, Project_OrgID = p_org_id r, Project_Slug = p_slug r,
     Project_Name = p_name r, Project_Instructions = p_instructions r,
     Project_SoloMode = p_solo_mode r \<rparr>"

definition or_not_found :: "'a option \<Rightarrow> ('s, 'a) go" where
  "or_not_found r = (case r of None \<Rightarrow> failwith NotFound | Some x \<Rightarrow> ret x)"

definition DB_CreateOrg :: "dbms \<Rightarrow> string \<Rightarrow> string \<Rightarrow> (db, Org) go" where
  "DB_CreateOrg E slug name =
     sql E [slug, name] (\<lambda>n d. check_all
       [(slug_check slug, ''orgs_slug_check''),
        (\<not> has_row o_id (gen_uuid E n) (orgs d), ''orgs_pkey''),
        (\<not> has_row o_slug slug (orgs d), ''orgs_slug_key'')]
       (Inr \<lparr> Org_ID = gen_uuid E n, Org_Slug = slug, Org_Name = name, Org_Instructions = '''' \<rparr>,
        d\<lparr>orgs := orgs d @ [\<lparr> o_id = gen_uuid E n, o_slug = slug, o_name = name,
            o_instructions = '''', o_created_at = now E n \<rparr>]\<rparr>) d)"

definition DB_GetOrgBySlug :: "dbms \<Rightarrow> string \<Rightarrow> (db, Org) go" where
  "DB_GetOrgBySlug E slug =
     andThen (query E [slug] (\<lambda>d. map_option org_of (first_row o_slug slug (orgs d)))) or_not_found"

definition DB_FirstOrg :: "dbms \<Rightarrow> (db, Org) go" where
  "DB_FirstOrg E =
     andThen (query E [] (\<lambda>d. case sort_key o_created_at (orgs d) of
         [] \<Rightarrow> None | r # _ \<Rightarrow> Some (org_of r))) or_not_found"

definition DB_ListOrgs :: "dbms \<Rightarrow> (db, Org list) go" where
  "DB_ListOrgs E =
     query E [] (\<lambda>d. map org_of (sort_key (\<lambda>r. collate_key E (o_slug r)) (orgs d)))"

definition DB_CreateUser :: "dbms \<Rightarrow> string \<Rightarrow> string \<Rightarrow> (db, User) go" where
  "DB_CreateUser E username display =
     sql E [username, display] (\<lambda>n d. check_all
       [(slug_check username, ''users_username_check''),
        (\<not> has_row u_id (gen_uuid E n) (users d), ''users_pkey''),
        (\<not> has_row u_username username (users d), ''users_username_key'')]
       (Inr \<lparr> User_ID = gen_uuid E n, User_Username = username, User_DisplayName = display \<rparr>,
        d\<lparr>users := users d @ [\<lparr> u_id = gen_uuid E n, u_username = username,
            u_display_name = display, u_created_at = now E n \<rparr>]\<rparr>) d)"

definition DB_GetUserByUsername :: "dbms \<Rightarrow> string \<Rightarrow> (db, User) go" where
  "DB_GetUserByUsername E username =
     andThen (query E [username] (\<lambda>d. map_option
         (\<lambda>r. \<lparr> User_ID = u_id r, User_Username = u_username r,
                 User_DisplayName = u_display_name r \<rparr>)
         (first_row u_username username (users d)))) or_not_found"

definition om_key :: "org_member_row \<Rightarrow> uuid \<times> uuid" where
  "om_key r = (om_org_id r, om_user_id r)"

definition pm_key :: "project_member_row \<Rightarrow> uuid \<times> uuid" where
  "pm_key r = (pm_project_id r, pm_user_id r)"

definition DB_AddOrgMember :: "dbms \<Rightarrow> uuid \<Rightarrow> uuid \<Rightarrow> string \<Rightarrow> (db, unit) go" where
  "DB_AddOrgMember E orgID userID role =
     andThen (guarded (ValidOrgRole role) (InvalidOrgRole role)) (\<lambda>_.
     sql E [role] (\<lambda>n d. check_all
       [(role \<in> {''owner'', ''admin'', ''member'', ''guest''}, ''org_memberships_role_check''),
        (has_row om_key (orgID, userID) (org_memberships d)
           \<or> (has_row o_id orgID (orgs d) \<and> has_row u_id userID (users d)),
         ''org_memberships_fkey'')]
       (Inr (), d\<lparr>org_memberships :=
          upsert om_key (\<lambda>r. r\<lparr>om_role := role\<rparr>)
            \<lparr> om_org_id = orgID, om_user_id = userID, om_role = role, om_created_at = now E n \<rparr>
            (org_memberships d)\<rparr>) d))"

definition DB_OrgRole :: "dbms \<Rightarrow> uuid \<Rightarrow> uuid \<Rightarrow> (db, OrgRole) go" where
  "DB_OrgRole E orgID userID =
     query E [] (\<lambda>d. case first_row om_key (orgID, userID) (org_memberships d) of
         None \<Rightarrow> OrgNone | Some r \<Rightarrow> om_role r)"

definition DB_OrgMemberCount :: "dbms \<Rightarrow> uuid \<Rightarrow> (db, nat) go" where
  "DB_OrgMemberCount E orgID =
     query E [] (\<lambda>d. length (filter (\<lambda>r. om_org_id r = orgID) (org_memberships d)))"

definition p_key :: "project_row \<Rightarrow> uuid \<times> string" where
  "p_key r = (p_org_id r, p_slug r)"

definition DB_CreateProject :: "dbms \<Rightarrow> uuid \<Rightarrow> string \<Rightarrow> string \<Rightarrow> bool \<Rightarrow> (db, Project) go" where
  "DB_CreateProject E orgID slug name solo =
     sql E [slug, name] (\<lambda>n d. check_all
       [(slug_check slug, ''projects_slug_check''),
        (\<not> has_row p_id (gen_uuid E n) (projects d), ''projects_pkey''),
        (\<not> has_row p_key (orgID, slug) (projects d), ''projects_org_id_slug_key''),
        (has_row o_id orgID (orgs d), ''projects_org_id_fkey'')]
       (Inr \<lparr> Project_ID = gen_uuid E n, Project_OrgID = orgID, Project_Slug = slug,
              Project_Name = name, Project_Instructions = '''', Project_SoloMode = solo \<rparr>,
        d\<lparr>projects := projects d @ [\<lparr> p_id = gen_uuid E n, p_org_id = orgID, p_slug = slug,
            p_name = name, p_instructions = '''', p_solo_mode = solo,
            p_created_at = now E n \<rparr>]\<rparr>) d)"

definition DB_GetProject :: "dbms \<Rightarrow> uuid \<Rightarrow> string \<Rightarrow> (db, Project) go" where
  "DB_GetProject E orgID slug =
     andThen (query E [slug] (\<lambda>d. map_option project_of (first_row p_key (orgID, slug) (projects d))))
       or_not_found"

definition DB_ListProjects :: "dbms \<Rightarrow> uuid \<Rightarrow> (db, Project list) go" where
  "DB_ListProjects E orgID =
     query E [] (\<lambda>d. map project_of (sort_key (\<lambda>r. collate_key E (p_slug r))
       (filter (\<lambda>r. p_org_id r = orgID) (projects d))))"

definition DB_AddProjectMember :: "dbms \<Rightarrow> Project \<Rightarrow> uuid \<Rightarrow> string \<Rightarrow> (db, unit) go" where
  "DB_AddProjectMember E p userID role =
     andThen (guarded (ValidRole role) (InvalidProjectRole role)) (\<lambda>_.
     sql E [role] (\<lambda>n d. check_all
       [(role \<in> {''maintainer'', ''contributor'', ''viewer''}, ''project_memberships_role_check''),
        (has_row pm_key (Project_ID p, userID) (project_memberships d)
           \<or> (has_row p_id (Project_ID p) (projects d) \<and> has_row o_id (Project_OrgID p) (orgs d)
              \<and> has_row u_id userID (users d)),
         ''project_memberships_fkey'')]
       (Inr (), d\<lparr>project_memberships :=
          upsert pm_key (\<lambda>r. r\<lparr>pm_role := role\<rparr>)
            \<lparr> pm_project_id = Project_ID p, pm_org_id = Project_OrgID p, pm_user_id = userID,
              pm_role = role, pm_created_at = now E n \<rparr>
            (project_memberships d)\<rparr>) d))"

definition DB_ProjectRole :: "dbms \<Rightarrow> uuid \<Rightarrow> uuid \<Rightarrow> (db, Role) go" where
  "DB_ProjectRole E projectID userID =
     query E [] (\<lambda>d. case first_row pm_key (projectID, userID) (project_memberships d) of
         None \<Rightarrow> RoleNone | Some r \<Rightarrow> pm_role r)"

text \<open>The inner join with \<open>users\<close> drops a row whose user is missing.\<close>

definition username_of :: "db \<Rightarrow> uuid \<Rightarrow> string option" where
  "username_of d i = map_option u_username (first_row u_id i (users d))"

record MemberView =
  MV_Username :: string
  MV_Role :: string

definition DB_ProjectMembers :: "dbms \<Rightarrow> uuid \<Rightarrow> (db, MemberView list) go" where
  "DB_ProjectMembers E projectID =
     query E [] (\<lambda>d. sort_key (\<lambda>v. collate_key E (MV_Username v))
       (List.map_filter (\<lambda>r. map_option (\<lambda>u. \<lparr> MV_Username = u, MV_Role = pm_role r \<rparr>)
            (username_of d (pm_user_id r)))
         (filter (\<lambda>r. pm_project_id r = projectID) (project_memberships d))))"

definition DB_SetOrgInstructions :: "dbms \<Rightarrow> uuid \<Rightarrow> string \<Rightarrow> (db, unit) go" where
  "DB_SetOrgInstructions E orgID txt =
     sql E [txt] (\<lambda>n d. (Inr (), d\<lparr>orgs :=
       map (\<lambda>r. if o_id r = orgID then r\<lparr>o_instructions := txt\<rparr> else r) (orgs d)\<rparr>))"

definition DB_SetProjectInstructions :: "dbms \<Rightarrow> uuid \<Rightarrow> string \<Rightarrow> (db, unit) go" where
  "DB_SetProjectInstructions E projectID txt =
     sql E [txt] (\<lambda>n d. (Inr (), d\<lparr>projects :=
       map (\<lambda>r. if p_id r = projectID then r\<lparr>p_instructions := txt\<rparr> else r) (projects d)\<rparr>))"

section \<open>Device tokens\<close>

text \<open>
  \<open>rand.Read\<close> gives 32 random bytes or an error; the token is \<open>ubq_\<close> and their
  hexadecimal form, and only its SHA-256 digest is stored.
\<close>

definition insert_token ::
  "dbms \<Rightarrow> uuid \<Rightarrow> uuid \<Rightarrow> string \<Rightarrow> string \<Rightarrow> string \<Rightarrow> (db, unit) go" where
  "insert_token E orgID userID digest label clientKind =
     sql E [label, clientKind] (\<lambda>n d. check_all
       [(\<not> has_row t_id (gen_uuid E n) (device_tokens d), ''device_tokens_pkey''),
        (\<not> has_row t_hash digest (device_tokens d), ''device_tokens_token_hash_key''),
        (has_row o_id orgID (orgs d), ''device_tokens_org_id_fkey''),
        (has_row u_id userID (users d), ''device_tokens_user_id_fkey'')]
       (Inr (), d\<lparr>device_tokens := device_tokens d @ [\<lparr> t_id = gen_uuid E n,
          t_org_id = orgID, t_user_id = userID, t_hash = digest, t_label = label,
          t_client_kind = clientKind, t_created_at = now E n, t_last_seen_at = None,
          t_revoked_at = None \<rparr>]\<rparr>) d)"

definition DB_NewToken ::
  "dbms \<Rightarrow> golib \<Rightarrow> uuid \<Rightarrow> uuid \<Rightarrow> string \<Rightarrow> string \<Rightarrow> (db, string) go" where
  "DB_NewToken E lib orgID userID label clientKind =
     (\<lambda>d. case rand_bytes E (tick d) of
        None \<Rightarrow> (Inl RandFailed, d)
      | Some raw \<Rightarrow>
          (let plain = ''ubq_'' @ hex_EncodeToString raw in
           andThen (insert_token E orgID userID (sha256 lib plain) label clientKind)
             (\<lambda>_. ret plain) d))"

record TokenIdentity =
  TI_UserID :: uuid
  TI_Username :: string
  TI_OrgID :: uuid
  TI_OrgSlug :: string
  TI_OrgRole :: OrgRole
  TI_Label :: string

definition identity_of :: "db \<Rightarrow> token_row \<Rightarrow> (uuid \<times> string \<times> TokenIdentity) option" where
  "identity_of d t =
     (case (first_row u_id (t_user_id t) (users d), first_row o_id (t_org_id t) (orgs d)) of
        (Some u, Some og) \<Rightarrow> Some (t_id t, t_hash t,
          \<lparr> TI_UserID = u_id u, TI_Username = u_username u, TI_OrgID = o_id og,
            TI_OrgSlug = o_slug og,
            TI_OrgRole = (case first_row om_key (t_org_id t, t_user_id t) (org_memberships d) of
                None \<Rightarrow> '''' | Some m \<Rightarrow> om_role m),
            TI_Label = t_label t \<rparr>)
      | _ \<Rightarrow> None)"

definition token_candidates ::
  "db \<Rightarrow> string \<Rightarrow> (uuid \<times> string \<times> TokenIdentity) list" where
  "token_candidates d digest =
     List.map_filter (identity_of d)
       (filter (\<lambda>t. t_hash t = digest \<and> t_revoked_at t = None) (device_tokens d))"

definition touch_token :: "dbms \<Rightarrow> uuid \<Rightarrow> (db, unit) go" where
  "touch_token E tokenID =
     sql E [] (\<lambda>n d. (Inr (), d\<lparr>device_tokens :=
       map (\<lambda>t. if t_id t = tokenID then t\<lparr>t_last_seen_at := Some (now E n)\<rparr> else t)
         (device_tokens d)\<rparr>))"

definition DB_Authenticate :: "dbms \<Rightarrow> golib \<Rightarrow> string \<Rightarrow> (db, TokenIdentity) go" where
  "DB_Authenticate E lib token =
     (let digest = sha256 lib token in
      andThen (query E [] (\<lambda>d. case token_candidates d digest of [] \<Rightarrow> None | x # _ \<Rightarrow> Some x)) (\<lambda>r.
      andThen (or_not_found r) (\<lambda>(tokenID, hash, ti).
      andThen (guarded (hash = digest) NotFound) (\<lambda>_.
      andThen (ignoring (touch_token E tokenID)) (\<lambda>_.
      ret ti)))))"

definition DB_RevokeToken :: "dbms \<Rightarrow> uuid \<Rightarrow> (db, unit) go" where
  "DB_RevokeToken E tid =
     andThen (sql E [] (\<lambda>n d.
       (Inr (length (filter (\<lambda>t. t_id t = tid \<and> t_revoked_at t = None) (device_tokens d))),
        d\<lparr>device_tokens := map (\<lambda>t. if t_id t = tid \<and> t_revoked_at t = None
           then t\<lparr>t_revoked_at := Some (now E n)\<rparr> else t) (device_tokens d)\<rparr>)))
     (\<lambda>rows. if rows = 0 then failwith NotFound else ret ())"

record TokenView =
  TV_id :: string
  TV_user :: string
  TV_label :: string
  TV_client :: string
  TV_last_seen :: string
  TV_state :: string

definition DB_ListTokens :: "dbms \<Rightarrow> golib \<Rightarrow> uuid \<Rightarrow> (db, TokenView list) go" where
  "DB_ListTokens E lib orgID =
     query E [] (\<lambda>d. List.map_filter (\<lambda>t. map_option (\<lambda>u.
         \<lparr> TV_id = uuidString lib (t_id t), TV_user = u, TV_label = t_label t,
           TV_client = t_client_kind t,
           TV_last_seen = (case t_last_seen_at t of None \<Rightarrow> ''never'' | Some s \<Rightarrow> to_char E s),
           TV_state = (if t_revoked_at t = None then ''active'' else ''revoked'') \<rparr>)
         (username_of d (t_user_id t)))
       (sort_key t_created_at (filter (\<lambda>t. t_org_id t = orgID) (device_tokens d))))"

section \<open>Events\<close>

record Event =
  Event_ID :: nat
  Event_Kind :: string
  Event_Summary :: string
  Event_ActorUsername :: string
  Event_IdentityLabel :: string
  Event_CreatedAt :: time

text \<open>The identity column draws its next value even when the insertion then fails.\<close>

definition DB_AppendEvent ::
  "dbms \<Rightarrow> uuid \<Rightarrow> uuid option \<Rightarrow> uuid option \<Rightarrow> string \<Rightarrow> string \<Rightarrow> string \<Rightarrow> (db, unit) go" where
  "DB_AppendEvent E orgID projectID actor identityLabel kind summary =
     sql E [identityLabel, kind, summary] (\<lambda>n d.
       let d = d\<lparr>event_seq := Suc (event_seq d)\<rparr> in check_all
       [(has_row o_id orgID (orgs d), ''events_org_id_fkey''),
        (opt_ref p_id projectID (projects d), ''events_project_id_fkey''),
        (opt_ref u_id actor (users d), ''events_actor_user_id_fkey'')]
       (Inr (), d\<lparr>events := events d @ [\<lparr> e_id = event_seq d, e_org_id = orgID,
          e_project_id = projectID, e_actor_user_id = actor, e_identity_label = identityLabel,
          e_kind = kind, e_summary = summary, e_created_at = now E n \<rparr>]\<rparr>) d)"

definition event_of :: "db \<Rightarrow> event_row \<Rightarrow> Event" where
  "event_of d r = \<lparr> Event_ID = e_id r, Event_Kind = e_kind r, Event_Summary = e_summary r,
     Event_ActorUsername =
       (case Option.bind (e_actor_user_id r) (username_of d) of None \<Rightarrow> ''system'' | Some u \<Rightarrow> u),
     Event_IdentityLabel = e_identity_label r, Event_CreatedAt = e_created_at r \<rparr>"

text \<open>\<open>limit $n\<close>: PostgreSQL refuses a negative limit.\<close>

definition query_limit :: "dbms \<Rightarrow> string list \<Rightarrow> int \<Rightarrow> (db \<Rightarrow> 'a list) \<Rightarrow> (db, 'a list) go" where
  "query_limit E texts limit q = sql E texts (\<lambda>n d.
     if limit < 0 then (Inl NegativeLimit, d) else (Inr (take (nat limit) (q d)), d))"

definition DB_RecentEvents :: "dbms \<Rightarrow> uuid \<Rightarrow> int \<Rightarrow> (db, Event list) go" where
  "DB_RecentEvents E projectID limit =
     query_limit E [] limit (\<lambda>d. map (event_of d) (rev (sort_key e_id
       (filter (\<lambda>r. e_project_id r = Some projectID) (events d)))))"

section \<open>Memories\<close>

record Memory =
  Memory_ID :: uuid
  Memory_Scope :: string
  Memory_Content :: string
  Memory_CreatedBy :: string
  Memory_CreatedAt :: time

definition DB_Remember ::
  "dbms \<Rightarrow> uuid \<Rightarrow> string \<Rightarrow> uuid option \<Rightarrow> uuid option \<Rightarrow> string \<Rightarrow> uuid \<Rightarrow> (db, uuid) go" where
  "DB_Remember E orgID scope userID projectID content createdBy =
     sql E [scope, content] (\<lambda>n d. check_all
       [(scope \<in> {''user'', ''project'', ''org''}, ''memories_scope_check''),
        (1 \<le> rune_count content \<and> rune_count content \<le> 4000, ''memories_content_check''),
        ((scope = ''user'' \<and> userID \<noteq> None) \<or> (scope = ''project'' \<and> projectID \<noteq> None)
           \<or> scope = ''org'', ''memories_check''),
        (\<not> has_row m_id (gen_uuid E n) (memories d), ''memories_pkey''),
        (has_row o_id orgID (orgs d), ''memories_org_id_fkey''),
        (opt_ref u_id userID (users d), ''memories_user_id_fkey''),
        (opt_ref p_id projectID (projects d), ''memories_project_id_fkey''),
        (has_row u_id createdBy (users d), ''memories_created_by_fkey'')]
       (Inr (gen_uuid E n), d\<lparr>memories := memories d @ [\<lparr> m_id = gen_uuid E n, m_org_id = orgID,
          m_scope = scope, m_user_id = userID, m_project_id = projectID, m_content = content,
          m_created_by = Some createdBy, m_created_at = now E n, m_deleted_at = None \<rparr>]\<rparr>) d)"

text \<open>The \<open>where\<close> clause of \<open>Recall\<close>; comparing with a null project gives no row.\<close>

definition memory_visible :: "uuid \<Rightarrow> uuid \<Rightarrow> uuid option \<Rightarrow> memory_row \<Rightarrow> bool" where
  "memory_visible orgID userID projectID m \<longleftrightarrow>
     m_org_id m = orgID \<and> m_deleted_at m = None
     \<and> ((m_scope m = ''user'' \<and> m_user_id m = Some userID)
        \<or> (m_scope m = ''project'' \<and> projectID \<noteq> None \<and> m_project_id m = projectID)
        \<or> m_scope m = ''org'')"

definition memory_of :: "db \<Rightarrow> memory_row \<Rightarrow> Memory" where
  "memory_of d r = \<lparr> Memory_ID = m_id r, Memory_Scope = m_scope r, Memory_Content = m_content r,
     Memory_CreatedBy =
       (case Option.bind (m_created_by r) (username_of d) of None \<Rightarrow> '''' | Some u \<Rightarrow> u),
     Memory_CreatedAt = m_created_at r \<rparr>"

definition DB_Recall ::
  "dbms \<Rightarrow> uuid \<Rightarrow> uuid \<Rightarrow> uuid option \<Rightarrow> string \<Rightarrow> int \<Rightarrow> (db, Memory list) go" where
  "DB_Recall E orgID userID projectID q limit =
     (if TrimSpace q = '''' then
        query_limit E [] limit (\<lambda>d. map (memory_of d) (rev (sort_key m_created_at
          (filter (memory_visible orgID userID projectID) (memories d)))))
      else
        query_limit E [q] limit (\<lambda>d. map (memory_of d) (rev (sort_key (\<lambda>m. fts_rank E q (m_content m))
          (sort_key m_created_at
            (filter (\<lambda>m. fts_match E q (m_content m))
              (filter (memory_visible orgID userID projectID) (memories d))))))))"

section \<open>Projections: proposals and releases\<close>

record Proposal =
  Proposal_ID :: uuid
  Proposal_Artifact :: string
  Proposal_Branch :: string
  Proposal_Proposer :: string
  Proposal_Summary :: string
  Proposal_Status :: string
  Proposal_ConflictFiles :: "string list"
  Proposal_CreatedAt :: time

record Release =
  Release_Artifact :: string
  Release_Version :: string
  Release_Tag :: string
  Release_Notes :: string
  Release_CreatedBy :: string
  Release_CreatedAt :: time

definition DB_CreateProposal ::
  "dbms \<Rightarrow> uuid \<Rightarrow> uuid \<Rightarrow> string \<Rightarrow> string \<Rightarrow> uuid \<Rightarrow> string \<Rightarrow> (db, uuid) go" where
  "DB_CreateProposal E orgID projectID artifact branch proposer summary =
     sql E [artifact, branch, summary] (\<lambda>n d. check_all
       [(\<not> has_row mp_id (gen_uuid E n) (merge_proposals d), ''merge_proposals_pkey''),
        (has_row o_id orgID (orgs d), ''merge_proposals_org_id_fkey''),
        (has_row p_id projectID (projects d), ''merge_proposals_project_id_fkey''),
        (has_row u_id proposer (users d), ''merge_proposals_proposer_fkey'')]
       (Inr (gen_uuid E n), d\<lparr>merge_proposals := merge_proposals d @ [\<lparr> mp_id = gen_uuid E n,
          mp_org_id = orgID, mp_project_id = projectID, mp_artifact = artifact,
          mp_branch = branch, mp_proposer = proposer, mp_summary = summary,
          mp_status = ''open'', mp_conflict_files = [], mp_created_at = now E n,
          mp_resolved_at = None, mp_resolved_by = None \<rparr>]\<rparr>) d)"

definition proposal_of :: "db \<Rightarrow> proposal_row \<Rightarrow> Proposal option" where
  "proposal_of d r = map_option (\<lambda>u.
     \<lparr> Proposal_ID = mp_id r, Proposal_Artifact = mp_artifact r, Proposal_Branch = mp_branch r,
       Proposal_Proposer = u, Proposal_Summary = mp_summary r, Proposal_Status = mp_status r,
       Proposal_ConflictFiles = mp_conflict_files r, Proposal_CreatedAt = mp_created_at r \<rparr>)
     (username_of d (mp_proposer r))"

definition DB_GetProposal :: "dbms \<Rightarrow> uuid \<Rightarrow> uuid \<Rightarrow> (db, Proposal) go" where
  "DB_GetProposal E projectID pid =
     andThen (query E [] (\<lambda>d. case List.map_filter (proposal_of d)
         (filter (\<lambda>r. mp_project_id r = projectID \<and> mp_id r = pid) (merge_proposals d)) of
         [] \<Rightarrow> None | x # _ \<Rightarrow> Some x)) or_not_found"

definition DB_ListProposals :: "dbms \<Rightarrow> uuid \<Rightarrow> string \<Rightarrow> (db, Proposal list) go" where
  "DB_ListProposals E projectID status =
     query E [status] (\<lambda>d. List.map_filter (proposal_of d) (sort_key mp_created_at
       (filter (\<lambda>r. mp_project_id r = projectID \<and> (status = '''' \<or> mp_status r = status))
         (merge_proposals d))))"

text \<open>Go's nil slice of conflict files becomes the empty array; here both are \<open>[]\<close>.\<close>

definition DB_ResolveProposal ::
  "dbms \<Rightarrow> uuid \<Rightarrow> string \<Rightarrow> uuid \<Rightarrow> string list \<Rightarrow> (db, unit) go" where
  "DB_ResolveProposal E pid status resolvedBy conflictFiles =
     sql E (status # conflictFiles) (\<lambda>n d. check_all
       [(\<not> has_row mp_id pid (merge_proposals d)
           \<or> status \<in> {''open'', ''merged'', ''rejected'', ''conflicted''},
         ''merge_proposals_status_check''),
        (\<not> has_row mp_id pid (merge_proposals d) \<or> has_row u_id resolvedBy (users d),
         ''merge_proposals_resolved_by_fkey'')]
       (Inr (), d\<lparr>merge_proposals := map (\<lambda>r. if mp_id r = pid
          then r\<lparr>mp_status := status, mp_resolved_at := Some (now E n),
                 mp_resolved_by := Some resolvedBy, mp_conflict_files := conflictFiles\<rparr>
          else r) (merge_proposals d)\<rparr>) d)"

definition r_key :: "release_row \<Rightarrow> uuid \<times> string \<times> string" where
  "r_key r = (r_project_id r, r_artifact r, r_version r)"

definition DB_CreateRelease ::
  "dbms \<Rightarrow> uuid \<Rightarrow> uuid \<Rightarrow> string \<Rightarrow> string \<Rightarrow> string \<Rightarrow> string \<Rightarrow> uuid \<Rightarrow> (db, unit) go" where
  "DB_CreateRelease E orgID projectID artifact version tag notes createdBy =
     sql E [artifact, version, tag, notes] (\<lambda>n d. check_all
       [(\<not> has_row r_id (gen_uuid E n) (releases d), ''releases_pkey''),
        (\<not> has_row r_key (projectID, artifact, version) (releases d),
         ''releases_project_id_artifact_version_key''),
        (has_row o_id orgID (orgs d), ''releases_org_id_fkey''),
        (has_row p_id projectID (projects d), ''releases_project_id_fkey''),
        (has_row u_id createdBy (users d), ''releases_created_by_fkey'')]
       (Inr (), d\<lparr>releases := releases d @ [\<lparr> r_id = gen_uuid E n, r_org_id = orgID,
          r_project_id = projectID, r_artifact = artifact, r_version = version, r_tag = tag,
          r_notes = notes, r_created_by = Some createdBy, r_created_at = now E n \<rparr>]\<rparr>) d)"

definition release_of :: "db \<Rightarrow> release_row \<Rightarrow> Release" where
  "release_of d r = \<lparr> Release_Artifact = r_artifact r, Release_Version = r_version r,
     Release_Tag = r_tag r, Release_Notes = r_notes r,
     Release_CreatedBy =
       (case Option.bind (r_created_by r) (username_of d) of None \<Rightarrow> '''' | Some u \<Rightarrow> u),
     Release_CreatedAt = r_created_at r \<rparr>"

text \<open>\<open>distinct on (artifact) ... order by artifact, created_at desc\<close>: per artifact, the row
  created last.\<close>

definition latest_release_row :: "db \<Rightarrow> uuid \<Rightarrow> string \<Rightarrow> release_row option" where
  "latest_release_row d projectID artifact =
     (case rev (sort_key r_created_at
        (filter (\<lambda>r. r_project_id r = projectID \<and> r_artifact r = artifact) (releases d))) of
        [] \<Rightarrow> None | r # _ \<Rightarrow> Some r)"

definition DB_LatestReleases :: "dbms \<Rightarrow> uuid \<Rightarrow> (db, string \<Rightarrow> Release option) go" where
  "DB_LatestReleases E projectID =
     query E [] (\<lambda>d artifact. map_option (release_of d) (latest_release_row d projectID artifact))"

definition fsck_notes :: string where
  "fsck_notes = ''(rebuilt by fsck)''"

definition DB_EnsureRelease ::
  "dbms \<Rightarrow> uuid \<Rightarrow> uuid \<Rightarrow> string \<Rightarrow> string \<Rightarrow> string \<Rightarrow> (db, bool) go" where
  "DB_EnsureRelease E orgID projectID artifact version tag =
     sql E [artifact, version, tag] (\<lambda>n d.
       if has_row r_key (projectID, artifact, version) (releases d) then (Inr False, d)
       else check_all
       [(\<not> has_row r_id (gen_uuid E n) (releases d), ''releases_pkey''),
        (has_row o_id orgID (orgs d), ''releases_org_id_fkey''),
        (has_row p_id projectID (projects d), ''releases_project_id_fkey'')]
       (Inr True, d\<lparr>releases := releases d @ [\<lparr> r_id = gen_uuid E n, r_org_id = orgID,
          r_project_id = projectID, r_artifact = artifact, r_version = version, r_tag = tag,
          r_notes = fsck_notes, r_created_by = None, r_created_at = now E n \<rparr>]\<rparr>) d)"

end
