(* ===== verification/Samples.thy ===== *)
theory Samples
  imports Store "HOL-Library.Code_Target_Nat"
begin

text \<open>
  A small concrete deployment on which the theorems are exercised: a library and a server given
  by simple total functions, and the database after an org, a user, a project, their memberships
  and a device token have been created by the store's own methods.
\<close>

definition sample_lib :: golib where
  "sample_lib = \<lparr> sha256 = (\<lambda>s. s), isPrint = (\<lambda>_. False), formatTime = (\<lambda>_ t. show_nat t),
     uuidString = show_nat, uuidParse = (\<lambda>s. if all_digits s then Some (nat_of_digits s) else None) \<rparr>"

definition sample_dbms :: dbms where
  "sample_dbms = \<lparr> fault = (\<lambda>_. NoFault), now = (\<lambda>n. n), gen_uuid = (\<lambda>n. n),
     rand_bytes = (\<lambda>n. Some [char_of n]), fts_match = (\<lambda>q s. Contains s q), fts_rank = (\<lambda>_ _. 0),
     collate_key = (\<lambda>s. s), to_char = show_nat \<rparr>"

definition sample_empty :: db where
  "sample_empty = \<lparr> orgs = [], users = [], org_memberships = [], projects = [],
     project_memberships = [], device_tokens = [], events = [], event_seq = 0, memories = [],
     merge_proposals = [], releases = [], tick = 0 \<rparr>"

text \<open>Org 0, users 1 and 2, project 3 with user 1 as its maintainer, and a token of user 1.\<close>

definition sample_setup :: "bool \<Rightarrow> (db, string) go" where
  "sample_setup solo =
     andThen (DB_CreateOrg sample_dbms ''acme'' ''Acme'') (\<lambda>og.
     andThen (DB_CreateUser sample_dbms ''ana'' ''Ana'') (\<lambda>u.
     andThen (DB_CreateUser sample_dbms ''bob'' ''Bob'') (\<lambda>u2.
     andThen (DB_CreateProject sample_dbms (Org_ID og) ''web'' ''Web'' solo) (\<lambda>p.
     andThen (DB_AddOrgMember sample_dbms (Org_ID og) (User_ID u) ''member'') (\<lambda>_.
     andThen (DB_AddProjectMember sample_dbms p (User_ID u) ''maintainer'') (\<lambda>_.
     DB_NewToken sample_dbms sample_lib (Org_ID og) (User_ID u) ''cli'' ''claude-code''))))))"

definition sample_db :: db where
  "sample_db = snd (sample_setup False sample_empty)"

definition sample_token :: string where
  "sample_token = ''ubq_06''"

lemma sample_setup_ok: "sample_setup False sample_empty = (Inr sample_token, sample_db)"
  by code_simp

end
