(* ===== verification/Paths.thy ===== *)
theory Paths
  imports Samples
begin

text \<open>
  Paths and names at the git plane. Go's \<open>path/filepath\<close> on Unix (\<open>Clean\<close>, \<open>Join\<close>,
  \<open>Dir\<close>) is written out, followed by the validation functions of
  \<open>internal/gitstore/gitstore.go\<close>. The main facts: a path that \<open>validRelPath\<close> accepts is
  \<open>.\<close> or a sequence of plain components, so joining it to a directory stays inside that
  directory; and every name that the schema accepts as a slug is one for git.
\<close>

section \<open>path/filepath\<close>

abbreviation slash :: string where "slash \<equiv> ''/''"

text \<open>The components kept so far, last first, and those still to come.\<close>

fun clean_parts :: "bool \<Rightarrow> string list \<Rightarrow> string list \<Rightarrow> string list" where
  "clean_parts rooted out [] = rev out"
| "clean_parts rooted out (p # ps) =
     (if p = '''' \<or> p = ''.'' then clean_parts rooted out ps
      else if p = ''..'' then
        (case out of
           [] \<Rightarrow> if rooted then clean_parts rooted [] ps else clean_parts rooted [''..''] ps
         | q # out' \<Rightarrow>
             if q = ''..'' then clean_parts rooted (''..'' # q # out') ps
             else clean_parts rooted out' ps)
      else clean_parts rooted (p # out) ps)"

definition filepath_Clean :: "string \<Rightarrow> string" where
  "filepath_Clean p =
     (if p = '''' then ''.''
      else let rooted = HasPrefix p slash;
               body = join_with slash (clean_parts rooted [] (split_on (CHR ''/'') p))
           in if rooted then slash @ body else if body = '''' then ''.'' else body)"

definition filepath_Join :: "string list \<Rightarrow> string" where
  "filepath_Join elem =
     (case dropWhile (\<lambda>e. e = '''') elem of [] \<Rightarrow> ''''
      | es \<Rightarrow> filepath_Clean (join_with slash es))"

definition filepath_Dir :: "string \<Rightarrow> string" where
  "filepath_Dir p = filepath_Clean (rev (dropWhile (\<lambda>c. c \<noteq> CHR ''/'') (rev p)))"

section \<open>Names and references\<close>

text \<open>The regular expression \<open>^[a-z0-9][a-z0-9-]{0,39}$\<close>.\<close>

definition slugRe :: "string \<Rightarrow> bool" where
  "slugRe s \<longleftrightarrow> 1 \<le> length s \<and> length s \<le> 40 \<and> list_all slug_char s \<and> hd s \<noteq> CHR ''-''"

definition repoPath :: "string \<Rightarrow> string \<Rightarrow> string \<Rightarrow> goerr + string" where
  "repoPath base org project =
     (if \<not> slugRe org \<or> \<not> slugRe project then Inl InvalidSlugs
      else Inr (filepath_Join [base, ''repos'', org, project @ ''.git'']))"

definition validRelPath :: "string \<Rightarrow> goerr option" where
  "validRelPath p =
     (if p = '''' \<or> length p > 300 then Some (InvalidPath p)
      else if Contains p [CHR 92] \<or> ContainsAny p [CHR 0x00, CHR 10, CHR 13] then Some (InvalidPathChars p)
      else let clean = filepath_Clean p in
        if clean \<noteq> p \<or> HasPrefix p slash \<or> HasPrefix p ''../'' \<or> Contains p ''/../''
        then Some (PathNotClean p)
        else if list_ex (\<lambda>part. part = ''.git'' \<or> part = ''..'' \<or> part = '''')
                  (split_on (CHR ''/'') clean)
        then Some (PathForbidden p) else None)"

definition validRef :: "string \<Rightarrow> goerr option" where
  "validRef ref =
     (if ref = '''' \<or> length ref > 200 \<or> HasPrefix ref ''-''
         \<or> ContainsAny ref ('' '' @ [CHR 9, CHR 10, CHR 13] @ ''~^:?*['' @ [CHR 92])
         \<or> Contains ref ''..''
      then Some (InvalidRef ref) else None)"

definition ProposalBranch :: "string \<Rightarrow> string \<Rightarrow> string" where
  "ProposalBranch username artifact = ''u/'' @ username @ ''/'' @ artifact"

section \<open>Clean paths\<close>

text \<open>A plain component is a name: not empty, not \<open>.\<close> or \<open>..\<close>, without a slash.\<close>

definition normal :: "string \<Rightarrow> bool" where
  "normal p \<longleftrightarrow> p \<noteq> '''' \<and> p \<noteq> ''.'' \<and> p \<noteq> ''..'' \<and> CHR ''/'' \<notin> set p"

lemma clean_parts_normal:
  "list_all normal ps \<Longrightarrow> clean_parts rooted out ps = rev out @ ps"
  by (induction ps arbitrary: out) (auto simp: normal_def)

lemma clean_parts_subset: "set (clean_parts rooted out ps) \<subseteq> set out \<union> set ps"
  by (induction rooted out ps rule: clean_parts.induct) (auto split: list.splits if_splits)

lemma clean_parts_no_dot:
  "p \<in> set (clean_parts rooted out ps) \<Longrightarrow> p \<notin> set out \<Longrightarrow> p \<noteq> '''' \<and> p \<noteq> ''.''"
  by (induction rooted out ps rule: clean_parts.induct) (auto split: list.splits if_splits)

lemma split_join_normal:
  "ps \<noteq> [] \<Longrightarrow> list_all normal ps \<Longrightarrow> split_on (CHR ''/'') (join_with slash ps) = ps"
  by (rule split_join) (auto simp: normal_def list_all_iff)

lemma join_append:
  "ps \<noteq> [] \<Longrightarrow> qs \<noteq> [] \<Longrightarrow> join_with d (ps @ qs) = join_with d ps @ d @ join_with d qs"
proof (induction ps)
  case (Cons p ps)
  then show ?case by (cases "ps = []") (simp_all add: join_Cons)
qed simp

text \<open>A directory as the system names it: absolute, made of plain components.\<close>

definition abs_dir :: "string \<Rightarrow> bool" where
  "abs_dir d \<longleftrightarrow> (\<exists>ps. ps \<noteq> [] \<and> list_all normal ps \<and> d = slash @ join_with slash ps)"

lemma split_slash: "split_on (CHR ''/'') (CHR ''/'' # s) = [] # split_on (CHR ''/'') s"
  by simp

lemma join_not_Nil: "ps \<noteq> [] \<Longrightarrow> list_all normal ps \<Longrightarrow> join_with slash ps \<noteq> ''''"
  by (cases ps; cases "tl ps") (auto simp: normal_def)

lemma Clean_abs:
  assumes "ps \<noteq> []" and "list_all normal ps"
  shows "filepath_Clean (slash @ join_with slash ps) = slash @ join_with slash ps"
  using assms by (simp add: filepath_Clean_def split_join_normal clean_parts_normal)

lemma Join_abs:
  assumes "abs_dir d" and "qs \<noteq> []" and "list_all normal qs"
  shows "filepath_Join (d # qs) = d @ slash @ join_with slash qs"
proof -
  obtain ps where ps: "ps \<noteq> []" "list_all normal ps" "d = slash @ join_with slash ps"
    using assms(1) by (auto simp: abs_dir_def)
  have "join_with slash (d # qs) = slash @ join_with slash (ps @ qs)"
    using ps assms(2) by (simp add: join_Cons join_append)
  moreover have "filepath_Clean (slash @ join_with slash (ps @ qs)) = slash @ join_with slash (ps @ qs)"
    using ps assms by (intro Clean_abs) auto
  ultimately show ?thesis
    using ps assms(2) by (simp add: filepath_Join_def join_append)
qed

lemma abs_dir_sub:
  assumes "abs_dir d" and "list_all normal qs" and "qs \<noteq> []"
  shows "abs_dir (d @ slash @ join_with slash qs)"
proof -
  obtain ps where "ps \<noteq> []" "list_all normal ps" "d = slash @ join_with slash ps"
    using assms(1) by (auto simp: abs_dir_def)
  then show ?thesis
    using assms(2,3) unfolding abs_dir_def
    by (intro exI [of _ "ps @ qs"]) (simp add: join_append)
qed

lemma abs_dir_nth: "abs_dir d \<Longrightarrow> d \<noteq> '''' \<and> HasPrefix d slash"
  by (auto simp: abs_dir_def)

section \<open>What the validation functions accept\<close>

lemma ContainsAny_iff: "ContainsAny s cs \<longleftrightarrow> set s \<inter> set cs \<noteq> {}"
  by (auto simp: ContainsAny_def list_ex_iff)

lemma slug_char_plain:
  "slug_char c \<Longrightarrow> c \<noteq> CHR ''/''" "slug_char c \<Longrightarrow> c \<noteq> CHR ''.''"
  by (auto simp: slug_char_def byte_def)

lemma slug_chars_plain: "list_all slug_char s \<Longrightarrow> CHR ''/'' \<notin> set s \<and> CHR ''.'' \<notin> set s"
  using slug_char_plain by (auto simp: list_all_iff)

lemma slugRe_normal: "slugRe s \<Longrightarrow> normal s"
  using slug_chars_plain [of s] by (auto simp: slugRe_def normal_def)

lemma slugRe_dir_normal: "slugRe s \<Longrightarrow> normal (s @ ''.git'')"
  using slug_chars_plain [of s] by (cases s) (auto simp: slugRe_def normal_def)

lemma slug_check_slugRe: "slug_check s \<Longrightarrow> slugRe s"
  by (auto simp: slug_check_def slugRe_def)

lemma repoPath_Inr:
  assumes "abs_dir base" and "repoPath base org project = Inr path"
  shows "slugRe org \<and> slugRe project
    \<and> path = base @ slash @ join_with slash [''repos'', org, project @ ''.git'']"
proof -
  have s: "slugRe org" "slugRe project"
    and path: "path = filepath_Join (base # [''repos'', org, project @ ''.git''])"
    using assms(2) by (auto simp: repoPath_def split: if_splits)
  have "list_all normal [''repos'', org, project @ ''.git'']"
    using s by (simp add: slugRe_normal slugRe_dir_normal) (simp add: normal_def)
  then show ?thesis
    using s path Join_abs [OF assms(1)] by simp
qed

lemma validRelPath_parts:
  assumes "validRelPath p = None" and "p \<noteq> ''.''"
  shows "list_all normal (split_on (CHR ''/'') p)"
proof -
  let ?ps = "split_on (CHR ''/'') p"
  have clean: "filepath_Clean p = p" and p: "p \<noteq> ''''" "\<not> HasPrefix p slash"
    and parts: "\<forall>x \<in> set ?ps. x \<noteq> ''..'' \<and> x \<noteq> ''''"
    using assms(1) by (auto simp: validRelPath_def Let_def list_ex_iff split: if_splits)
  have body: "join_with slash (clean_parts False [] ?ps) = p"
    using clean p assms(2) by (auto simp: filepath_Clean_def Let_def split: if_splits)
  then have ne: "clean_parts False [] ?ps \<noteq> []"
    using p by auto
  have "CHR ''/'' \<notin> set x" if "x \<in> set (clean_parts False [] ?ps)" for x
    using that clean_parts_subset [of False "[]" ?ps] split_on_words by fastforce
  then have "split_on (CHR ''/'') (join_with slash (clean_parts False [] ?ps)) = clean_parts False [] ?ps"
    using ne by (intro split_join) auto
  then have "?ps = clean_parts False [] ?ps"
    by (simp add: body)
  then have "x \<noteq> ''.''" if "x \<in> set ?ps" for x
    using that clean_parts_no_dot [of x False "[]" ?ps] by auto
  then show ?thesis
    using parts split_on_words by (fastforce simp: normal_def list_all_iff)
qed

lemma validRelPath_dot: "validRelPath ''.'' = None"
  by code_simp

text \<open>
  Every slug that the schema of the database accepts has a repository path under
  \<open>repos/\<close> of the data directory, and two projects never share one: the path determines the
  org and the project.
\<close>

theorem repositories_of_slugs:
  assumes "abs_dir base" and "slug_check org" and "slug_check project"
  shows "repoPath base org project = Inr (base @ ''/repos/'' @ org @ ''/'' @ project @ ''.git'')
    \<and> (\<forall>org' project'. repoPath base org' project' = repoPath base org project
          \<longrightarrow> org' = org \<and> project' = project)"
proof -
  have s: "slugRe org" "slugRe project"
    using assms slug_check_slugRe by auto
  then obtain path where path: "repoPath base org project = Inr path"
    by (auto simp: repoPath_def)
  then have eq: "path = base @ ''/repos/'' @ org @ ''/'' @ project @ ''.git''"
    using repoPath_Inr [OF assms(1) path] by simp
  have "org' = org \<and> project' = project" if "repoPath base org' project' = Inr path" for org' project'
  proof -
    have s': "slugRe org'" and "org' @ CHR ''/'' # project' = org @ CHR ''/'' # project"
      using repoPath_Inr [OF assms(1) that] by (simp_all add: eq)
    then have "split_on (CHR ''/'') (org' @ CHR ''/'' # project')
        = split_on (CHR ''/'') (org @ CHR ''/'' # project)"
      by simp
    moreover have "CHR ''/'' \<notin> set org'" "CHR ''/'' \<notin> set org"
      using s s' slugRe_normal by (auto simp: normal_def)
    ultimately have "org' = org" by (simp add: split_on_append)
    with \<open>org' @ _ = _\<close> show ?thesis by simp
  qed
  then show ?thesis using path eq by simp
qed

lemma abs_dir_sample: "abs_dir ''/data''"
  by (auto simp: abs_dir_def normal_def intro!: exI [of _ "[''data'']"])

lemma slug_check_sample: "slug_check ''acme''" "slug_check ''web''"
  by code_simp+

theorem repositories_of_slugs_witness:
  "repoPath ''/data'' ''acme'' ''web'' = Inr ''/data/repos/acme/web.git''"
  using repositories_of_slugs [OF abs_dir_sample slug_check_sample] by simp

end
