(* ===== verification/Gitstore.thy ===== *)
theory Gitstore
  imports Paths
begin

text \<open>
  The artifact plane \<open>internal/gitstore/gitstore.go\<close>: bare repositories changed only by running
  the \<open>git\<close> binary in short-lived clones. The operating system and \<open>git\<close> are not the
  program's code: they are the record \<open>host\<close> of functions on an opaque world, and nothing is
  assumed of them here. The state of the store is that world, the map of per-repository mutexes,
  and the sequence \<open>trace\<close> of the effects performed so far (the commands run, the files
  written, the locks taken), which the theorems speak about. \<open>defer\<close> is \<open>deferred\<close>: what
  is deferred runs last, on every exit.
\<close>

section \<open>The host\<close>

datatype fsnode = FsFile string | FsDir string "fsnode list" | FsUnreadable string

text \<open>
  \<open>git_exec dir args\<close> gives the combined output and the error of \<open>exec\<close>, if any; the other
  functions are those of package \<open>os\<close> with the message of their error.
\<close>

record 'w host =
  base_dir :: string
  git_exec :: "string \<Rightarrow> string list \<Rightarrow> 'w \<Rightarrow> (string \<times> string option) \<times> 'w"
  mkdir_temp :: "'w \<Rightarrow> (string + string) \<times> 'w"
  remove_all :: "string \<Rightarrow> 'w \<Rightarrow> 'w"
  mkdir_all :: "string \<Rightarrow> 'w \<Rightarrow> string option \<times> 'w"
  stat_ok :: "string \<Rightarrow> 'w \<Rightarrow> bool"
  lstat_symlink :: "string \<Rightarrow> 'w \<Rightarrow> bool"
  write_file :: "string \<Rightarrow> string \<Rightarrow> 'w \<Rightarrow> string option \<times> 'w"
  create_temp :: "string \<Rightarrow> 'w \<Rightarrow> (string + string) \<times> 'w"
  remove_file :: "string \<Rightarrow> 'w \<Rightarrow> string option \<times> 'w"
  walk_root :: "string \<Rightarrow> 'w \<Rightarrow> fsnode option"

datatype effect =
    Lock nat
  | Unlock nat
  | Exec string "string list" bool   \<comment> \<open>directory, arguments, success\<close>
  | MkdirTemp string
  | RemoveAll string
  | MkdirAll string
  | WriteFile string string
  | CreateTemp string
  | RemoveFile string

record 'w gitstate =
  world :: 'w
  locks :: "(string \<times> nat) list"
  trace :: "effect list"

definition performed :: "effect \<Rightarrow> 'w \<Rightarrow> 'w gitstate \<Rightarrow> 'w gitstate" where
  "performed e w s = s\<lparr>world := w, trace := trace s @ [e]\<rparr>"

definition os_error :: "string option \<Rightarrow> goerr + unit" where
  "os_error r = (case r of None \<Rightarrow> Inr () | Some msg \<Rightarrow> Inl (OsFailed msg))"

definition os_name :: "string + string \<Rightarrow> goerr + string" where
  "os_name r = (case r of Inl msg \<Rightarrow> Inl (OsFailed msg) | Inr name \<Rightarrow> Inr name)"

definition os_MkdirAll :: "'w host \<Rightarrow> string \<Rightarrow> ('w gitstate, unit) go" where
  "os_MkdirAll H dir = (\<lambda>s. case mkdir_all H dir (world s) of (r, w) \<Rightarrow>
     (os_error r, performed (MkdirAll dir) w s))"

definition os_WriteFile :: "'w host \<Rightarrow> string \<Rightarrow> string \<Rightarrow> ('w gitstate, unit) go" where
  "os_WriteFile H file content = (\<lambda>s. case write_file H file content (world s) of (r, w) \<Rightarrow>
     (os_error r, performed (WriteFile file content) w s))"

definition os_RemoveAll :: "'w host \<Rightarrow> string \<Rightarrow> 'w gitstate \<Rightarrow> 'w gitstate" where
  "os_RemoveAll H dir s = performed (RemoveAll dir) (remove_all H dir (world s)) s"

text \<open>A failed \<open>MkdirTemp\<close> makes no directory, so it leaves no effect.\<close>

definition os_MkdirTemp :: "'w host \<Rightarrow> ('w gitstate, string) go" where
  "os_MkdirTemp H = (\<lambda>s. case mkdir_temp H (world s) of
       (Inl msg, w) \<Rightarrow> (Inl (OsFailed msg), s\<lparr>world := w\<rparr>)
     | (Inr tmp, w) \<Rightarrow> (Inr tmp, performed (MkdirTemp tmp) w s))"

definition os_CreateTemp :: "'w host \<Rightarrow> string \<Rightarrow> ('w gitstate, string) go" where
  "os_CreateTemp H dir = (\<lambda>s. case create_temp H dir (world s) of (r, w) \<Rightarrow>
     (os_name r, performed (CreateTemp dir) w s))"

definition os_Remove :: "'w host \<Rightarrow> string \<Rightarrow> ('w gitstate, unit) go" where
  "os_Remove H file = (\<lambda>s. case remove_file H file (world s) of (r, w) \<Rightarrow>
     (os_error r, performed (RemoveFile file) w s))"

definition os_Stat :: "'w host \<Rightarrow> string \<Rightarrow> ('w gitstate, bool) go" where
  "os_Stat H path = (\<lambda>s. (Inr (stat_ok H path (world s)), s))"

definition deferred :: "('s \<Rightarrow> 's) \<Rightarrow> ('s, 'e, 'a) act \<Rightarrow> ('s, 'e, 'a) act" where
  "deferred c m = (\<lambda>s. case m s of (r, s') \<Rightarrow> (r, c s'))"

section \<open>Running git\<close>

text \<open>U+2026, the ellipsis.\<close>

definition ellipsis :: string where
  "ellipsis = [CHR 0xE2, CHR 0x80, CHR 0xA6]"

definition truncate_text :: "string \<Rightarrow> nat \<Rightarrow> string" where
  "truncate_text s n = (if length s \<le> n then s else take n s @ ellipsis)"

definition git_base_args :: "string list" where
  "git_base_args =
     [''-c'', ''user.name=ubiqo'', ''-c'', ''user.email=fabric@ubiqo.local'',
      ''-c'', ''init.defaultBranch=main'', ''-c'', ''core.hooksPath=/dev/null'',
      ''-c'', ''commit.gpgsign=false'', ''-c'', ''tag.gpgsign=false'']"

text \<open>The output is returned with an error too. The trace keeps the arguments after the fixed ones.\<close>

definition git_output ::
  "'w host \<Rightarrow> string \<Rightarrow> string list \<Rightarrow> 'w gitstate \<Rightarrow> (string \<times> goerr option) \<times> 'w gitstate" where
  "git_output H dir args = (\<lambda>s.
     case git_exec H dir (git_base_args @ args) (world s) of ((out, err), w) \<Rightarrow>
       ((out, map_option (\<lambda>e. GitFailed args e (truncate_text out 500)) err),
        performed (Exec dir args (err = None)) w s))"

definition Git_git :: "'w host \<Rightarrow> string \<Rightarrow> string list \<Rightarrow> ('w gitstate, string) go" where
  "Git_git H dir args = (\<lambda>s. case git_output H dir args s of
       ((out, None), s') \<Rightarrow> (Inr out, s')
     | ((out, Some e), s') \<Rightarrow> (Inl e, s'))"

text \<open>\<open>out, _ := s.git(...)\<close>.\<close>

definition git_stdout :: "'w host \<Rightarrow> string \<Rightarrow> string list \<Rightarrow> ('w gitstate, string) go" where
  "git_stdout H dir args = (\<lambda>s. case git_output H dir args s of ((out, _), s') \<Rightarrow> (Inr out, s'))"

text \<open>The mutex of a repository, made on first use.\<close>

definition repoLock :: "string \<Rightarrow> 'w gitstate \<Rightarrow> nat \<times> 'w gitstate" where
  "repoLock path s = (case map_of (locks s) path of
       Some l \<Rightarrow> (l, s)
     | None \<Rightarrow> (length (locks s), s\<lparr>locks := (path, length (locks s)) # locks s\<rparr>))"

definition withLock :: "string \<Rightarrow> ('w gitstate, 'a) go \<Rightarrow> ('w gitstate, 'a) go" where
  "withLock path m = (\<lambda>s. case repoLock path s of (l, s') \<Rightarrow>
     deferred (\<lambda>s. performed (Unlock l) (world s) s) m (performed (Lock l) (world s') s'))"

definition Git_clone :: "'w host \<Rightarrow> string \<Rightarrow> string \<Rightarrow> bool \<Rightarrow> ('w gitstate, string) go" where
  "Git_clone H path branch allowEmpty =
     andThen (os_MkdirTemp H) (\<lambda>tmp.
     let quiet = [''clone'', ''--quiet'', ''--no-hardlinks''];
         giveUp = (\<lambda>e s. (Inl e, os_RemoveAll H tmp s)) in
     handle (Git_git H ''''
         (quiet @ (if allowEmpty then [] else [''--branch'', branch]) @ [path, tmp]))
       (\<lambda>e. if allowEmpty then giveUp e
            else handle (Git_git H '''' (quiet @ [path, tmp]))
                   giveUp
                   (\<lambda>_. handle (Git_git H tmp [''checkout'', ''-B'', branch])
                           giveUp (\<lambda>_. ret tmp)))
       (\<lambda>_. ret tmp))"

definition withClone ::
  "'w host \<Rightarrow> string \<Rightarrow> string \<Rightarrow> bool \<Rightarrow> (string \<Rightarrow> ('w gitstate, 'a) go) \<Rightarrow> ('w gitstate, 'a) go" where
  "withClone H path branch allowEmpty body =
     andThen (Git_clone H path branch allowEmpty) (\<lambda>tmp.
       deferred (os_RemoveAll H tmp) (body tmp))"

section \<open>Text\<close>

definition newline :: string where "newline = [CHR 10]"

definition splitLines :: "string \<Rightarrow> string list" where
  "splitLines s = filter (\<lambda>l. l \<noteq> '''') (map TrimSpace (split_on (CHR 10) (TrimSpace s)))"

text \<open>A Go map of trailers is given by its entries, with distinct keys.\<close>

definition formatTrailers :: "(string \<times> string) list \<Rightarrow> string" where
  "formatTrailers trailers = concat (map
     (\<lambda>(k, v). k @ '': '' @ ReplaceAll v newline '' '' @ newline) (sort_key fst trailers))"

text \<open>\<open>strings.Fields\<close>: \<open>field_end\<close> is the length of the word at the front.\<close>

fun field_end :: "string \<Rightarrow> nat" where
  "field_end [] = 0"
| "field_end (c # s) =
     (if list_ex (\<lambda>e. HasPrefix (c # s) e) space_encodings then 0 else Suc (field_end s))"

fun fields_fuel :: "nat \<Rightarrow> string \<Rightarrow> string list" where
  "fields_fuel 0 s = []"
| "fields_fuel (Suc n) s =
     (let s' = trim_left space_encodings s in
      if s' = [] then [] else take (field_end s') s' # fields_fuel n (drop (field_end s') s'))"

definition strings_Fields :: "string \<Rightarrow> string list" where
  "strings_Fields s = fields_fuel (length s) s"

text \<open>
  \<open>fmt.Sscanf(s, "%d", &size)\<close> into a zero \<open>int64\<close> with the error ignored, for a field
  (no white space): the leading decimal number, or 0 when there is none or it is out of range.
\<close>

definition sscan_int64 :: "string \<Rightarrow> int" where
  "sscan_int64 s =
     (let neg = HasPrefix s ''-'';
          digits = takeWhile is_digit (if neg \<or> HasPrefix s ''+'' then tl s else s);
          v = (if neg then - int (nat_of_digits digits) else int (nat_of_digits digits)) in
      if digits = [] \<or> v < - (2 ^ 63) \<or> 2 ^ 63 \<le> v then 0 else v)"

section \<open>Operations\<close>

record File =
  File_Path :: string
  File_Content :: string

record TreeEntry =
  TreeEntry_Path :: string
  TreeEntry_Bytes :: int

record MergeResult =
  MR_SHA :: string
  MR_Conflicts :: "string list"

definition MaxFileBytes :: nat where "MaxFileBytes = 1048576"

definition MaxFilesWrite :: nat where "MaxFilesWrite = 200"

definition failIf :: "goerr option \<Rightarrow> ('s, unit) go" where
  "failIf r = (case r of None \<Rightarrow> ret () | Some e \<Rightarrow> failwith e)"

definition Git_EnsureRepo :: "'w host \<Rightarrow> string \<Rightarrow> string \<Rightarrow> ('w gitstate, unit) go" where
  "Git_EnsureRepo H org project =
     andThen (ofSum (repoPath (base_dir H) org project)) (\<lambda>path.
     andThen (os_Stat H path) (\<lambda>there.
     if there then ret () else
     withLock path (
       andThen (os_Stat H path) (\<lambda>there.
       if there then ret () else
       andThen (os_MkdirAll H path) (\<lambda>_.
       andThen (Git_git H '''' [''init'', ''--bare'', ''--template='', ''-b'', ''main'', path]) (\<lambda>_.
       withClone H path ''main'' True (\<lambda>tmp.
         andThen (Git_git H tmp [''commit'', ''--allow-empty'', ''-m'', ''ubiqo: initialize project'']) (\<lambda>_.
         andThen (Git_git H tmp [''push'', ''origin'', ''HEAD:refs/heads/main'']) (\<lambda>_.
         ret ())))))))))"

text \<open>The validation of the files before anything is done.\<close>

fun check_files :: "File list \<Rightarrow> goerr option" where
  "check_files [] = None"
| "check_files (f # fs) =
     (case validRelPath (File_Path f) of
        Some e \<Rightarrow> Some e
      | None \<Rightarrow> if MaxFileBytes < length (File_Content f) then Some (FileTooBig (File_Path f))
                else check_files fs)"

definition write_one :: "'w host \<Rightarrow> string \<Rightarrow> File \<Rightarrow> ('w gitstate, unit) go" where
  "write_one H dir f =
     (let full = filepath_Join [dir, File_Path f] in
      andThen (os_MkdirAll H (filepath_Dir full)) (\<lambda>_.
      andThen (\<lambda>s. (if lstat_symlink H full (world s) then Inl (SymlinkRefused (File_Path f))
                     else Inr (), s)) (\<lambda>_.
      os_WriteFile H full (File_Content f))))"

definition commit_message :: "string \<Rightarrow> string \<Rightarrow> (string \<times> string) list \<Rightarrow> string" where
  "commit_message message artifact trailers =
     (let msg = TrimSpace message;
          msg = (if msg = '''' then ''update '' @ artifact else msg) in
      msg @ newline @ newline @ formatTrailers trailers)"

definition Git_WriteFiles ::
  "'w host \<Rightarrow> string \<Rightarrow> string \<Rightarrow> string \<Rightarrow> string \<Rightarrow> File list \<Rightarrow> string \<Rightarrow> (string \<times> string) list
     \<Rightarrow> ('w gitstate, string) go" where
  "Git_WriteFiles H org project branch artifact files message trailers =
     andThen (ofSum (repoPath (base_dir H) org project)) (\<lambda>path.
     andThen (guarded (slugRe artifact) (InvalidArtifact artifact)) (\<lambda>_.
     andThen (guarded (files \<noteq> [] \<and> length files \<le> MaxFilesWrite) BadFileCount) (\<lambda>_.
     andThen (failIf (check_files files)) (\<lambda>_.
     withLock path (
       withClone H path branch False (\<lambda>tmp.
         let dir = filepath_Join [tmp, ''shared'', artifact] in
         andThen (forEach files (write_one H dir)) (\<lambda>_.
         andThen (Git_git H tmp [''add'', ''-A'', ''--'', filepath_Join [''shared'', artifact]]) (\<lambda>_.
         andThen (Git_git H tmp [''commit'', ''--allow-empty'', ''-m'',
                    commit_message message artifact trailers]) (\<lambda>_.
         andThen (Git_git H tmp [''rev-parse'', ''HEAD'']) (\<lambda>sha.
         andThen (Git_git H tmp [''push'', ''origin'', ''HEAD:refs/heads/'' @ branch]) (\<lambda>_.
         ret (TrimSpace sha))))))))))))"

definition Git_Merge ::
  "'w host \<Rightarrow> string \<Rightarrow> string \<Rightarrow> string \<Rightarrow> string \<Rightarrow> (string \<times> string) list
     \<Rightarrow> ('w gitstate, MergeResult) go" where
  "Git_Merge H org project branch message trailers =
     andThen (ofSum (repoPath (base_dir H) org project)) (\<lambda>path.
     withLock path (
       withClone H path ''main'' False (\<lambda>tmp.
         let msg = TrimSpace message @ newline @ newline @ formatTrailers trailers in
         handle (Git_git H tmp [''merge'', ''--no-ff'', ''-m'', msg, ''origin/'' @ branch])
           (\<lambda>err. andThen (git_stdout H tmp [''diff'', ''--name-only'', ''--diff-filter=U'']) (\<lambda>out.
              let conflicts = splitLines out in
              andThen (ignoring (Git_git H tmp [''merge'', ''--abort''])) (\<lambda>_.
              if conflicts \<noteq> [] then ret \<lparr> MR_SHA = '''', MR_Conflicts = conflicts \<rparr>
              else failwith err)))
           (\<lambda>_. andThen (Git_git H tmp [''rev-parse'', ''HEAD'']) (\<lambda>sha.
                andThen (Git_git H tmp [''push'', ''origin'', ''HEAD:refs/heads/main'']) (\<lambda>_.
                ret \<lparr> MR_SHA = TrimSpace sha, MR_Conflicts = [] \<rparr>))))))"

definition Git_DeleteBranch ::
  "'w host \<Rightarrow> string \<Rightarrow> string \<Rightarrow> string \<Rightarrow> ('w gitstate, unit) go" where
  "Git_DeleteBranch H org project branch =
     andThen (ofSum (repoPath (base_dir H) org project)) (\<lambda>path.
     withLock path (andThen (Git_git H path [''branch'', ''-D'', branch]) (\<lambda>_. ret ())))"

definition Git_ReadFile ::
  "'w host \<Rightarrow> string \<Rightarrow> string \<Rightarrow> string \<Rightarrow> string \<Rightarrow> string \<Rightarrow> ('w gitstate, string) go" where
  "Git_ReadFile H org project ref artifact relPath =
     andThen (ofSum (repoPath (base_dir H) org project)) (\<lambda>path.
     andThen (failIf (validRelPath relPath)) (\<lambda>_.
     andThen (failIf (validRef ref)) (\<lambda>_.
     handle (Git_git H path [''show'', ref @ '':shared/'' @ artifact @ ''/'' @ relPath])
       (\<lambda>_. failwith (FileNotFound artifact relPath ref)) ret)))"

definition tree_entry :: "string \<Rightarrow> string \<Rightarrow> TreeEntry option" where
  "tree_entry artifact line =
     (if CHR 9 \<notin> set line then None
      else let meta = strings_Fields (takeWhile (\<lambda>c. c \<noteq> CHR 9) line);
               name = tl (dropWhile (\<lambda>c. c \<noteq> CHR 9) line) in
        if length meta < 4 \<or> meta ! 1 \<noteq> ''blob'' then None
        else Some \<lparr> TreeEntry_Path = TrimPrefix name (''shared/'' @ artifact @ ''/''),
                    TreeEntry_Bytes = sscan_int64 (meta ! 3) \<rparr>)"

definition Git_ListTree ::
  "'w host \<Rightarrow> string \<Rightarrow> string \<Rightarrow> string \<Rightarrow> string \<Rightarrow> ('w gitstate, TreeEntry list) go" where
  "Git_ListTree H org project ref artifact =
     andThen (ofSum (repoPath (base_dir H) org project)) (\<lambda>path.
     andThen (failIf (validRef ref)) (\<lambda>_.
     andThen (Git_git H path [''ls-tree'', ''-r'', ''--long'', ref, ''--'', ''shared/'' @ artifact]) (\<lambda>out.
     ret (List.map_filter (tree_entry artifact) (splitLines out)))))"

definition Git_ListArtifacts ::
  "'w host \<Rightarrow> string \<Rightarrow> string \<Rightarrow> ('w gitstate, string list) go" where
  "Git_ListArtifacts H org project =
     andThen (ofSum (repoPath (base_dir H) org project)) (\<lambda>path.
     andThen (Git_git H path [''ls-tree'', ''--name-only'', ''main'', ''--'', ''shared/'']) (\<lambda>out.
     ret (sort (map (\<lambda>line. TrimPrefix line ''shared/'') (splitLines out)))))"

definition Git_Tag ::
  "'w host \<Rightarrow> string \<Rightarrow> string \<Rightarrow> string \<Rightarrow> string \<Rightarrow> string \<Rightarrow> ('w gitstate, string) go" where
  "Git_Tag H org project artifact version notes =
     andThen (ofSum (repoPath (base_dir H) org project)) (\<lambda>path.
     withLock path (
       let tag = ''artifacts/'' @ artifact @ ''/'' @ version;
           notes = (if notes = '''' then ''release '' @ artifact @ '' '' @ version else notes) in
       andThen (Git_git H path [''tag'', ''-a'', tag, ''-m'', notes, ''main'']) (\<lambda>_. ret tag)))"

definition Git_Versions ::
  "'w host \<Rightarrow> string \<Rightarrow> string \<Rightarrow> string \<Rightarrow> ('w gitstate, string list) go" where
  "Git_Versions H org project artifact =
     andThen (ofSum (repoPath (base_dir H) org project)) (\<lambda>path.
     andThen (Git_git H path [''tag'', ''-l'', ''artifacts/'' @ artifact @ ''/*'']) (\<lambda>out.
     ret (map (\<lambda>t. TrimPrefix t (''artifacts/'' @ artifact @ ''/'')) (splitLines out))))"

definition diff_notice :: string where
  "diff_notice = newline @ ellipsis @ '' (diff truncated; use ubiqo_read_artifact with ref for full files)''"

definition Git_DiffStat ::
  "'w host \<Rightarrow> string \<Rightarrow> string \<Rightarrow> string \<Rightarrow> ('w gitstate, string) go" where
  "Git_DiffStat H org project branch =
     andThen (ofSum (repoPath (base_dir H) org project)) (\<lambda>path.
     andThen (Git_git H path [''diff'', ''--stat=100'', ''main...refs/heads/'' @ branch]) (\<lambda>stat.
     andThen (Git_git H path [''diff'', ''main...refs/heads/'' @ branch]) (\<lambda>patch.
     let patch = (if 12000 < length patch then take 12000 patch @ diff_notice else patch) in
     ret (stat @ newline @ patch))))"

definition Git_Branches :: "'w host \<Rightarrow> string \<Rightarrow> string \<Rightarrow> ('w gitstate, string list) go" where
  "Git_Branches H org project =
     andThen (ofSum (repoPath (base_dir H) org project)) (\<lambda>path.
     andThen (Git_git H path [''for-each-ref'', ''--format=%(refname:short)'', ''refs/heads/u/'']) (\<lambda>out.
     ret (splitLines out)))"

section \<open>Backup and health\<close>

definition TrimSuffix :: "string \<Rightarrow> string \<Rightarrow> string" where
  "TrimSuffix s p = (if HasSuffix s p then take (length s - length p) s else s)"

text \<open>The bundle file of the repository at \<open>rel\<close>, a path relative to \<open>repos/\<close>.\<close>

definition bundle_name :: "string \<Rightarrow> string" where
  "bundle_name rel = ReplaceAll (TrimSuffix rel ''.git'') slash ''__'' @ ''.bundle''"

definition bundle_repo ::
  "'w host \<Rightarrow> string \<Rightarrow> string \<Rightarrow> string \<Rightarrow> ('w gitstate, string list) go" where
  "bundle_repo H root destDir p =
     (let name = bundle_name (TrimPrefix p (root @ slash)) in
      andThen (Git_git H p [''bundle'', ''create'', filepath_Join [destDir, name], ''--all'']) (\<lambda>_.
      ret [name]))"

text \<open>\<open>filepath.WalkDir\<close> with the callback of \<open>BundleAll\<close>, which skips a repository's inside.\<close>

fun walk_node ::
    "'w host \<Rightarrow> string \<Rightarrow> string \<Rightarrow> string \<Rightarrow> fsnode \<Rightarrow> ('w gitstate, string list) go"
  and walk_nodes ::
    "'w host \<Rightarrow> string \<Rightarrow> string \<Rightarrow> string \<Rightarrow> fsnode list \<Rightarrow> ('w gitstate, string list) go" where
  "walk_node H root destDir p (FsFile n) = ret []"
| "walk_node H root destDir p (FsUnreadable n) =
     (if HasSuffix p ''.git'' then bundle_repo H root destDir p else failwith (OsFailed p))"
| "walk_node H root destDir p (FsDir n cs) =
     (if HasSuffix p ''.git'' then bundle_repo H root destDir p
      else walk_nodes H root destDir p cs)"
| "walk_nodes H root destDir p [] = ret []"
| "walk_nodes H root destDir p (c # cs) =
     andThen (walk_node H root destDir
         (filepath_Join [p, case c of FsFile n \<Rightarrow> n | FsDir n _ \<Rightarrow> n | FsUnreadable n \<Rightarrow> n]) c) (\<lambda>xs.
     andThen (walk_nodes H root destDir p cs) (\<lambda>ys. ret (xs @ ys)))"

definition Git_BundleAll :: "'w host \<Rightarrow> string \<Rightarrow> ('w gitstate, string list) go" where
  "Git_BundleAll H destDir = (\<lambda>s.
     let root = filepath_Join [base_dir H, ''repos''] in
     case walk_root H root (world s) of
       None \<Rightarrow> (Inl (OsFailed root), s)
     | Some node \<Rightarrow> walk_node H root destDir root node s)"

definition Git_HealthCheck :: "'w host \<Rightarrow> ('w gitstate, unit) go" where
  "Git_HealthCheck H =
     (let dir = filepath_Join [base_dir H, ''repos''] in
      andThen (os_MkdirAll H dir) (\<lambda>_.
      andThen (os_CreateTemp H dir) (\<lambda>name.
      os_Remove H name)))"

end
