(* ===== verification/Semver.thy ===== *)
theory Semver
  imports Errors "HOL-Library.Product_Lexorder" "HOL-Library.Code_Target_Nat"
begin

text \<open>
  Artifact versions, \<open>internal/semver/semver.go\<close>: parsing, printing, comparing, bumping and
  finding the latest of a list of tag suffixes. Go's \<open>int\<close> is a 64-bit word, so the
  subtraction of \<open>Compare\<close> and the increment of \<open>Bump\<close> wrap around. The lemmas show the
  round trip, that \<open>Compare\<close> is the lexicographic order on the versions \<open>Parse\<close> can
  return, and what \<open>Latest\<close> and \<open>Bump\<close> give. The locale \<open>versioning\<close> is the interface
  the release operation relies on.
\<close>

section \<open>The code\<close>

record Version =
  Major :: goint
  Minor :: goint
  Patch :: goint

definition String :: "Version \<Rightarrow> string" where
  "String v = ''v'' @ show_int (sint (Major v)) @ ''.'' @ show_int (sint (Minor v)) @ ''.''
     @ show_int (sint (Patch v))"

text \<open>\<open>re.FindStringSubmatch\<close> for \<open>^v(\d+)\.(\d+)\.(\d+)$\<close>.\<close>

definition version_submatch :: "string \<Rightarrow> (string \<times> string \<times> string) option" where
  "version_submatch s =
     (case s of
        [] \<Rightarrow> None
      | c # r \<Rightarrow>
          if c \<noteq> CHR ''v'' then None
          else (case split_on CHR ''.'' r of
                  [a, b, d] \<Rightarrow> if all_digits a \<and> all_digits b \<and> all_digits d
                               then Some (a, b, d) else None
                | _ \<Rightarrow> None))"

definition Parse :: "string \<Rightarrow> goerr + Version" where
  "Parse s =
     (case version_submatch s of
        None \<Rightarrow> Inl (InvalidVersion s)
      | Some (m1, m2, m3) \<Rightarrow>
          Inr \<lparr> Major = Atoi_digits m1, Minor = Atoi_digits m2, Patch = Atoi_digits m3 \<rparr>)"

fun compare_loop :: "goint list \<Rightarrow> int" where
  "compare_loop [] = 0"
| "compare_loop (d # ds) =
     (if sint d < 0 then -1 else if 0 < sint d then 1 else compare_loop ds)"

definition Compare :: "Version \<Rightarrow> Version \<Rightarrow> int" where
  "Compare a b = compare_loop [Major a - Major b, Minor a - Minor b, Patch a - Patch b]"

definition Bump :: "Version \<Rightarrow> string \<Rightarrow> goerr + Version" where
  "Bump cur kind =
     (if kind = ''major'' then Inr \<lparr> Major = Major cur + 1, Minor = 0, Patch = 0 \<rparr>
      else if kind = ''minor'' then Inr \<lparr> Major = Major cur, Minor = Minor cur + 1, Patch = 0 \<rparr>
      else if kind = ''patch'' then
        Inr \<lparr> Major = Major cur, Minor = Minor cur, Patch = Patch cur + 1 \<rparr>
      else Inl (InvalidBump kind))"

definition version_zero :: Version where
  "version_zero = \<lparr> Major = 0, Minor = 0, Patch = 0 \<rparr>"

text \<open>One turn of the loop of \<open>Latest\<close>, on the variables \<open>best\<close> and \<open>ok\<close>.\<close>

definition latest_step :: "Version \<times> bool \<Rightarrow> string \<Rightarrow> Version \<times> bool" where
  "latest_step acc s =
     (case acc of (best, ok) \<Rightarrow>
        (case Parse s of
           Inl _ \<Rightarrow> (best, ok)
         | Inr v \<Rightarrow> if \<not> ok \<or> 0 < Compare v best then (v, True) else (best, ok)))"

definition Latest :: "string list \<Rightarrow> Version \<times> bool" where
  "Latest versions = foldl latest_step (version_zero, False) versions"

section \<open>The order of versions\<close>

text \<open>
  Versions are ordered lexicographically by the signed values of their fields; the library's
  class \<open>linorder\<close> then gives \<open>Max\<close> and its automation.
\<close>

definition version_key :: "('a :: linorder) Version_scheme \<Rightarrow> int \<times> int \<times> int \<times> 'a" where
  "version_key v = (sint (Major v), sint (Minor v), sint (Patch v), Version.more v)"

lemma version_key_inject: "version_key a = version_key b \<longleftrightarrow> a = b"
  by (cases a, cases b) (auto simp: version_key_def dest: signed_word_eqI)

instantiation Version_ext :: (linorder) linorder
begin

definition less_eq_Version_ext :: "'a Version_scheme \<Rightarrow> 'a Version_scheme \<Rightarrow> bool" where
  "less_eq_Version_ext a b \<longleftrightarrow> version_key a \<le> version_key b"

definition less_Version_ext :: "'a Version_scheme \<Rightarrow> 'a Version_scheme \<Rightarrow> bool" where
  "less_Version_ext a b \<longleftrightarrow> version_key a < version_key b"

instance
  by standard
    (auto simp: less_eq_Version_ext_def less_Version_ext_def less_le_not_le version_key_inject
       dest: order.trans antisym)

end

lemmas version_order_defs = less_eq_Version_ext_def less_Version_ext_def version_key_def

text \<open>The versions \<open>Parse\<close> can return: no field is negative.\<close>

definition version_wf :: "Version \<Rightarrow> bool" where
  "version_wf v \<longleftrightarrow> 0 \<le> sint (Major v) \<and> 0 \<le> sint (Minor v) \<and> 0 \<le> sint (Patch v)"

lemma sint_lt_max: "sint (x :: goint) < 2 ^ 63"
  using sint_lt [of x] by simp

lemma sint_diff_nonneg:
  assumes "0 \<le> sint (x :: goint)" and "0 \<le> sint y"
  shows "sint (x - y) = sint x - sint y"
proof -
  have "signed_take_bit 63 (sint x - sint y) = sint x - sint y"
    using assms sint_lt_max [of x] sint_lt_max [of y]
    by (intro signed_take_bit_int_eq_self) auto
  then show ?thesis by (simp add: sint_word_ariths)
qed

lemma sint_Suc:
  assumes "0 \<le> sint (x :: goint)" and "sint x < 2 ^ 63 - 1"
  shows "sint (x + 1) = sint x + 1"
proof -
  have "signed_take_bit 63 (sint x + 1) = sint x + 1"
    using assms by (intro signed_take_bit_int_eq_self) auto
  then show ?thesis by (simp add: sint_word_ariths)
qed

lemma sint_Atoi: "sint (Atoi_digits s) = int (min (nat_of_digits s) go_max_int)"
proof -
  let ?n = "min (nat_of_digits s) go_max_int"
  have "signed_take_bit 63 (int ?n) = int ?n"
    by (intro signed_take_bit_int_eq_self) (auto simp: go_max_int_def)
  moreover have "sint (of_nat ?n :: goint) = signed_take_bit 63 (int ?n)"
    by (simp add: signed_of_nat)
  ultimately show ?thesis by (simp add: Atoi_digits_def)
qed

section \<open>What the functions give\<close>

lemma Parse_wf: "Parse s = Inr v \<Longrightarrow> version_wf v"
  by (auto simp: Parse_def version_wf_def sint_Atoi split: option.splits prod.splits)

lemma Atoi_show_int:
  assumes "0 \<le> sint (x :: goint)"
  shows "Atoi_digits (show_int (sint x)) = x"
proof -
  have "sint x \<le> int go_max_int"
    using sint_lt_max [of x] by (simp add: go_max_int_def)
  with assms have "min (nat (sint x)) go_max_int = nat (sint x)"
    by simp
  with assms show ?thesis
    by (simp add: Atoi_digits_def show_int_def)
qed

lemma show_int_digits: "0 \<le> i \<Longrightarrow> all_digits (show_int i)"
  by (simp add: show_int_def)

lemma version_submatch_String:
  assumes "version_wf v"
  shows "version_submatch (String v)
    = Some (show_int (sint (Major v)), show_int (sint (Minor v)), show_int (sint (Patch v)))"
  using assms
  by (auto simp: version_submatch_def String_def version_wf_def split_on_append split_on_absent
      show_int_digits all_digits_no_dot)

lemma Parse_String: "version_wf v \<Longrightarrow> Parse (String v) = Inr v"
  by (simp add: Parse_def version_submatch_String Atoi_show_int version_wf_def)

lemma Compare_order:
  assumes "version_wf a" and "version_wf b"
  shows "Compare a b = (if a < b then -1 else if a = b then 0 else 1)"
  using assms
  by (cases a, cases b)
    (auto simp: Compare_def version_wf_def sint_diff_nonneg version_order_defs
      dest: signed_word_eqI)


definition parsed :: "string list \<Rightarrow> Version set" where
  "parsed versions = {v. \<exists>s \<in> set versions. Parse s = Inr v}"

lemma parsed_Nil [simp]: "parsed [] = {}"
  by (simp add: parsed_def)

lemma parsed_snoc:
  "parsed (vs @ [s]) = (case Parse s of Inl _ \<Rightarrow> parsed vs | Inr v \<Rightarrow> insert v (parsed vs))"
  by (auto simp: parsed_def split: sum.splits)

lemma finite_parsed: "finite (parsed vs)"
  by (induction vs rule: rev_induct) (auto simp: parsed_snoc split: sum.splits)

lemma parsed_wf: "v \<in> parsed vs \<Longrightarrow> version_wf v"
  by (auto simp: parsed_def dest: Parse_wf)

text \<open>The loop of \<open>Latest\<close> keeps: \<open>ok\<close> tells whether any suffix parsed, and \<open>best\<close> is
  the greatest that did.\<close>

lemma Latest_correct:
  "Latest vs = (if parsed vs = {} then (version_zero, False) else (Max (parsed vs), True))"
proof (induction vs rule: rev_induct)
  case Nil
  then show ?case by (simp add: Latest_def)
next
  case (snoc s vs)
  have step: "Latest (vs @ [s]) = latest_step (Latest vs) s"
    by (simp add: Latest_def)
  show ?case
  proof (cases "Parse s")
    case (Inl e)
    then show ?thesis using snoc step by (simp add: latest_step_def parsed_snoc)
  next
    case (Inr v)
    show ?thesis
    proof (cases "parsed vs = {}")
      case True
      then show ?thesis using Inr snoc step by (simp add: latest_step_def parsed_snoc)
    next
      case False
      have m: "Max (parsed vs) \<in> parsed vs"
        using finite_parsed False by (rule Max_in)
      have "0 < Compare v (Max (parsed vs)) \<longleftrightarrow> Max (parsed vs) < v"
        using Compare_order [OF Parse_wf [OF Inr] parsed_wf [OF m]] by auto
      moreover have "Max (insert v (parsed vs)) = max v (Max (parsed vs))"
        using finite_parsed False by (rule Max_insert)
      moreover have "Latest vs = (Max (parsed vs), True)"
        using snoc False by simp
      ultimately show ?thesis using Inr step
        by (simp add: latest_step_def parsed_snoc max_def not_le)
    qed
  qed
qed

text \<open>A version whose fields can all still be incremented.\<close>

definition version_room :: "Version \<Rightarrow> bool" where
  "version_room v \<longleftrightarrow> version_wf v \<and> sint (Major v) < 2 ^ 63 - 1
     \<and> sint (Minor v) < 2 ^ 63 - 1 \<and> sint (Patch v) < 2 ^ 63 - 1"

lemma Bump_wf: "version_room v \<Longrightarrow> Bump v kind = Inr w \<Longrightarrow> version_wf w"
  by (auto simp: Bump_def version_room_def version_wf_def sint_Suc split: if_splits)

lemma Bump_less: "version_room v \<Longrightarrow> Bump v kind = Inr w \<Longrightarrow> v < w"
  by (auto simp: Bump_def version_room_def version_wf_def sint_Suc version_order_defs
      split: if_splits)

lemma Bump_kinds: "(\<exists>w. Bump v kind = Inr w) \<longleftrightarrow> kind \<in> {''major'', ''minor'', ''patch''}"
  by (auto simp: Bump_def)

lemma version_zero_room: "version_room version_zero"
  by (simp add: version_room_def version_wf_def version_zero_def)

lemma version_zero_le: "version_wf v \<Longrightarrow> version_zero \<le> v"
  by (cases v) (auto simp: version_zero_def version_wf_def version_order_defs)


section \<open>The interface the release operation relies on\<close>

text \<open>
  Releasing reads the existing version strings, takes the latest (or a zero) and bumps it. All it
  needs of the version type is here: printing parses back, bumping goes up, \<open>latest\<close> is an
  upper bound. The lemmas of the locale say what releasing then guarantees.
\<close>

locale versioning =
  fixes parse :: "string \<Rightarrow> 'e + 'v :: linorder"
    and print :: "'v \<Rightarrow> string"
    and bump :: "'v \<Rightarrow> string \<Rightarrow> 'e + 'v"
    and latest :: "string list \<Rightarrow> 'v \<times> bool"
    and zero :: 'v
    and wf :: "'v \<Rightarrow> bool"
    and room :: "'v \<Rightarrow> bool"
  assumes parse_wf: "parse s = Inr v \<Longrightarrow> wf v"
    and parse_print: "wf v \<Longrightarrow> parse (print v) = Inr v"
    and bump_wf: "room v \<Longrightarrow> bump v k = Inr w \<Longrightarrow> wf w"
    and bump_less: "room v \<Longrightarrow> bump v k = Inr w \<Longrightarrow> v < w"
    and zero_le: "wf v \<Longrightarrow> zero \<le> v"
    and latest_ub: "latest ss = (b, True) \<Longrightarrow> s \<in> set ss \<Longrightarrow> parse s = Inr v \<Longrightarrow> v \<le> b"
    and latest_none: "latest ss = (b, False) \<Longrightarrow> s \<in> set ss \<Longrightarrow> parse s \<noteq> Inr v"
begin

lemma next_above_all:
  assumes cur: "cur = (case latest ss of (b, ok) \<Rightarrow> if ok then b else zero)"
    and r: "room cur" and b: "bump cur k = Inr w"
    and s: "s \<in> set ss" "parse s = Inr v"
  shows "v < w"
proof (cases "latest ss")
  case (Pair best ok)
  show ?thesis
  proof (cases ok)
    case True
    then have "v \<le> cur" using Pair cur s by (auto intro: latest_ub)
    then show ?thesis using bump_less [OF r b] by simp
  next
    case False
    then show ?thesis using Pair s latest_none [of ss best s v] by simp
  qed
qed

lemma next_fresh:
  assumes "cur = (case latest ss of (b, ok) \<Rightarrow> if ok then b else zero)"
    and r: "room cur" and b: "bump cur k = Inr w"
  shows "print w \<notin> set ss"
proof
  assume "print w \<in> set ss"
  moreover have "parse (print w) = Inr w"
    using bump_wf [OF r b] by (rule parse_print)
  ultimately have "w < w" using next_above_all [OF assms] by blast
  then show False by simp
qed

end

interpretation sv: versioning Parse String Bump Latest version_zero version_wf version_room
proof unfold_locales
  fix ss b s v
  assume "Latest ss = (b, True)" and "s \<in> set ss" and "Parse s = Inr v"
  then show "v \<le> b"
    using finite_parsed by (auto simp: Latest_correct parsed_def split: if_splits intro!: Max_ge)
next
  fix ss b s v
  assume "Latest ss = (b, False)" and "s \<in> set ss"
  then show "Parse s \<noteq> Inr v"
    by (auto simp: Latest_correct parsed_def split: if_splits)
qed (auto simp: Parse_String version_zero_le intro: Parse_wf Bump_wf Bump_less)

section \<open>Round trip, latest and overflow\<close>

lemma parsed_some: "(\<exists>s. Parse s = Inr v) \<longleftrightarrow> version_wf v"
  using Parse_wf Parse_String by blast

text \<open>
  Printing is the inverse of parsing on exactly the versions that can be parsed: a version is
  the result of \<open>Parse\<close> on some string if and only if \<open>Parse\<close> gives it back from its
  own printed form. So \<open>String (Parse s)\<close> is a normal form (leading zeros dropped) that
  parses to the same version.
\<close>

theorem version_round_trip:
  "(\<exists>s. Parse s = Inr v) \<longleftrightarrow> Parse (String v) = Inr v"
  using parsed_some Parse_String by blast

text \<open>
  C24: \<open>Latest\<close> is the maximum. The loop of \<open>Latest\<close>, with its comparison by 64-bit
  subtractions, returns the greatest of all versions that parse, in the lexicographic order of the
  three numbers, and reports false (with the zero version) exactly when none parses.
\<close>

theorem Latest_is_maximum:
  "Latest vs = (if \<forall>s \<in> set vs. \<forall>v. Parse s \<noteq> Inr v then (version_zero, False)
     else (Max {v. \<exists>s \<in> set vs. Parse s = Inr v}, True))"
proof -
  have "(\<forall>s \<in> set vs. \<forall>v. Parse s \<noteq> Inr v) \<longleftrightarrow> parsed vs = {}"
    by (auto simp: parsed_def)
  then show ?thesis
    by (simp add: Latest_correct parsed_def)
qed

theorem Latest_is_maximum_witness:
  "Max {v. \<exists>s \<in> set [''v1.2.3'', ''v1.10.0'', ''latest'']. Parse s = Inr v} = \<lparr> Major = 1, Minor = 10, Patch = 0 \<rparr>"
proof -
  let ?vs = "[''v1.2.3'', ''v1.10.0'', ''latest'']"
  have l: "Latest ?vs = (\<lparr> Major = 1, Minor = 10, Patch = 0 \<rparr>, True)"
    by code_simp
  have "Parse ''v1.2.3'' = Inr \<lparr> Major = 1, Minor = 2, Patch = 3 \<rparr>"
    by code_simp
  then have "\<not> (\<forall>s \<in> set ?vs. \<forall>v. Parse s \<noteq> Inr v)"
    by (metis list.set_intros(1))
  from Latest_is_maximum [of ?vs, unfolded if_not_P [OF this]] show ?thesis
    unfolding l prod.inject by (elim conjE) (rule sym)
qed

text \<open>The number that a bump of a kind increments.\<close>

definition bumped_field :: "string \<Rightarrow> Version \<Rightarrow> int" where
  "bumped_field kind v = sint (if kind = ''major'' then Major v else if kind = ''minor'' then Minor v else Patch v)"

lemma sint_max_Suc:
  assumes "sint (x :: goint) = 2 ^ 63 - 1"
  shows "x + 1 = - (2 ^ 63)"
proof -
  have "sint x = sint (2 ^ 63 - 1 :: goint)"
    using assms by simp
  then have "x = 2 ^ 63 - 1"
    by (rule signed_word_eqI)
  then show ?thesis by simp
qed

lemma sint_min: "sint (- (2 ^ 63) :: goint) = - (2 ^ 63)"
  by simp

lemma show_int_neg: "i < 0 \<Longrightarrow> show_int i = CHR ''-'' # show_nat (nat (- i))"
  by (simp add: show_int_def)

lemma split_on_set: "c \<in> set s \<Longrightarrow> c = d \<or> (\<exists>w \<in> set (split_on d s). c \<in> set w)"
  by (induction d s rule: split_on.induct) (auto split: list.splits)

lemma submatch_no_minus: "version_submatch s = Some m \<Longrightarrow> CHR ''-'' \<notin> set s"
proof
  assume "version_submatch s = Some m" and minus: "CHR ''-'' \<in> set s"
  then obtain r a b d where s: "s = CHR ''v'' # r" and r: "split_on CHR ''.'' r = [a, b, d]"
      and dig: "all_digits a" "all_digits b" "all_digits d"
    by (auto simp: version_submatch_def split: list.splits if_splits)
  have "CHR ''-'' \<in> set a \<union> set b \<union> set d"
    using minus split_on_set [of "CHR ''-''" r "CHR ''.''"] by (auto simp: s r)
  moreover have "\<not> is_digit (CHR ''-'')"
    by (simp add: is_digit_def)
  ultimately show False
    using dig by (auto simp: all_digits_def list_all_iff)
qed

lemma Parse_negative:
  assumes "\<not> version_wf v"
  shows "Parse (String v) = Inl (InvalidVersion (String v))"
proof -
  have "CHR ''-'' \<in> set (String v)"
    using assms by (auto simp: version_wf_def String_def show_int_neg not_le)
  then have "version_submatch (String v) = None"
    using submatch_no_minus by (cases "version_submatch (String v)") auto
  then show ?thesis by (simp add: Parse_def)
qed

text \<open>
  C25: Where bumping stops being an increment. On a version that \<open>Parse\<close> can return, a bump
  gives a greater version that prints and parses back as long as the incremented number is below
  \<open>2^63 - 1\<close>. At \<open>2^63 - 1\<close>, which \<open>Parse\<close> returns for any longer number too,
  the addition wraps around: the result is smaller and its printed form no longer parses.
\<close>

theorem Bump_bounds:
  assumes "Parse s = Inr v" and "Bump v kind = Inr w"
  shows "if bumped_field kind v < 2 ^ 63 - 1
     then bumped_field kind w = bumped_field kind v + 1 \<and> v < w \<and> Parse (String w) = Inr w
     else bumped_field kind w = - (2 ^ 63) \<and> w < v \<and> Parse (String w) = Inl (InvalidVersion (String w))"
proof (cases "bumped_field kind v < 2 ^ 63 - 1")
  case True
  have wf: "version_wf v" using assms(1) by (rule Parse_wf)
  have "bumped_field kind w = bumped_field kind v + 1 \<and> v < w \<and> version_wf w"
    using assms(2) wf True
    by (auto simp: Bump_def bumped_field_def version_wf_def sint_Suc version_order_defs split: if_splits)
  then show ?thesis using True by (simp add: Parse_String)
next
  case False
  have wf: "version_wf v" using assms(1) by (rule Parse_wf)
  have max: "sint x = 2 ^ 63 - 1" if "\<not> sint x < 2 ^ 63 - 1" for x :: goint
    using that sint_lt_max [of x] by simp
  have "bumped_field kind w = - (2 ^ 63) \<and> w < v \<and> \<not> version_wf w"
    using assms(2) wf False
    by (auto simp: Bump_def bumped_field_def version_wf_def version_order_defs sint_max_Suc [OF max] sint_min
        split: if_splits)
  then show ?thesis using False by (simp add: Parse_negative)
qed

theorem Bump_bounds_witness:
  "Parse ''v-9223372036854775808.0.0'' = Inl (InvalidVersion ''v-9223372036854775808.0.0'')"
proof -
  let ?v = "\<lparr> Major = 2 ^ 63 - 1, Minor = 2, Patch = 3 \<rparr> :: Version"
  let ?w = "\<lparr> Major = - (2 ^ 63), Minor = 0, Patch = 0 \<rparr> :: Version"
  have p: "Parse ''v9223372036854775807.2.3'' = Inr ?v"
    by code_simp
  have b: "Bump ?v ''major'' = Inr ?w"
    by (simp add: Bump_def)
  have f: "\<not> bumped_field ''major'' ?v < 2 ^ 63 - 1"
    by (simp add: bumped_field_def)
  have str: "String ?w = ''v-9223372036854775808.0.0''"
    by code_simp
  from Bump_bounds [OF p b] show ?thesis
    unfolding if_not_P [OF f] str by blast
qed

end
