(* ===== verification/Core.thy ===== *)
theory Core
  imports Store Gitstore Semver Compiler
begin

text \<open>
  The service facade \<open>internal/core/core.go\<close>: one definition per method of \<open>Service\<close>, named
  \<open>Svc_...\<close>. Its state is the database and the git plane together; \<open>onDB\<close> and
  \<open>onGit\<close> run a method of either on its part. Every method first resolves the project and the
  caller's role and passes the gate of its one action; what it then does, and in which order, is
  written out with every error path.
\<close>

section \<open>Service, state, caller\<close>

record 'w Service =
  DB :: dbms
  Git :: "'w host"
  Svc_Version :: string
  Lib :: golib

record 'w sys =
  sys_db :: db
  sys_git :: "'w gitstate"

definition onDB :: "(db, 'a) go \<Rightarrow> ('w sys, 'a) go" where
  "onDB m = zoom sys_db (\<lambda>d w. w\<lparr>sys_db := d\<rparr>) m"

definition onGit :: "('w gitstate, 'a) go \<Rightarrow> ('w sys, 'a) go" where
  "onGit m = zoom sys_git (\<lambda>g w. w\<lparr>sys_git := g\<rparr>) m"

record Actor =
  Actor_UserID :: uuid
  Actor_Username :: string
  Actor_OrgID :: uuid
  Actor_OrgSlug :: string
  Actor_OrgRole :: OrgRole
  Actor_Identity :: string

text \<open>The role a caller has on a project: the project role, or maintainer for org managers without one.\<close>

definition effective_role :: "Actor \<Rightarrow> Role \<Rightarrow> Role" where
  "effective_role a role =
     (if role = RoleNone \<and> OrgCanManage (Actor_OrgRole a) then RoleMaintainer else role)"

definition projectCtx :: "'w Service \<Rightarrow> Actor \<Rightarrow> string \<Rightarrow> ('w sys, Project \<times> Role) go" where
  "projectCtx S a slug =
     handle (onDB (DB_GetProject (DB S) (Actor_OrgID a) slug))
       (\<lambda>e. failwith (if is_not_found e then ProjectNotFound slug (Actor_OrgSlug a) else e))
       (\<lambda>p. andThen (onDB (DB_ProjectRole (DB S) (Project_ID p) (Actor_UserID a))) (\<lambda>role.
            ret (p, effective_role a role)))"

definition gate :: "Role \<Rightarrow> Action \<Rightarrow> ('s, unit) go" where
  "gate role action = (case Can role action of None \<Rightarrow> ret () | Some d \<Rightarrow> failwith (Denied d))"

text \<open>Every method but \<open>WhoAmI\<close> starts with these two.\<close>

definition authorized ::
  "'w Service \<Rightarrow> Actor \<Rightarrow> string \<Rightarrow> Action \<Rightarrow> (Project \<Rightarrow> Role \<Rightarrow> ('w sys, 'a) go) \<Rightarrow> ('w sys, 'a) go" where
  "authorized S a slug action body =
     andThen (projectCtx S a slug) (\<lambda>(p, role). andThen (gate role action) (\<lambda>_. body p role))"

definition trailers :: "'w Service \<Rightarrow> Actor \<Rightarrow> (string \<times> string) list" where
  "trailers S a = [(''Ubiqo-User'', Actor_Username a), (''Ubiqo-Identity'', Actor_Identity a),
     (''Ubiqo-Server'', Svc_Version S)]"

definition firstLine :: "string \<Rightarrow> string" where
  "firstLine s =
     (let s = takeWhile (\<lambda>c. c \<noteq> CHR 10) (TrimSpace s) in
      if 160 < length s then take 160 s @ ellipsis else s)"

text \<open>\<open>_ = s.DB.AppendEvent(ctx, a.OrgID, &p.ID, &a.UserID, a.Identity, kind, summary)\<close>\<close>

definition append_event :: "'w Service \<Rightarrow> Actor \<Rightarrow> Project \<Rightarrow> string \<Rightarrow> string \<Rightarrow> ('w sys, unit) go" where
  "append_event S a p kind summary =
     onDB (DB_AppendEvent (DB S) (Actor_OrgID a) (Some (Project_ID p)) (Some (Actor_UserID a))
       (Actor_Identity a) kind summary)"

section \<open>WhoAmI\<close>

record WhoAmI =
  WhoAmI_Username :: string
  WhoAmI_Org :: string
  WhoAmI_OrgRole :: string
  WhoAmI_Identity :: string
  WhoAmI_Projects :: "(string \<times> string) list"

text \<open>The map of projects is given by its entries in the order of insertion; slugs are distinct.\<close>

definition Svc_WhoAmI :: "'w Service \<Rightarrow> Actor \<Rightarrow> ('w sys, WhoAmI) go" where
  "Svc_WhoAmI S a =
     andThen (onDB (DB_ListProjects (DB S) (Actor_OrgID a))) (\<lambda>projects.
     andThen (forEach projects (\<lambda>p.
       andThen (onDB (DB_ProjectRole (DB S) (Project_ID p) (Actor_UserID a))) (\<lambda>role.
       ret (Project_Slug p, effective_role a role)))) (\<lambda>roles.
     ret \<lparr> WhoAmI_Username = Actor_Username a, WhoAmI_Org = Actor_OrgSlug a,
           WhoAmI_OrgRole = Actor_OrgRole a, WhoAmI_Identity = Actor_Identity a,
           WhoAmI_Projects = filter (\<lambda>(slug, role). role \<noteq> RoleNone) roles \<rparr>))"

section \<open>Context bundle\<close>

record ContextBundle =
  CB_BundleVersion :: string
  CB_Instructions :: string
  CB_Digest :: string
  CB_Memories :: string

definition event_line :: "golib \<Rightarrow> Event \<Rightarrow> string" where
  "event_line lib e =
     (let id = Event_ActorUsername e
            @ (if Event_IdentityLabel e \<noteq> '''' then '' via '' @ Event_IdentityLabel e else '''') in
      ''['' @ formatTime lib ''2006-01-02 15:04'' (Event_CreatedAt e) @ ''] '' @ Event_Kind e
        @ '' ('' @ id @ ''): '' @ ReplaceAll (Event_Summary e) newline '' '' @ newline)"

definition digest_text :: "golib \<Rightarrow> Event list \<Rightarrow> string" where
  "digest_text lib evs =
     (if evs = [] then ''''
      else ''### Recent team activity'' @ newline
        @ Frame lib ''ubiqo activity feed'' (TrimSpace (concat (map (event_line lib) (rev evs)))))"

definition activityDigest :: "'w Service \<Rightarrow> Project \<Rightarrow> int \<Rightarrow> ('w sys, string) go" where
  "activityDigest S p limit =
     andThen (onDB (DB_RecentEvents (DB S) (Project_ID p) limit)) (\<lambda>evs.
     ret (digest_text (Lib S) evs))"

definition memory_line :: "golib \<Rightarrow> Memory \<Rightarrow> string" where
  "memory_line lib m =
     ''- ('' @ Memory_Scope m @ '', by '' @ Memory_CreatedBy m @ '', ''
       @ formatTime lib ''2006-01-02'' (Memory_CreatedAt m) @ '') ''
       @ ReplaceAll (Memory_Content m) newline '' '' @ newline"

definition frameMemories :: "golib \<Rightarrow> Memory list \<Rightarrow> string" where
  "frameMemories lib mems =
     (if mems = [] then ''''
      else ''### Memories'' @ newline
        @ Frame lib ''ubiqo memories'' (TrimSpace (concat (map (memory_line lib) (rev mems)))))"

text \<open>\<open>latest[name].Version\<close> of a Go map: the zero value when absent.\<close>

definition version_in :: "(string \<Rightarrow> Release option) \<Rightarrow> string \<Rightarrow> string" where
  "version_in latest name = (case latest name of None \<Rightarrow> '''' | Some r \<Rightarrow> Release_Version r)"

definition compiler_input ::
  "'w Service \<Rightarrow> Org \<Rightarrow> Project \<Rightarrow> MemberView list \<Rightarrow> string list \<Rightarrow> (string \<Rightarrow> Release option)
     \<Rightarrow> Proposal list \<Rightarrow> Input" where
  "compiler_input S og p members artNames latest open =
     \<lparr> OrgSlug = Org_Slug og, OrgName = Org_Name og, OrgInstructions = Org_Instructions og,
       ProjectSlug = Project_Slug p, ProjectName = Project_Name p,
       ProjectInstructions = Project_Instructions p, SoloMode = Project_SoloMode p,
       Members = map (\<lambda>m. \<lparr> Member_Username = MV_Username m, Member_Role = MV_Role m \<rparr>) members,
       Artifacts = map (\<lambda>name. \<lparr> Artifact_Name = name, LatestVersion = version_in latest name,
           OpenProposals = int (length (filter (\<lambda>pr. Proposal_Artifact pr = name) open)) \<rparr>) artNames,
       ServerVersion = Svc_Version S \<rparr>"

definition Svc_GetContext ::
  "'w Service \<Rightarrow> Actor \<Rightarrow> string \<Rightarrow> string \<Rightarrow> ('w sys, ContextBundle) go" where
  "Svc_GetContext S a projectSlug section =
     authorized S a projectSlug ContextRead (\<lambda>p role.
     andThen (onDB (DB_GetOrgBySlug (DB S) (Actor_OrgSlug a))) (\<lambda>og.
     andThen (onDB (DB_ProjectMembers (DB S) (Project_ID p))) (\<lambda>members.
     andThen (onGit (Git_ListArtifacts (Git S) (Actor_OrgSlug a) (Project_Slug p))) (\<lambda>artNames.
     andThen (onDB (DB_LatestReleases (DB S) (Project_ID p))) (\<lambda>latest.
     andThen (onDB (DB_ListProposals (DB S) (Project_ID p) ''open'')) (\<lambda>open.
     let b = Compile (Lib S) (compiler_input S og p members artNames latest open);
         header = IdentityHeader (Actor_Username a) role (Project_SoloMode p);
         out = \<lparr> CB_BundleVersion = Bundle_Version b, CB_Instructions = header @ ClaudeMD b,
                 CB_Digest = '''', CB_Memories = '''' \<rparr> in
     andThen
       (if section = '''' \<or> section = ''full'' \<or> section = ''digest'' then
          andThen (activityDigest S p 15) (\<lambda>digest.
          andThen (onDB (DB_Recall (DB S) (Actor_OrgID a) (Actor_UserID a) (Some (Project_ID p)) '''' 5)) (\<lambda>mems.
          ret (out\<lparr>CB_Digest := digest, CB_Memories := frameMemories (Lib S) mems\<rparr>)))
        else ret out) (\<lambda>out.
     let out = (if section = ''instructions'' then out\<lparr>CB_Digest := '''', CB_Memories := ''''\<rparr> else out);
         out = (if section = ''digest'' then out\<lparr>CB_Instructions :=
                  header @ ''(instructions omitted; bundle '' @ Bundle_Version b @ '')''\<rparr> else out) in
     ret out)))))))"

section \<open>Artifacts\<close>

record ArtifactInfo =
  AI_Name :: string
  AI_LatestRelease :: string
  AI_ReadPinned :: string

definition artifact_info :: "(string \<Rightarrow> Release option) \<Rightarrow> string \<Rightarrow> ArtifactInfo" where
  "artifact_info latest n =
     \<lparr> AI_Name = n, AI_LatestRelease = version_in latest n,
       AI_ReadPinned = (if version_in latest n \<noteq> '''' then
          (case latest n of None \<Rightarrow> '''' | Some r \<Rightarrow> Release_Tag r) else '''') \<rparr>"

definition Svc_ListArtifacts :: "'w Service \<Rightarrow> Actor \<Rightarrow> string \<Rightarrow> ('w sys, ArtifactInfo list) go" where
  "Svc_ListArtifacts S a projectSlug =
     authorized S a projectSlug ArtifactRead (\<lambda>p role.
     andThen (onGit (Git_ListArtifacts (Git S) (Actor_OrgSlug a) (Project_Slug p))) (\<lambda>names.
     andThen (onDB (DB_LatestReleases (DB S) (Project_ID p))) (\<lambda>latest.
     ret (map (artifact_info latest) names))))"

record ArtifactContent =
  AC_Artifact :: string
  AC_Ref :: string
  AC_Files :: "TreeEntry list"
  AC_Path :: string
  AC_Content :: string

definition Svc_ReadArtifact ::
  "'w Service \<Rightarrow> Actor \<Rightarrow> string \<Rightarrow> string \<Rightarrow> string \<Rightarrow> string \<Rightarrow> ('w sys, ArtifactContent) go" where
  "Svc_ReadArtifact S a projectSlug artifact ref path =
     authorized S a projectSlug ArtifactRead (\<lambda>p role.
     let ref = (if ref = '''' then ''main'' else ref);
         out = \<lparr> AC_Artifact = artifact, AC_Ref = ref, AC_Files = [], AC_Path = '''', AC_Content = '''' \<rparr> in
     if path = '''' then
       andThen (onGit (Git_ListTree (Git S) (Actor_OrgSlug a) (Project_Slug p) ref artifact)) (\<lambda>tree.
       ret (out\<lparr>AC_Files := tree\<rparr>))
     else
       andThen (onGit (Git_ReadFile (Git S) (Actor_OrgSlug a) (Project_Slug p) ref artifact path)) (\<lambda>content.
       ret (out\<lparr>AC_Path := path, AC_Content :=
         Frame (Lib S) (''artifact '' @ artifact @ ''/'' @ path @ ''@'' @ ref) content\<rparr>)))"

record WriteResult =
  WR_CommitSHA :: string
  WR_Branch :: string
  WR_WroteToMain :: bool
  WR_NextStep :: string

text \<open>The branch a write goes to: main in solo mode, the caller's own branch otherwise.\<close>

definition write_branch :: "Project \<Rightarrow> Actor \<Rightarrow> string \<Rightarrow> string" where
  "write_branch p a artifact =
     (if \<not> Project_SoloMode p then ProposalBranch (Actor_Username a) artifact else ''main'')"

definition write_body ::
  "'w Service \<Rightarrow> Actor \<Rightarrow> string \<Rightarrow> string \<Rightarrow> File list \<Rightarrow> Project \<Rightarrow> ('w sys, WriteResult) go" where
  "write_body S a artifact message files p =
    (let branch = write_branch p a artifact in
     andThen (onGit (Git_WriteFiles (Git S) (Actor_OrgSlug a) (Project_Slug p) branch artifact files
         message (trailers S a))) (\<lambda>sha.
     let onMain = (branch = ''main'') in
     andThen (ignoring (append_event S a p ''artifact.written''
         (''wrote '' @ show_nat (length files) @ '' file(s) to '' @ artifact @ '' on '' @ branch
            @ '': '' @ firstLine message))) (\<lambda>_.
     ret \<lparr> WR_CommitSHA = sha, WR_Branch = branch, WR_WroteToMain = onMain,
       WR_NextStep = (if \<not> onMain then
         ''changes are on your branch; call ubiqo_propose_merge to submit them for review'' else '''') \<rparr>)))"

definition Svc_WriteArtifact ::
  "'w Service \<Rightarrow> Actor \<Rightarrow> string \<Rightarrow> string \<Rightarrow> string \<Rightarrow> File list \<Rightarrow> ('w sys, WriteResult) go" where
  "Svc_WriteArtifact S a projectSlug artifact message files =
     authorized S a projectSlug ArtifactWrite (\<lambda>p role. write_body S a artifact message files p)"

section \<open>Proposals\<close>

record ProposalResult =
  PR_ProposalID :: string
  PR_Branch :: string
  PR_Status :: string
  PR_NextStep :: string

definition Svc_ProposeMerge ::
  "'w Service \<Rightarrow> Actor \<Rightarrow> string \<Rightarrow> string \<Rightarrow> string \<Rightarrow> ('w sys, ProposalResult) go" where
  "Svc_ProposeMerge S a projectSlug artifact summary =
     authorized S a projectSlug ProposalCreate (\<lambda>p role.
     if Project_SoloMode p then failwith SoloNeedsNoProposal else
     let branch = ProposalBranch (Actor_Username a) artifact in
     andThen (onDB (DB_CreateProposal (DB S) (Actor_OrgID a) (Project_ID p) artifact branch
         (Actor_UserID a) summary)) (\<lambda>id.
     andThen (ignoring (append_event S a p ''proposal.created''
         (''proposed merge of '' @ artifact @ '' ('' @ firstLine summary @ ''): '' @ uuidString (Lib S) id))) (\<lambda>_.
     ret \<lparr> PR_ProposalID = uuidString (Lib S) id, PR_Branch = branch, PR_Status = ''open'',
       PR_NextStep = ''a maintainer reviews with ubiqo_list_proposals / ubiqo_merge_proposal'' \<rparr>)))"

record ProposalView =
  PV_ID :: string
  PV_Artifact :: string
  PV_Proposer :: string
  PV_Summary :: string
  PV_Status :: string
  PV_Conflicts :: "string list"
  PV_Diff :: string
  PV_CreatedAt :: string

definition proposal_view :: "golib \<Rightarrow> Proposal \<Rightarrow> ProposalView" where
  "proposal_view lib pr =
     \<lparr> PV_ID = uuidString lib (Proposal_ID pr), PV_Artifact = Proposal_Artifact pr,
       PV_Proposer = Proposal_Proposer pr, PV_Summary = Proposal_Summary pr,
       PV_Status = Proposal_Status pr, PV_Conflicts = Proposal_ConflictFiles pr, PV_Diff = '''',
       PV_CreatedAt = formatTime lib ''2006-01-02T15:04:05Z07:00'' (Proposal_CreatedAt pr) \<rparr>"

definition Svc_ListProposals ::
  "'w Service \<Rightarrow> Actor \<Rightarrow> string \<Rightarrow> string \<Rightarrow> bool \<Rightarrow> ('w sys, ProposalView list) go" where
  "Svc_ListProposals S a projectSlug status withDiff =
     authorized S a projectSlug ArtifactRead (\<lambda>p role.
     andThen (onDB (DB_ListProposals (DB S) (Project_ID p) status)) (\<lambda>props.
     forEach props (\<lambda>pr.
       let v = proposal_view (Lib S) pr in
       if withDiff \<and> Proposal_Status pr = ''open'' then
         handle (onGit (Git_DiffStat (Git S) (Actor_OrgSlug a) (Project_Slug p) (Proposal_Branch pr)))
           (\<lambda>_. ret v)
           (\<lambda>diff. ret (v\<lparr>PV_Diff := Frame (Lib S)
              (''proposal diff '' @ uuidString (Lib S) (Proposal_ID pr)) diff\<rparr>))
       else ret v)))"

record MergeOutcome =
  MO_Status :: string
  MO_CommitSHA :: string
  MO_Conflicts :: "string list"
  MO_NextStep :: string

definition merge_message :: "golib \<Rightarrow> Proposal \<Rightarrow> string" where
  "merge_message lib pr =
     ''merge '' @ Proposal_Artifact pr @ '': '' @ firstLine (Proposal_Summary pr) @ '' (proposal ''
       @ uuidString lib (Proposal_ID pr) @ '' by '' @ Proposal_Proposer pr @ '')''"

definition conflict_advice :: "golib \<Rightarrow> Proposal \<Rightarrow> string" where
  "conflict_advice lib pr =
     ''ask '' @ Proposal_Proposer pr
       @ '' to update their branch: read the conflicting files at ref '' @ Quote (isPrint lib) (Proposal_Branch pr)
       @ '' and at main, reconcile whole files with ubiqo_write_artifact, then merge again''"

text \<open>What is recorded after git has answered.\<close>

definition record_merge ::
  "'w Service \<Rightarrow> Actor \<Rightarrow> Project \<Rightarrow> Proposal \<Rightarrow> MergeResult \<Rightarrow> ('w sys, MergeOutcome) go" where
  "record_merge S a p pr res =
    (if MR_Conflicts res \<noteq> [] then
       andThen (ignoring (onDB (DB_ResolveProposal (DB S) (Proposal_ID pr) ''conflicted''
           (Actor_UserID a) (MR_Conflicts res)))) (\<lambda>_.
       andThen (ignoring (append_event S a p ''proposal.conflicted''
           (''merge of '' @ Proposal_Artifact pr @ '' hit conflicts in ''
              @ join_with '', '' (MR_Conflicts res)))) (\<lambda>_.
       ret \<lparr> MO_Status = ''conflicted'', MO_CommitSHA = '''', MO_Conflicts = MR_Conflicts res,
             MO_NextStep = conflict_advice (Lib S) pr \<rparr>))
     else
       andThen (ignoring (onDB (DB_ResolveProposal (DB S) (Proposal_ID pr) ''merged''
           (Actor_UserID a) []))) (\<lambda>_.
       andThen (ignoring (onGit (Git_DeleteBranch (Git S) (Actor_OrgSlug a) (Project_Slug p)
           (Proposal_Branch pr)))) (\<lambda>_.
       andThen (ignoring (append_event S a p ''proposal.merged''
           (''merged '' @ Proposal_Artifact pr @ '' (proposal by '' @ Proposal_Proposer pr @ ''): ''
              @ firstLine (Proposal_Summary pr)))) (\<lambda>_.
       ret \<lparr> MO_Status = ''merged'', MO_CommitSHA = MR_SHA res, MO_Conflicts = [],
             MO_NextStep = ''consider ubiqo_release_artifact to cut a semver release consumers can pin'' \<rparr>))))"

definition merge_body ::
  "'w Service \<Rightarrow> Actor \<Rightarrow> string \<Rightarrow> Project \<Rightarrow> ('w sys, MergeOutcome) go" where
  "merge_body S a proposalID p =
     (case uuidParse (Lib S) proposalID of
        None \<Rightarrow> failwith (InvalidProposalId proposalID)
      | Some pid \<Rightarrow>
     andThen (onDB (DB_GetProposal (DB S) (Project_ID p) pid)) (\<lambda>pr.
     if Proposal_Status pr \<noteq> ''open'' \<and> Proposal_Status pr \<noteq> ''conflicted''
     then failwith (ProposalNotMergeable (Proposal_Status pr)) else
     andThen (onGit (Git_Merge (Git S) (Actor_OrgSlug a) (Project_Slug p) (Proposal_Branch pr)
         (merge_message (Lib S) pr) (trailers S a))) (\<lambda>res.
     record_merge S a p pr res)))"

definition Svc_MergeProposal ::
  "'w Service \<Rightarrow> Actor \<Rightarrow> string \<Rightarrow> string \<Rightarrow> ('w sys, MergeOutcome) go" where
  "Svc_MergeProposal S a projectSlug proposalID =
     authorized S a projectSlug ProposalMerge (\<lambda>p role. merge_body S a proposalID p)"

section \<open>Releases\<close>

record ReleaseResult =
  RR_Artifact :: string
  RR_Version :: string
  RR_Tag :: string

text \<open>From the chosen version on: tag, row, event.\<close>

definition publish_release ::
  "'w Service \<Rightarrow> Actor \<Rightarrow> string \<Rightarrow> string \<Rightarrow> Project \<Rightarrow> Version \<Rightarrow> ('w sys, ReleaseResult) go" where
  "publish_release S a artifact notes p next =
     andThen (onGit (Git_Tag (Git S) (Actor_OrgSlug a) (Project_Slug p) artifact (String next) notes)) (\<lambda>tag.
     andThen (onDB (DB_CreateRelease (DB S) (Actor_OrgID a) (Project_ID p) artifact (String next) tag
         notes (Actor_UserID a))) (\<lambda>_.
     andThen (ignoring (append_event S a p ''release.published''
         (''released '' @ artifact @ '' '' @ String next @ '': '' @ firstLine notes))) (\<lambda>_.
     ret \<lparr> RR_Artifact = artifact, RR_Version = String next, RR_Tag = tag \<rparr>)))"

definition release_body ::
  "'w Service \<Rightarrow> Actor \<Rightarrow> string \<Rightarrow> string \<Rightarrow> string \<Rightarrow> Project \<Rightarrow> ('w sys, ReleaseResult) go" where
  "release_body S a artifact bump notes p =
     andThen (onGit (Git_Versions (Git S) (Actor_OrgSlug a) (Project_Slug p) artifact)) (\<lambda>versions.
     let (cur, ok) = Latest versions; cur = (if \<not> ok then version_zero else cur) in
     andThen (ofSum (Bump cur bump)) (publish_release S a artifact notes p))"

definition Svc_ReleaseArtifact ::
  "'w Service \<Rightarrow> Actor \<Rightarrow> string \<Rightarrow> string \<Rightarrow> string \<Rightarrow> string \<Rightarrow> ('w sys, ReleaseResult) go" where
  "Svc_ReleaseArtifact S a projectSlug artifact bump notes =
     authorized S a projectSlug ReleaseCreate (\<lambda>p role. release_body S a artifact bump notes p)"

section \<open>Memory\<close>

record MemoryResult =
  MemR_ID :: string
  MemR_Scope :: string

definition Svc_Remember ::
  "'w Service \<Rightarrow> Actor \<Rightarrow> string \<Rightarrow> string \<Rightarrow> string \<Rightarrow> ('w sys, MemoryResult) go" where
  "Svc_Remember S a projectSlug scope content =
     authorized S a projectSlug MemoryWrite (\<lambda>p role.
     andThen (if scope = ''user'' then ret (Some (Actor_UserID a), None)
              else if scope = ''project'' then ret (None, Some (Project_ID p))
              else failwith BadScope) (\<lambda>(userID, projectID).
     andThen (onDB (DB_Remember (DB S) (Actor_OrgID a) scope userID projectID (TrimSpace content)
         (Actor_UserID a))) (\<lambda>id.
     ret \<lparr> MemR_ID = uuidString (Lib S) id, MemR_Scope = scope \<rparr>)))"

record RecallResult =
  RecR_Memories :: string
  RecR_Count :: nat

definition Svc_Recall ::
  "'w Service \<Rightarrow> Actor \<Rightarrow> string \<Rightarrow> string \<Rightarrow> int \<Rightarrow> ('w sys, RecallResult) go" where
  "Svc_Recall S a projectSlug q limit =
     authorized S a projectSlug MemoryRead (\<lambda>p role.
     let limit = (if limit \<le> 0 \<or> 20 < limit then 8 else limit) in
     andThen (onDB (DB_Recall (DB S) (Actor_OrgID a) (Actor_UserID a) (Some (Project_ID p)) q limit)) (\<lambda>mems.
     ret \<lparr> RecR_Memories = frameMemories (Lib S) mems, RecR_Count = length mems \<rparr>))"

section \<open>Activity\<close>

record ActivityResult =
  ActR_Digest :: string
  ActR_Count :: nat

definition Svc_Activity :: "'w Service \<Rightarrow> Actor \<Rightarrow> string \<Rightarrow> int \<Rightarrow> ('w sys, ActivityResult) go" where
  "Svc_Activity S a projectSlug limit =
     authorized S a projectSlug ActivityRead (\<lambda>p role.
     let limit = (if limit \<le> 0 \<or> 50 < limit then 20 else limit) in
     andThen (onDB (DB_RecentEvents (DB S) (Project_ID p) limit)) (\<lambda>evs.
     andThen (activityDigest S p limit) (\<lambda>digest.
     ret \<lparr> ActR_Digest = digest, ActR_Count = length evs \<rparr>)))"

definition Svc_RecordSessionEnd :: "'w Service \<Rightarrow> Actor \<Rightarrow> string \<Rightarrow> string \<Rightarrow> ('w sys, unit) go" where
  "Svc_RecordSessionEnd S a projectSlug summary =
     authorized S a projectSlug ActivityRead (\<lambda>p role.
     let summary = TrimSpace summary in
     if summary = '''' then ret () else
     let summary = (if 2000 < length summary then take 2000 summary else summary) in
     append_event S a p ''session.summary'' summary)"

end
