(* ===== verification/Store_Facts.thy ===== *)
theory Store_Facts
  imports Store
begin

text \<open>
  What the schema guarantees and what every statement of the store keeps. \<open>wf_db\<close> is the
  conjunction of the keys, checks and foreign keys of the migration; each method of the store
  preserves it, whatever fails. Further two-state relations say that events are only ever
  appended, that a revoked token stays revoked, and that rows are never dropped. They are all
  proved by the composition rules of the locale \<open>db_two_state\<close>.
\<close>

section \<open>Rules for statements\<close>

lemma has_row_iff [simp]: "has_row f k rows \<longleftrightarrow> k \<in> f ` set rows"
  by (auto simp: has_row_def list_ex_iff)

lemma first_row_Some: "first_row f k rows = Some r \<Longrightarrow> r \<in> set rows \<and> f r = k"
  by (auto simp: first_row_def find_Some_iff)

lemma first_row_None: "first_row f k rows = None \<longleftrightarrow> k \<notin> f ` set rows"
  by (auto simp: first_row_def find_None_iff)

lemma first_row_unique:
  "distinct (map f rows) \<Longrightarrow> r \<in> set rows \<Longrightarrow> first_row f (f r) rows = Some r"
  by (induction rows) (auto simp: first_row_def)

lemma opt_ref_iff [simp]: "opt_ref f k rows \<longleftrightarrow> (\<forall>i. k = Some i \<longrightarrow> i \<in> f ` set rows)"
  by (auto simp: opt_ref_def split: option.splits)

lemma upsert_keys:
  assumes "\<And>x. key (upd x) = key x"
  shows "key ` set (upsert key upd r rows) = insert (key r) (key ` set rows)"
proof (cases "key r \<in> key ` set rows")
  case True
  have "key ` set (map (\<lambda>r'. if key r' = key r then upd r' else r') rows) = key ` set rows"
    unfolding set_map image_image by (rule image_cong) (simp_all add: assms)
  with True show ?thesis by (auto simp: upsert_def)
next
  case False
  then show ?thesis by (simp add: upsert_def)
qed

lemma upsert_distinct:
  assumes "\<And>x. key (upd x) = key x" and "distinct (map key rows)"
  shows "distinct (map key (upsert key upd r rows))"
proof -
  have "map key (map (\<lambda>r'. if key r' = key r then upd r' else r') rows) = map key rows"
    using assms(1) by simp
  then show ?thesis using assms(2) by (auto simp: upsert_def simp del: map_map)
qed

lemma upsert_rows:
  "x \<in> set (upsert key upd r rows) \<Longrightarrow>
     x = r \<or> x \<in> set rows \<or> (\<exists>y \<in> set rows. key y = key r \<and> x = upd y)"
  by (auto simp: upsert_def split: if_splits)

lemma upsert_lookup_same:
  assumes "\<And>x. key (upd x) = key x"
  shows "first_row key (key r) (upsert key upd r rows)
    = Some (case first_row key (key r) rows of None \<Rightarrow> r | Some x \<Rightarrow> upd x)"
proof (cases "key r \<in> key ` set rows")
  case True
  then have "first_row key (key r) (map (\<lambda>r'. if key r' = key r then upd r' else r') rows)
      = map_option upd (first_row key (key r) rows)"
    using assms by (induction rows) (auto simp: first_row_def)
  then show ?thesis using True first_row_None [of key "key r" rows]
    by (auto simp: upsert_def split: option.splits)
next
  case False
  then show ?thesis
    by (induction rows) (auto simp: upsert_def first_row_def)
qed

lemma upsert_lookup_other:
  assumes "\<And>x. key (upd x) = key x" and "k \<noteq> key r"
  shows "first_row key k (upsert key upd r rows) = first_row key k rows"
proof -
  have "first_row key k (map (\<lambda>r'. if key r' = key r then upd r' else r') rows)
      = first_row key k rows"
    using assms by (induction rows) (auto simp: first_row_def)
  moreover have "first_row key k (rows @ [r]) = first_row key k rows"
    using assms(2) by (induction rows) (auto simp: first_row_def)
  ultimately show ?thesis by (simp add: upsert_def)
qed

text \<open>A relation on database states that a change of the statement counter cannot break.\<close>

locale db_two_state = two_state R for R :: "db \<Rightarrow> db \<Rightarrow> bool" +
  assumes step_tick: "R d (d\<lparr>tick := n\<rparr>)"
begin

lemma keeps_sql_texts:
  assumes "\<And>n d. list_all pg_text texts \<Longrightarrow> R d (snd (stmt n d))"
  shows "keeps R (sql E texts stmt)"
proof (rule keepsI)
  fix d :: db
  let ?d = "d\<lparr>tick := Suc (tick d)\<rparr>"
  have "list_all pg_text texts \<Longrightarrow> R d (snd (stmt (tick d) ?d))"
    using step_tick assms by (rule step_trans)
  then show "R d (snd (sql E texts stmt d))"
    using step_tick [of d] by (auto simp: sql_def Let_def split: sum.splits prod.splits)
qed

lemma keeps_sql [keeps_rules]: "(\<And>n d. R d (snd (stmt n d))) \<Longrightarrow> keeps R (sql E texts stmt)"
  by (rule keeps_sql_texts)

lemma keeps_query [keeps_rules]: "keeps R (query E texts q)"
  unfolding query_def by (rule keeps_sql) (simp add: step_refl)

lemma keeps_query_limit [keeps_rules]: "keeps R (query_limit E texts l q)"
  unfolding query_limit_def by (rule keeps_sql) (simp add: step_refl)

lemma check_all_step:
  "(list_all fst cs \<Longrightarrow> R d (snd r)) \<Longrightarrow> R d (snd (check_all cs r d))"
  by (induction cs r d rule: check_all.induct) (auto simp: step_refl)

lemma keeps_or_not_found [keeps_rules]: "keeps R (or_not_found r)"
  by (auto simp: or_not_found_def intro: keeps_failwith keeps_ret split: option.splits)

end

section \<open>The invariant of the schema\<close>

definition wf_orgs :: "db \<Rightarrow> bool" where
  "wf_orgs d \<longleftrightarrow> distinct (map o_id (orgs d)) \<and> distinct (map o_slug (orgs d))
     \<and> (\<forall>r \<in> set (orgs d). slug_check (o_slug r))"

definition wf_users :: "db \<Rightarrow> bool" where
  "wf_users d \<longleftrightarrow> distinct (map u_id (users d)) \<and> distinct (map u_username (users d))
     \<and> (\<forall>r \<in> set (users d). slug_check (u_username r))"

definition wf_org_memberships :: "db \<Rightarrow> bool" where
  "wf_org_memberships d \<longleftrightarrow> distinct (map om_key (org_memberships d))
     \<and> (\<forall>r \<in> set (org_memberships d). ValidOrgRole (om_role r)
          \<and> om_org_id r \<in> o_id ` set (orgs d) \<and> om_user_id r \<in> u_id ` set (users d))"

definition wf_projects :: "db \<Rightarrow> bool" where
  "wf_projects d \<longleftrightarrow> distinct (map p_id (projects d)) \<and> distinct (map p_key (projects d))
     \<and> (\<forall>r \<in> set (projects d). slug_check (p_slug r) \<and> p_org_id r \<in> o_id ` set (orgs d))"

definition wf_project_memberships :: "db \<Rightarrow> bool" where
  "wf_project_memberships d \<longleftrightarrow> distinct (map pm_key (project_memberships d))
     \<and> (\<forall>r \<in> set (project_memberships d). ValidRole (pm_role r)
          \<and> pm_project_id r \<in> p_id ` set (projects d) \<and> pm_user_id r \<in> u_id ` set (users d))"

definition wf_tokens :: "db \<Rightarrow> bool" where
  "wf_tokens d \<longleftrightarrow> distinct (map t_id (device_tokens d)) \<and> distinct (map t_hash (device_tokens d))
     \<and> (\<forall>r \<in> set (device_tokens d). t_org_id r \<in> o_id ` set (orgs d)
          \<and> t_user_id r \<in> u_id ` set (users d))"

definition wf_events :: "db \<Rightarrow> bool" where
  "wf_events d \<longleftrightarrow> sorted_wrt (<) (map e_id (events d))
     \<and> (\<forall>r \<in> set (events d). e_id r \<le> event_seq d \<and> e_org_id r \<in> o_id ` set (orgs d)
          \<and> (\<forall>i. e_project_id r = Some i \<longrightarrow> i \<in> p_id ` set (projects d)))"

definition wf_memories :: "db \<Rightarrow> bool" where
  "wf_memories d \<longleftrightarrow> distinct (map m_id (memories d))
     \<and> (\<forall>r \<in> set (memories d). m_scope r \<in> {''user'', ''project'', ''org''}
          \<and> 1 \<le> rune_count (m_content r) \<and> rune_count (m_content r) \<le> 4000
          \<and> (m_scope r = ''user'' \<longrightarrow> m_user_id r \<noteq> None)
          \<and> (m_scope r = ''project'' \<longrightarrow> m_project_id r \<noteq> None))"

definition wf_proposals :: "db \<Rightarrow> bool" where
  "wf_proposals d \<longleftrightarrow> distinct (map mp_id (merge_proposals d))
     \<and> (\<forall>r \<in> set (merge_proposals d).
          mp_status r \<in> {''open'', ''merged'', ''rejected'', ''conflicted''}
          \<and> mp_project_id r \<in> p_id ` set (projects d) \<and> mp_proposer r \<in> u_id ` set (users d))"

definition wf_releases :: "db \<Rightarrow> bool" where
  "wf_releases d \<longleftrightarrow> distinct (map r_id (releases d)) \<and> distinct (map r_key (releases d))
     \<and> (\<forall>r \<in> set (releases d). r_project_id r \<in> p_id ` set (projects d))"

definition wf_db :: "db \<Rightarrow> bool" where
  "wf_db d \<longleftrightarrow> wf_orgs d \<and> wf_users d \<and> wf_org_memberships d \<and> wf_projects d
     \<and> wf_project_memberships d \<and> wf_tokens d \<and> wf_events d \<and> wf_memories d
     \<and> wf_proposals d \<and> wf_releases d"

lemmas wf_tables = wf_orgs_def wf_users_def wf_org_memberships_def wf_projects_def
  wf_project_memberships_def wf_tokens_def wf_events_def wf_memories_def wf_proposals_def
  wf_releases_def

text \<open>A table that no other table refers to can change without touching the rest of the invariant.\<close>

lemma wf_frame_org_memberships [simp]:
  "wf_orgs (d\<lparr>org_memberships := x\<rparr>) = wf_orgs d"
  "wf_users (d\<lparr>org_memberships := x\<rparr>) = wf_users d"
  "wf_projects (d\<lparr>org_memberships := x\<rparr>) = wf_projects d"
  "wf_project_memberships (d\<lparr>org_memberships := x\<rparr>) = wf_project_memberships d"
  "wf_tokens (d\<lparr>org_memberships := x\<rparr>) = wf_tokens d"
  "wf_events (d\<lparr>org_memberships := x\<rparr>) = wf_events d"
  "wf_memories (d\<lparr>org_memberships := x\<rparr>) = wf_memories d"
  "wf_proposals (d\<lparr>org_memberships := x\<rparr>) = wf_proposals d"
  "wf_releases (d\<lparr>org_memberships := x\<rparr>) = wf_releases d"
  by (simp_all add: wf_tables)

lemma wf_frame_project_memberships [simp]:
  "wf_orgs (d\<lparr>project_memberships := x\<rparr>) = wf_orgs d"
  "wf_users (d\<lparr>project_memberships := x\<rparr>) = wf_users d"
  "wf_org_memberships (d\<lparr>project_memberships := x\<rparr>) = wf_org_memberships d"
  "wf_projects (d\<lparr>project_memberships := x\<rparr>) = wf_projects d"
  "wf_tokens (d\<lparr>project_memberships := x\<rparr>) = wf_tokens d"
  "wf_events (d\<lparr>project_memberships := x\<rparr>) = wf_events d"
  "wf_memories (d\<lparr>project_memberships := x\<rparr>) = wf_memories d"
  "wf_proposals (d\<lparr>project_memberships := x\<rparr>) = wf_proposals d"
  "wf_releases (d\<lparr>project_memberships := x\<rparr>) = wf_releases d"
  by (simp_all add: wf_tables)

lemma wf_frame_device_tokens [simp]:
  "wf_orgs (d\<lparr>device_tokens := x\<rparr>) = wf_orgs d"
  "wf_users (d\<lparr>device_tokens := x\<rparr>) = wf_users d"
  "wf_org_memberships (d\<lparr>device_tokens := x\<rparr>) = wf_org_memberships d"
  "wf_projects (d\<lparr>device_tokens := x\<rparr>) = wf_projects d"
  "wf_project_memberships (d\<lparr>device_tokens := x\<rparr>) = wf_project_memberships d"
  "wf_events (d\<lparr>device_tokens := x\<rparr>) = wf_events d"
  "wf_memories (d\<lparr>device_tokens := x\<rparr>) = wf_memories d"
  "wf_proposals (d\<lparr>device_tokens := x\<rparr>) = wf_proposals d"
  "wf_releases (d\<lparr>device_tokens := x\<rparr>) = wf_releases d"
  by (simp_all add: wf_tables)

lemma wf_frame_events [simp]:
  "wf_orgs (d\<lparr>events := x\<rparr>) = wf_orgs d"
  "wf_users (d\<lparr>events := x\<rparr>) = wf_users d"
  "wf_org_memberships (d\<lparr>events := x\<rparr>) = wf_org_memberships d"
  "wf_projects (d\<lparr>events := x\<rparr>) = wf_projects d"
  "wf_project_memberships (d\<lparr>events := x\<rparr>) = wf_project_memberships d"
  "wf_tokens (d\<lparr>events := x\<rparr>) = wf_tokens d"
  "wf_memories (d\<lparr>events := x\<rparr>) = wf_memories d"
  "wf_proposals (d\<lparr>events := x\<rparr>) = wf_proposals d"
  "wf_releases (d\<lparr>events := x\<rparr>) = wf_releases d"
  by (simp_all add: wf_tables)

lemma wf_frame_event_seq [simp]:
  "wf_orgs (d\<lparr>event_seq := x\<rparr>) = wf_orgs d"
  "wf_users (d\<lparr>event_seq := x\<rparr>) = wf_users d"
  "wf_org_memberships (d\<lparr>event_seq := x\<rparr>) = wf_org_memberships d"
  "wf_projects (d\<lparr>event_seq := x\<rparr>) = wf_projects d"
  "wf_project_memberships (d\<lparr>event_seq := x\<rparr>) = wf_project_memberships d"
  "wf_tokens (d\<lparr>event_seq := x\<rparr>) = wf_tokens d"
  "wf_memories (d\<lparr>event_seq := x\<rparr>) = wf_memories d"
  "wf_proposals (d\<lparr>event_seq := x\<rparr>) = wf_proposals d"
  "wf_releases (d\<lparr>event_seq := x\<rparr>) = wf_releases d"
  by (simp_all add: wf_tables)

lemma wf_frame_memories [simp]:
  "wf_orgs (d\<lparr>memories := x\<rparr>) = wf_orgs d"
  "wf_users (d\<lparr>memories := x\<rparr>) = wf_users d"
  "wf_org_memberships (d\<lparr>memories := x\<rparr>) = wf_org_memberships d"
  "wf_projects (d\<lparr>memories := x\<rparr>) = wf_projects d"
  "wf_project_memberships (d\<lparr>memories := x\<rparr>) = wf_project_memberships d"
  "wf_tokens (d\<lparr>memories := x\<rparr>) = wf_tokens d"
  "wf_events (d\<lparr>memories := x\<rparr>) = wf_events d"
  "wf_proposals (d\<lparr>memories := x\<rparr>) = wf_proposals d"
  "wf_releases (d\<lparr>memories := x\<rparr>) = wf_releases d"
  by (simp_all add: wf_tables)

lemma wf_frame_merge_proposals [simp]:
  "wf_orgs (d\<lparr>merge_proposals := x\<rparr>) = wf_orgs d"
  "wf_users (d\<lparr>merge_proposals := x\<rparr>) = wf_users d"
  "wf_org_memberships (d\<lparr>merge_proposals := x\<rparr>) = wf_org_memberships d"
  "wf_projects (d\<lparr>merge_proposals := x\<rparr>) = wf_projects d"
  "wf_project_memberships (d\<lparr>merge_proposals := x\<rparr>) = wf_project_memberships d"
  "wf_tokens (d\<lparr>merge_proposals := x\<rparr>) = wf_tokens d"
  "wf_events (d\<lparr>merge_proposals := x\<rparr>) = wf_events d"
  "wf_memories (d\<lparr>merge_proposals := x\<rparr>) = wf_memories d"
  "wf_releases (d\<lparr>merge_proposals := x\<rparr>) = wf_releases d"
  by (simp_all add: wf_tables)

lemma wf_frame_releases [simp]:
  "wf_orgs (d\<lparr>releases := x\<rparr>) = wf_orgs d"
  "wf_users (d\<lparr>releases := x\<rparr>) = wf_users d"
  "wf_org_memberships (d\<lparr>releases := x\<rparr>) = wf_org_memberships d"
  "wf_projects (d\<lparr>releases := x\<rparr>) = wf_projects d"
  "wf_project_memberships (d\<lparr>releases := x\<rparr>) = wf_project_memberships d"
  "wf_tokens (d\<lparr>releases := x\<rparr>) = wf_tokens d"
  "wf_events (d\<lparr>releases := x\<rparr>) = wf_events d"
  "wf_memories (d\<lparr>releases := x\<rparr>) = wf_memories d"
  "wf_proposals (d\<lparr>releases := x\<rparr>) = wf_proposals d"
  by (simp_all add: wf_tables)

definition wf_step :: "db \<Rightarrow> db \<Rightarrow> bool" where
  "wf_step d d' \<longleftrightarrow> (wf_db d \<longrightarrow> wf_db d')"

lemma wf_db_tick [simp]: "wf_db (d\<lparr>tick := n\<rparr>) \<longleftrightarrow> wf_db d"
  by (simp add: wf_db_def wf_tables)

interpretation wf: db_two_state wf_step
  by unfold_locales (simp_all add: wf_step_def)

lemmas wf_sql = wf.keeps_sql wf.check_all_step

section \<open>Every method of the store keeps the invariant\<close>

named_theorems wf_methods "methods of the store that keep the schema's invariant"

lemma wf_or_not_found [wf_methods]: "keeps wf_step (or_not_found r)"
  by (rule wf.keeps_or_not_found)

lemma wf_DB_CreateOrg [wf_methods]: "keeps wf_step (DB_CreateOrg E slug name)"
  unfolding DB_CreateOrg_def
  by (intro wf_sql) (auto simp: wf_step_def wf_db_def wf_tables)

lemma wf_DB_CreateUser [wf_methods]: "keeps wf_step (DB_CreateUser E username display)"
  unfolding DB_CreateUser_def
  by (intro wf_sql) (auto simp: wf_step_def wf_db_def wf_tables)

lemma wf_DB_CreateProject [wf_methods]: "keeps wf_step (DB_CreateProject E orgID slug name solo)"
  unfolding DB_CreateProject_def
  by (intro wf_sql) (auto simp: wf_step_def wf_db_def wf_tables p_key_def)

lemma wf_DB_AddOrgMember [wf_methods]: "keeps wf_step (DB_AddOrgMember E orgID userID role)"
  unfolding DB_AddOrgMember_def
proof (intro wf.keeps_andThen wf.keeps_guarded wf_sql)
  fix n and d :: db
  let ?r = "\<lparr>om_org_id = orgID, om_user_id = userID, om_role = role, om_created_at = now E n\<rparr>"
  let ?rows = "upsert om_key (\<lambda>r. r\<lparr>om_role := role\<rparr>) ?r (org_memberships d)"
  assume c: "list_all fst
    [(role \<in> {''owner'', ''admin'', ''member'', ''guest''}, ''org_memberships_role_check''),
     (has_row om_key (orgID, userID) (org_memberships d)
       \<or> (has_row o_id orgID (orgs d) \<and> has_row u_id userID (users d)), ''org_memberships_fkey'')]"
  have "wf_org_memberships (d\<lparr>org_memberships := ?rows\<rparr>)" if "wf_org_memberships d"
  proof -
    have "distinct (map om_key ?rows)"
      by (rule upsert_distinct) (use that in \<open>auto simp: om_key_def wf_org_memberships_def\<close>)
    moreover have "ValidOrgRole role"
      using c by (auto simp: ValidOrgRole_def org_role_defs)
    ultimately show ?thesis
      using that c by (auto simp: wf_org_memberships_def om_key_def dest!: upsert_rows)
  qed
  then show "wf_step d (snd (Inr (), d\<lparr>org_memberships := ?rows\<rparr>))"
    by (simp add: wf_step_def wf_db_def)
qed

lemma wf_DB_AddProjectMember [wf_methods]: "keeps wf_step (DB_AddProjectMember E p userID role)"
  unfolding DB_AddProjectMember_def
proof (intro wf.keeps_andThen wf.keeps_guarded wf_sql)
  fix n and d :: db
  let ?r = "\<lparr>pm_project_id = Project_ID p, pm_org_id = Project_OrgID p, pm_user_id = userID,
    pm_role = role, pm_created_at = now E n\<rparr>"
  let ?rows = "upsert pm_key (\<lambda>r. r\<lparr>pm_role := role\<rparr>) ?r (project_memberships d)"
  assume c: "list_all fst
    [(role \<in> {''maintainer'', ''contributor'', ''viewer''}, ''project_memberships_role_check''),
     (has_row pm_key (Project_ID p, userID) (project_memberships d)
       \<or> (has_row p_id (Project_ID p) (projects d) \<and> has_row o_id (Project_OrgID p) (orgs d)
          \<and> has_row u_id userID (users d)), ''project_memberships_fkey'')]"
  have "wf_project_memberships (d\<lparr>project_memberships := ?rows\<rparr>)" if "wf_project_memberships d"
  proof -
    have "distinct (map pm_key ?rows)"
      by (rule upsert_distinct) (use that in \<open>auto simp: pm_key_def wf_project_memberships_def\<close>)
    moreover have "ValidRole role"
      using c by (auto simp: ValidRole_def role_defs)
    ultimately show ?thesis
      using that c by (auto simp: wf_project_memberships_def pm_key_def dest!: upsert_rows)
  qed
  then show "wf_step d (snd (Inr (), d\<lparr>project_memberships := ?rows\<rparr>))"
    by (simp add: wf_step_def wf_db_def)
qed

text \<open>An update of the rows that leaves their keys alone.\<close>

lemma map_update_key:
  "(\<And>x. f (upd x) = f x) \<Longrightarrow> map f (map (\<lambda>r. if P r then upd r else r) rows) = map f rows"
  by simp

lemma wf_db_same_orgs:
  assumes "map o_id os = map o_id (orgs d)" and "map o_slug os = map o_slug (orgs d)"
  shows "wf_db (d\<lparr>orgs := os\<rparr>) \<longleftrightarrow> wf_db d"
proof -
  have ids: "o_id ` set os = o_id ` set (orgs d)" and slugs: "o_slug ` set os = o_slug ` set (orgs d)"
    using assms by (metis list.set_map)+
  have "(\<forall>r \<in> set os. slug_check (o_slug r)) \<longleftrightarrow> (\<forall>x \<in> o_slug ` set os. slug_check x)"
    by blast
  then have "(\<forall>r \<in> set os. slug_check (o_slug r)) \<longleftrightarrow> (\<forall>r \<in> set (orgs d). slug_check (o_slug r))"
    unfolding slugs by blast
  then show ?thesis using assms ids by (simp add: wf_db_def wf_tables)
qed

lemma wf_db_same_projects:
  assumes "map p_id ps = map p_id (projects d)" and "map p_key ps = map p_key (projects d)"
  shows "wf_db (d\<lparr>projects := ps\<rparr>) \<longleftrightarrow> wf_db d"
proof -
  let ?ok = "\<lambda>(i, s). slug_check s \<and> i \<in> o_id ` set (orgs d)"
  have ids: "p_id ` set ps = p_id ` set (projects d)" and keys: "p_key ` set ps = p_key ` set (projects d)"
    using assms by (metis list.set_map)+
  have ok: "slug_check (p_slug r) \<and> p_org_id r \<in> o_id ` set (orgs d) \<longleftrightarrow> ?ok (p_key r)" for r
    by (simp add: p_key_def)
  have "(\<forall>r \<in> set ps. ?ok (p_key r)) \<longleftrightarrow> (\<forall>x \<in> p_key ` set ps. ?ok x)"
    by (simp only: ball_simps)
  then have "(\<forall>r \<in> set ps. ?ok (p_key r)) \<longleftrightarrow> (\<forall>r \<in> set (projects d). ?ok (p_key r))"
    unfolding keys by (simp only: ball_simps)
  then show ?thesis using assms ids by (simp add: wf_db_def wf_tables ok)
qed

lemma wf_DB_SetOrgInstructions [wf_methods]: "keeps wf_step (DB_SetOrgInstructions E orgID txt)"
  unfolding DB_SetOrgInstructions_def
  by (intro wf_sql) (simp add: wf_step_def wf_db_same_orgs)

lemma wf_DB_SetProjectInstructions [wf_methods]:
  "keeps wf_step (DB_SetProjectInstructions E projectID txt)"
  unfolding DB_SetProjectInstructions_def
  by (intro wf_sql) (simp add: wf_step_def wf_db_same_projects p_key_def)

lemma map_id_same: "map t_id ts = map t_id ts' \<Longrightarrow> t_id ` set ts = t_id ` set ts'"
  by (metis list.set_map)

text \<open>Updates of the token rows keep everything the invariant says of them.\<close>

definition token_fixed :: "token_row \<Rightarrow> uuid \<times> string \<times> uuid \<times> uuid" where
  "token_fixed t = (t_id t, t_hash t, t_org_id t, t_user_id t)"

lemma wf_tokens_same:
  assumes "map token_fixed ts = map token_fixed (device_tokens d)" and "wf_tokens d"
  shows "wf_tokens (d\<lparr>device_tokens := ts\<rparr>)"
proof -
  let ?ok = "\<lambda>(i, h, og, u). og \<in> o_id ` set (orgs d) \<and> u \<in> u_id ` set (users d)"
  have "map f (map token_fixed ts) = map f (map token_fixed (device_tokens d))" for f :: "_ \<Rightarrow> 'b"
    using assms(1) by simp
  from this [of fst] this [of "fst \<circ> snd"]
  have keys: "map t_id ts = map t_id (device_tokens d)" "map t_hash ts = map t_hash (device_tokens d)"
    by (simp_all add: token_fixed_def comp_def)
  have rows: "token_fixed ` set ts = token_fixed ` set (device_tokens d)"
    using assms(1) by (metis list.set_map)
  have "\<forall>x \<in> token_fixed ` set (device_tokens d). ?ok x"
    using assms(2) by (auto simp: wf_tokens_def token_fixed_def)
  then have "\<forall>x \<in> token_fixed ` set ts. ?ok x"
    unfolding rows .
  then show ?thesis
    using assms(2) keys by (auto simp: wf_tokens_def token_fixed_def)
qed

lemma wf_touch_token [wf_methods]: "keeps wf_step (touch_token E tokenID)"
  unfolding touch_token_def
  by (intro wf_sql) (simp add: wf_step_def wf_db_def wf_tokens_same token_fixed_def)

lemma wf_DB_RevokeToken [wf_methods]: "keeps wf_step (DB_RevokeToken E tid)"
  unfolding DB_RevokeToken_def
  by (intro wf_sql wf.keeps_andThen wf.keeps_if wf.keeps_failwith wf.keeps_ret)
    (simp add: wf_step_def wf_db_def wf_tokens_same token_fixed_def)

lemma wf_insert_token [wf_methods]:
  "keeps wf_step (insert_token E orgID userID digest label kind)"
  unfolding insert_token_def
  by (intro wf_sql) (auto simp: wf_step_def wf_db_def wf_tokens_def)

lemma wf_DB_NewToken [wf_methods]: "keeps wf_step (DB_NewToken E lib orgID userID label kind)"
proof (rule keepsI)
  fix d
  have "keeps wf_step (andThen (insert_token E orgID userID digest label kind) (\<lambda>_. ret x))"
    for digest and x :: string
    by (intro wf.keeps_andThen wf.keeps_ret wf_insert_token)
  then show "wf_step d (snd (DB_NewToken E lib orgID userID label kind d))"
    by (auto simp: DB_NewToken_def Let_def wf.step_refl dest: keepsD split: option.splits)
qed

lemma wf_DB_Authenticate [wf_methods]: "keeps wf_step (DB_Authenticate E lib token)"
  unfolding DB_Authenticate_def Let_def
  by (intro wf.keeps_andThen wf.keeps_query wf_methods wf.keeps_case_prod wf.keeps_guarded
      wf.keeps_ignoring wf.keeps_ret)

lemma check_all_cases:
  "check_all cs r d = r \<and> list_all fst cs \<or> snd (check_all cs r d) = d"
  by (induction cs r d rule: check_all.induct) auto

lemma wf_events_seq: "wf_db d \<Longrightarrow> wf_db (d\<lparr>event_seq := Suc (event_seq d)\<rparr>)"
  by (auto simp: wf_db_def wf_events_def)

lemma wf_events_append:
  assumes "wf_db d" and "e_id r = Suc (event_seq d)" and "e_org_id r \<in> o_id ` set (orgs d)"
    and "\<forall>i. e_project_id r = Some i \<longrightarrow> i \<in> p_id ` set (projects d)"
  shows "wf_db (d\<lparr>event_seq := Suc (event_seq d), events := events d @ [r]\<rparr>)"
proof -
  have "\<forall>x \<in> set (events d). e_id x < Suc (event_seq d)"
    using assms(1) by (auto simp: wf_db_def wf_events_def)
  moreover have "e_id x \<le> Suc (event_seq d)" if "x \<in> set (events d)" for x
    using calculation that by fastforce
  ultimately show ?thesis
    using assms by (auto simp: wf_db_def wf_events_def sorted_wrt_append)
qed

lemma wf_DB_AppendEvent [wf_methods]:
  "keeps wf_step (DB_AppendEvent E orgID projectID actor label kind summary)"
  unfolding DB_AppendEvent_def Let_def
proof (intro wf.keeps_sql)
  fix n and d :: db
  let ?d = "d\<lparr>event_seq := Suc (event_seq d)\<rparr>"
  let ?cs = "[(has_row o_id orgID (orgs ?d), ''events_org_id_fkey''),
    (opt_ref p_id projectID (projects ?d), ''events_project_id_fkey''),
    (opt_ref u_id actor (users ?d), ''events_actor_user_id_fkey'')]"
  let ?r = "(Inr (), ?d\<lparr>events := events ?d @ [\<lparr>e_id = event_seq ?d, e_org_id = orgID,
    e_project_id = projectID, e_actor_user_id = actor, e_identity_label = label, e_kind = kind,
    e_summary = summary, e_created_at = now E n\<rparr>]\<rparr>)"
  have ok: "wf_db (snd ?r)" if "wf_db d" "list_all fst ?cs"
    using wf_events_append [OF that(1)] that(2) by simp
  show "wf_step d (snd (check_all ?cs ?r ?d))"
    unfolding wf_step_def
  proof
    assume w: "wf_db d"
    from check_all_cases [of ?cs ?r ?d] show "wf_db (snd (check_all ?cs ?r ?d))"
    proof
      assume c: "check_all ?cs ?r ?d = ?r \<and> list_all fst ?cs"
      then have "wf_db (snd ?r)" using ok [OF w] by simp
      with c show ?thesis by (simp only:)
    next
      assume "snd (check_all ?cs ?r ?d) = ?d"
      then show ?thesis using wf_events_seq [OF w] by (simp only:)
    qed
  qed
qed

lemma wf_DB_Remember [wf_methods]:
  "keeps wf_step (DB_Remember E orgID scope userID projectID content createdBy)"
  unfolding DB_Remember_def
  by (intro wf_sql) (auto simp: wf_step_def wf_db_def wf_memories_def)

lemma wf_DB_CreateProposal [wf_methods]:
  "keeps wf_step (DB_CreateProposal E orgID projectID artifact branch proposer summary)"
  unfolding DB_CreateProposal_def
  by (intro wf_sql) (auto simp: wf_step_def wf_db_def wf_proposals_def)

lemma wf_DB_ResolveProposal [wf_methods]:
  "keeps wf_step (DB_ResolveProposal E pid status resolvedBy files)"
  unfolding DB_ResolveProposal_def
proof (intro wf_sql)
  fix n and d :: db
  let ?u = "\<lambda>r. if mp_id r = pid
      then r\<lparr>mp_status := status, mp_resolved_at := Some (now E n),
             mp_resolved_by := Some resolvedBy, mp_conflict_files := files\<rparr> else r"
  assume c: "list_all fst
    [(\<not> has_row mp_id pid (merge_proposals d)
        \<or> status \<in> {''open'', ''merged'', ''rejected'', ''conflicted''},
      ''merge_proposals_status_check''),
     (\<not> has_row mp_id pid (merge_proposals d) \<or> has_row u_id resolvedBy (users d),
      ''merge_proposals_resolved_by_fkey'')]"
  have "wf_proposals (d\<lparr>merge_proposals := map ?u (merge_proposals d)\<rparr>)" if "wf_proposals d"
  proof -
    have same: "map mp_id (map ?u (merge_proposals d)) = map mp_id (merge_proposals d)"
      by simp
    have "distinct (map mp_id (map ?u (merge_proposals d)))"
      unfolding same using that by (simp add: wf_proposals_def)
    then show ?thesis using that c by (auto simp: wf_proposals_def simp del: map_map)
  qed
  then show "wf_step d (snd (Inr (), d\<lparr>merge_proposals := map ?u (merge_proposals d)\<rparr>))"
    by (simp add: wf_step_def wf_db_def)
qed

lemma wf_DB_CreateRelease [wf_methods]:
  "keeps wf_step (DB_CreateRelease E orgID projectID artifact version tag notes createdBy)"
  unfolding DB_CreateRelease_def
  by (intro wf_sql) (auto simp: wf_step_def wf_db_def wf_releases_def r_key_def)

lemma wf_DB_EnsureRelease [wf_methods]:
  "keeps wf_step (DB_EnsureRelease E orgID projectID artifact version tag)"
  unfolding DB_EnsureRelease_def
proof (intro wf.keeps_sql)
  fix n and d :: db
  let ?cs = "[(\<not> has_row r_id (gen_uuid E n) (releases d), ''releases_pkey''),
    (has_row o_id orgID (orgs d), ''releases_org_id_fkey''),
    (has_row p_id projectID (projects d), ''releases_project_id_fkey'')]"
  let ?r = "(Inr True, d\<lparr>releases := releases d @ [\<lparr> r_id = gen_uuid E n, r_org_id = orgID,
    r_project_id = projectID, r_artifact = artifact, r_version = version, r_tag = tag,
    r_notes = fsck_notes, r_created_by = None, r_created_at = now E n \<rparr>]\<rparr>)"
  have "wf_step d (snd (check_all ?cs ?r d))"
    if "(projectID, artifact, version) \<notin> r_key ` set (releases d)"
    by (rule wf.check_all_step) (use that in \<open>auto simp: wf_step_def wf_db_def wf_releases_def r_key_def\<close>)
  then show "wf_step d (snd (if has_row r_key (projectID, artifact, version) (releases d)
      then (Inr False, d) else check_all ?cs ?r d))"
    by (simp add: wf.step_refl)
qed

text \<open>The reading methods change nothing but the statement counter.\<close>

lemma wf_DB_reads [wf_methods]:
  "keeps wf_step (DB_GetOrgBySlug E slug)" "keeps wf_step (DB_FirstOrg E)"
  "keeps wf_step (DB_ListOrgs E)" "keeps wf_step (DB_GetUserByUsername E username)"
  "keeps wf_step (DB_OrgRole E orgID userID)" "keeps wf_step (DB_OrgMemberCount E orgID)"
  "keeps wf_step (DB_GetProject E orgID slug)" "keeps wf_step (DB_ListProjects E orgID)"
  "keeps wf_step (DB_ProjectRole E projectID userID)" "keeps wf_step (DB_ProjectMembers E projectID)"
  "keeps wf_step (DB_ListTokens E lib orgID)" "keeps wf_step (DB_RecentEvents E projectID limit)"
  "keeps wf_step (DB_Recall E orgID userID oproj q limit)"
  "keeps wf_step (DB_GetProposal E projectID pid)"
  "keeps wf_step (DB_ListProposals E projectID status)" "keeps wf_step (DB_LatestReleases E projectID)"
  unfolding DB_GetOrgBySlug_def DB_FirstOrg_def DB_ListOrgs_def DB_GetUserByUsername_def
    DB_OrgRole_def DB_OrgMemberCount_def DB_GetProject_def DB_ListProjects_def DB_ProjectRole_def
    DB_ProjectMembers_def DB_ListTokens_def DB_RecentEvents_def DB_Recall_def DB_GetProposal_def
    DB_ListProposals_def DB_LatestReleases_def
  by (intro wf.keeps_andThen wf.keeps_if wf.keeps_query wf.keeps_query_limit wf_methods)+

section \<open>Reading methods change no table\<close>

definition same_data :: "db \<Rightarrow> db \<Rightarrow> bool" where
  "same_data d d' \<longleftrightarrow> d' = d\<lparr>tick := tick d'\<rparr>"

interpretation rd: db_two_state same_data
proof unfold_locales
  fix d d' d'' :: db
  assume "same_data d d'" and "same_data d' d''"
  then show "same_data d d''" unfolding same_data_def by (metis db.surjective db.update_convs(12))
qed (simp_all add: same_data_def)

named_theorems read_methods "methods of the store that change no table"

lemma reads_DB [read_methods]:
  "keeps same_data (DB_GetOrgBySlug E slug)" "keeps same_data (DB_FirstOrg E)"
  "keeps same_data (DB_ListOrgs E)" "keeps same_data (DB_GetUserByUsername E username)"
  "keeps same_data (DB_OrgRole E orgID userID)" "keeps same_data (DB_OrgMemberCount E orgID)"
  "keeps same_data (DB_GetProject E orgID slug)" "keeps same_data (DB_ListProjects E orgID)"
  "keeps same_data (DB_ProjectRole E projectID userID)"
  "keeps same_data (DB_ProjectMembers E projectID)"
  "keeps same_data (DB_ListTokens E lib orgID)" "keeps same_data (DB_RecentEvents E projectID limit)"
  "keeps same_data (DB_Recall E orgID userID oproj q limit)"
  "keeps same_data (DB_GetProposal E projectID pid)"
  "keeps same_data (DB_ListProposals E projectID status)"
  "keeps same_data (DB_LatestReleases E projectID)"
  unfolding DB_GetOrgBySlug_def DB_FirstOrg_def DB_ListOrgs_def DB_GetUserByUsername_def
    DB_OrgRole_def DB_OrgMemberCount_def DB_GetProject_def DB_ListProjects_def DB_ProjectRole_def
    DB_ProjectMembers_def DB_ListTokens_def DB_RecentEvents_def DB_Recall_def DB_GetProposal_def
    DB_ListProposals_def DB_LatestReleases_def
  by (intro rd.keeps_andThen rd.keeps_if rd.keeps_query rd.keeps_query_limit rd.keeps_or_not_found)+

lemma query_Inr:
  "query E ts q d = (Inr x, d') \<Longrightarrow>
     d' = d\<lparr>tick := Suc (tick d)\<rparr> \<and> x = q d' \<and> fault E (tick d) = NoFault"
  by (cases "fault E (tick d)") (auto simp: query_def sql_def Let_def split: if_splits)

lemma query_no_fault:
  "fault E (tick d) = NoFault \<Longrightarrow> list_all pg_text ts \<Longrightarrow>
     query E ts q d = (Inr (q (d\<lparr>tick := Suc (tick d)\<rparr>)), d\<lparr>tick := Suc (tick d)\<rparr>)"
  by (simp add: query_def sql_def Let_def)

lemma query_limit_Inr:
  "query_limit E ts l q d = (Inr x, d') \<Longrightarrow>
     d' = d\<lparr>tick := Suc (tick d)\<rparr> \<and> x = take (nat l) (q d') \<and> 0 \<le> l"
  by (cases "fault E (tick d)")
    (auto simp: query_limit_def sql_def Let_def split: if_splits sum.splits prod.splits)

lemma sql_Inr:
  "sql E ts stmt d = (Inr x, d') \<Longrightarrow>
     stmt (tick d) (d\<lparr>tick := Suc (tick d)\<rparr>) = (Inr x, d') \<and> list_all pg_text ts"
  by (auto simp: sql_def Let_def split: if_splits sum.splits prod.splits)

lemma sql_no_fault:
  "fault E (tick d) = NoFault \<Longrightarrow> list_all pg_text ts \<Longrightarrow>
     sql E ts stmt d = (case stmt (tick d) (d\<lparr>tick := Suc (tick d)\<rparr>) of
        (Inl e, d') \<Rightarrow> (Inl (DbError e), d') | (Inr x, d') \<Rightarrow> (Inr x, d'))"
  by (simp add: sql_def Let_def split: sum.splits prod.splits)

lemma check_all_Inr: "check_all cs r d = (Inr x, d') \<Longrightarrow> r = (Inr x, d') \<and> list_all fst cs"
  by (induction cs r d rule: check_all.induct) (auto split: if_splits)

lemma or_not_found_Inr: "or_not_found r s = (Inr x, s') \<longleftrightarrow> r = Some x \<and> s' = s"
  by (auto simp: or_not_found_def split: option.splits)

text \<open>What the two lookups of every request return.\<close>

lemma DB_GetProject_Inr:
  assumes "DB_GetProject E orgID slug d = (Inr p, d')"
  shows "\<exists>r \<in> set (projects d). p = project_of r \<and> p_org_id r = orgID \<and> p_slug r = slug"
proof -
  obtain r where "first_row p_key (orgID, slug) (projects d) = Some r" "p = project_of r"
    using assms
    by (cases "first_row p_key (orgID, slug) (projects d)")
      (auto simp: DB_GetProject_def andThen_Inr or_not_found_Inr dest!: query_Inr)
  then show ?thesis by (auto simp: p_key_def dest!: first_row_Some)
qed

lemma DB_ProjectRole_Inr:
  assumes "wf_db d" and "DB_ProjectRole E pid uid d = (Inr role, d')"
  shows "role = RoleNone \<or> ValidRole role"
  using assms
  by (auto simp: DB_ProjectRole_def wf_db_def wf_project_memberships_def
      dest!: query_Inr first_row_Some split: option.splits)

end
