(* ===== verification/History.thy ===== *)
theory History
  imports Store_Facts Samples
begin

text \<open>
  What no method of the store ever takes back, over any number of calls. \<open>db_call\<close> is one
  call of any method on the database, so \<open>(db_call E lib)\<^sup>*\<^sup>*\<close> is any sequence of calls by
  any number of clients, with any failures of the server in between. Events, memories and releases are only appended, rows
  keep their identity, and a token that is revoked stays revoked: hence the life cycle of device
  tokens and the two membership registers below.
\<close>

section \<open>History\<close>

text \<open>
  What no method of the store ever takes back: events and memories are only appended, rows keep
  their identity, and a token that is revoked stays revoked.
\<close>

definition token_kept :: "token_row list \<Rightarrow> token_row \<Rightarrow> bool" where
  "token_kept ts t \<longleftrightarrow> (\<exists>t' \<in> set ts. token_fixed t' = token_fixed t
     \<and> (t_revoked_at t \<noteq> None \<longrightarrow> t_revoked_at t' = t_revoked_at t))"

definition history_step :: "db \<Rightarrow> db \<Rightarrow> bool" where
  "history_step d d' \<longleftrightarrow>
     prefix (events d) (events d') \<and> prefix (memories d) (memories d')
     \<and> prefix (releases d) (releases d')
     \<and> prefix (map mp_id (merge_proposals d)) (map mp_id (merge_proposals d'))
     \<and> prefix (map o_id (orgs d)) (map o_id (orgs d')) \<and> prefix (users d) (users d')
     \<and> prefix (map p_id (projects d)) (map p_id (projects d'))
     \<and> (\<forall>t \<in> set (device_tokens d). token_kept (device_tokens d') t)
     \<and> tick d \<le> tick d'"

lemma token_kept_trans:
  "token_kept ts t \<Longrightarrow> \<forall>t \<in> set ts. token_kept ts' t \<Longrightarrow> token_kept ts' t"
  unfolding token_kept_def by (metis (no_types))

lemma token_kept_self [simp]: "t \<in> set ts \<Longrightarrow> token_kept ts t"
  by (auto simp: token_kept_def)

lemma token_kept_append [simp]: "t \<in> set ts \<Longrightarrow> token_kept (ts @ us) t"
  by (auto simp: token_kept_def)

lemma token_kept_map:
  "t \<in> set ts \<Longrightarrow> (\<And>t. token_fixed (f t) = token_fixed t) \<Longrightarrow>
   (\<And>t. t_revoked_at t \<noteq> None \<Longrightarrow> t_revoked_at (f t) = t_revoked_at t) \<Longrightarrow>
   token_kept (map f ts) t"
  by (auto simp: token_kept_def)

interpretation hs: two_state history_step
proof unfold_locales
  fix d d' d'' :: db
  assume 1: "history_step d d'" and 2: "history_step d' d''"
  then have "\<forall>t \<in> set (device_tokens d). token_kept (device_tokens d'') t"
    unfolding history_step_def by (meson token_kept_trans)
  with 1 2 show "history_step d d''"
    unfolding history_step_def by (auto intro: prefix_order.trans)
qed (simp add: history_step_def)

lemma history_sql:
  assumes "\<And>n d. history_step d (snd (stmt n d))"
  shows "keeps history_step (sql E texts stmt)"
proof (rule keepsI)
  fix d :: db
  let ?d = "d\<lparr>tick := Suc (tick d)\<rparr>"
  have t: "history_step d ?d"
    by (simp add: history_step_def)
  have "history_step d (snd (stmt (tick d) ?d))"
    using t assms by (rule hs.step_trans)
  then show "history_step d (snd (sql E texts stmt d))"
    using t by (auto simp: sql_def Let_def split: sum.splits prod.splits)
qed

lemma history_check_all:
  "history_step d (snd r) \<Longrightarrow> history_step d (snd (check_all cs r d))"
  using check_all_cases [of cs r d] by (auto simp: hs.step_refl)



named_theorems history_methods "methods of the store that keep the history"

lemmas history_insert = history_sql history_check_all


lemma history_query: "keeps history_step (query E ts q)"
  unfolding query_def by (rule history_sql) (simp add: hs.step_refl)

lemma history_query_limit: "keeps history_step (query_limit E ts l q)"
  unfolding query_limit_def by (rule history_sql) (simp add: hs.step_refl)

lemma history_or_not_found: "keeps history_step (or_not_found r)"
  by (auto simp: or_not_found_def intro: hs.keeps_failwith hs.keeps_ret split: option.splits)

lemma history_inserts [history_methods]:
  "keeps history_step (DB_CreateOrg E slug name)"
  "keeps history_step (DB_CreateUser E username display)"
  "keeps history_step (DB_CreateProject E orgID slug name solo)"
  "keeps history_step (DB_Remember E orgID scope ouser oproj content createdBy)"
  "keeps history_step (DB_CreateProposal E orgID projectID artifact branch proposer summary)"
  "keeps history_step (DB_CreateRelease E orgID projectID artifact version tag notes createdBy)"
  "keeps history_step (insert_token E orgID userID digest label kind)"
  unfolding DB_CreateOrg_def DB_CreateUser_def DB_CreateProject_def DB_Remember_def
    DB_CreateProposal_def DB_CreateRelease_def insert_token_def
  by (intro history_insert; simp add: history_step_def)+

lemma history_EnsureRelease [history_methods]:
  "keeps history_step (DB_EnsureRelease E orgID projectID artifact version tag)"
proof -
  have "history_step d (snd (if b then (Inr False, d) else check_all cs (Inr True, d\<lparr>releases := releases d @ rs\<rparr>) d))"
    for b cs rs and d :: db
    using history_check_all [of d "(Inr True, d\<lparr>releases := releases d @ rs\<rparr>)" cs]
    by (simp add: history_step_def)
  then show ?thesis unfolding DB_EnsureRelease_def by (intro history_sql)
qed

lemma history_AppendEvent [history_methods]:
  "keeps history_step (DB_AppendEvent E orgID projectID actor label kind summary)"
  unfolding DB_AppendEvent_def Let_def
proof (intro history_sql)
  fix n and d :: db
  let ?d = "d\<lparr>event_seq := Suc (event_seq d)\<rparr>"
  have "history_step d ?d" by (simp add: history_step_def)
  moreover have "history_step ?d (snd (check_all cs (Inr (), ?d\<lparr>events := events ?d @ [r]\<rparr>) ?d))"
    for cs r by (rule history_check_all) (simp add: history_step_def)
  ultimately show "history_step d (snd (check_all
       [(has_row o_id orgID (orgs ?d), ''events_org_id_fkey''),
        (opt_ref p_id projectID (projects ?d), ''events_project_id_fkey''),
        (opt_ref u_id actor (users ?d), ''events_actor_user_id_fkey'')]
       (Inr (), ?d\<lparr>events := events ?d @ [\<lparr> e_id = event_seq ?d, e_org_id = orgID,
          e_project_id = projectID, e_actor_user_id = actor, e_identity_label = label,
          e_kind = kind, e_summary = summary, e_created_at = now E n \<rparr>]\<rparr>) ?d))"
    by (rule hs.step_trans)
qed

lemma history_updates [history_methods]:
  "keeps history_step (DB_SetOrgInstructions E orgID txt)"
  "keeps history_step (DB_SetProjectInstructions E projectID txt)"
  "keeps history_step (DB_ResolveProposal E pid status resolvedBy files)"
proof -
  have o: "map o_id (map (\<lambda>r. if o_id r = orgID then r\<lparr>o_instructions := txt\<rparr> else r) rs) = map o_id rs" for rs
    by simp
  show "keeps history_step (DB_SetOrgInstructions E orgID txt)"
    unfolding DB_SetOrgInstructions_def
    by (intro history_sql) (simp add: history_step_def o del: map_map)
  have p: "map p_id (map (\<lambda>r. if p_id r = projectID then r\<lparr>p_instructions := txt\<rparr> else r) rs) = map p_id rs" for rs
    by simp
  show "keeps history_step (DB_SetProjectInstructions E projectID txt)"
    unfolding DB_SetProjectInstructions_def
    by (intro history_sql) (simp add: history_step_def p del: map_map)
  have m: "map mp_id (map (\<lambda>r. if mp_id r = pid then r\<lparr>mp_status := status, mp_resolved_at := x,
      mp_resolved_by := y, mp_conflict_files := files\<rparr> else r) rs) = map mp_id rs" for rs x y
    by simp
  show "keeps history_step (DB_ResolveProposal E pid status resolvedBy files)"
    unfolding DB_ResolveProposal_def
    by (intro history_insert) (simp add: history_step_def m del: map_map)
qed

lemma history_members [history_methods]:
  "keeps history_step (DB_AddOrgMember E orgID userID role)"
  "keeps history_step (DB_AddProjectMember E p userID role)"
  unfolding DB_AddOrgMember_def DB_AddProjectMember_def
  by (intro hs.keeps_andThen hs.keeps_guarded history_insert; simp add: history_step_def)+

lemma history_tokens [history_methods]:
  "keeps history_step (touch_token E tid)"
  "keeps history_step (DB_RevokeToken E tid)"
proof -
  show "keeps history_step (touch_token E tid)"
    unfolding touch_token_def
    by (intro history_sql) (auto simp: history_step_def token_fixed_def intro!: token_kept_map)
  show "keeps history_step (DB_RevokeToken E tid)"
    unfolding DB_RevokeToken_def
    by (intro hs.keeps_andThen hs.keeps_if hs.keeps_failwith hs.keeps_ret history_sql)
      (auto simp: history_step_def token_fixed_def intro!: token_kept_map)
qed

lemma history_NewToken [history_methods]:
  "keeps history_step (DB_NewToken E lib orgID userID label kind)"
proof (rule keepsI)
  fix d
  have "keeps history_step (andThen (insert_token E orgID userID digest label kind) (\<lambda>_. ret x))"
    for digest and x :: string
    by (intro hs.keeps_andThen hs.keeps_ret history_methods)
  then show "history_step d (snd (DB_NewToken E lib orgID userID label kind d))"
    by (auto simp: DB_NewToken_def Let_def hs.step_refl dest: keepsD split: option.splits)
qed

lemma history_Authenticate [history_methods]: "keeps history_step (DB_Authenticate E lib token)"
  unfolding DB_Authenticate_def Let_def
  by (intro hs.keeps_andThen history_query history_or_not_found history_methods hs.keeps_case_prod
      hs.keeps_guarded hs.keeps_ignoring hs.keeps_ret)

lemma history_DB_reads [history_methods]:
  "keeps history_step (DB_GetOrgBySlug E slug)" "keeps history_step (DB_FirstOrg E)"
  "keeps history_step (DB_ListOrgs E)" "keeps history_step (DB_GetUserByUsername E username)"
  "keeps history_step (DB_OrgRole E orgID userID)" "keeps history_step (DB_OrgMemberCount E orgID)"
  "keeps history_step (DB_GetProject E orgID slug)" "keeps history_step (DB_ListProjects E orgID)"
  "keeps history_step (DB_ProjectRole E projectID userID)"
  "keeps history_step (DB_ProjectMembers E projectID)"
  "keeps history_step (DB_ListTokens E lib orgID)" "keeps history_step (DB_RecentEvents E projectID limit)"
  "keeps history_step (DB_Recall E orgID userID oproj q limit)"
  "keeps history_step (DB_GetProposal E projectID pid)"
  "keeps history_step (DB_ListProposals E projectID status)"
  "keeps history_step (DB_LatestReleases E projectID)"
  unfolding DB_GetOrgBySlug_def DB_FirstOrg_def DB_ListOrgs_def DB_GetUserByUsername_def
    DB_OrgRole_def DB_OrgMemberCount_def DB_GetProject_def DB_ListProjects_def DB_ProjectRole_def
    DB_ProjectMembers_def DB_ListTokens_def DB_RecentEvents_def DB_Recall_def DB_GetProposal_def
    DB_ListProposals_def DB_LatestReleases_def
  by (intro hs.keeps_andThen hs.keeps_if history_query history_query_limit history_or_not_found)+


section \<open>Sequences of calls\<close>

text \<open>One call of any method of the store, by anyone, with any arguments.\<close>

inductive db_call :: "dbms \<Rightarrow> golib \<Rightarrow> db \<Rightarrow> db \<Rightarrow> bool" for E :: dbms and lib :: golib where
  CreateOrg: "db_call E lib d (snd (DB_CreateOrg E slug name d))"
| GetOrgBySlug: "db_call E lib d (snd (DB_GetOrgBySlug E slug d))"
| FirstOrg: "db_call E lib d (snd (DB_FirstOrg E d))"
| ListOrgs: "db_call E lib d (snd (DB_ListOrgs E d))"
| CreateUser: "db_call E lib d (snd (DB_CreateUser E username display d))"
| GetUserByUsername: "db_call E lib d (snd (DB_GetUserByUsername E username d))"
| AddOrgMember: "db_call E lib d (snd (DB_AddOrgMember E orgID userID role d))"
| OrgRole: "db_call E lib d (snd (DB_OrgRole E orgID userID d))"
| OrgMemberCount: "db_call E lib d (snd (DB_OrgMemberCount E orgID d))"
| CreateProject: "db_call E lib d (snd (DB_CreateProject E orgID slug name solo d))"
| GetProject: "db_call E lib d (snd (DB_GetProject E orgID slug d))"
| ListProjects: "db_call E lib d (snd (DB_ListProjects E orgID d))"
| AddProjectMember: "db_call E lib d (snd (DB_AddProjectMember E p userID role d))"
| ProjectRole: "db_call E lib d (snd (DB_ProjectRole E projectID userID d))"
| ProjectMembers: "db_call E lib d (snd (DB_ProjectMembers E projectID d))"
| SetOrgInstructions: "db_call E lib d (snd (DB_SetOrgInstructions E orgID txt d))"
| SetProjectInstructions: "db_call E lib d (snd (DB_SetProjectInstructions E projectID txt d))"
| NewToken: "db_call E lib d (snd (DB_NewToken E lib orgID userID label kind d))"
| Authenticate: "db_call E lib d (snd (DB_Authenticate E lib token d))"
| RevokeToken: "db_call E lib d (snd (DB_RevokeToken E tid d))"
| ListTokens: "db_call E lib d (snd (DB_ListTokens E lib orgID d))"
| AppendEvent: "db_call E lib d (snd (DB_AppendEvent E orgID oproj actor label kind summary d))"
| RecentEvents: "db_call E lib d (snd (DB_RecentEvents E projectID limit d))"
| Remember: "db_call E lib d (snd (DB_Remember E orgID scope ouser oproj content createdBy d))"
| Recall: "db_call E lib d (snd (DB_Recall E orgID userID oproj q limit d))"
| CreateProposal:
    "db_call E lib d (snd (DB_CreateProposal E orgID projectID artifact branch proposer summary d))"
| GetProposal: "db_call E lib d (snd (DB_GetProposal E projectID pid d))"
| ListProposals: "db_call E lib d (snd (DB_ListProposals E projectID status d))"
| ResolveProposal: "db_call E lib d (snd (DB_ResolveProposal E pid status resolvedBy files d))"
| CreateRelease: "db_call E lib d
    (snd (DB_CreateRelease E orgID projectID artifact version tag notes createdBy d))"
| LatestReleases: "db_call E lib d (snd (DB_LatestReleases E projectID d))"
| EnsureRelease: "db_call E lib d (snd (DB_EnsureRelease E orgID projectID artifact version tag d))"

lemma db_call_wf: "db_call E lib d d' \<Longrightarrow> wf_step d d'"
  by (induction rule: db_call.induct) (rule keepsD, rule wf_methods)+

lemma db_call_history: "db_call E lib d d' \<Longrightarrow> history_step d d'"
  by (induction rule: db_call.induct) (rule keepsD, rule history_methods)+

lemma db_calls_wf: "(db_call E lib)\<^sup>*\<^sup>* d d' \<Longrightarrow> wf_db d \<Longrightarrow> wf_db d'"
  by (induction rule: rtranclp_induct) (auto dest: db_call_wf simp: wf_step_def)

lemma db_calls_history: "(db_call E lib)\<^sup>*\<^sup>* d d' \<Longrightarrow> history_step d d'"
  by (induction rule: rtranclp_induct) (auto dest: db_call_history intro: hs.step_refl hs.step_trans)

lemma wf_sample_empty: "wf_db sample_empty"
  by (simp add: sample_empty_def wf_db_def wf_tables)

section \<open>Device tokens\<close>

lemma map_filter_empty: "(\<And>x. x \<in> set xs \<Longrightarrow> f x = None) \<Longrightarrow> List.map_filter f xs = []"
  by (induction xs) (auto simp: List.map_filter_def)

lemma unique_row: "distinct (map f xs) \<Longrightarrow> x \<in> set xs \<Longrightarrow> y \<in> set xs \<Longrightarrow> f x = f y \<Longrightarrow> x = y"
  by (induction xs) (auto simp: rev_image_eqI)

lemma filter_unique_row:
  assumes "distinct (map f xs)" and "x \<in> set xs" and "P x"
  shows "filter (\<lambda>y. f y = f x \<and> P y) xs = [x]"
  using assms
proof (induction xs)
  case (Cons y ys)
  show ?case
  proof (cases "x = y")
    case True
    then have "filter (\<lambda>z. f z = f x \<and> P z) ys = []"
      using Cons.prems by (auto simp: filter_empty_conv rev_image_eqI)
    with True Cons.prems show ?thesis by simp
  next
    case False
    then have "x \<in> set ys" "f y \<noteq> f x" using Cons.prems by (auto simp: rev_image_eqI)
    then show ?thesis using Cons by simp
  qed
qed simp

lemma no_candidates:
  assumes "wf_db d" and "t \<in> set (device_tokens d)" and "t_hash t = digest"
    and "t_revoked_at t \<noteq> None"
  shows "token_candidates d digest = []"
proof -
  have "distinct (map t_hash (device_tokens d))"
    using assms(1) by (simp add: wf_db_def wf_tokens_def)
  then have "x = t" if "x \<in> set (device_tokens d)" "t_hash x = digest" for x
    using that assms(2,3) unique_row by metis
  then have "filter (\<lambda>t. t_hash t = digest \<and> t_revoked_at t = None) (device_tokens d) = []"
    using assms(4) by (auto simp: filter_empty_conv)
  then show ?thesis by (simp add: token_candidates_def List.map_filter_def)
qed

lemma identity_of_tick [simp]: "identity_of (d\<lparr>tick := n\<rparr>) = identity_of d"
  by (rule ext) (simp add: identity_of_def cong: option.case_cong)

lemma token_candidates_tick [simp]: "token_candidates (d\<lparr>tick := n\<rparr>) = token_candidates d"
  by (rule ext) (simp add: token_candidates_def)

lemma Authenticate_Inr:
  assumes "DB_Authenticate E lib token d = (Inr ti, d')"
  shows "\<exists>tid rest. token_candidates d (sha256 lib token) = (tid, sha256 lib token, ti) # rest
    \<and> d' = snd (touch_token E tid (d\<lparr>tick := Suc (tick d)\<rparr>))"
proof -
  obtain tid where
    "Some (tid, sha256 lib token, ti) =
       (case token_candidates d (sha256 lib token) of [] \<Rightarrow> None | x # _ \<Rightarrow> Some x)"
    and "d' = snd (touch_token E tid (d\<lparr>tick := Suc (tick d)\<rparr>))"
    using assms
    by (auto simp: DB_Authenticate_def Let_def andThen_Inr or_not_found_Inr guarded_Inr
        dest!: query_Inr split: prod.splits)
  then show ?thesis by (auto split: list.splits)
qed

lemma Authenticate_no_candidates:
  "token_candidates d (sha256 lib token) = [] \<Longrightarrow>
     fst (DB_Authenticate E lib token d) \<in> {Inl NotFound, Inl (DbError Unavailable)}"
  by (cases "fault E (tick d)")
    (auto simp: DB_Authenticate_def Let_def query_def sql_def andThen_def or_not_found_def)

lemma Authenticate_candidate:
  assumes "token_candidates d (sha256 lib token) = (tid, sha256 lib token, ti) # rest"
    and "fault E (tick d) = NoFault"
  shows "fst (DB_Authenticate E lib token d) = Inr ti"
  using assms by (simp add: DB_Authenticate_def Let_def query_no_fault andThen_def or_not_found_def)

lemma RevokeToken_Inr:
  assumes "DB_RevokeToken E tid d = (Inr (), d')" and "t \<in> set (device_tokens d)" and "t_id t = tid"
  shows "\<exists>t' \<in> set (device_tokens d'). token_fixed t' = token_fixed t \<and> t_revoked_at t' \<noteq> None"
proof -
  let ?f = "\<lambda>t. if t_id t = tid \<and> t_revoked_at t = None
    then t\<lparr>t_revoked_at := Some (now E (tick d))\<rparr> else t"
  have "device_tokens d' = map ?f (device_tokens d)"
    using assms(1) by (auto simp: DB_RevokeToken_def andThen_Inr dest!: sql_Inr split: if_splits)
  then have "?f t \<in> set (device_tokens d')"
    using assms(2) by simp
  moreover have "token_fixed (?f t) = token_fixed t" and "t_revoked_at (?f t) \<noteq> None"
    using assms(3) by (auto simp: token_fixed_def)
  ultimately show ?thesis by blast
qed

lemma identity_of_row:
  assumes "t_user_id t \<in> u_id ` set (users d)" and "t_org_id t \<in> o_id ` set (orgs d)"
  shows "\<exists>ti. identity_of d t = Some (t_id t, t_hash t, ti)
    \<and> TI_UserID ti = t_user_id t \<and> TI_OrgID ti = t_org_id t \<and> TI_Label ti = t_label t
    \<and> TI_OrgRole ti = (case first_row om_key (t_org_id t, t_user_id t) (org_memberships d) of
          None \<Rightarrow> OrgNone | Some m \<Rightarrow> om_role m)"
proof -
  obtain u og where "first_row u_id (t_user_id t) (users d) = Some u"
      "first_row o_id (t_org_id t) (orgs d) = Some og"
    using assms first_row_None [of u_id _ "users d"] first_row_None [of o_id _ "orgs d"]
    by (meson not_None_eq)
  moreover from this have "u_id u = t_user_id t" "o_id og = t_org_id t"
    by (auto dest: first_row_Some)
  ultimately show ?thesis
    by (auto simp: identity_of_def OrgNone_def cong: option.case_cong)
qed

lemma touch_token_frame:
  "snd (touch_token E tid d) = d\<lparr>tick := tick (snd (touch_token E tid d)),
       device_tokens := device_tokens (snd (touch_token E tid d))\<rparr>
   \<and> map (\<lambda>t. t\<lparr>t_last_seen_at := None\<rparr>) (device_tokens (snd (touch_token E tid d)))
       = map (\<lambda>t. t\<lparr>t_last_seen_at := None\<rparr>) (device_tokens d)"
  by (auto simp: touch_token_def sql_def Let_def)

text \<open>
  C3: Revocation is final. Once \<open>RevokeToken\<close> has succeeded for a token, then after any further
  calls of the store, in any order and with any failures, presenting a string with that token's
  digest to \<open>Authenticate\<close> gives not-found (or the error of an unavailable database), never an
  identity.
\<close>

theorem revocation_is_final:
  assumes "wf_db d" and "t \<in> set (device_tokens d)"
    and "DB_RevokeToken E (t_id t) d = (Inr (), d1)" and "(db_call E lib)\<^sup>*\<^sup>* d1 d2"
    and "sha256 lib token = t_hash t"
  shows "fst (DB_Authenticate E lib token d2) \<in> {Inl NotFound, Inl (DbError Unavailable)}"
proof -
  obtain t1 where "t1 \<in> set (device_tokens d1)" "token_fixed t1 = token_fixed t" "t_revoked_at t1 \<noteq> None"
    using RevokeToken_Inr [OF assms(3,2)] by auto
  moreover have "history_step d1 d2"
    using assms(4) by (rule db_calls_history)
  ultimately obtain t2 where "t2 \<in> set (device_tokens d2)" "token_fixed t2 = token_fixed t"
      "t_revoked_at t2 \<noteq> None"
    unfolding history_step_def token_kept_def by fastforce
  moreover have "wf_db d2"
    using assms wf_DB_RevokeToken [THEN keepsD, of d E "t_id t"]
    by (auto simp: wf_step_def intro: db_calls_wf)
  ultimately show ?thesis
    using no_candidates [of d2 t2] assms(5)
    by (intro Authenticate_no_candidates) (simp add: token_fixed_def)
qed

lemma wf_sample: "wf_db sample_db"
proof -
  have "keeps wf_step (sample_setup False)"
    unfolding sample_setup_def by (intro wf.keeps_andThen wf_methods)
  then have "wf_step sample_empty sample_db"
    unfolding sample_db_def by (rule keepsD)
  then show ?thesis using wf_sample_empty by (simp add: wf_step_def)
qed

lemma sample_revoked:
  "DB_RevokeToken sample_dbms (t_id (hd (device_tokens sample_db))) sample_db
    = (Inr (), snd (DB_RevokeToken sample_dbms (t_id (hd (device_tokens sample_db))) sample_db))"
  "hd (device_tokens sample_db) \<in> set (device_tokens sample_db)"
  "sha256 sample_lib sample_token = t_hash (hd (device_tokens sample_db))"
  by code_simp+

theorem revocation_is_final_witness:
  "fst (DB_Authenticate sample_dbms sample_lib sample_token
     (snd (DB_RevokeToken sample_dbms (t_id (hd (device_tokens sample_db))) sample_db)))
   \<in> {Inl NotFound, Inl (DbError Unavailable)}"
  using revocation_is_final [OF wf_sample sample_revoked(2,1) rtranclp.rtrancl_refl sample_revoked(3)] .

lemma NewToken_row:
  assumes "DB_NewToken E lib orgID userID label kind d = (Inr token, d1)"
  shows "\<exists>r. d1 = d\<lparr>tick := tick d1, device_tokens := device_tokens d @ [r]\<rparr>
    \<and> t_hash r = sha256 lib token \<and> t_revoked_at r = None \<and> t_org_id r = orgID \<and> t_user_id r = userID
    \<and> t_label r = label \<and> sha256 lib token \<notin> t_hash ` set (device_tokens d)
    \<and> orgID \<in> o_id ` set (orgs d) \<and> userID \<in> u_id ` set (users d) \<and> HasPrefix token ''ubq_''"
proof -
  have token: "HasPrefix token ''ubq_''"
    and ins: "insert_token E orgID userID (sha256 lib token) label kind d = (Inr (), d1)"
    using assms by (auto simp: DB_NewToken_def Let_def andThen_Inr split: option.splits)
  let ?r = "\<lparr> t_id = gen_uuid E (tick d), t_org_id = orgID, t_user_id = userID, t_hash = sha256 lib token,
    t_label = label, t_client_kind = kind, t_created_at = now E (tick d), t_last_seen_at = None,
    t_revoked_at = None \<rparr>"
  have "d1 = d\<lparr>tick := Suc (tick d), device_tokens := device_tokens d @ [?r]\<rparr>"
    and "sha256 lib token \<notin> t_hash ` set (device_tokens d)"
    and "orgID \<in> o_id ` set (orgs d)" and "userID \<in> u_id ` set (users d)"
    using check_all_Inr [OF sql_Inr [OF ins [unfolded insert_token_def], THEN conjunct1]] by auto
  then show ?thesis
    using token by (intro exI [of _ ?r]) simp
qed

text \<open>A digest that only the last row has leads to the identity of that row.\<close>

lemma token_candidates_new:
  assumes "device_tokens d = ts @ [r]" and "t_hash r \<notin> t_hash ` set ts" and "t_revoked_at r = None"
  shows "token_candidates d (t_hash r) = (case identity_of d r of None \<Rightarrow> [] | Some i \<Rightarrow> [i])"
proof -
  have "filter (\<lambda>t. t_hash t = t_hash r \<and> t_revoked_at t = None) ts = []"
    using assms(2) unfolding filter_empty_conv by (metis imageI)
  then show ?thesis
    using assms by (simp add: token_candidates_def List.map_filter_def split: option.splits)
qed

text \<open>
  C4: A token that was just issued authenticates its owner: if \<open>NewToken\<close> succeeds and the
  database answers the next query, \<open>Authenticate\<close> accepts the returned plain text and resolves it
  to the user, org and label it was issued for, with the role the user has in the org now. Only the
  digest of the token is in the database.
\<close>

theorem new_token_authenticates:
  assumes "wf_db d" and "DB_NewToken E lib orgID userID label kind d = (Inr token, d1)"
    and "fault E (tick d1) = NoFault"
  shows "\<exists>ti. fst (DB_Authenticate E lib token d1) = Inr ti
    \<and> TI_UserID ti = userID \<and> TI_OrgID ti = orgID \<and> TI_Label ti = label
    \<and> TI_OrgRole ti = (case first_row om_key (orgID, userID) (org_memberships d) of
          None \<Rightarrow> OrgNone | Some m \<Rightarrow> om_role m)
    \<and> HasPrefix token ''ubq_''
    \<and> map t_hash (device_tokens d1) = map t_hash (device_tokens d) @ [sha256 lib token]"
proof -
  obtain r where r: "d1 = d\<lparr>tick := tick d1, device_tokens := device_tokens d @ [r]\<rparr>"
      "t_hash r = sha256 lib token" "t_revoked_at r = None" "t_org_id r = orgID" "t_user_id r = userID" "t_label r = label"
      "sha256 lib token \<notin> t_hash ` set (device_tokens d)" "orgID \<in> o_id ` set (orgs d)" "userID \<in> u_id ` set (users d)"
      "HasPrefix token ''ubq_''"
    using NewToken_row [OF assms(2)] by blast
  have same: "device_tokens d1 = device_tokens d @ [r]" "org_memberships d1 = org_memberships d"
      "users d1 = users d" "orgs d1 = orgs d"
    by (subst r(1), simp)+
  obtain ti where id: "identity_of d1 r = Some (t_id r, t_hash r, ti)"
    and ti: "TI_UserID ti = userID" "TI_OrgID ti = orgID" "TI_Label ti = label"
      "TI_OrgRole ti = (case first_row om_key (orgID, userID) (org_memberships d) of
          None \<Rightarrow> OrgNone | Some m \<Rightarrow> om_role m)"
    using identity_of_row [of r d1] r same by auto
  have "token_candidates d1 (sha256 lib token) = [(t_id r, sha256 lib token, ti)]"
    using token_candidates_new [OF same(1)] r id by simp
  from Authenticate_candidate [OF this assms(3)] ti r(2,10) same show ?thesis
    by auto
qed

definition sample_second_token :: "string \<times> db" where
  "sample_second_token =
     (case DB_NewToken sample_dbms sample_lib 0 1 ''ci'' ''codex'' sample_db of
        (Inr s, d) \<Rightarrow> (s, d) | (Inl e, d) \<Rightarrow> ('''', d))"

lemma sample_second_token_ok:
  "DB_NewToken sample_dbms sample_lib 0 1 ''ci'' ''codex'' sample_db
     = (Inr (fst sample_second_token), snd sample_second_token)"
  "fault sample_dbms (tick (snd sample_second_token)) = NoFault"
  by code_simp+

theorem new_token_authenticates_witness:
  "\<exists>ti. fst (DB_Authenticate sample_dbms sample_lib (fst sample_second_token)
           (snd sample_second_token)) = Inr ti \<and> TI_UserID ti = 1 \<and> TI_Label ti = ''ci''"
  using new_token_authenticates [OF wf_sample sample_second_token_ok] by blast

lemma Authenticate_live:
  assumes "DB_Authenticate E lib token d = (Inr ti, d')"
  shows "(\<exists>t \<in> set (device_tokens d). t_hash t = sha256 lib token \<and> t_revoked_at t = None
      \<and> TI_UserID ti = t_user_id t \<and> TI_OrgID ti = t_org_id t \<and> TI_Label ti = t_label t)
    \<and> d' = d\<lparr>tick := tick d', device_tokens := device_tokens d'\<rparr>
    \<and> map (\<lambda>t. t\<lparr>t_last_seen_at := None\<rparr>) (device_tokens d')
       = map (\<lambda>t. t\<lparr>t_last_seen_at := None\<rparr>) (device_tokens d)"
proof -
  obtain tid rest where c: "token_candidates d (sha256 lib token) = (tid, sha256 lib token, ti) # rest"
    and d': "d' = snd (touch_token E tid (d\<lparr>tick := Suc (tick d)\<rparr>))"
    using Authenticate_Inr [OF assms] by blast
  have "(tid, sha256 lib token, ti) \<in> set (token_candidates d (sha256 lib token))"
    by (simp add: c)
  then obtain t where t: "t \<in> set (device_tokens d)" "t_hash t = sha256 lib token"
      "t_revoked_at t = None" "identity_of d t = Some (tid, sha256 lib token, ti)"
    by (auto simp: token_candidates_def map_filter_def)
  then have "TI_UserID ti = t_user_id t \<and> TI_OrgID ti = t_org_id t \<and> TI_Label ti = t_label t"
    by (auto simp: identity_of_def dest!: first_row_Some split: option.splits)
  moreover note touch_token_frame [of E tid "d\<lparr>tick := Suc (tick d)\<rparr>"]
  ultimately show ?thesis using t d' by auto
qed

text \<open>
  An identity is only ever given out for a live credential: when \<open>Authenticate\<close> returns an
  identity, the database holds a token row that is not revoked and whose stored digest is the
  digest of the presented string, the identity is that row's user, org and label, and no row of
  any table changed except the last-seen time of tokens.
\<close>

theorem authenticated_identity_is_live:
  assumes "DB_Authenticate E lib token d = (Inr ti, d')"
  shows "(\<exists>t \<in> set (device_tokens d). t_hash t = sha256 lib token \<and> t_revoked_at t = None
      \<and> TI_UserID ti = t_user_id t \<and> TI_OrgID ti = t_org_id t \<and> TI_Label ti = t_label t)
    \<and> d' = d\<lparr>tick := tick d', device_tokens := device_tokens d'\<rparr>
    \<and> map (\<lambda>t. t\<lparr>t_last_seen_at := None\<rparr>) (device_tokens d')
       = map (\<lambda>t. t\<lparr>t_last_seen_at := None\<rparr>) (device_tokens d)"
  using assms by (rule Authenticate_live)

definition sample_identity :: TokenIdentity where
  "sample_identity = projr (fst (DB_Authenticate sample_dbms sample_lib sample_token sample_db))"

lemma sample_authenticates:
  "DB_Authenticate sample_dbms sample_lib sample_token sample_db
     = (Inr sample_identity, snd (DB_Authenticate sample_dbms sample_lib sample_token sample_db))"
  by code_simp

theorem authenticated_identity_is_live_witness:
  "\<exists>t \<in> set (device_tokens sample_db). t_hash t = sample_token \<and> t_revoked_at t = None
     \<and> TI_UserID sample_identity = t_user_id t"
  using authenticated_identity_is_live [OF sample_authenticates] by (auto simp: sample_lib_def)

end
