(* ===== verification/Members.thy ===== *)
theory Members
  imports History
begin

text \<open>
  The two membership tables as registers of roles. Both \<open>AddOrgMember\<close> and
  \<open>AddProjectMember\<close> are an upsert keyed by a pair of ids; the contract they share, that a
  successful write replaces the value of one key and no other, is the locale \<open>register\<close>.
\<close>

section \<open>Registers\<close>

fun calls :: "('a \<Rightarrow> 's \<Rightarrow> 's \<Rightarrow> bool) \<Rightarrow> 'a list \<Rightarrow> 's \<Rightarrow> 's \<Rightarrow> bool" where
  "calls step [] s s' \<longleftrightarrow> s' = s"
| "calls step (x # xs) s s' \<longleftrightarrow> (\<exists>t. step x s t \<and> calls step xs t s')"

locale register =
  fixes assign :: "'k \<Rightarrow> 'v \<Rightarrow> 's \<Rightarrow> 's \<Rightarrow> bool"
    and read :: "'s \<Rightarrow> 'k \<Rightarrow> 'v option"
  assumes read_assign: "assign k v s s' \<Longrightarrow> read s' = (read s)(k \<mapsto> v)"
begin

lemma last_write_wins:
  "calls (\<lambda>(k, v). assign k v) ws s s' \<Longrightarrow> read s' = read s ++ map_of (rev ws)"
proof (induction ws arbitrary: s)
  case (Cons w ws)
  obtain k v where w: "w = (k, v)" by (cases w)
  from Cons.prems obtain t where "assign k v s t" and t: "calls (\<lambda>(k, v). assign k v) ws t s'"
    by (auto simp: w)
  then have "read t = (read s)(k \<mapsto> v)" by (intro read_assign)
  with Cons.IH [OF t] show ?case
    by (simp add: w map_add_def map_of_append fun_eq_iff split: option.splits)
qed simp

lemma untouched: "calls (\<lambda>(k, v). assign k v) ws s s' \<Longrightarrow> k \<notin> fst ` set ws \<Longrightarrow> read s' k = read s k"
  by (simp add: last_write_wins map_add_def map_of_eq_None_iff split: option.splits)
     (metis map_of_eq_None_iff option.distinct(1) rev_rev_ident set_rev)

end

lemma forEach_calls:
  "forEach xs f s = (Inr ys, s') \<Longrightarrow> calls (\<lambda>x s s'. \<exists>y. f x s = (Inr y, s')) xs s s'"
  by (induction xs arbitrary: s ys) (fastforce simp: andThen_Inr)+

lemma calls_mono:
  "calls P xs s s' \<Longrightarrow> (\<And>x s s'. P x s s' \<Longrightarrow> Q (g x) s s') \<Longrightarrow> calls Q (map g xs) s s'"
  by (induction xs arbitrary: s) (simp, simp, blast)

section \<open>Org and project roles\<close>

definition org_role_at :: "db \<Rightarrow> uuid \<times> uuid \<Rightarrow> OrgRole option" where
  "org_role_at d k = map_option om_role (first_row om_key k (org_memberships d))"

definition project_role_at :: "db \<Rightarrow> uuid \<times> uuid \<Rightarrow> Role option" where
  "project_role_at d k = map_option pm_role (first_row pm_key k (project_memberships d))"

lemma upsert_role:
  assumes "\<And>x. key (upd x) = key x" and "\<And>x. val (upd x) = val r"
  shows "(\<lambda>k. map_option val (first_row key k (upsert key upd r rows)))
    = (\<lambda>k. map_option val (first_row key k rows))(key r \<mapsto> val r)"
proof
  fix k
  show "map_option val (first_row key k (upsert key upd r rows))
    = ((\<lambda>k. map_option val (first_row key k rows))(key r \<mapsto> val r)) k"
    by (cases "k = key r")
      (simp_all add: upsert_lookup_same upsert_lookup_other assms split: option.splits)
qed

lemma AddOrgMember_write:
  assumes "DB_AddOrgMember E orgID userID role d = (Inr (), d')"
  shows "org_role_at d' = (org_role_at d)((orgID, userID) \<mapsto> role) \<and> ValidOrgRole role"
proof -
  have "ValidOrgRole role" and "d' = d\<lparr>tick := Suc (tick d), org_memberships :=
      upsert om_key (\<lambda>r. r\<lparr>om_role := role\<rparr>)
        \<lparr> om_org_id = orgID, om_user_id = userID, om_role = role, om_created_at = now E (tick d) \<rparr>
        (org_memberships d)\<rparr>"
    using assms by (auto simp: DB_AddOrgMember_def andThen_Inr guarded_Inr dest!: sql_Inr
        dest: check_all_Inr simp del: check_all.simps)
  then show ?thesis
    unfolding org_role_at_def
    using upsert_role [of om_key "\<lambda>r. r\<lparr>om_role := role\<rparr>" om_role
        "\<lparr> om_org_id = orgID, om_user_id = userID, om_role = role, om_created_at = now E (tick d) \<rparr>"]
    by (simp add: om_key_def)
qed

lemma AddProjectMember_write:
  assumes "DB_AddProjectMember E p userID role d = (Inr (), d')"
  shows "project_role_at d' = (project_role_at d)((Project_ID p, userID) \<mapsto> role) \<and> ValidRole role"
proof -
  let ?r = "\<lparr> pm_project_id = Project_ID p, pm_org_id = Project_OrgID p, pm_user_id = userID,
              pm_role = role, pm_created_at = now E (tick d) \<rparr>"
  have "ValidRole role" and "d' = d\<lparr>tick := Suc (tick d), project_memberships :=
      upsert pm_key (\<lambda>r. r\<lparr>pm_role := role\<rparr>) ?r (project_memberships d)\<rparr>"
    using assms by (auto simp: DB_AddProjectMember_def andThen_Inr guarded_Inr dest!: sql_Inr
        dest: check_all_Inr simp del: check_all.simps)
  then show ?thesis
    unfolding project_role_at_def
    using upsert_role [of pm_key "\<lambda>r. r\<lparr>pm_role := role\<rparr>" pm_role ?r]
    by (simp add: pm_key_def)
qed

interpretation om: register
  "\<lambda>(orgID, userID) role d d'. DB_AddOrgMember E orgID userID role d = (Inr (), d')" org_role_at
  for E
  by unfold_locales (auto dest: AddOrgMember_write)

interpretation pm: register
  "\<lambda>(projectID, userID) role d d'. \<exists>p. Project_ID p = projectID
      \<and> DB_AddProjectMember E p userID role d = (Inr (), d')" project_role_at
  for E
  by unfold_locales (auto dest: AddProjectMember_write)

text \<open>
  C13: The membership table implements a map of roles, and the last grant wins. After a sequence of successful \<open>AddProjectMember\<close> calls,
  \<open>ProjectRole\<close> returns, for every project and user, the role of the last call for that pair;
  a pair that no call named keeps the role it had.
\<close>

theorem last_project_grant_wins:
  assumes "forEach gs (\<lambda>(p, userID, role). DB_AddProjectMember E p userID role) d = (Inr us, d')"
    and "fault E (tick d') = NoFault"
  shows "fst (DB_ProjectRole E projectID userID d') = Inr
    (case map_of (rev (map (\<lambda>(p, u, role). ((Project_ID p, u), role)) gs)) (projectID, userID) of
       Some role \<Rightarrow> role
     | None \<Rightarrow> (case project_role_at d (projectID, userID) of Some role \<Rightarrow> role | None \<Rightarrow> RoleNone))"
proof -
  have "calls (\<lambda>(k, v). (\<lambda>(projectID, userID) role d d'. \<exists>p. Project_ID p = projectID
      \<and> DB_AddProjectMember E p userID role d = (Inr (), d')) k v)
      (map (\<lambda>(p, u, role). ((Project_ID p, u), role)) gs) d d'"
    using forEach_calls [OF assms(1)] by (rule calls_mono) auto
  then have "project_role_at d' = project_role_at d ++
      map_of (rev (map (\<lambda>(p, u, role). ((Project_ID p, u), role)) gs))"
    by (rule pm.last_write_wins)
  moreover have "fst (DB_ProjectRole E projectID userID d')
      = Inr (case project_role_at d' (projectID, userID) of Some role \<Rightarrow> role | None \<Rightarrow> RoleNone)"
    using assms(2)
    by (simp add: DB_ProjectRole_def query_no_fault project_role_at_def split: option.splits)
  ultimately show ?thesis
    by (simp add: map_add_def split: option.splits)
qed

definition sample_grants :: "(Project \<times> uuid \<times> string) list" where
  "sample_grants =
     (let p = project_of (hd (projects sample_db)) in
      [(p, 2, ''viewer''), (p, 1, ''viewer''), (p, 2, ''contributor'')])"

definition sample_granted :: db where
  "sample_granted = snd (forEach sample_grants
     (\<lambda>(p, userID, role). DB_AddProjectMember sample_dbms p userID role) sample_db)"

lemma sample_granted_ok:
  "forEach sample_grants (\<lambda>(p, userID, role). DB_AddProjectMember sample_dbms p userID role) sample_db
     = (Inr [(), (), ()], sample_granted)"
  "fault sample_dbms (tick sample_granted) = NoFault"
  "map_of (rev (map (\<lambda>(p, u, role). ((Project_ID p, u), role)) sample_grants)) (3, 2)
     = Some ''contributor''"
  by code_simp+

theorem last_project_grant_wins_witness:
  "fst (DB_ProjectRole sample_dbms 3 2 sample_granted) = Inr ''contributor''"
  using last_project_grant_wins [OF sample_granted_ok(1,2), of 3 2] sample_granted_ok(3) by simp

end
