(* ===== verification/Gitstore_Facts.thy ===== *)
theory Gitstore_Facts
  imports Gitstore
begin

text \<open>
  What the operations of the git plane do to the outside world, as statements about the trace of
  effects. A set of traces that is closed under sequencing (the locale \<open>trace_lang\<close>) gives a
  two-state relation, so the composition rules of \<open>two_state\<close> carry it through every
  operation. It is used for the discipline of the locks, for the removal of temporary clones and,
  with the result taken into account (\<open>publishes\<close>), for what is pushed.
\<close>

section \<open>Trace languages\<close>

definition emits :: "(effect list \<Rightarrow> bool) \<Rightarrow> 'w gitstate \<Rightarrow> 'w gitstate \<Rightarrow> bool" where
  "emits P s s' \<longleftrightarrow> (\<exists>t. trace s' = trace s @ t \<and> P t)"

lemma emits_performed: "P [e] \<Longrightarrow> emits P s (performed e w s)"
  by (simp add: emits_def performed_def)

lemma trace_performed: "trace (performed e w s) = trace s @ [e]"
  by (simp add: performed_def)

lemma emitsD: "keeps (emits P) m \<Longrightarrow> m s = (r, s') \<Longrightarrow> \<exists>t. trace s' = trace s @ t \<and> P t"
  using keepsD [of "emits P" m s] by (simp add: emits_def)

locale trace_lang =
  fixes P :: "effect list \<Rightarrow> bool"
  assumes P_Nil: "P []"
    and P_append: "P a \<Longrightarrow> P b \<Longrightarrow> P (a @ b)"
begin

lemma emits_refl: "emits P s s"
  by (simp add: emits_def P_Nil)

lemma emits_trans: "emits P s s' \<Longrightarrow> emits P s' s'' \<Longrightarrow> emits P s s''"
  unfolding emits_def using P_append by (metis append_assoc)

end

sublocale trace_lang < two_state "emits P"
  by unfold_locales (rule emits_refl, erule (1) emits_trans)

context trace_lang
begin

lemma keeps_deferred [keeps_rules]:
  assumes "keeps (emits P) m" and "\<And>s. emits P s (c s)"
  shows "keeps (emits P) (deferred c m)"
proof (rule keepsI)
  fix s
  show "emits P s (snd (deferred c m s))"
    using keepsD [OF assms(1), of s] assms(2)
    by (auto simp: deferred_def split: prod.splits intro: emits_trans)
qed

lemma keeps_failIf [keeps_rules]: "keeps (emits P) (failIf r)"
  by (simp add: failIf_def keeps_ret keeps_failwith split: option.splits)

lemma keeps_Stat [keeps_rules]: "keeps (emits P) (os_Stat H path)"
  by (simp add: keeps_def os_Stat_def emits_refl)

lemma keeps_MkdirAll: "P [MkdirAll dir] \<Longrightarrow> keeps (emits P) (os_MkdirAll H dir)"
  by (auto simp: keeps_def os_MkdirAll_def emits_performed split: prod.splits)

lemma keeps_WriteFile: "P [WriteFile f c] \<Longrightarrow> keeps (emits P) (os_WriteFile H f c)"
  by (auto simp: keeps_def os_WriteFile_def emits_performed split: prod.splits)

lemma keeps_CreateTemp: "P [CreateTemp dir] \<Longrightarrow> keeps (emits P) (os_CreateTemp H dir)"
  by (auto simp: keeps_def os_CreateTemp_def emits_performed split: prod.splits)

lemma keeps_Remove: "P [RemoveFile f] \<Longrightarrow> keeps (emits P) (os_Remove H f)"
  by (auto simp: keeps_def os_Remove_def emits_performed split: prod.splits)

lemma keeps_git_output:
  "(\<And>b. P [Exec dir args b]) \<Longrightarrow> keeps (emits P) (git_output H dir args)"
  by (auto simp: keeps_def git_output_def emits_performed split: prod.splits)

lemma keeps_git_stdout:
  assumes "\<And>b. P [Exec dir args b]"
  shows "keeps (emits P) (git_stdout H dir args)"
proof (rule keepsI)
  fix s
  show "emits P s (snd (git_stdout H dir args s))"
    using keepsD [OF keeps_git_output [of dir args H, OF assms], of s]
    by (auto simp: git_stdout_def split: prod.splits)
qed

lemma keeps_git:
  assumes "\<And>b. P [Exec dir args b]"
  shows "keeps (emits P) (Git_git H dir args)"
proof (rule keepsI)
  fix s
  show "emits P s (snd (Git_git H dir args s))"
    using keepsD [OF keeps_git_output [of dir args H, OF assms], of s]
    by (auto simp: Git_git_def split: prod.splits option.splits)
qed

end

section \<open>Locks and temporary clones\<close>

text \<open>The commands that change a bare repository.\<close>

definition mutating :: "string list \<Rightarrow> bool" where
  "mutating args \<longleftrightarrow> (case args of [] \<Rightarrow> False
     | c # as \<Rightarrow> c = ''push'' \<or> c = ''init'' \<or> c = ''branch'' \<or> (c = ''tag'' \<and> take 1 as = [''-a'']))"

text \<open>
  The automaton of the locks: the held lock, if any. Taking a lock while one is held, releasing
  another one, and running a mutating command without a lock have no successor.
\<close>

fun lock_run :: "nat option \<Rightarrow> effect list \<Rightarrow> nat option option" where
  "lock_run h [] = Some h"
| "lock_run h (Lock l # t) = (if h = None then lock_run (Some l) t else None)"
| "lock_run h (Unlock l # t) = (if h = Some l then lock_run None t else None)"
| "lock_run h (Exec dir args ok # t) = (if mutating args \<and> h = None then None else lock_run h t)"
| "lock_run h (e # t) = lock_run h t"

definition lock_ok :: "effect list \<Rightarrow> bool" where
  "lock_ok t \<longleftrightarrow> lock_run None t = Some None"

definition under_lock :: "effect list \<Rightarrow> bool" where
  "under_lock t \<longleftrightarrow> (\<forall>l. lock_run (Some l) t = Some (Some l))"

lemma lock_run_append: "lock_run h (a @ b) = Option.bind (lock_run h a) (\<lambda>h'. lock_run h' b)"
  by (induction h a rule: lock_run.induct) auto

text \<open>The temporary directories that exist, newest first.\<close>

fun live :: "string list \<Rightarrow> effect list \<Rightarrow> string list" where
  "live ds [] = ds"
| "live ds (MkdirTemp d # t) = live (d # ds) t"
| "live ds (RemoveAll d # t) = live (remove1 d ds) t"
| "live ds (e # t) = live ds t"

lemma live_append: "live ds (a @ b) = live (live ds a) b"
  by (induction ds a rule: live.induct) auto

definition balanced :: "effect list \<Rightarrow> bool" where
  "balanced t \<longleftrightarrow> (\<forall>ds. live ds t = ds)"

text \<open>A whole operation, and what runs inside its lock.\<close>

definition clean_op :: "effect list \<Rightarrow> bool" where
  "clean_op t \<longleftrightarrow> lock_ok t \<and> balanced t"

definition clean_section :: "effect list \<Rightarrow> bool" where
  "clean_section t \<longleftrightarrow> under_lock t \<and> balanced t"

interpretation op: trace_lang clean_op
  by unfold_locales (auto simp: clean_op_def lock_ok_def balanced_def lock_run_append live_append)

interpretation sec: trace_lang clean_section
  by unfold_locales (auto simp: clean_section_def under_lock_def balanced_def lock_run_append live_append)

lemma clean_section_effects [simp]:
  "clean_section [Exec dir args b]" "clean_section [MkdirAll d]" "clean_section [WriteFile f c]"
  by (simp_all add: clean_section_def under_lock_def balanced_def)

lemma clean_op_effects [simp]:
  "\<not> mutating args \<Longrightarrow> clean_op [Exec dir args b]" "clean_op [MkdirAll d]"
  "clean_op [CreateTemp d]" "clean_op [RemoveFile f]"
  by (simp_all add: clean_op_def lock_ok_def balanced_def)

lemma withLock_clean [keeps_rules]:
  fixes m :: "('w gitstate, 'a) go"
  assumes "keeps (emits clean_section) m"
  shows "keeps (emits clean_op) (withLock path m)"
proof (rule keepsI)
  fix s :: "'w gitstate"
  obtain l s1 where l: "repoLock path s = (l, s1)" by (cases "repoLock path s")
  then have s1: "trace s1 = trace s"
    by (auto simp: repoLock_def split: option.splits)
  let ?s1 = "performed (Lock l) (world s1) s1"
  obtain r s2 where m: "m ?s1 = (r, s2)" by (cases "m ?s1")
  obtain t where t: "trace s2 = trace ?s1 @ t" "clean_section t"
    using emitsD [OF assms m] by blast
  have "clean_op (Lock l # t @ [Unlock l])"
    using t(2) by (simp add: clean_op_def clean_section_def lock_ok_def under_lock_def balanced_def
        lock_run_append live_append)
  then show "emits clean_op s (snd (withLock path m s))"
    unfolding emits_def
    by (intro exI [of _ "Lock l # t @ [Unlock l]"])
      (simp add: withLock_def l m deferred_def s1 t(1) trace_performed)
qed

text \<open>
  A clone leaves its directory behind only when it succeeds; \<open>withClone\<close> then removes it.
\<close>

definition leaves :: "string \<Rightarrow> effect list \<Rightarrow> bool" where
  "leaves tmp t \<longleftrightarrow> under_lock t \<and> (\<forall>ds. live ds t = tmp # ds)"

lemma git_trace:
  "Git_git H dir args s = (r, s') \<Longrightarrow> trace s' = trace s @ [Exec dir args (\<exists>x. r = Inr x)]"
  by (auto simp: Git_git_def git_output_def performed_def split: prod.splits option.splits)

lemma clone_trace:
  assumes "Git_clone H path branch allowEmpty s = (r, s')"
  shows "\<exists>t. trace s' = trace s @ t
    \<and> (case r of Inl _ \<Rightarrow> clean_section t | Inr tmp \<Rightarrow> leaves tmp t)"
  using assms
  by (auto simp: Git_clone_def andThen_def handle_def os_MkdirTemp_def os_RemoveAll_def performed_def
      Let_def clean_section_def leaves_def under_lock_def balanced_def
      dest!: git_trace split: prod.splits sum.splits if_splits)

lemma withClone_clean [keeps_rules]:
  fixes body :: "string \<Rightarrow> ('w gitstate, 'a) go"
  assumes "\<And>tmp. keeps (emits clean_section) (body tmp)"
  shows "keeps (emits clean_section) (withClone H path branch allowEmpty body)"
proof (rule keepsI)
  fix s :: "'w gitstate"
  obtain r s1 where c: "Git_clone H path branch allowEmpty s = (r, s1)"
    by (cases "Git_clone H path branch allowEmpty s")
  obtain t where t: "trace s1 = trace s @ t"
      "case r of Inl _ \<Rightarrow> clean_section t | Inr tmp \<Rightarrow> leaves tmp t"
    using clone_trace [OF c] by blast
  show "emits clean_section s (snd (withClone H path branch allowEmpty body s))"
  proof (cases r)
    case (Inl e)
    then show ?thesis using c t by (auto simp: withClone_def andThen_def emits_def)
  next
    case (Inr tmp)
    obtain r' s2 where b: "body tmp s1 = (r', s2)" by (cases "body tmp s1")
    obtain u where u: "trace s2 = trace s1 @ u" "clean_section u"
      using emitsD [OF assms b] by blast
    have "clean_section (t @ u @ [RemoveAll tmp])"
      using t(2) u(2) Inr
      by (simp add: clean_section_def leaves_def under_lock_def balanced_def lock_run_append live_append)
    then show ?thesis
      using c Inr b t(1) u(1) unfolding emits_def
      by (intro exI [of _ "t @ u @ [RemoveAll tmp]"])
        (simp add: withClone_def andThen_def deferred_def os_RemoveAll_def performed_def)
  qed
qed

section \<open>Every operation respects the discipline\<close>

named_theorems git_methods "operations of the git plane that leave no lock and no directory behind"

lemma reads_not_mutating [simp]:
  "\<not> mutating [''show'', a]" "\<not> mutating (''ls-tree'' # as)" "\<not> mutating [''tag'', ''-l'', a]"
  "\<not> mutating (''diff'' # as)" "\<not> mutating (''for-each-ref'' # as)" "\<not> mutating (''bundle'' # as)"
  by (simp_all add: mutating_def)

lemma clean_write_one: "keeps (emits clean_section) (write_one H dir f)"
  unfolding write_one_def Let_def
  by (intro sec.keeps_andThen sec.keeps_MkdirAll sec.keeps_WriteFile)
    (simp_all add: keeps_def sec.emits_refl)

lemmas section_rules = withLock_clean withClone_clean sec.keeps_andThen sec.keeps_if sec.keeps_let
  sec.keeps_ret sec.keeps_failwith sec.keeps_handle sec.keeps_forEach sec.keeps_Stat clean_write_one
  sec.keeps_git sec.keeps_git_stdout sec.keeps_MkdirAll sec.keeps_ignoring clean_section_effects

lemmas op_rules = op.keeps_andThen op.keeps_if op.keeps_let op.keeps_ret op.keeps_failwith
  op.keeps_handle op.keeps_Stat op.keeps_ofSum op.keeps_guarded op.keeps_failIf op.keeps_git
  op.keeps_MkdirAll op.keeps_CreateTemp op.keeps_Remove clean_op_effects reads_not_mutating

lemma clean_EnsureRepo [git_methods]: "keeps (emits clean_op) (Git_EnsureRepo H org project)"
  unfolding Git_EnsureRepo_def by (intro op_rules section_rules)

lemma clean_WriteFiles [git_methods]:
  "keeps (emits clean_op) (Git_WriteFiles H org project branch artifact files message trailers)"
  unfolding Git_WriteFiles_def by (intro op_rules section_rules)

lemma clean_Merge [git_methods]:
  "keeps (emits clean_op) (Git_Merge H org project branch message trailers)"
  unfolding Git_Merge_def by (intro op_rules section_rules)

lemma clean_small_writes [git_methods]:
  "keeps (emits clean_op) (Git_DeleteBranch H org project branch)"
  "keeps (emits clean_op) (Git_Tag H org project artifact version notes)"
  unfolding Git_DeleteBranch_def Git_Tag_def by (intro op_rules section_rules)+

lemma clean_reads [git_methods]:
  "keeps (emits clean_op) (Git_ReadFile H org project ref artifact relPath)"
  "keeps (emits clean_op) (Git_ListTree H org project ref artifact)"
  "keeps (emits clean_op) (Git_ListArtifacts H org project)"
  "keeps (emits clean_op) (Git_Versions H org project artifact)"
  "keeps (emits clean_op) (Git_DiffStat H org project branch)"
  "keeps (emits clean_op) (Git_Branches H org project)"
  "keeps (emits clean_op) (Git_HealthCheck H)"
  unfolding Git_ReadFile_def Git_ListTree_def Git_ListArtifacts_def Git_Versions_def
    Git_DiffStat_def Git_Branches_def Git_HealthCheck_def Let_def
  by (intro op_rules)+

lemma clean_bundle: "keeps (emits clean_op) (bundle_repo H root dest p)"
  unfolding bundle_repo_def Let_def by (intro op_rules)

lemma clean_walk:
  "keeps (emits clean_op) (walk_node H root dest p n)"
  "keeps (emits clean_op) (walk_nodes H root dest p ns)"
  by (induction H root dest p n and H root dest p ns rule: walk_node_walk_nodes.induct)
    (auto simp del: ret_apply failwith_apply
      intro!: clean_bundle op.keeps_andThen op.keeps_ret op.keeps_failwith)

lemma clean_BundleAll [git_methods]: "keeps (emits clean_op) (Git_BundleAll H dest)"
  by (rule keepsI)
    (auto simp: Git_BundleAll_def Let_def op.emits_refl keepsD [OF clean_walk(1)] split: option.splits)

text \<open>One call of any operation of the git plane.\<close>

inductive git_call :: "'w host \<Rightarrow> 'w gitstate \<Rightarrow> 'w gitstate \<Rightarrow> bool" for H :: "'w host" where
  EnsureRepo: "git_call H s (snd (Git_EnsureRepo H org project s))"
| WriteFiles:
    "git_call H s (snd (Git_WriteFiles H org project branch artifact files message trailers s))"
| Merge: "git_call H s (snd (Git_Merge H org project branch message trailers s))"
| DeleteBranch: "git_call H s (snd (Git_DeleteBranch H org project branch s))"
| ReadFile: "git_call H s (snd (Git_ReadFile H org project ref artifact relPath s))"
| ListTree: "git_call H s (snd (Git_ListTree H org project ref artifact s))"
| ListArtifacts: "git_call H s (snd (Git_ListArtifacts H org project s))"
| Tag: "git_call H s (snd (Git_Tag H org project artifact version notes s))"
| Versions: "git_call H s (snd (Git_Versions H org project artifact s))"
| DiffStat: "git_call H s (snd (Git_DiffStat H org project branch s))"
| Branches: "git_call H s (snd (Git_Branches H org project s))"
| BundleAll: "git_call H s (snd (Git_BundleAll H dest s))"
| HealthCheck: "git_call H s (snd (Git_HealthCheck H s))"

lemma git_call_clean: "git_call H s s' \<Longrightarrow> emits clean_op s s'"
  by (induction rule: git_call.induct) (rule keepsD, rule git_methods)+

lemma git_calls_clean: "(git_call H)\<^sup>*\<^sup>* s s' \<Longrightarrow> emits clean_op s s'"
  by (induction rule: rtranclp_induct) (auto dest: git_call_clean intro: op.emits_refl op.emits_trans)

text \<open>
  Over any sequence of operations of the git plane, whatever git and the file system return:
  locks are taken one at a time and released, every command that changes a bare repository
  (\<open>push\<close>, \<open>init\<close>, \<open>branch\<close>, \<open>tag -a\<close>) runs while a lock is held, and every temporary
  directory made is removed again.
\<close>

theorem locks_and_clones_released:
  assumes "(git_call H)\<^sup>*\<^sup>* s s'"
  shows "\<exists>t. trace s' = trace s @ t \<and> lock_run None t = Some None \<and> live [] t = []"
  using git_calls_clean [OF assms]
  by (auto simp: emits_def clean_op_def lock_ok_def balanced_def)

text \<open>A host on which every call succeeds; its world counts the calls.\<close>

definition sample_host :: "nat host" where
  "sample_host = \<lparr> base_dir = ''/data'', git_exec = (\<lambda>_ _ w. (('''', None), Suc w)),
     mkdir_temp = (\<lambda>w. (Inr ''/tmp/clone'', Suc w)), remove_all = (\<lambda>_ w. Suc w),
     mkdir_all = (\<lambda>_ w. (None, Suc w)), stat_ok = (\<lambda>_ _. False), lstat_symlink = (\<lambda>_ _. False),
     write_file = (\<lambda>_ _ w. (None, Suc w)), create_temp = (\<lambda>_ w. (Inr ''/data/repos/.probe-1'', Suc w)),
     remove_file = (\<lambda>_ w. (None, Suc w)), walk_root = (\<lambda>_ _. None) \<rparr>"

definition sample_git :: "nat gitstate" where
  "sample_git = \<lparr> world = 0, locks = [], trace = [] \<rparr>"

theorem locks_and_clones_released_witness:
  "\<exists>t. trace (snd (Git_EnsureRepo sample_host ''acme'' ''web'' sample_git)) = trace sample_git @ t
     \<and> lock_run None t = Some None \<and> live [] t = []"
  by (rule locks_and_clones_released [of sample_host])
    (rule r_into_rtranclp, rule git_call.EnsureRepo)

section \<open>Splitting a line into fields\<close>

text \<open>The fuel of \<open>strings_Fields\<close> is enough: more turns split no further.\<close>

lemma trim_left_front: "List.find (\<lambda>e. e \<noteq> [] \<and> HasPrefix (trim_left es s) e) es = None"
proof (induction es s rule: trim_left.induct)
  case (1 es s)
  show ?case
  proof (cases "List.find (\<lambda>e. e \<noteq> [] \<and> HasPrefix s e) es")
    case None
    then show ?thesis by (simp add: trim_left.simps [of es s])
  next
    case (Some e)
    with 1 [OF Some] show ?thesis by (simp add: trim_left.simps [of es s])
  qed
qed

lemma trim_left_length: "length (trim_left es s) \<le> length s"
proof (induction es s rule: trim_left.induct)
  case (1 es s)
  show ?case
    using 1 by (subst trim_left.simps) (auto split: option.splits)
qed

lemma field_end_pos:
  assumes "trim_left space_encodings s = c # t"
  shows "0 < field_end (c # t)"
proof -
  have "\<forall>e \<in> set space_encodings. e \<noteq> []"
    by code_simp
  then have "\<not> list_ex (\<lambda>e. HasPrefix (c # t) e) space_encodings"
    using trim_left_front [of space_encodings s] assms by (auto simp: find_None_iff list_ex_iff)
  then show ?thesis by simp
qed

lemma fields_fuel_enough: "length s \<le> n \<Longrightarrow> fields_fuel n s = strings_Fields s"
proof -
  have more: "fields_fuel n s = fields_fuel m s" if "length s \<le> n" "length s \<le> m" for n m s
    using that
  proof (induction n arbitrary: m s)
    case 0
    then show ?case
      using trim_left_length [of space_encodings "[]"] by (cases m) (simp_all add: Let_def)
  next
    case (Suc n)
    show ?case
    proof (cases m)
      case 0
      with Suc.prems show ?thesis
        using trim_left_length [of space_encodings "[]"] by (simp add: Let_def)
    next
      case m: (Suc m')
      show ?thesis
      proof (cases "trim_left space_encodings s")
        case Nil
        then show ?thesis by (simp add: m)
      next
        case (Cons c t)
        let ?rest = "drop (field_end (c # t)) (c # t)"
        have "length ?rest < length (c # t)"
          using field_end_pos [OF Cons] by simp
        then have "length ?rest \<le> n" "length ?rest \<le> m'"
          using trim_left_length [of space_encodings s] Suc.prems Cons m by simp_all
        from Suc.IH [OF this] show ?thesis
          by (simp add: m Cons Let_def)
      qed
    qed
  qed
  show "length s \<le> n \<Longrightarrow> fields_fuel n s = strings_Fields s"
    unfolding strings_Fields_def by (rule more) simp_all
qed

section \<open>What is published\<close>

text \<open>The last argument of every push that succeeded.\<close>

fun pushed_ref :: "effect \<Rightarrow> string option" where
  "pushed_ref (Exec dir args ok) =
     (if ok \<and> args \<noteq> [] \<and> hd args = ''push'' then Some (last args) else None)"
| "pushed_ref e = None"

definition pushes :: "effect list \<Rightarrow> string list" where
  "pushes t = List.map_filter pushed_ref t"

lemma pushes_append: "pushes (a @ b) = pushes a @ pushes b"
  by (simp add: pushes_def List.map_filter_def)

lemma pushes_Nil [simp]: "pushes [] = []"
  by (simp add: pushes_def List.map_filter_def)

lemma pushes_Cons: "pushes (e # t) = (case pushed_ref e of None \<Rightarrow> [] | Some r \<Rightarrow> [r]) @ pushes t"
  by (simp add: pushes_def List.map_filter_def split: option.splits)

definition silent :: "effect list \<Rightarrow> bool" where
  "silent t \<longleftrightarrow> pushes t = []"

interpretation si: trace_lang silent
  by unfold_locales (simp_all add: silent_def pushes_append)

definition publishes :: "('a \<Rightarrow> string list) \<Rightarrow> ('w gitstate, 'a) go \<Rightarrow> bool" where
  "publishes ps m \<longleftrightarrow> (\<forall>s. \<exists>t. trace (snd (m s)) = trace s @ t
     \<and> pushes t = (case fst (m s) of Inl _ \<Rightarrow> [] | Inr x \<Rightarrow> ps x))"

lemma publishesD:
  assumes "publishes ps m" and "m s = (r, s')"
  shows "\<exists>t. trace s' = trace s @ t \<and> pushes t = (case r of Inl _ \<Rightarrow> [] | Inr x \<Rightarrow> ps x)"
  using assms(1) [unfolded publishes_def, rule_format, of s] assms(2) by simp

lemma publishes_silent: "keeps (emits silent) m \<Longrightarrow> publishes (\<lambda>_. []) m"
  by (auto simp: publishes_def keeps_def emits_def silent_def split: sum.splits)

lemma publishes_ret: "ps x = [] \<Longrightarrow> publishes ps (ret x)"
  by (simp add: publishes_def)

lemma publishes_failwith: "publishes ps (failwith e)"
  by (simp add: publishes_def)

lemma publishes_if: "(b \<Longrightarrow> publishes ps m) \<Longrightarrow> (\<not> b \<Longrightarrow> publishes ps m') \<Longrightarrow> publishes ps (if b then m else m')"
  by simp

lemma publishes_let: "publishes ps (f x) \<Longrightarrow> publishes ps (let y = x in f y)"
  by simp

lemma publishes_handle:
  assumes "publishes (\<lambda>_. []) m" and "\<And>e. publishes ps (h e)" and "\<And>x. publishes ps (f x)"
  shows "publishes ps (handle m h f)"
  unfolding publishes_def
proof
  fix s
  obtain r s1 where m: "m s = (r, s1)" by (cases "m s")
  obtain t where t: "trace s1 = trace s @ t" "pushes t = []"
    using publishesD [OF assms(1) m] by (auto split: sum.splits)
  show "\<exists>t. trace (snd (handle m h f s)) = trace s @ t
      \<and> pushes t = (case fst (handle m h f s) of Inl _ \<Rightarrow> [] | Inr x \<Rightarrow> ps x)"
  proof (cases r)
    case (Inl e)
    show ?thesis
      using assms(2) [of e, unfolded publishes_def, rule_format, of s1] t m Inl
      by (auto simp: handle_def pushes_append)
  next
    case (Inr x)
    show ?thesis
      using assms(3) [of x, unfolded publishes_def, rule_format, of s1] t m Inr
      by (auto simp: handle_def pushes_append)
  qed
qed

lemma andThen_handle: "andThen m f = handle m failwith f"
  by (rule ext) (simp add: andThen_def handle_def split: sum.splits prod.splits)

lemma publishes_andThen:
  "publishes (\<lambda>_. []) m \<Longrightarrow> (\<And>x. publishes ps (f x)) \<Longrightarrow> publishes ps (andThen m f)"
  unfolding andThen_handle by (intro publishes_handle publishes_failwith)

lemma publishes_push:
  assumes "\<And>x. ps (y x) = [ref]"
  shows "publishes ps (andThen (Git_git H dir [''push'', remote, ref]) (\<lambda>x. ret (y x)))"
  using assms by (auto simp: publishes_def andThen_def pushes_Cons dest!: git_trace split: prod.splits sum.splits)

lemma publishes_withLock:
  fixes m :: "('w gitstate, 'a) go"
  assumes "publishes ps m"
  shows "publishes ps (withLock path m)"
  unfolding publishes_def
proof
  fix s :: "'w gitstate"
  obtain l s1 where l: "repoLock path s = (l, s1)" by (cases "repoLock path s")
  then have s1: "trace s1 = trace s"
    by (auto simp: repoLock_def split: option.splits)
  let ?s1 = "performed (Lock l) (world s1) s1"
  obtain r s2 where m: "m ?s1 = (r, s2)" by (cases "m ?s1")
  from publishesD [OF assms m] obtain t where
    "trace s2 = trace ?s1 @ t" "pushes t = (case r of Inl _ \<Rightarrow> [] | Inr x \<Rightarrow> ps x)"
    by blast
  then show "\<exists>t. trace (snd (withLock path m s)) = trace s @ t
      \<and> pushes t = (case fst (withLock path m s) of Inl _ \<Rightarrow> [] | Inr x \<Rightarrow> ps x)"
    by (intro exI [of _ "Lock l # t @ [Unlock l]"])
      (simp add: withLock_def l m deferred_def s1 trace_performed pushes_Cons pushes_append)
qed

lemma silent_effects [simp]:
  "hd args \<noteq> ''push'' \<Longrightarrow> silent [Exec dir args b]" "silent [MkdirAll d]" "silent [WriteFile f c]"
  "silent [MkdirTemp d]" "silent [RemoveAll d]"
  by (simp_all add: silent_def pushes_Cons)

lemma silent_MkdirTemp: "keeps (emits silent) (os_MkdirTemp H)"
  by (auto simp: keeps_def os_MkdirTemp_def emits_performed si.emits_refl emits_def silent_def
      trace_performed pushes_Cons split: prod.splits sum.splits)

lemma silent_giveUp: "keeps (emits silent) (\<lambda>s. (Inl e, os_RemoveAll H tmp s))"
  by (simp add: keeps_def os_RemoveAll_def emits_performed)

lemma silent_clone: "keeps (emits silent) (Git_clone H path branch allowEmpty)"
  unfolding Git_clone_def Let_def
  by (intro si.keeps_andThen si.keeps_handle si.keeps_if si.keeps_git si.keeps_ret silent_MkdirTemp
      silent_giveUp) simp_all

lemma publishes_withClone:
  fixes body :: "string \<Rightarrow> ('w gitstate, 'a) go"
  assumes "\<And>tmp. publishes ps (body tmp)"
  shows "publishes ps (withClone H path branch allowEmpty body)"
proof -
  have "publishes ps (deferred (os_RemoveAll H tmp) (body tmp))" for tmp
    unfolding publishes_def
  proof
    fix s :: "'w gitstate"
    obtain r s1 where b: "body tmp s = (r, s1)" by (cases "body tmp s")
    from publishesD [OF assms b] obtain t where
      "trace s1 = trace s @ t" "pushes t = (case r of Inl _ \<Rightarrow> [] | Inr x \<Rightarrow> ps x)"
      by blast
    then show "\<exists>t. trace (snd (deferred (os_RemoveAll H tmp) (body tmp) s)) = trace s @ t
        \<and> pushes t = (case fst (deferred (os_RemoveAll H tmp) (body tmp) s) of Inl _ \<Rightarrow> [] | Inr x \<Rightarrow> ps x)"
      by (intro exI [of _ "t @ [RemoveAll tmp]"])
        (simp add: deferred_def b os_RemoveAll_def trace_performed pushes_append pushes_Cons)
  qed
  then show ?thesis
    unfolding withClone_def by (intro publishes_andThen publishes_silent silent_clone)
qed

lemma silent_write_one: "keeps (emits silent) (write_one H dir f)"
  unfolding write_one_def Let_def
  by (intro si.keeps_andThen si.keeps_MkdirAll si.keeps_WriteFile) (simp_all add: keeps_def si.emits_refl)

lemmas publish_rules = publishes_withLock publishes_withClone publishes_let publishes_if
  publishes_push publishes_andThen publishes_handle publishes_failwith publishes_ret publishes_silent
  si.keeps_ofSum si.keeps_guarded si.keeps_failIf si.keeps_forEach silent_write_one si.keeps_git
  si.keeps_git_stdout si.keeps_ignoring si.keeps_ret si.keeps_Stat si.keeps_MkdirAll

lemma WriteFiles_publishes:
  "publishes (\<lambda>_. [''HEAD:refs/heads/'' @ branch])
     (Git_WriteFiles H org project branch artifact files message trailers)"
  unfolding Git_WriteFiles_def by (intro publish_rules) simp_all

lemma Merge_publishes:
  "publishes (\<lambda>res. if MR_Conflicts res = [] then [''HEAD:refs/heads/main''] else [])
     (Git_Merge H org project branch message trailers)"
  unfolding Git_Merge_def by (intro publish_rules) simp_all

text \<open>
  A write is published exactly when it succeeds: \<open>WriteFiles\<close> pushes once, to the branch it
  was given, and returns the commit, or it returns an error and no push has succeeded.
\<close>

theorem WriteFiles_publishes_on_success:
  "\<exists>t. trace (snd (Git_WriteFiles H org project branch artifact files message trailers s)) = trace s @ t
     \<and> pushes t = (case fst (Git_WriteFiles H org project branch artifact files message trailers s) of
          Inl _ \<Rightarrow> [] | Inr _ \<Rightarrow> [''HEAD:refs/heads/'' @ branch])"
  using WriteFiles_publishes unfolding publishes_def by (rule spec)

text \<open>
  C7: \<open>Merge\<close> changes main exactly when it reports a merge: a conflict-free result comes with one
  successful push of main, and with conflicts or an error no push has succeeded.
\<close>

theorem Merge_publishes_unless_conflict:
  "\<exists>t. trace (snd (Git_Merge H org project branch message trailers s)) = trace s @ t
     \<and> pushes t = (case fst (Git_Merge H org project branch message trailers s) of
          Inl _ \<Rightarrow> []
        | Inr res \<Rightarrow> if MR_Conflicts res = [] then [''HEAD:refs/heads/main''] else [])"
  using Merge_publishes unfolding publishes_def by (rule spec)

end
