(* ===== verification/Gitstore_Safety.thy ===== *)
theory Gitstore_Safety
  imports Gitstore_Facts
begin

text \<open>
  Hostile arguments at the git plane: where files are written, what reaches the command line of
  git, and what ends up in commit messages and in the names of backup files.
\<close>

section \<open>Written files stay inside the artifact\<close>

text \<open>The documented behaviour of \<open>os.MkdirTemp\<close>: it names an absolute, clean directory.\<close>

definition temp_dirs_absolute :: "'w host \<Rightarrow> bool" where
  "temp_dirs_absolute H \<longleftrightarrow> (\<forall>w tmp w'. mkdir_temp H w = (Inr tmp, w') \<longrightarrow> abs_dir tmp)"

definition writes_only :: "(string \<Rightarrow> string \<Rightarrow> bool) \<Rightarrow> effect list \<Rightarrow> bool" where
  "writes_only W t \<longleftrightarrow> (\<forall>f c. WriteFile f c \<in> set t \<longrightarrow> W f c)"

text \<open>Every write is allowed for a temporary directory made before in the same trace.\<close>

definition writes_in_temp :: "(string \<Rightarrow> string \<Rightarrow> string \<Rightarrow> bool) \<Rightarrow> effect list \<Rightarrow> bool" where
  "writes_in_temp W t \<longleftrightarrow> (\<forall>f c. WriteFile f c \<in> set t \<longrightarrow>
     (\<exists>tmp. MkdirTemp tmp \<in> set t \<and> abs_dir tmp \<and> W tmp f c))"

interpretation wo: trace_lang "writes_only W" for W
  by unfold_locales (auto simp: writes_only_def)

interpretation wt: trace_lang "writes_in_temp W" for W
  by unfold_locales (auto simp: writes_in_temp_def, blast+)

lemma writes_effects [simp]:
  "writes_only W [Exec dir args b]" "writes_only W [MkdirAll d]" "writes_only W [MkdirTemp d]"
  "writes_only W [RemoveAll d]" "writes_only W [WriteFile f c] \<longleftrightarrow> W f c"
  by (simp_all add: writes_only_def)

lemma no_writes: "writes_only (\<lambda>_ _. False) t \<Longrightarrow> writes_in_temp W t"
  by (simp add: writes_only_def writes_in_temp_def)

lemma emits_mono: "keeps (emits P) m \<Longrightarrow> (\<And>t. P t \<Longrightarrow> Q t) \<Longrightarrow> keeps (emits Q) m"
  by (auto simp: keeps_def emits_def)

lemma clone_dir:
  assumes "Git_clone H path branch allowEmpty s = (Inr tmp, s')"
  shows "\<exists>w'. mkdir_temp H (world s) = (Inr tmp, w')
    \<and> (\<exists>t. trace s' = trace s @ MkdirTemp tmp # t \<and> writes_only (\<lambda>_ _. False) t)"
  using assms
  by (auto simp: Git_clone_def andThen_def handle_def os_MkdirTemp_def performed_def Let_def
      writes_only_def dest!: git_trace split: prod.splits sum.splits if_splits)

lemma clone_failed:
  assumes "Git_clone H path branch allowEmpty s = (Inl e, s')"
  shows "\<exists>t. trace s' = trace s @ t \<and> writes_only (\<lambda>_ _. False) t"
  using assms
  by (auto simp: Git_clone_def andThen_def handle_def os_MkdirTemp_def os_RemoveAll_def performed_def
      Let_def writes_only_def dest!: git_trace split: prod.splits sum.splits if_splits)

lemma withClone_writes:
  fixes body :: "string \<Rightarrow> ('w gitstate, 'a) go"
  assumes "temp_dirs_absolute H"
    and "\<And>tmp. abs_dir tmp \<Longrightarrow> keeps (emits (writes_only (W tmp))) (body tmp)"
  shows "keeps (emits (writes_in_temp W)) (withClone H path branch allowEmpty body)"
proof (rule keepsI)
  fix s :: "'w gitstate"
  obtain r s1 where c: "Git_clone H path branch allowEmpty s = (r, s1)"
    by (cases "Git_clone H path branch allowEmpty s")
  show "emits (writes_in_temp W) s (snd (withClone H path branch allowEmpty body s))"
  proof (cases r)
    case (Inl e)
    then show ?thesis
      using clone_failed c no_writes by (fastforce simp: withClone_def andThen_def emits_def)
  next
    case (Inr tmp)
    from clone_dir [OF c [unfolded Inr]] obtain w' t where
      "mkdir_temp H (world s) = (Inr tmp, w')" and t: "trace s1 = trace s @ MkdirTemp tmp # t"
      "writes_only (\<lambda>_ _. False) t" by blast
    then have tmp: "abs_dir tmp"
      using assms(1) by (auto simp: temp_dirs_absolute_def)
    obtain r' s2 where b: "body tmp s1 = (r', s2)" by (cases "body tmp s1")
    obtain u where u: "trace s2 = trace s1 @ u" "writes_only (W tmp) u"
      using emitsD [OF assms(2) [OF tmp] b] by blast
    have "writes_in_temp W (MkdirTemp tmp # t @ u @ [RemoveAll tmp])"
      using t(2) u(2) tmp by (auto simp: writes_in_temp_def writes_only_def)
    then show ?thesis
      using c Inr b t(1) u(1) unfolding emits_def
      by (intro exI [of _ "MkdirTemp tmp # t @ u @ [RemoveAll tmp]"])
        (simp add: withClone_def andThen_def deferred_def os_RemoveAll_def performed_def)
  qed
qed

lemma withLock_writes:
  fixes m :: "('w gitstate, 'a) go"
  assumes "keeps (emits (writes_in_temp W)) m"
  shows "keeps (emits (writes_in_temp W)) (withLock path m)"
proof (rule keepsI)
  fix s :: "'w gitstate"
  obtain l s1 where l: "repoLock path s = (l, s1)" by (cases "repoLock path s")
  then have s1: "trace s1 = trace s"
    by (auto simp: repoLock_def split: option.splits)
  let ?s1 = "performed (Lock l) (world s1) s1"
  obtain r s2 where m: "m ?s1 = (r, s2)" by (cases "m ?s1")
  obtain t where "trace s2 = trace ?s1 @ t" "writes_in_temp W t"
    using emitsD [OF assms m] by blast
  then show "emits (writes_in_temp W) s (snd (withLock path m s))"
    unfolding emits_def
    by (intro exI [of _ "Lock l # t @ [Unlock l]"])
      (simp add: withLock_def l m deferred_def s1 trace_performed writes_in_temp_def)
qed

lemma clean_parts_snoc_dot: "clean_parts rooted out (ps @ [''.'']) = clean_parts rooted out ps"
  by (induction rooted out ps rule: clean_parts.induct) (auto split: list.splits)

lemma Join_dot: "abs_dir d \<Longrightarrow> filepath_Join [d, ''.''] = d"
proof -
  assume "abs_dir d"
  then obtain ps where ps: "ps \<noteq> []" "list_all normal ps" "d = slash @ join_with slash ps"
    by (auto simp: abs_dir_def)
  have "clean_parts True [] (ps @ [''.'']) = ps"
    using ps(2) by (simp add: clean_parts_normal clean_parts_snoc_dot)
  moreover have "split_on (CHR ''/'') (join_with slash (ps @ [''.''])) = ps @ [''.'']"
    using ps by (intro split_join) (auto simp: normal_def list_all_iff)
  moreover have "join_with slash [d, ''.''] = slash @ join_with slash (ps @ [''.''])"
    using ps by (simp add: join_append)
  ultimately show ?thesis
    using ps by (simp add: filepath_Join_def filepath_Clean_def Let_def)
qed

text \<open>What \<open>WriteFiles\<close> may write: the content of one of the files, at its path in the artifact.\<close>

definition artifact_write :: "string \<Rightarrow> File list \<Rightarrow> string \<Rightarrow> string \<Rightarrow> string \<Rightarrow> bool" where
  "artifact_write artifact files tmp f c \<longleftrightarrow> (\<exists>file \<in> set files.
     c = File_Content file \<and> length c \<le> MaxFileBytes
     \<and> (if File_Path file = ''.'' then f = tmp @ ''/shared/'' @ artifact
        else f = tmp @ ''/shared/'' @ artifact @ ''/'' @ File_Path file
             \<and> list_all normal (split_on (CHR ''/'') (File_Path file))))"

lemma check_files_None:
  "check_files files = None \<Longrightarrow> file \<in> set files \<Longrightarrow>
     validRelPath (File_Path file) = None \<and> length (File_Content file) \<le> MaxFileBytes"
  by (induction files) (auto split: option.splits if_splits)

lemma write_one_writes:
  assumes "W (filepath_Join [dir, File_Path file]) (File_Content file)"
  shows "keeps (emits (writes_only W)) (write_one H dir file)"
  using assms unfolding write_one_def Let_def
  by (intro wo.keeps_andThen wo.keeps_MkdirAll wo.keeps_WriteFile)
    (simp_all add: keeps_def wo.emits_refl)

lemma artifact_dir:
  assumes "abs_dir tmp" and "slugRe artifact"
  shows "filepath_Join [tmp, ''shared'', artifact] = tmp @ ''/shared/'' @ artifact
    \<and> abs_dir (tmp @ ''/shared/'' @ artifact)"
proof -
  have n: "list_all normal [''shared'', artifact]"
    using assms(2) by (simp add: slugRe_normal) (simp add: normal_def)
  show ?thesis
    using Join_abs [OF assms(1) _ n] abs_dir_sub [OF assms(1) n] by simp
qed

lemma artifact_write_file:
  assumes "abs_dir tmp" and "slugRe artifact" and "file \<in> set files" and "check_files files = None"
  shows "artifact_write artifact files tmp
    (filepath_Join [tmp @ ''/shared/'' @ artifact, File_Path file]) (File_Content file)"
proof -
  let ?dir = "tmp @ ''/shared/'' @ artifact"
  have dir: "abs_dir ?dir"
    using artifact_dir [OF assms(1,2)] by simp
  have valid: "validRelPath (File_Path file) = None" "length (File_Content file) \<le> MaxFileBytes"
    using check_files_None [OF assms(4,3)] by auto
  show ?thesis
  proof (cases "File_Path file = ''.''")
    case True
    then show ?thesis
      using Join_dot [OF dir] valid assms(3) by (auto simp: artifact_write_def)
  next
    case False
    let ?ps = "split_on (CHR ''/'') (File_Path file)"
    have ps: "list_all normal ?ps"
      using validRelPath_parts valid(1) False by blast
    have "filepath_Join (?dir # ?ps) = ?dir @ slash @ File_Path file"
      using Join_abs [OF dir _ ps] by (simp add: join_split)
    moreover have "filepath_Join (?dir # ?ps) = filepath_Join [?dir, File_Path file]"
      using dir by (simp add: filepath_Join_def abs_dir_nth join_Cons join_split)
    ultimately show ?thesis
      unfolding artifact_write_def using valid ps False by (intro bexI [OF _ assms(3)]) simp
  qed
qed

text \<open>
  C5: Whatever the caller asks for, \<open>WriteFiles\<close> writes only inside
  \<open>shared/<artifact>\<close> of a temporary clone it has just made: each write is the content of one of
  the given files, at most 1 MiB, at its path under the artifact, whose components are plain names
  (no \<open>..\<close>, no empty or absolute part); the one other path accepted, \<open>.\<close>, is the
  artifact's own directory.
\<close>

theorem WriteFiles_confined:
  assumes "temp_dirs_absolute H"
  shows "\<exists>t. trace (snd (Git_WriteFiles H org project branch artifact files message trailers s)) = trace s @ t
    \<and> writes_in_temp (artifact_write artifact files) t"
proof (cases "slugRe artifact \<and> check_files files = None")
  case True
  have body: "keeps (emits (writes_only (artifact_write artifact files tmp)))
      (forEach files (write_one H (filepath_Join [tmp, ''shared'', artifact])))"
    if tmp: "abs_dir tmp" for tmp
    using artifact_write_file [OF tmp] artifact_dir [OF tmp] True
    by (intro wo.keeps_forEach_set write_one_writes) auto
  have "keeps (emits (writes_in_temp (artifact_write artifact files)))
      (Git_WriteFiles H org project branch artifact files message trailers)"
    unfolding Git_WriteFiles_def Let_def
    by (intro wt.keeps_andThen wt.keeps_ofSum wt.keeps_guarded wt.keeps_failIf withLock_writes
        withClone_writes assms wo.keeps_andThen body wo.keeps_git wo.keeps_ret) simp_all
  then show ?thesis unfolding keeps_def emits_def by (rule spec)
next
  case False
  then have "trace (snd (Git_WriteFiles H org project branch artifact files message trailers s)) = trace s"
    by (auto simp: Git_WriteFiles_def andThen_def guarded_def failIf_def ofSum_def
        split: sum.splits option.splits)
  then show ?thesis by (auto simp: writes_in_temp_def)
qed

lemma sample_temp: "temp_dirs_absolute sample_host"
  by (auto simp: temp_dirs_absolute_def sample_host_def abs_dir_def normal_def
      intro!: exI [of _ "[''tmp'', ''clone'']"])

theorem WriteFiles_confined_witness:
  "\<exists>t. trace (snd (Git_WriteFiles sample_host ''acme'' ''web'' ''main'' ''brief''
       [\<lparr> File_Path = ''docs/a.md'', File_Content = ''hi'' \<rparr>] ''m'' [] sample_git)) = trace sample_git @ t
     \<and> writes_in_temp (artifact_write ''brief''
         [\<lparr> File_Path = ''docs/a.md'', File_Content = ''hi'' \<rparr>]) t"
  by (rule WriteFiles_confined [OF sample_temp])

text \<open>
  C10: Invalid input is refused before anything happens: if the artifact name is no slug, the number
  of files is out of range, or some path is not a clean relative one or its content too long, then
  \<open>WriteFiles\<close> returns an error and has no effect, not even taking the lock.
\<close>

theorem WriteFiles_refuses_untouched:
  assumes "\<not> slugRe artifact \<or> files = [] \<or> MaxFilesWrite < length files
     \<or> (\<exists>file \<in> set files. validRelPath (File_Path file) \<noteq> None
          \<or> MaxFileBytes < length (File_Content file))"
  shows "\<exists>e. Git_WriteFiles H org project branch artifact files message trailers s = (Inl e, s)"
proof -
  have "check_files files \<noteq> None"
    if "\<exists>file \<in> set files. validRelPath (File_Path file) \<noteq> None \<or> MaxFileBytes < length (File_Content file)"
    using that check_files_None [of files] by fastforce
  then show ?thesis
    using assms
    by (cases "repoPath (base_dir H) org project"; cases "check_files files")
      (auto simp: Git_WriteFiles_def andThen_def guarded_def failIf_def ofSum_def)
qed

theorem WriteFiles_refuses_untouched_witness:
  "\<exists>e. Git_WriteFiles sample_host ''acme'' ''web'' ''main'' ''brief''
       [\<lparr> File_Path = ''../x'', File_Content = ''hi'' \<rparr>] ''m'' [] sample_git = (Inl e, sample_git)"
proof (rule WriteFiles_refuses_untouched)
  have "validRelPath ''../x'' \<noteq> None" by code_simp
  then show "\<not> slugRe ''brief'' \<or> [\<lparr> File_Path = ''../x'', File_Content = ''hi'' \<rparr>] = []
     \<or> MaxFilesWrite < length [\<lparr> File_Path = ''../x'', File_Content = ''hi'' \<rparr>]
     \<or> (\<exists>file \<in> set [\<lparr> File_Path = ''../x'', File_Content = ''hi'' \<rparr>]. validRelPath (File_Path file) \<noteq> None
          \<or> MaxFileBytes < length (File_Content file))"
    by simp
qed

section \<open>What reaches git's command line\<close>

text \<open>
  The first argument of \<open>git show\<close> is split by git at its first colon. A reference that
  \<open>validRef\<close> accepts has none, so git sees exactly this reference and this path.
\<close>

definition colon_split :: "string \<Rightarrow> string \<times> string" where
  "colon_split a = (takeWhile (\<lambda>c. c \<noteq> CHR '':'') a, tl (dropWhile (\<lambda>c. c \<noteq> CHR '':'') a))"

lemma validRef_None:
  assumes "validRef ref = None"
  shows "ref \<noteq> ''''" "\<not> HasPrefix ref ''-''" "CHR '':'' \<notin> set ref" "CHR '' '' \<notin> set ref"
    "CHR 10 \<notin> set ref" "\<not> Contains ref ''..''"
  using assms by (auto simp: validRef_def ContainsAny_iff split: if_splits)

lemma colon_split_ref: "CHR '':'' \<notin> set ref \<Longrightarrow> colon_split (ref @ CHR '':'' # p) = (ref, p)"
  by (induction ref) (auto simp: colon_split_def)


definition sample_read :: "(goerr + string) \<times> nat gitstate" where
  "sample_read = Git_ReadFile sample_host ''acme'' ''web'' ''main'' ''brief'' ''a.md'' sample_git"


section \<open>Commit trailers\<close>

lemma ReplaceAll_char: "ReplaceAll s [c] [d] = map (\<lambda>x. if x = c then d else x) s"
  by (induction s) auto

lemma split_on_line: "d \<notin> set w \<Longrightarrow> split_on d (w @ [d] @ s) = w # split_on d s"
  by (simp add: split_on_append)

text \<open>
  C12: A trailer cannot be forged through a value: whatever bytes the values hold, the trailer block has
  exactly one line per entry, in the order of the keys, each beginning with its key; a newline in a
  value (such as a device label) becomes a space.
\<close>

theorem trailers_one_line_each:
  assumes "\<forall>(k, v) \<in> set trailers. CHR 10 \<notin> set k"
  shows "split_on (CHR 10) (formatTrailers trailers)
    = map (\<lambda>(k, v). k @ '': '' @ map (\<lambda>c. if c = CHR 10 then CHR '' '' else c) v) (sort_key fst trailers)
      @ ['''']"
proof -
  have "split_on (CHR 10) (concat (map (\<lambda>(k, v). k @ '': '' @ ReplaceAll v newline '' '' @ newline) ts))
    = map (\<lambda>(k, v). k @ '': '' @ map (\<lambda>c. if c = CHR 10 then CHR '' '' else c) v) ts @ ['''']"
    if "\<forall>(k, v) \<in> set ts. CHR 10 \<notin> set k" for ts :: "(string \<times> string) list"
    using that
  proof (induction ts)
    case (Cons kv ts)
    obtain k v where kv: "kv = (k, v)" by (cases kv)
    let ?w = "k @ '': '' @ map (\<lambda>c. if c = CHR 10 then CHR '' '' else c) v"
    have "CHR 10 \<notin> set ?w"
      using Cons.prems by (auto simp: kv)
    from split_on_line [OF this, of "concat (map (\<lambda>(k, v). k @ '': '' @ ReplaceAll v newline '' '' @ newline) ts)"]
    show ?case
      using Cons by (simp add: kv newline_def ReplaceAll_char)
  qed simp
  then show ?thesis
    using assms unfolding formatTrailers_def by simp
qed

theorem trailers_one_line_each_witness:
  "split_on (CHR 10) (formatTrailers [(''Ubiqo-User'', ''bob'' @ [CHR 10] @ ''Ubiqo-User: ana'')])
    = [''Ubiqo-User: bob Ubiqo-User: ana'', '''']"
  using trailers_one_line_each [of "[(''Ubiqo-User'', ''bob'' @ [CHR 10] @ ''Ubiqo-User: ana'')]"] by simp

section \<open>Backup files\<close>

lemma ReplaceAll_at:
  "c \<notin> set a \<Longrightarrow> c \<notin> set b \<Longrightarrow> ReplaceAll (a @ c # b) [c] new = a @ new @ b"
proof (induction a)
  case Nil
  then have "ReplaceAll b [c] new = b"
    by (induction b) auto
  then show ?case by simp
qed auto

lemma TrimSuffix_append: "TrimSuffix (s @ p) p = s"
  by (simp add: TrimSuffix_def HasSuffix_def)

lemma slug_no_underscore: "slugRe s \<Longrightarrow> CHR ''_'' \<notin> set s \<and> CHR ''/'' \<notin> set s"
proof -
  assume "slugRe s"
  moreover have "\<not> slug_char (CHR ''_'')" "\<not> slug_char (CHR ''/'')"
    by (simp_all add: slug_char_def byte_def)
  ultimately show ?thesis
    by (auto simp: slugRe_def list_all_iff)
qed

lemma bundle_name_slug:
  assumes "slugRe org" and "slugRe project"
  shows "bundle_name (org @ ''/'' @ project @ ''.git'') = org @ ''__'' @ project @ ''.bundle''"
proof -
  have "TrimSuffix ((org @ ''/'' @ project) @ ''.git'') ''.git'' = org @ ''/'' @ project"
    by (rule TrimSuffix_append)
  then have "bundle_name (org @ ''/'' @ project @ ''.git'')
      = ReplaceAll (org @ CHR ''/'' # project) slash ''__'' @ ''.bundle''"
    by (simp add: bundle_name_def)
  also have "ReplaceAll (org @ CHR ''/'' # project) slash ''__'' = org @ ''__'' @ project"
    using assms slug_no_underscore by (intro ReplaceAll_at) auto
  finally show ?thesis by simp
qed

text \<open>
  A backup keeps every repository: different repositories get different bundle files, because
  a slug cannot contain the underscore that separates org and project in the file name.
\<close>

theorem bundle_names_distinct:
  assumes "slugRe org" and "slugRe project" and "slugRe org'" and "slugRe project'"
  shows "bundle_name (org @ ''/'' @ project @ ''.git'') = bundle_name (org' @ ''/'' @ project' @ ''.git'')
    \<longleftrightarrow> org = org' \<and> project = project'"
proof
  assume "bundle_name (org @ ''/'' @ project @ ''.git'') = bundle_name (org' @ ''/'' @ project' @ ''.git'')"
  then have eq: "org @ CHR ''_'' # CHR ''_'' # project = org' @ CHR ''_'' # CHR ''_'' # project'"
    unfolding bundle_name_slug [OF assms(1,2)] bundle_name_slug [OF assms(3,4)] by simp
  then have "hd (split_on (CHR ''_'') (org @ CHR ''_'' # CHR ''_'' # project)) = hd (split_on (CHR ''_'') (org' @ CHR ''_'' # CHR ''_'' # project'))"
    by simp
  then have "org = org'"
    using assms slug_no_underscore by (simp add: split_on_append)
  with eq show "org = org' \<and> project = project'" by simp
qed simp

theorem bundle_names_distinct_witness:
  "bundle_name ''a/b.git'' \<noteq> bundle_name ''a/c.git''"
proof -
  have "slugRe ''a''" "slugRe ''b''" "slugRe ''c''" by code_simp+
  then show ?thesis using bundle_names_distinct [of "''a''" "''b''" "''a''" "''c''"] by simp
qed

end
