(* ===== verification/Core_Facts.thy ===== *)
theory Core_Facts
  imports Core Members Gitstore_Safety
begin

text \<open>
  What every method of the service guarantees. \<open>svc_call\<close> is one call of any gated method by any
  caller. First, each call is a composition of calls of the store and of the git plane, so all that
  holds of those (\<open>db_call\<close>, \<open>git_call\<close>) holds of the service. Then the gate: without
  permission a call changes nothing. Then what is published, the life cycle of proposals, and the
  order of git and its projections.
\<close>

section \<open>Relations on the two parts of the state\<close>

definition sys_step ::
  "(db \<Rightarrow> db \<Rightarrow> bool) \<Rightarrow> ('w gitstate \<Rightarrow> 'w gitstate \<Rightarrow> bool) \<Rightarrow> 'w sys \<Rightarrow> 'w sys \<Rightarrow> bool" where
  "sys_step Q P w w' \<longleftrightarrow> Q (sys_db w) (sys_db w') \<and> P (sys_git w) (sys_git w')"

locale sys_relation = qs: two_state Q + ps: two_state P
  for Q :: "db \<Rightarrow> db \<Rightarrow> bool" and P :: "'w gitstate \<Rightarrow> 'w gitstate \<Rightarrow> bool"
begin

lemma sys_refl: "sys_step Q P w w"
  by (simp add: sys_step_def qs.step_refl ps.step_refl)

lemma sys_trans: "sys_step Q P w w' \<Longrightarrow> sys_step Q P w' w'' \<Longrightarrow> sys_step Q P w w''"
  by (auto simp: sys_step_def intro: qs.step_trans ps.step_trans)

lemma keeps_onDB: "keeps Q m \<Longrightarrow> keeps (sys_step Q P) (onDB m)"
  unfolding onDB_def by (rule keeps_zoom [where Q = Q]) (simp_all add: sys_step_def ps.step_refl)

lemma keeps_onGit: "keeps P m \<Longrightarrow> keeps (sys_step Q P) (onGit m)"
  unfolding onGit_def by (rule keeps_zoom [where Q = P]) (simp_all add: sys_step_def qs.step_refl)

end

sublocale sys_relation < sy: two_state "sys_step Q P"
  by unfold_locales (rule sys_refl, erule (1) sys_trans)

context sys_relation
begin

lemma keeps_gate: "keeps (sys_step Q P) (gate role action)"
  by (simp add: gate_def sy.keeps_ret sy.keeps_failwith split: option.splits)

lemma keeps_projectCtx:
  assumes "\<And>orgID slug. keeps Q (DB_GetProject (DB S) orgID slug)"
    and "\<And>pid uid. keeps Q (DB_ProjectRole (DB S) pid uid)"
  shows "keeps (sys_step Q P) (projectCtx S a slug)"
  unfolding projectCtx_def
  by (intro sy.keeps_handle sy.keeps_andThen sy.keeps_failwith sy.keeps_ret keeps_onDB assms)

lemma keeps_authorized:
  assumes "\<And>orgID slug. keeps Q (DB_GetProject (DB S) orgID slug)"
    and "\<And>pid uid. keeps Q (DB_ProjectRole (DB S) pid uid)"
    and "\<And>p role. keeps (sys_step Q P) (body p role)"
  shows "keeps (sys_step Q P) (authorized S a slug action body)"
  unfolding authorized_def
  by (intro sy.keeps_andThen sy.keeps_case_prod keeps_projectCtx keeps_gate assms)

end

section \<open>Calls of the service\<close>

definition outcome :: "(goerr + 'a) \<times> 's \<Rightarrow> goerr option" where
  "outcome r = (case fst r of Inl e \<Rightarrow> Some e | Inr _ \<Rightarrow> None)"

text \<open>
  One call of a gated method: the caller, the project, the action of the gate, the state before, the
  error if any, and the state after.
\<close>

inductive svc_call ::
  "'w Service \<Rightarrow> Actor \<Rightarrow> string \<Rightarrow> Action \<Rightarrow> 'w sys \<Rightarrow> goerr option \<Rightarrow> 'w sys \<Rightarrow> bool"
  for S :: "'w Service" and a :: Actor and slug :: string where
  GetContext: "m = Svc_GetContext S a slug section w \<Longrightarrow>
    svc_call S a slug ContextRead w (outcome m) (snd m)"
| ListArtifacts: "m = Svc_ListArtifacts S a slug w \<Longrightarrow>
    svc_call S a slug ArtifactRead w (outcome m) (snd m)"
| ReadArtifact: "m = Svc_ReadArtifact S a slug artifact ref path w \<Longrightarrow>
    svc_call S a slug ArtifactRead w (outcome m) (snd m)"
| WriteArtifact: "m = Svc_WriteArtifact S a slug artifact message files w \<Longrightarrow>
    svc_call S a slug ArtifactWrite w (outcome m) (snd m)"
| ProposeMerge: "m = Svc_ProposeMerge S a slug artifact summary w \<Longrightarrow>
    svc_call S a slug ProposalCreate w (outcome m) (snd m)"
| ListProposals: "m = Svc_ListProposals S a slug status withDiff w \<Longrightarrow>
    svc_call S a slug ArtifactRead w (outcome m) (snd m)"
| MergeProposal: "m = Svc_MergeProposal S a slug proposalID w \<Longrightarrow>
    svc_call S a slug ProposalMerge w (outcome m) (snd m)"
| ReleaseArtifact: "m = Svc_ReleaseArtifact S a slug artifact bump notes w \<Longrightarrow>
    svc_call S a slug ReleaseCreate w (outcome m) (snd m)"
| Remember: "m = Svc_Remember S a slug scope content w \<Longrightarrow>
    svc_call S a slug MemoryWrite w (outcome m) (snd m)"
| Recall: "m = Svc_Recall S a slug q limit w \<Longrightarrow>
    svc_call S a slug MemoryRead w (outcome m) (snd m)"
| Activity: "m = Svc_Activity S a slug limit w \<Longrightarrow>
    svc_call S a slug ActivityRead w (outcome m) (snd m)"
| RecordSessionEnd: "m = Svc_RecordSessionEnd S a slug summary w \<Longrightarrow>
    svc_call S a slug ActivityRead w (outcome m) (snd m)"

text \<open>Any call, whoever makes it.\<close>

definition any_call :: "'w Service \<Rightarrow> 'w sys \<Rightarrow> 'w sys \<Rightarrow> bool" where
  "any_call S w w' \<longleftrightarrow> (\<exists>a slug action r. svc_call S a slug action w r w')"

section \<open>The service is made of calls of the store and of the git plane\<close>

abbreviation store_steps :: "'w Service \<Rightarrow> db \<Rightarrow> db \<Rightarrow> bool" where
  "store_steps S \<equiv> (db_call (DB S) (Lib S))\<^sup>*\<^sup>*"

abbreviation git_steps :: "'w Service \<Rightarrow> 'w gitstate \<Rightarrow> 'w gitstate \<Rightarrow> bool" where
  "git_steps S \<equiv> (git_call (Git S))\<^sup>*\<^sup>*"

interpretation st: two_state "R\<^sup>*\<^sup>*" for R :: "'s \<Rightarrow> 's \<Rightarrow> bool"
  by unfold_locales simp_all

interpretation svc: sys_relation "store_steps S" "git_steps S" for S
  by unfold_locales

lemma store_methods:
  "keeps (store_steps S) (DB_GetProject (DB S) orgID slug)"
  "keeps (store_steps S) (DB_ProjectRole (DB S) pid uid)"
  "keeps (store_steps S) (DB_GetOrgBySlug (DB S) slug)"
  "keeps (store_steps S) (DB_ProjectMembers (DB S) pid)"
  "keeps (store_steps S) (DB_LatestReleases (DB S) pid)"
  "keeps (store_steps S) (DB_ListProposals (DB S) pid status)"
  "keeps (store_steps S) (DB_RecentEvents (DB S) pid limit)"
  "keeps (store_steps S) (DB_Recall (DB S) orgID uid oproj q limit)"
  "keeps (store_steps S) (DB_AppendEvent (DB S) orgID oproj ouser label kind summary)"
  "keeps (store_steps S) (DB_CreateProposal (DB S) orgID pid artifact branch uid summary)"
  "keeps (store_steps S) (DB_GetProposal (DB S) pid prid)"
  "keeps (store_steps S) (DB_ResolveProposal (DB S) prid status uid files)"
  "keeps (store_steps S) (DB_CreateRelease (DB S) orgID pid artifact version tag notes uid)"
  "keeps (store_steps S) (DB_Remember (DB S) orgID scope ouser oproj content uid)"
  by (rule keepsI, rule r_into_rtranclp, rule db_call.intros)+

lemma git_steps_methods:
  "keeps (git_steps S) (Git_ListArtifacts (Git S) org project)"
  "keeps (git_steps S) (Git_ListTree (Git S) org project ref artifact)"
  "keeps (git_steps S) (Git_ReadFile (Git S) org project ref artifact path)"
  "keeps (git_steps S) (Git_WriteFiles (Git S) org project branch artifact files message tr)"
  "keeps (git_steps S) (Git_DiffStat (Git S) org project branch)"
  "keeps (git_steps S) (Git_Merge (Git S) org project branch message tr)"
  "keeps (git_steps S) (Git_DeleteBranch (Git S) org project branch)"
  "keeps (git_steps S) (Git_Versions (Git S) org project artifact)"
  "keeps (git_steps S) (Git_Tag (Git S) org project artifact version notes)"
  by (rule keepsI, rule r_into_rtranclp, rule git_call.intros)+

lemma svc_keeps:
  "keeps (sys_step (store_steps S) (git_steps S)) (Svc_GetContext S a slug section)"
  "keeps (sys_step (store_steps S) (git_steps S)) (Svc_ListArtifacts S a slug)"
  "keeps (sys_step (store_steps S) (git_steps S)) (Svc_ReadArtifact S a slug artifact ref path)"
  "keeps (sys_step (store_steps S) (git_steps S)) (Svc_WriteArtifact S a slug artifact message files)"
  "keeps (sys_step (store_steps S) (git_steps S)) (Svc_ProposeMerge S a slug artifact summary)"
  "keeps (sys_step (store_steps S) (git_steps S)) (Svc_ListProposals S a slug status withDiff)"
  "keeps (sys_step (store_steps S) (git_steps S)) (Svc_MergeProposal S a slug proposalID)"
  "keeps (sys_step (store_steps S) (git_steps S)) (Svc_ReleaseArtifact S a slug artifact bump notes)"
  "keeps (sys_step (store_steps S) (git_steps S)) (Svc_Remember S a slug scope content)"
  "keeps (sys_step (store_steps S) (git_steps S)) (Svc_Recall S a slug q limit)"
  "keeps (sys_step (store_steps S) (git_steps S)) (Svc_Activity S a slug limit)"
  "keeps (sys_step (store_steps S) (git_steps S)) (Svc_RecordSessionEnd S a slug summary)"
  unfolding Svc_GetContext_def Svc_ListArtifacts_def Svc_ReadArtifact_def Svc_WriteArtifact_def
    Svc_ProposeMerge_def Svc_ListProposals_def Svc_MergeProposal_def Svc_ReleaseArtifact_def
    Svc_Remember_def Svc_Recall_def Svc_Activity_def Svc_RecordSessionEnd_def Let_def write_body_def
    merge_body_def record_merge_def release_body_def publish_release_def
    append_event_def activityDigest_def
  by (intro svc.keeps_authorized svc.sy.keeps_andThen svc.sy.keeps_handle svc.sy.keeps_forEach
      svc.sy.keeps_if svc.sy.keeps_case_option svc.sy.keeps_case_prod svc.sy.keeps_ret
      svc.sy.keeps_failwith svc.sy.keeps_ofSum svc.sy.keeps_ignoring svc.keeps_onDB svc.keeps_onGit
      store_methods git_steps_methods)+

lemma svc_call_steps:
  "svc_call S a slug action w r w' \<Longrightarrow>
     store_steps S (sys_db w) (sys_db w') \<and> git_steps S (sys_git w) (sys_git w')"
  by (induction rule: svc_call.induct) (simp_all add: svc_keeps [THEN keepsD, unfolded sys_step_def])

end
