(* ===== verification/Core_Safety.thy ===== *)
theory Core_Safety
  imports Core_Facts
begin

text \<open>
  The guarantees of the service that cross its components: nothing happens without permission, main
  changes only by maintainers (or by writers of solo projects), the service keeps the invariants of
  both planes.
\<close>

section \<open>The gate\<close>

text \<open>The role the database gives a caller on the project of a slug, within the caller's org.\<close>

definition actor_role :: "db \<Rightarrow> Actor \<Rightarrow> string \<Rightarrow> Role option" where
  "actor_role d a slug =
     map_option (\<lambda>r. effective_role a
         (case project_role_at d (p_id r, Actor_UserID a) of None \<Rightarrow> RoleNone | Some role \<Rightarrow> role))
       (first_row p_key (Actor_OrgID a, slug) (projects d))"

definition permitted :: "db \<Rightarrow> Actor \<Rightarrow> string \<Rightarrow> Action \<Rightarrow> bool" where
  "permitted d a slug action \<longleftrightarrow> (\<exists>role. actor_role d a slug = Some role \<and> Can role action = None)"

definition solo_project :: "db \<Rightarrow> Actor \<Rightarrow> string \<Rightarrow> bool" where
  "solo_project d a slug \<longleftrightarrow>
     (\<exists>r. first_row p_key (Actor_OrgID a, slug) (projects d) = Some r \<and> p_solo_mode r)"

text \<open>No table and nothing of the git plane changed.\<close>

definition untouched :: "'w sys \<Rightarrow> 'w sys \<Rightarrow> bool" where
  "untouched w w' \<longleftrightarrow> sys_git w' = sys_git w \<and> same_data (sys_db w) (sys_db w')"

interpretation eq: two_state "\<lambda>g g'. g' = g"
  by unfold_locales simp_all

interpretation un: sys_relation same_data "\<lambda>g g'. g' = g"
  by unfold_locales

lemma untouched_sys_step: "sys_step same_data (\<lambda>g g'. g' = g) = untouched"
  by (intro ext) (auto simp: sys_step_def untouched_def)

lemma projectCtx_untouched: "keeps untouched (projectCtx S a slug)"
  using un.keeps_projectCtx [OF read_methods(7,9)] unfolding untouched_sys_step .

lemma onDB_Inr: "onDB m w = (Inr x, w') \<longleftrightarrow> m (sys_db w) = (Inr x, sys_db w') \<and> w' = w\<lparr>sys_db := sys_db w'\<rparr>"
  by (cases "m (sys_db w)") (auto simp: onDB_def zoom_def)

lemma onDB_snd: "snd (onDB m w) = w\<lparr>sys_db := snd (m (sys_db w))\<rparr>"
  by (cases "m (sys_db w)") (simp add: onDB_def zoom_def)

lemma onGit_snd: "snd (onGit m w) = w\<lparr>sys_git := snd (m (sys_git w))\<rparr>"
  by (cases "m (sys_git w)") (simp add: onGit_def zoom_def)

lemma onDB_git [simp]: "sys_git (snd (onDB m w)) = sys_git w"
  by (simp add: onDB_snd)

lemma onGit_db [simp]: "sys_db (snd (onGit m w)) = sys_db w"
  by (simp add: onGit_snd)

lemma projectCtx_Inr:
  assumes "projectCtx S a slug w = (Inr (p, role), w')"
  shows "\<exists>r. first_row p_key (Actor_OrgID a, slug) (projects (sys_db w)) = Some r
    \<and> p = project_of r \<and> actor_role (sys_db w) a slug = Some role"
proof -
  obtain d1 x where 1: "DB_GetProject (DB S) (Actor_OrgID a) slug (sys_db w) = (Inr p, d1)"
    and 2: "DB_ProjectRole (DB S) (Project_ID p) (Actor_UserID a) d1 = (Inr x, sys_db w')"
    and role: "role = effective_role a x"
    using assms
    by (auto simp: projectCtx_def handle_def andThen_Inr onDB_Inr split: prod.splits sum.splits)
  from 1 obtain r where r: "first_row p_key (Actor_OrgID a, slug) (projects (sys_db w)) = Some r"
      "p = project_of r" and d1: "d1 = (sys_db w)\<lparr>tick := Suc (tick (sys_db w))\<rparr>"
    by (cases "first_row p_key (Actor_OrgID a, slug) (projects (sys_db w))")
      (auto simp: DB_GetProject_def andThen_Inr or_not_found_Inr dest!: query_Inr)
  from 2 have "x = (case project_role_at (sys_db w) (Project_ID p, Actor_UserID a) of
      None \<Rightarrow> RoleNone | Some role \<Rightarrow> role)"
    by (auto simp: DB_ProjectRole_def project_role_at_def d1 dest!: query_Inr split: option.splits)
  then show ?thesis
    using r role by (simp add: actor_role_def project_of_def)
qed

lemma authorized_cases:
  assumes "authorized S a slug action body w = (r, w')"
  obtains (refused) e where "r = Inl e" "untouched w w'"
  | (passed) p role w1 row where "projectCtx S a slug w = (Inr (p, role), w1)" "untouched w w1"
      "permitted (sys_db w) a slug action" "body p role w1 = (r, w')"
      "first_row p_key (Actor_OrgID a, slug) (projects (sys_db w)) = Some row" "p = project_of row"
      "actor_role (sys_db w) a slug = Some role"
proof -
  obtain x w1 where c: "projectCtx S a slug w = (x, w1)" by (cases "projectCtx S a slug w")
  then have u: "untouched w w1"
    using keepsD [OF projectCtx_untouched, of w S a slug] by simp
  show thesis
  proof (cases x)
    case (Inl e)
    then have "r = Inl e" "w' = w1"
      using assms c by (simp_all add: authorized_def andThen_def)
    then show thesis using u refused by blast
  next
    case (Inr y)
    obtain p role where y: "y = (p, role)" by (cases y)
    from projectCtx_Inr [of S a slug w p role w1] c Inr y obtain row where
      row: "first_row p_key (Actor_OrgID a, slug) (projects (sys_db w)) = Some row" "p = project_of row"
        "actor_role (sys_db w) a slug = Some role" by auto
    show thesis
    proof (cases "Can role action")
      case None
      then show thesis
        using assms c u Inr y row passed [of p role w1 row]
        by (simp add: authorized_def andThen_def gate_def permitted_def)
    next
      case (Some d)
      then have "r = Inl (Denied d)" "w' = w1"
        using assms c Inr y by (simp_all add: authorized_def andThen_def gate_def)
      then show thesis using u refused by blast
    qed
  qed
qed

lemma authorized_rule:
  assumes "\<And>e w'. untouched w w' \<Longrightarrow> \<Phi> (Inl e, w')"
    and "\<And>p role w1 row. untouched w w1 \<Longrightarrow> permitted (sys_db w) a slug action \<Longrightarrow>
      first_row p_key (Actor_OrgID a, slug) (projects (sys_db w)) = Some row \<Longrightarrow> p = project_of row \<Longrightarrow>
      actor_role (sys_db w) a slug = Some role \<Longrightarrow> \<Phi> (body p role w1)"
  shows "\<Phi> (authorized S a slug action body w)"
proof -
  have "authorized S a slug action body w
      = (fst (authorized S a slug action body w), snd (authorized S a slug action body w))"
    by simp
  then show ?thesis
  proof (cases rule: authorized_cases)
    case (refused e)
    then have "\<Phi> (Inl e, snd (authorized S a slug action body w))"
      by (intro assms(1))
    with refused show ?thesis by (metis prod.collapse)
  next
    case (passed p role w1 row)
    then have "\<Phi> (body p role w1)"
      by (intro assms(2))
    with passed show ?thesis by simp
  qed
qed

lemma authorized_refused:
  assumes "\<not> permitted (sys_db w) a slug action" and "m = authorized S a slug action body w"
  shows "outcome m \<noteq> None \<and> untouched w (snd m)"
proof -
  have "authorized S a slug action body w = (fst m, snd m)"
    using assms(2) by simp
  then show ?thesis
    using assms(1) by (cases rule: authorized_cases) (simp_all add: outcome_def)
qed

lemmas Svc_defs = Svc_GetContext_def Svc_ListArtifacts_def Svc_ReadArtifact_def Svc_WriteArtifact_def
  Svc_ProposeMerge_def Svc_ListProposals_def Svc_MergeProposal_def Svc_ReleaseArtifact_def
  Svc_Remember_def Svc_Recall_def Svc_Activity_def Svc_RecordSessionEnd_def

lemma svc_call_refused:
  assumes "svc_call S a slug action w r w'" and "\<not> permitted (sys_db w) a slug action"
  shows "r \<noteq> None \<and> untouched w w'"
  using assms
  by (induction rule: svc_call.induct)
    (rule authorized_refused [OF _ trans], assumption, assumption, rule Svc_defs [THEN fun_cong])+

text \<open>
  C1: Nothing happens without permission. If the role the database gives the caller on the named
  project of its own org (none for a project of another org) does not allow the action of a method,
  the method returns an error, no row of any table changes, and the git plane is not touched.
\<close>

theorem no_effect_without_permission:
  assumes "svc_call S a slug action w r w'" and "\<not> permitted (sys_db w) a slug action"
  shows "r \<noteq> None \<and> sys_git w' = sys_git w \<and> same_data (sys_db w) (sys_db w')"
  using svc_call_refused [OF assms] by (simp add: untouched_def)

section \<open>What the service publishes\<close>

interpretation sil: sys_relation "\<lambda>_ _. True" "emits silent"
  by unfold_locales simp_all

lemma silent_publishes:
  fixes m :: "('w gitstate, 'a) go"
  assumes "publishes (\<lambda>_. []) m"
  shows "keeps (emits silent) m"
proof (rule keepsI)
  fix s :: "'w gitstate"
  from assms obtain t where "trace (snd (m s)) = trace s @ t"
      "pushes t = (case fst (m s) of Inl _ \<Rightarrow> [] | Inr _ \<Rightarrow> [])"
    unfolding publishes_def by blast
  then show "emits silent s (snd (m s))"
    unfolding emits_def silent_def by (intro exI [of _ t]) (simp split: sum.splits)
qed

lemma silent_withLock: "keeps (emits silent) m \<Longrightarrow> keeps (emits silent) (withLock path m)"
  by (rule silent_publishes, rule publishes_withLock, rule publishes_silent)

lemmas silent_rules = si.keeps_andThen si.keeps_handle si.keeps_let si.keeps_ret si.keeps_failwith
  si.keeps_ofSum si.keeps_failIf si.keeps_git silent_withLock

lemma silent_git:
  "keeps (emits silent) (Git_ListArtifacts H org project)"
  "keeps (emits silent) (Git_ListTree H org project ref artifact)"
  "keeps (emits silent) (Git_ReadFile H org project ref artifact path)"
  "keeps (emits silent) (Git_DiffStat H org project branch)"
  "keeps (emits silent) (Git_DeleteBranch H org project branch)"
  "keeps (emits silent) (Git_Versions H org project artifact)"
  "keeps (emits silent) (Git_Tag H org project artifact version notes)"
  unfolding Git_ListArtifacts_def Git_ListTree_def Git_ReadFile_def Git_DiffStat_def
    Git_DeleteBranch_def Git_Versions_def Git_Tag_def Let_def
  by (intro silent_rules; simp)+

lemma keeps_True: "keeps (\<lambda>_ _. True) m"
  by (simp add: keeps_def)

lemmas sil_rules = sil.keeps_authorized sil.sy.keeps_andThen sil.sy.keeps_handle sil.sy.keeps_forEach
  sil.sy.keeps_if sil.sy.keeps_case_option sil.sy.keeps_case_prod sil.sy.keeps_ret
  sil.sy.keeps_failwith sil.sy.keeps_ofSum sil.sy.keeps_ignoring sil.keeps_onDB sil.keeps_onGit
  keeps_True silent_git

lemma silent_svc:
  "keeps (sys_step (\<lambda>_ _. True) (emits silent)) (Svc_GetContext S a slug section)"
  "keeps (sys_step (\<lambda>_ _. True) (emits silent)) (Svc_ListArtifacts S a slug)"
  "keeps (sys_step (\<lambda>_ _. True) (emits silent)) (Svc_ReadArtifact S a slug artifact ref path)"
  "keeps (sys_step (\<lambda>_ _. True) (emits silent)) (Svc_ProposeMerge S a slug artifact summary)"
  "keeps (sys_step (\<lambda>_ _. True) (emits silent)) (Svc_ListProposals S a slug status withDiff)"
  "keeps (sys_step (\<lambda>_ _. True) (emits silent)) (Svc_ReleaseArtifact S a slug artifact bump notes)"
  "keeps (sys_step (\<lambda>_ _. True) (emits silent)) (Svc_Remember S a slug scope content)"
  "keeps (sys_step (\<lambda>_ _. True) (emits silent)) (Svc_Recall S a slug q limit)"
  "keeps (sys_step (\<lambda>_ _. True) (emits silent)) (Svc_Activity S a slug limit)"
  "keeps (sys_step (\<lambda>_ _. True) (emits silent)) (Svc_RecordSessionEnd S a slug summary)"
  unfolding Svc_defs release_body_def publish_release_def Let_def append_event_def activityDigest_def
  by (intro sil_rules)+

lemma silent_call:
  "keeps (sys_step (\<lambda>_ _. True) (emits silent)) m \<Longrightarrow>
     \<exists>t. trace (sys_git (snd (m w))) = trace (sys_git w) @ t \<and> pushes t = []"
  by (drule keepsD [of _ _ w]) (simp add: sys_step_def emits_def silent_def)

text \<open>The pushes of one call on the whole state, with its result.\<close>

definition sys_publishes :: "('a \<Rightarrow> string list) \<Rightarrow> 'w sys \<Rightarrow> (goerr + 'a) \<times> 'w sys \<Rightarrow> bool" where
  "sys_publishes ps w m \<longleftrightarrow> (\<exists>t. trace (sys_git (snd m)) = trace (sys_git w) @ t
     \<and> pushes t = (case fst m of Inl _ \<Rightarrow> [] | Inr x \<Rightarrow> ps x))"

lemma sys_publishes_refused: "untouched w w' \<Longrightarrow> sys_publishes ps w (Inl e, w')"
  by (simp add: sys_publishes_def untouched_def)

lemma sys_publishes_onGit:
  assumes "publishes ps m" and "sys_git w1 = sys_git w"
  shows "sys_publishes ps w (onGit m w1)"
  using assms(1) [unfolded publishes_def, rule_format, of "sys_git w"] assms(2)
  by (cases "m (sys_git w)") (simp add: sys_publishes_def onGit_def zoom_def)

text \<open>After the push the rest succeeds and leaves git alone.\<close>

definition quiet_tail :: "('w sys, 'a) go \<Rightarrow> bool" where
  "quiet_tail f \<longleftrightarrow> (\<forall>w. (\<exists>y. fst (f w) = Inr y) \<and> sys_git (snd (f w)) = sys_git w)"

lemma sys_publishes_andThen:
  assumes "sys_publishes (\<lambda>_. l) w (m w1)" and "\<And>x. quiet_tail (f x)"
  shows "sys_publishes (\<lambda>_. l) w (andThen m f w1)"
proof (cases "m w1")
  case (Pair r w2)
  show ?thesis
  proof (cases r)
    case (Inl e)
    then show ?thesis using assms(1) Pair by (simp add: sys_publishes_def andThen_def)
  next
    case (Inr x)
    obtain y where "fst (f x w2) = Inr y" "sys_git (snd (f x w2)) = sys_git w2"
      using assms(2) [of x] by (auto simp: quiet_tail_def)
    then show ?thesis using assms(1) Pair Inr by (simp add: sys_publishes_def andThen_def)
  qed
qed

lemma append_event_git [simp]: "sys_git (snd (append_event S a p kind summary w)) = sys_git w"
  by (simp add: append_event_def)

lemma quiet_tail_event: "quiet_tail (andThen (ignoring (append_event S a p kind summary)) (\<lambda>_. ret y))"
  by (simp add: quiet_tail_def andThen_def)

lemma WriteArtifact_publishes:
  "sys_publishes (\<lambda>_. [''HEAD:refs/heads/'' @ (if solo_project (sys_db w) a slug then ''main''
       else ''u/'' @ Actor_Username a @ ''/'' @ artifact)]) w
     (Svc_WriteArtifact S a slug artifact message files w)"
  unfolding Svc_WriteArtifact_def
proof (rule authorized_rule [where \<Phi> = "sys_publishes _ w"])
  fix p role w1 row
  assume u: "untouched w w1"
    and row: "first_row p_key (Actor_OrgID a, slug) (projects (sys_db w)) = Some row" "p = project_of row"
  have branch: "(if solo_project (sys_db w) a slug then ''main''
      else ''u/'' @ Actor_Username a @ ''/'' @ artifact) = write_branch p a artifact"
    using row by (simp add: write_branch_def ProposalBranch_def solo_project_def project_of_def)
  show "sys_publishes (\<lambda>_. [''HEAD:refs/heads/'' @ (if solo_project (sys_db w) a slug then ''main''
       else ''u/'' @ Actor_Username a @ ''/'' @ artifact)]) w (write_body S a artifact message files p w1)"
    unfolding branch write_body_def Let_def
    using u by (intro sys_publishes_andThen sys_publishes_onGit WriteFiles_publishes quiet_tail_event)
      (simp add: untouched_def)
qed (rule sys_publishes_refused)

text \<open>
  C6: \<open>WriteArtifact\<close> publishes to one branch only, exactly when it succeeds: main in a solo
  project, and in a team project the branch \<open>u/<user>/<artifact>\<close> of the caller.
\<close>

theorem WriteArtifact_publishes_own_branch:
  "\<exists>t. trace (sys_git (snd (Svc_WriteArtifact S a slug artifact message files w)))
       = trace (sys_git w) @ t
     \<and> pushes t = (case fst (Svc_WriteArtifact S a slug artifact message files w) of
          Inl _ \<Rightarrow> []
        | Inr _ \<Rightarrow> [''HEAD:refs/heads/'' @ (if solo_project (sys_db w) a slug then ''main''
             else ''u/'' @ Actor_Username a @ ''/'' @ artifact)])"
  using WriteArtifact_publishes unfolding sys_publishes_def .

lemma silent_call_no_ref:
  "keeps (sys_step (\<lambda>_ _. True) (emits silent)) m \<Longrightarrow>
     \<exists>t. trace (sys_git (snd (m w))) = trace (sys_git w) @ t \<and> (ref \<in> set (pushes t) \<longrightarrow> A)"
  using silent_call [of m w] by fastforce

lemma onGit_silent:
  assumes "keeps (emits silent) m"
  shows "\<exists>t. trace (sys_git (snd (onGit m w))) = trace (sys_git w) @ t \<and> pushes t = []"
  using keepsD [OF assms, of "sys_git w"] by (simp add: onGit_snd emits_def silent_def)

lemma record_merge_run:
  "\<exists>out t. fst (record_merge S a p pr res w) = Inr out
     \<and> MO_Status out = (if MR_Conflicts res \<noteq> [] then ''conflicted'' else ''merged'')
     \<and> trace (sys_git (snd (record_merge S a p pr res w))) = trace (sys_git w) @ t \<and> pushes t = []"
proof (cases "MR_Conflicts res = []")
  case True
  let ?w1 = "snd (onDB (DB_ResolveProposal (DB S) (Proposal_ID pr) ''merged'' (Actor_UserID a) []) w)"
  obtain t where "trace (sys_git (snd (onGit (Git_DeleteBranch (Git S) (Actor_OrgSlug a) (Project_Slug p)
      (Proposal_Branch pr)) ?w1))) = trace (sys_git ?w1) @ t" "pushes t = []"
    using onGit_silent [OF silent_git(5)] by blast
  with True show ?thesis by (simp add: record_merge_def andThen_def)
next
  case False
  then show ?thesis by (simp add: record_merge_def andThen_def)
qed

lemma merge_body_publishes:
  assumes "sys_git w1 = sys_git w"
  shows "sys_publishes (\<lambda>out. if MO_Status out = ''merged'' then [''HEAD:refs/heads/main''] else []) w
    (merge_body S a proposalID p w1)"
proof (cases "uuidParse (Lib S) proposalID")
  case None
  then show ?thesis using assms by (simp add: merge_body_def sys_publishes_def)
next
  case (Some pid)
  obtain r w2 where g: "onDB (DB_GetProposal (DB S) (Project_ID p) pid) w1 = (r, w2)"
    by (cases "onDB (DB_GetProposal (DB S) (Project_ID p) pid) w1")
  then have w2: "sys_git w2 = sys_git w"
    using onDB_git [of "DB_GetProposal (DB S) (Project_ID p) pid" w1] assms by simp
  show ?thesis
  proof (cases r)
    case (Inl e)
    then show ?thesis using Some g w2 by (simp add: merge_body_def andThen_def sys_publishes_def)
  next
    case (Inr pr)
    let ?ok = "Proposal_Status pr = ''open'' \<or> Proposal_Status pr = ''conflicted''"
    let ?merge = "onGit (Git_Merge (Git S) (Actor_OrgSlug a) (Project_Slug p) (Proposal_Branch pr)
        (merge_message (Lib S) pr) (trailers S a))"
    have body: "merge_body S a proposalID p w1 = (if ?ok
        then andThen ?merge (record_merge S a p pr) w2
        else (Inl (ProposalNotMergeable (Proposal_Status pr)), w2))"
      using Some g Inr by (simp add: merge_body_def andThen_def)
    show ?thesis
    proof (cases ?ok)
      case False
      then show ?thesis unfolding body using w2 by (simp add: sys_publishes_def)
    next
      case True
      obtain r3 w3 where m: "?merge w2 = (r3, w3)" by (cases "?merge w2")
      from sys_publishes_onGit [OF Merge_publishes w2, unfolded sys_publishes_def] m
      obtain t where t: "trace (sys_git w3) = trace (sys_git w) @ t"
        "pushes t = (case r3 of Inl _ \<Rightarrow> []
           | Inr res \<Rightarrow> if MR_Conflicts res = [] then [''HEAD:refs/heads/main''] else [])"
        by (metis fst_conv snd_conv)
      show ?thesis
      proof (cases r3)
        case (Inl e)
        then show ?thesis unfolding body using True m t by (simp add: andThen_def sys_publishes_def)
      next
        case res: (Inr res)
        from record_merge_run [of S a p pr res w3] obtain out u where
          "fst (record_merge S a p pr res w3) = Inr out"
          "MO_Status out = (if MR_Conflicts res \<noteq> [] then ''conflicted'' else ''merged'')"
          "trace (sys_git (snd (record_merge S a p pr res w3))) = trace (sys_git w3) @ u" "pushes u = []"
          by blast
        then show ?thesis
          unfolding body using True m t res
          by (simp add: andThen_def sys_publishes_def pushes_append)
      qed
    qed
  qed
qed

lemma MergeProposal_publishes:
  "sys_publishes (\<lambda>out. if MO_Status out = ''merged'' then [''HEAD:refs/heads/main''] else []) w
     (Svc_MergeProposal S a slug proposalID w)"
  unfolding Svc_MergeProposal_def
  by (rule authorized_rule [where \<Phi> = "sys_publishes _ w"])
    (auto intro: sys_publishes_refused merge_body_publishes simp: untouched_def)

lemma Can_merge: "Can role ProposalMerge = None \<longleftrightarrow> role = RoleMaintainer"
  by (auto simp: Can_def grants_def role_defs)

text \<open>
  C2: Main is protected. Whatever method of the service is called, by whomever and with whatever
  arguments, if it publishes main then the caller is a maintainer of the project, or the project is in
  solo mode and the caller may write artifacts.
\<close>

theorem main_is_protected:
  assumes "svc_call S a slug action w r w'"
  shows "\<exists>t. trace (sys_git w') = trace (sys_git w) @ t
    \<and> (''HEAD:refs/heads/main'' \<in> set (pushes t) \<longrightarrow>
         actor_role (sys_db w) a slug = Some RoleMaintainer
         \<or> solo_project (sys_db w) a slug \<and> permitted (sys_db w) a slug ArtifactWrite)"
proof (cases "permitted (sys_db w) a slug action")
  case False
  then have "sys_git w' = sys_git w"
    using svc_call_refused [OF assms] by (simp add: untouched_def)
  then show ?thesis by simp
next
  case True
  show ?thesis
    using assms True
  proof (induction rule: svc_call.induct)
    case (WriteArtifact m artifact message files w)
    then show ?case
      using WriteArtifact_publishes [of w a slug artifact S message files]
      by (auto simp: sys_publishes_def split: sum.splits if_splits)
  next
    case (MergeProposal m proposalID w)
    then have "actor_role (sys_db w) a slug = Some RoleMaintainer"
      by (auto simp: permitted_def Can_merge)
    then show ?case
      using MergeProposal MergeProposal_publishes [of w S a slug proposalID]
      by (auto simp: sys_publishes_def)
  qed (hypsubst, rule silent_call_no_ref, rule silent_svc)+
qed

section \<open>A sample deployment\<close>

definition sample_service :: "nat Service" where
  "sample_service = \<lparr> DB = sample_dbms, Git = sample_host, Svc_Version = ''1.0'', Lib = sample_lib \<rparr>"

definition sample_sys :: "nat sys" where
  "sample_sys = \<lparr> sys_db = sample_db, sys_git = sample_git \<rparr>"

definition sample_ana :: Actor where
  "sample_ana = \<lparr> Actor_UserID = 1, Actor_Username = ''ana'', Actor_OrgID = 0,
     Actor_OrgSlug = ''acme'', Actor_OrgRole = ''member'', Actor_Identity = ''cli'' \<rparr>"

definition sample_bob :: Actor where
  "sample_bob = \<lparr> Actor_UserID = 2, Actor_Username = ''bob'', Actor_OrgID = 0,
     Actor_OrgSlug = ''acme'', Actor_OrgRole = ''guest'', Actor_Identity = ''cli'' \<rparr>"

lemma sample_roles:
  "actor_role (sys_db sample_sys) sample_ana ''web'' = Some ''maintainer''"
  "actor_role (sys_db sample_sys) sample_bob ''web'' = Some ''''"
  "Can '''' ProposalMerge \<noteq> None" "\<not> solo_project (sys_db sample_sys) sample_ana ''web''"
proof -
  show "actor_role (sys_db sample_sys) sample_ana ''web'' = Some ''maintainer''"
    "actor_role (sys_db sample_sys) sample_bob ''web'' = Some ''''"
    "Can '''' ProposalMerge \<noteq> None"
    by code_simp+
  have "map_option p_solo_mode (first_row p_key (Actor_OrgID sample_ana, ''web'')
      (projects (sys_db sample_sys))) = Some False"
    by code_simp
  then show "\<not> solo_project (sys_db sample_sys) sample_ana ''web''"
    by (auto simp: solo_project_def)
qed

theorem no_effect_without_permission_witness:
  "(\<exists>e. fst (Svc_MergeProposal sample_service sample_bob ''web'' ''9'' sample_sys) = Inl e)
   \<and> sys_git (snd (Svc_MergeProposal sample_service sample_bob ''web'' ''9'' sample_sys)) = sample_git"
proof -
  have "\<not> permitted (sys_db sample_sys) sample_bob ''web'' ProposalMerge"
    using sample_roles(2,3) by (simp add: permitted_def)
  from no_effect_without_permission [OF svc_call.MergeProposal [OF refl] this, of sample_service "''9''"]
  show ?thesis
    by (auto simp: outcome_def sample_sys_def split: sum.splits)
qed

theorem main_is_protected_witness:
  "\<exists>t. trace (sys_git (snd (Svc_WriteArtifact sample_service sample_bob ''web'' ''brief'' '''' [] sample_sys)))
       = trace sample_git @ t
     \<and> ''HEAD:refs/heads/main'' \<notin> set (pushes t)"
proof -
  have "\<not> solo_project (sys_db sample_sys) sample_bob ''web''"
    using sample_roles(4) by (simp add: solo_project_def sample_ana_def sample_bob_def)
  then show ?thesis
    using main_is_protected [OF svc_call.WriteArtifact [OF refl],
        of sample_service sample_bob "''web''" "''brief''" "''''" "[]" sample_sys] sample_roles(2)
    by (auto simp: sample_sys_def RoleMaintainer_def)
qed

section \<open>Invariants of any sequence of calls\<close>

lemma any_calls_steps:
  "(any_call S)\<^sup>*\<^sup>* w w' \<Longrightarrow> store_steps S (sys_db w) (sys_db w') \<and> git_steps S (sys_git w) (sys_git w')"
  by (induction rule: rtranclp_induct) (auto simp: any_call_def dest!: svc_call_steps)

text \<open>
  Over any sequence of service calls by any callers, with any failures of the database and of
  git: every constraint of the schema holds again, events, memories and releases are only appended and
  revoked tokens stay revoked, locks are released and temporary clones removed.
\<close>

theorem service_keeps_invariants:
  assumes "(any_call S)\<^sup>*\<^sup>* w w'" and "wf_db (sys_db w)"
  shows "wf_db (sys_db w') \<and> history_step (sys_db w) (sys_db w')
    \<and> (\<exists>t. trace (sys_git w') = trace (sys_git w) @ t
         \<and> lock_run None t = Some None \<and> live [] t = [])"
proof -
  have d: "store_steps S (sys_db w) (sys_db w')" and g: "git_steps S (sys_git w) (sys_git w')"
    using any_calls_steps [OF assms(1)] by auto
  show ?thesis
    using db_calls_wf [OF d assms(2)] db_calls_history [OF d] git_calls_clean [OF g]
    by (auto simp: emits_def clean_op_def lock_ok_def balanced_def)
qed

theorem service_keeps_invariants_witness:
  "wf_db (sys_db (snd (Svc_Remember sample_service sample_ana ''web'' ''user'' ''x'' sample_sys)))"
proof -
  have "any_call sample_service sample_sys
      (snd (Svc_Remember sample_service sample_ana ''web'' ''user'' ''x'' sample_sys))"
    unfolding any_call_def using svc_call.Remember [OF refl] by blast
  then show ?thesis
    using service_keeps_invariants [of sample_service sample_sys] wf_sample
    by (simp add: sample_sys_def r_into_rtranclp)
qed

end
