(* ===== verification/Lifecycle.thy ===== *)
theory Lifecycle
  imports Core_Safety
begin

text \<open>
  Proposals and releases: the state machine of proposals under every call of the service, the
  git-first order (a projection row never claims what git has not done), and the versions that
  releasing chooses.
\<close>

section \<open>The status of proposals\<close>

definition proposal_status :: "db \<Rightarrow> uuid \<Rightarrow> string option" where
  "proposal_status d i = map_option mp_status (first_row mp_id i (merge_proposals d))"

text \<open>Every status stays, and the only new ones are open.\<close>

definition only_opens :: "db \<Rightarrow> db \<Rightarrow> bool" where
  "only_opens d d' \<longleftrightarrow> (\<forall>i. proposal_status d' i = proposal_status d i
     \<or> (proposal_status d i = None \<and> proposal_status d' i = Some ''open''))"

text \<open>The moves of the state machine, none of them from \<open>merged\<close> or \<open>rejected\<close>.\<close>

definition may_become :: "string \<Rightarrow> string \<Rightarrow> bool" where
  "may_become s s' \<longleftrightarrow> s' = s \<or> (s = ''open'' \<and> s' \<in> {''conflicted'', ''merged''})
     \<or> (s = ''conflicted'' \<and> s' = ''merged'')"

definition lifecycle_step :: "db \<Rightarrow> db \<Rightarrow> bool" where
  "lifecycle_step d d' \<longleftrightarrow> (\<forall>i s. proposal_status d i = Some s \<longrightarrow>
     (\<exists>s'. proposal_status d' i = Some s' \<and> may_become s s'))"

lemma only_opens_lifecycle: "only_opens d d' \<Longrightarrow> lifecycle_step d d'"
  by (auto simp: only_opens_def lifecycle_step_def may_become_def) (metis option.distinct(1))

lemma lifecycle_trans: "lifecycle_step d d' \<Longrightarrow> lifecycle_step d' d'' \<Longrightarrow> lifecycle_step d d''"
  unfolding lifecycle_step_def may_become_def by blast

interpretation oo: db_two_state only_opens
proof unfold_locales
  fix d d' d'' :: db
  assume "only_opens d d'" and "only_opens d' d''"
  then show "only_opens d d''" unfolding only_opens_def by (metis option.distinct(1))
qed (simp_all add: only_opens_def proposal_status_def)

lemma first_row_map:
  "(\<And>r. key (f r) = key r) \<Longrightarrow> first_row key k (map f rows) = map_option f (first_row key k rows)"
  by (induction rows) (auto simp: first_row_def)

lemma first_row_snoc:
  "first_row key k (rows @ [r])
    = (case first_row key k rows of Some x \<Rightarrow> Some x | None \<Rightarrow> if key r = k then Some r else None)"
  by (induction rows) (auto simp: first_row_def)

lemma same_proposals_opens: "merge_proposals d' = merge_proposals d \<Longrightarrow> only_opens d d'"
  by (simp add: only_opens_def proposal_status_def)

lemma same_data_proposals: "same_data d d' \<Longrightarrow> merge_proposals d' = merge_proposals d"
  unfolding same_data_def by (metis db.select_convs(10) db.surjective db.update_convs(12))

lemma opens_reads: "keeps same_data m \<Longrightarrow> keeps only_opens m"
  by (auto simp: keeps_def intro: same_proposals_opens same_data_proposals)

lemma opens_check_all: "only_opens d (snd r) \<Longrightarrow> only_opens d (snd (check_all cs r d))"
  using check_all_cases [of cs r d] by (auto simp: oo.step_refl)

text \<open>Most methods leave a given table as it is.\<close>

definition keeps_table :: "(db \<Rightarrow> 'x) \<Rightarrow> db \<Rightarrow> db \<Rightarrow> bool" where
  "keeps_table f d d' \<longleftrightarrow> f d' = f d"

interpretation kp: db_two_state "keeps_table merge_proposals"
  by unfold_locales (simp_all add: keeps_table_def)

interpretation kr: db_two_state "keeps_table releases"
  by unfold_locales (simp_all add: keeps_table_def)

lemma table_check_all: "keeps_table f d (snd r) \<Longrightarrow> keeps_table f d d' \<Longrightarrow> keeps_table f d (snd (check_all cs r d'))"
  using check_all_cases [of cs r d'] by auto

lemma table_AppendEvent:
  "keeps (keeps_table merge_proposals) (DB_AppendEvent E orgID oproj ouser label kind summary)"
  "keeps (keeps_table releases) (DB_AppendEvent E orgID oproj ouser label kind summary)"
  unfolding DB_AppendEvent_def Let_def
  by (intro kp.keeps_sql kr.keeps_sql table_check_all; simp add: keeps_table_def)+

lemma table_Remember:
  "keeps (keeps_table merge_proposals) (DB_Remember E orgID scope ouser oproj content uid)"
  "keeps (keeps_table releases) (DB_Remember E orgID scope ouser oproj content uid)"
  unfolding DB_Remember_def
  by (intro kp.keeps_sql kr.keeps_sql table_check_all; simp add: keeps_table_def)+

lemma table_CreateRelease:
  "keeps (keeps_table merge_proposals) (DB_CreateRelease E orgID pid artifact version tag notes uid)"
  unfolding DB_CreateRelease_def
  by (intro kp.keeps_sql table_check_all; simp add: keeps_table_def)

lemma opens_table: "keeps (keeps_table merge_proposals) m \<Longrightarrow> keeps only_opens m"
  by (simp add: keeps_def keeps_table_def same_proposals_opens)

lemma opens_CreateProposal:
  "keeps only_opens (DB_CreateProposal E orgID pid artifact branch uid summary)"
  unfolding DB_CreateProposal_def
  by (intro oo.keeps_sql opens_check_all)
    (auto simp: only_opens_def proposal_status_def first_row_snoc split: option.splits)

lemmas opens_methods = opens_CreateProposal opens_table [OF table_AppendEvent(1)]
  opens_table [OF table_Remember(1)] opens_table [OF table_CreateRelease]

interpretation ops: sys_relation only_opens "\<lambda>_ _. True"
  by unfold_locales simp_all

lemmas ops_rules = ops.keeps_authorized ops.sy.keeps_andThen ops.sy.keeps_handle ops.sy.keeps_forEach
  ops.sy.keeps_if ops.sy.keeps_case_option ops.sy.keeps_case_prod ops.sy.keeps_ret
  ops.sy.keeps_failwith ops.sy.keeps_ofSum ops.sy.keeps_ignoring ops.keeps_onDB ops.keeps_onGit
  keeps_True opens_methods opens_reads [OF read_methods(1)] opens_reads [OF read_methods(7)]
  opens_reads [OF read_methods(9)] opens_reads [OF read_methods(10)] opens_reads [OF read_methods(12)]
  opens_reads [OF read_methods(13)] opens_reads [OF read_methods(14)] opens_reads [OF read_methods(15)]
  opens_reads [OF read_methods(16)]

lemma opens_svc:
  "keeps (sys_step only_opens (\<lambda>_ _. True)) (Svc_GetContext S a slug section)"
  "keeps (sys_step only_opens (\<lambda>_ _. True)) (Svc_ListArtifacts S a slug)"
  "keeps (sys_step only_opens (\<lambda>_ _. True)) (Svc_ReadArtifact S a slug artifact ref path)"
  "keeps (sys_step only_opens (\<lambda>_ _. True)) (Svc_WriteArtifact S a slug artifact message files)"
  "keeps (sys_step only_opens (\<lambda>_ _. True)) (Svc_ProposeMerge S a slug artifact summary)"
  "keeps (sys_step only_opens (\<lambda>_ _. True)) (Svc_ListProposals S a slug status withDiff)"
  "keeps (sys_step only_opens (\<lambda>_ _. True)) (Svc_ReleaseArtifact S a slug artifact bump notes)"
  "keeps (sys_step only_opens (\<lambda>_ _. True)) (Svc_Remember S a slug scope content)"
  "keeps (sys_step only_opens (\<lambda>_ _. True)) (Svc_Recall S a slug q limit)"
  "keeps (sys_step only_opens (\<lambda>_ _. True)) (Svc_Activity S a slug limit)"
  "keeps (sys_step only_opens (\<lambda>_ _. True)) (Svc_RecordSessionEnd S a slug summary)"
  unfolding Svc_defs release_body_def publish_release_def write_body_def Let_def append_event_def activityDigest_def
  by (intro ops_rules)+

section \<open>Merging\<close>

lemma GetProposal_status:
  assumes "DB_GetProposal E projectID pid d = (Inr pr, d')" and "wf_proposals d"
  shows "proposal_status d (Proposal_ID pr) = Some (Proposal_Status pr) \<and> same_data d d'"
proof -
  have d': "d' = d\<lparr>tick := Suc (tick d)\<rparr>"
    using assms(1) by (auto simp: DB_GetProposal_def andThen_Inr or_not_found_Inr dest!: query_Inr)
  let ?rows = "filter (\<lambda>r. mp_project_id r = projectID \<and> mp_id r = pid) (merge_proposals d)"
  have "(case List.map_filter (proposal_of d') ?rows of [] \<Rightarrow> None | x # _ \<Rightarrow> Some x) = Some pr"
    using assms(1) d' by (auto simp: DB_GetProposal_def andThen_Inr or_not_found_Inr dest!: query_Inr)
  then have "pr \<in> set (List.map_filter (proposal_of d') ?rows)"
    by (auto split: list.splits)
  then obtain r where r: "r \<in> set (merge_proposals d)" "proposal_of d' r = Some pr"
    by (auto simp: map_filter_def)
  then have "Proposal_ID pr = mp_id r" "Proposal_Status pr = mp_status r"
    by (auto simp: proposal_of_def)
  moreover have "first_row mp_id (mp_id r) (merge_proposals d) = Some r"
    using assms(2) r(1) by (intro first_row_unique) (simp add: wf_proposals_def)
  ultimately show ?thesis
    by (simp add: proposal_status_def d' same_data_def)
qed

lemma sql_snd:
  "snd (sql E ts stmt d)
     \<in> {d\<lparr>tick := Suc (tick d)\<rparr>, snd (stmt (tick d) (d\<lparr>tick := Suc (tick d)\<rparr>))}"
  by (auto simp: sql_def Let_def split: sum.splits prod.splits)

lemma ResolveProposal_status:
  assumes "proposal_status d pid = Some s"
  shows "proposal_status (snd (DB_ResolveProposal E pid st by_user files d))
    \<in> {proposal_status d, (proposal_status d)(pid \<mapsto> st)}"
proof -
  let ?f = "\<lambda>n r. if mp_id r = pid then r\<lparr>mp_status := st, mp_resolved_at := Some (now E n),
    mp_resolved_by := Some by_user, mp_conflict_files := files\<rparr> else r"
  have new: "proposal_status (d\<lparr>tick := k, merge_proposals := map (?f n) (merge_proposals d)\<rparr>)
      = (proposal_status d)(pid \<mapsto> st)" for n k
  proof
    fix i
    have "first_row mp_id i (map (?f n) (merge_proposals d)) = map_option (?f n) (first_row mp_id i (merge_proposals d))"
      by (rule first_row_map) simp
    then show "proposal_status (d\<lparr>tick := k, merge_proposals := map (?f n) (merge_proposals d)\<rparr>) i
        = ((proposal_status d)(pid \<mapsto> st)) i"
      using assms first_row_Some [of mp_id i "merge_proposals d"]
      by (cases "first_row mp_id i (merge_proposals d)") (auto simp: proposal_status_def)
  qed
  have old: "proposal_status (d\<lparr>tick := k\<rparr>) = proposal_status d" for k
    by (intro ext) (simp add: proposal_status_def)
  define stmt where "stmt = (\<lambda>n d. check_all
       [(\<not> has_row mp_id pid (merge_proposals d)
           \<or> st \<in> {''open'', ''merged'', ''rejected'', ''conflicted''},
         ''merge_proposals_status_check''),
        (\<not> has_row mp_id pid (merge_proposals d) \<or> has_row u_id by_user (users d),
         ''merge_proposals_resolved_by_fkey'')]
       (Inr (), d\<lparr>merge_proposals := map (?f n) (merge_proposals d)\<rparr>) d)"
  have run: "snd (stmt n (d\<lparr>tick := k\<rparr>)) \<in> {d\<lparr>tick := k\<rparr>, d\<lparr>tick := k, merge_proposals := map (?f n) (merge_proposals d)\<rparr>}"
    for n k
    by (simp add: stmt_def)
  have stmt: "proposal_status (snd (stmt n (d\<lparr>tick := k\<rparr>))) \<in> {proposal_status d, (proposal_status d)(pid \<mapsto> st)}"
    (is "?Q (snd (stmt n (d\<lparr>tick := k\<rparr>)))") for n k
  proof (rule insertE [OF run [of n k]])
    assume e: "snd (stmt n (d\<lparr>tick := k\<rparr>)) = d\<lparr>tick := k\<rparr>"
    show ?thesis unfolding e old by (rule insertI1)
  next
    assume "snd (stmt n (d\<lparr>tick := k\<rparr>)) \<in> {d\<lparr>tick := k, merge_proposals := map (?f n) (merge_proposals d)\<rparr>}"
    then have e: "snd (stmt n (d\<lparr>tick := k\<rparr>)) = d\<lparr>tick := k, merge_proposals := map (?f n) (merge_proposals d)\<rparr>"
      by (rule singletonD)
    show ?thesis unfolding e new by (intro insertI2 insertI1)
  qed
  let ?d = "d\<lparr>tick := Suc (tick d)\<rparr>"
  have "?Q (snd (sql E (st # files) stmt d))"
  proof (rule insertE [OF sql_snd [of E "st # files" stmt d]])
    assume e: "snd (sql E (st # files) stmt d) = ?d"
    show ?thesis unfolding e old by (rule insertI1)
  next
    assume "snd (sql E (st # files) stmt d) \<in> {snd (stmt (tick d) ?d)}"
    then have e: "snd (sql E (st # files) stmt d) = snd (stmt (tick d) ?d)"
      by (rule singletonD)
    show ?thesis unfolding e by (rule stmt)
  qed
  then show ?thesis
    unfolding DB_ResolveProposal_def stmt_def .
qed

lemma append_event_status [simp]:
  "proposal_status (sys_db (snd (append_event S a p kind summary w))) = proposal_status (sys_db w)"
  using keepsD [OF table_AppendEvent(1), of "sys_db w"]
  by (simp add: append_event_def onDB_snd proposal_status_def keeps_table_def fun_eq_iff)

text \<open>What recording the outcome of a merge does to the statuses.\<close>

lemma record_merge_status:
  assumes "proposal_status (sys_db w) (Proposal_ID pr) = Some s"
  shows "proposal_status (sys_db (snd (record_merge S a p pr res w)))
    \<in> {proposal_status (sys_db w), (proposal_status (sys_db w))
        (Proposal_ID pr \<mapsto> (if MR_Conflicts res \<noteq> [] then ''conflicted'' else ''merged''))}"
  using ResolveProposal_status [OF assms]
  by (simp add: record_merge_def andThen_def onDB_snd)

text \<open>
  One call of \<open>MergeProposal\<close>: no status changes, or that of one open or conflicted proposal
  does, to merged only if main was pushed.
\<close>

definition merge_effect :: "'w sys \<Rightarrow> 'w sys \<Rightarrow> bool" where
  "merge_effect w w' \<longleftrightarrow> proposal_status (sys_db w') = proposal_status (sys_db w)
     \<or> (\<exists>i s st t. proposal_status (sys_db w) i = Some s \<and> s \<in> {''open'', ''conflicted''}
         \<and> proposal_status (sys_db w') = (proposal_status (sys_db w))(i \<mapsto> st)
         \<and> st \<in> {''conflicted'', ''merged''}
         \<and> trace (sys_git w') = trace (sys_git w) @ t
         \<and> (st = ''merged'' \<longrightarrow> ''HEAD:refs/heads/main'' \<in> set (pushes t)))"

lemma onGit_published:
  fixes w w1 :: "'w sys"
  assumes "publishes ps m" and "sys_git w1 = sys_git w" and "onGit m w1 = (Inr x, w')"
  shows "\<exists>t. trace (sys_git w') = trace (sys_git w) @ t \<and> pushes t = ps x"
  using sys_publishes_onGit [OF assms(1,2)] assms(3) by (simp add: sys_publishes_def)

lemma merge_effectI:
  assumes "proposal_status (sys_db w') \<in> {proposal_status (sys_db w), (proposal_status (sys_db w))(i \<mapsto> st)}"
    and "proposal_status (sys_db w) i = Some s" and "s = ''open'' \<or> s = ''conflicted''"
    and "trace (sys_git w') = trace (sys_git w) @ t"
    and "st = ''conflicted'' \<or> (st = ''merged'' \<and> ''HEAD:refs/heads/main'' \<in> set (pushes t))"
  shows "merge_effect w w'"
  using assms unfolding merge_effect_def by blast

lemma same_data_status: "same_data d d' \<Longrightarrow> proposal_status d' = proposal_status d"
  by (drule same_data_proposals) (simp add: proposal_status_def fun_eq_iff)

lemma merge_effect_untouched: "untouched w w' \<Longrightarrow> merge_effect w w'"
  by (simp add: merge_effect_def untouched_def same_data_status)

lemma same_data_wf_proposals: "same_data d d' \<Longrightarrow> wf_db d \<Longrightarrow> wf_db d'"
  unfolding same_data_def by (metis wf_db_tick)

lemma merge_body_effect:
  assumes wf: "wf_db (sys_db w1)"
  shows "merge_effect w1 (snd (merge_body S a proposalID p w1))"
proof (cases "uuidParse (Lib S) proposalID")
  case None
  then show ?thesis by (simp add: merge_body_def merge_effect_def)
next
  case (Some pid)
  let ?get = "DB_GetProposal (DB S) (Project_ID p) pid"
  obtain r d2 where g: "?get (sys_db w1) = (r, d2)" by (cases "?get (sys_db w1)")
  let ?w2 = "w1\<lparr>sys_db := d2\<rparr>"
  have og: "onDB ?get w1 = (r, ?w2)"
    by (simp add: onDB_def zoom_def g)
  have same: "same_data (sys_db w1) d2"
    using keepsD [OF read_methods(14), of "sys_db w1" "DB S" "Project_ID p" pid] g by simp
  show ?thesis
  proof (cases r)
    case (Inl e)
    then show ?thesis
      using Some og same_data_status [OF same] by (simp add: merge_body_def andThen_def merge_effect_def)
  next
    case (Inr pr)
    have st: "proposal_status (sys_db w1) (Proposal_ID pr) = Some (Proposal_Status pr)"
      using GetProposal_status [of "DB S" "Project_ID p" pid "sys_db w1" pr d2] g Inr wf
      by (simp add: wf_db_def)
    let ?ok = "Proposal_Status pr = ''open'' \<or> Proposal_Status pr = ''conflicted''"
    let ?merge = "onGit (Git_Merge (Git S) (Actor_OrgSlug a) (Project_Slug p) (Proposal_Branch pr)
        (merge_message (Lib S) pr) (trailers S a))"
    have body: "merge_body S a proposalID p w1 = (if ?ok
        then andThen ?merge (record_merge S a p pr) ?w2
        else (Inl (ProposalNotMergeable (Proposal_Status pr)), ?w2))"
      using Some og Inr by (simp add: merge_body_def andThen_def)
    obtain r3 w3 where m: "?merge ?w2 = (r3, w3)" by (cases "?merge ?w2")
    have d3: "sys_db w3 = d2"
      using onGit_db [of "Git_Merge (Git S) (Actor_OrgSlug a) (Project_Slug p) (Proposal_Branch pr)
        (merge_message (Lib S) pr) (trailers S a)" ?w2] m by simp
    have st3: "proposal_status (sys_db w3) = proposal_status (sys_db w1)"
      using same_data_status [OF same] d3 by simp
    show ?thesis
    proof (cases "?ok \<and> (\<exists>res. r3 = Inr res)")
      case False
      then show ?thesis
        unfolding body using m st3 same_data_status [OF same]
        by (cases r3) (auto simp: andThen_def merge_effect_def)
    next
      case True
      then obtain res where res: "r3 = Inr res" by blast
      from onGit_published [OF Merge_publishes _ m [unfolded res], of w1]
      obtain t where t: "trace (sys_git w3) = trace (sys_git w1) @ t"
        "pushes t = (if MR_Conflicts res = [] then [''HEAD:refs/heads/main''] else [])"
        by auto
      from record_merge_run [of S a p pr res w3] obtain u where
        u: "trace (sys_git (snd (record_merge S a p pr res w3))) = trace (sys_git w3) @ u" by blast
      have "proposal_status (sys_db (snd (record_merge S a p pr res w3)))
        \<in> {proposal_status (sys_db w1), (proposal_status (sys_db w1))
            (Proposal_ID pr \<mapsto> (if MR_Conflicts res \<noteq> [] then ''conflicted'' else ''merged''))}"
        using record_merge_status [of w3 pr _ S a p res] st st3 by simp
      moreover have "snd (merge_body S a proposalID p w1) = snd (record_merge S a p pr res w3)"
        unfolding body using True m res by (simp add: andThen_def)
      ultimately show ?thesis
        by (intro merge_effectI [OF _ st, where t = "t @ u"
              and st = "if MR_Conflicts res \<noteq> [] then ''conflicted'' else ''merged''"])
          (use True t u in \<open>simp_all add: pushes_append\<close>)
    qed
  qed
qed

lemma untouched_merge_effect: "untouched w w1 \<Longrightarrow> merge_effect w1 w' \<Longrightarrow> merge_effect w w'"
  using same_data_status [of "sys_db w" "sys_db w1"] unfolding untouched_def merge_effect_def by simp

lemma MergeProposal_effect:
  assumes "wf_db (sys_db w)"
  shows "merge_effect w (snd (Svc_MergeProposal S a slug proposalID w))"
  unfolding Svc_MergeProposal_def
proof (rule authorized_rule [where \<Phi> = "\<lambda>m. merge_effect w (snd m)"])
  fix p role w1 row
  assume u: "untouched w w1"
  then have "wf_db (sys_db w1)"
    using assms same_data_wf_proposals by (auto simp: untouched_def)
  then show "merge_effect w (snd (merge_body S a proposalID p w1))"
    by (intro untouched_merge_effect [OF u] merge_body_effect)
qed (simp add: merge_effect_untouched)

lemma svc_call_status:
  assumes "svc_call S a slug action w r w'" and "wf_db (sys_db w)"
  shows "only_opens (sys_db w) (sys_db w') \<or> merge_effect w w'"
  using assms
proof (induction rule: svc_call.induct)
  case (MergeProposal m proposalID w)
  then show ?case using MergeProposal_effect by blast
qed (simp_all add: opens_svc [THEN keepsD, unfolded sys_step_def])

lemma may_become_resolved:
  "s \<in> {''open'', ''conflicted''} \<Longrightarrow> st \<in> {''conflicted'', ''merged''} \<Longrightarrow> may_become s st"
  by (auto simp: may_become_def)

lemma may_become_refl: "may_become s s"
  by (simp add: may_become_def)

lemma lifecycle_upd:
  assumes "proposal_status d i = Some s" and "proposal_status d' = (proposal_status d)(i \<mapsto> st)"
    and "may_become s st"
  shows "lifecycle_step d d'"
  using assms by (simp add: lifecycle_step_def may_become_refl)

lemma merge_effect_lifecycle: "merge_effect w w' \<Longrightarrow> lifecycle_step (sys_db w) (sys_db w')"
  unfolding merge_effect_def
  by (elim disjE exE conjE)
    (simp add: lifecycle_step_def may_become_refl, blast intro: lifecycle_upd may_become_resolved)


definition sample_proposed :: "nat sys" where
  "sample_proposed = snd (Svc_ProposeMerge sample_service sample_ana ''web'' ''brief'' ''please'' sample_sys)"

definition sample_proposal :: uuid where
  "sample_proposal = mp_id (hd (merge_proposals (sys_db sample_proposed)))"

lemma sample_proposed_open: "proposal_status (sys_db sample_proposed) sample_proposal = Some ''open''"
  by code_simp

lemma wf_sample_proposed: "wf_db (sys_db sample_proposed)"
proof -
  have "store_steps sample_service (sys_db sample_sys) (sys_db sample_proposed)"
    unfolding sample_proposed_def using svc_call_steps [OF svc_call.ProposeMerge [OF refl]] by blast
  then show ?thesis
    using db_calls_wf wf_sample by (auto simp: sample_sys_def)
qed

definition sample_merged :: "nat sys" where
  "sample_merged = snd (Svc_MergeProposal sample_service sample_ana ''web'' (show_nat sample_proposal) sample_proposed)"


text \<open>
  C15: Git first. A proposal becomes merged in the database only in a call that has pushed main: the
  projection never claims a merge that git has not accepted.
\<close>

theorem merged_only_after_push:
  assumes "svc_call S a slug action w r w'" and "wf_db (sys_db w)"
    and "proposal_status (sys_db w) i \<noteq> Some ''merged''"
    and "proposal_status (sys_db w') i = Some ''merged''"
  shows "\<exists>t. trace (sys_git w') = trace (sys_git w) @ t \<and> ''HEAD:refs/heads/main'' \<in> set (pushes t)"
proof -
  have "\<not> only_opens (sys_db w) (sys_db w')"
    using assms(3,4) by (auto simp: only_opens_def intro!: exI [of _ i])
  then have "merge_effect w w'"
    using svc_call_status [OF assms(1,2)] by blast
  then show ?thesis
    using assms(3,4) by (auto simp: merge_effect_def split: if_splits)
qed

lemma sample_merge_happens:
  "proposal_status (sys_db sample_merged) sample_proposal = Some ''merged''"
  by code_simp

theorem merged_only_after_push_witness:
  "\<exists>t. trace (sys_git sample_merged) = trace (sys_git sample_proposed) @ t
     \<and> ''HEAD:refs/heads/main'' \<in> set (pushes t)"
  unfolding sample_merged_def
proof (rule merged_only_after_push [OF svc_call.MergeProposal [OF refl] wf_sample_proposed])
  show "proposal_status (sys_db sample_proposed) sample_proposal \<noteq> Some ''merged''"
    by (simp add: sample_proposed_open)
  show "proposal_status (sys_db (snd (Svc_MergeProposal sample_service sample_ana ''web''
      (show_nat sample_proposal) sample_proposed))) sample_proposal = Some ''merged''"
    using sample_merge_happens by (simp add: sample_merged_def)
qed

end
