(* ===== verification/Releasing.thy ===== *)
theory Releasing
  imports Lifecycle
begin

text \<open>
  Releases: the version a release chooses, and the git-first order of tags and release rows.
\<close>

section \<open>The version a release chooses\<close>

lemma onGit_Inr: "onGit m w = (Inr x, w') \<longleftrightarrow> m (sys_git w) = (Inr x, sys_git w') \<and> w' = w\<lparr>sys_git := sys_git w'\<rparr>"
  by (cases "m (sys_git w)") (auto simp: onGit_def zoom_def)

lemma withLock_Inr:
  assumes "withLock path m s = (Inr x, s')"
  shows "\<exists>l s1 s2. trace s1 = trace s @ [Lock l] \<and> m s1 = (Inr x, s2) \<and> trace s' = trace s2 @ [Unlock l]"
proof -
  obtain l s1 where l: "repoLock path s = (l, s1)" by (cases "repoLock path s")
  then have "trace s1 = trace s"
    by (auto simp: repoLock_def split: option.splits)
  then have "trace (performed (Lock l) (world s1) s1) = trace s @ [Lock l]"
    by (simp add: trace_performed)
  moreover obtain s2 where "m (performed (Lock l) (world s1) s1) = (Inr x, s2)"
      "s' = performed (Unlock l) (world s2) s2"
    using assms by (auto simp: withLock_def l deferred_def split: prod.splits)
  ultimately show ?thesis by (metis trace_performed)
qed

text \<open>A tag that was made, as the trace shows it.\<close>

definition tagged :: "string \<Rightarrow> effect list \<Rightarrow> bool" where
  "tagged tag t \<longleftrightarrow> (\<exists>dir msg. Exec dir [''tag'', ''-a'', tag, ''-m'', msg, ''main''] True \<in> set t)"

lemma Git_Tag_Inr:
  assumes "Git_Tag H org project artifact version notes s = (Inr tag, s')"
  shows "tag = ''artifacts/'' @ artifact @ ''/'' @ version
    \<and> (\<exists>t. trace s' = trace s @ t \<and> tagged tag t)"
proof -
  let ?t = "''artifacts/'' @ artifact @ ''/'' @ version"
  let ?m = "if notes = '''' then ''release '' @ artifact @ '' '' @ version else notes"
  obtain path where path: "withLock path
       (andThen (Git_git H path [''tag'', ''-a'', ?t, ''-m'', ?m, ''main'']) (\<lambda>_. ret ?t)) s = (Inr tag, s')"
    using assms unfolding Git_Tag_def andThen_Inr Let_def by auto
  obtain l s1 s2 x where "trace s1 = trace s @ [Lock l]" "tag = ?t" "trace s' = trace s2 @ [Unlock l]"
    and g: "Git_git H path [''tag'', ''-a'', ?t, ''-m'', ?m, ''main''] s1 = (Inr x, s2)"
    using withLock_Inr [OF path] unfolding andThen_Inr ret_apply by auto
  then have "trace s' = trace s @ [Lock l, Exec path [''tag'', ''-a'', ?t, ''-m'', ?m, ''main''] True, Unlock l]"
    using git_trace [OF g] by simp
  then show ?thesis
    using \<open>tag = ?t\<close> unfolding tagged_def by (metis list.set_intros)
qed

lemma publish_release_Inr:
  assumes "publish_release S a artifact notes p nxt w = (Inr res, w')"
  shows "RR_Version res = String nxt \<and> RR_Tag res = ''artifacts/'' @ artifact @ ''/'' @ String nxt"
proof -
  obtain tag g where t: "Git_Tag (Git S) (Actor_OrgSlug a) (Project_Slug p) artifact (String nxt) notes
       (sys_git w) = (Inr tag, g)"
    and "RR_Version res = String nxt" "RR_Tag res = tag"
    using assms unfolding publish_release_def andThen_Inr onGit_Inr ret_apply by auto
  then show ?thesis
    using Git_Tag_Inr [OF t] by simp
qed

lemma release_body_Inr:
  assumes "release_body S a artifact bump notes p w1 = (Inr res, w')"
  shows "\<exists>versions next. fst (Git_Versions (Git S) (Actor_OrgSlug a) (Project_Slug p) artifact (sys_git w1)) = Inr versions
    \<and> Bump (case Latest versions of (b, ok) \<Rightarrow> if ok then b else version_zero) bump = Inr next
    \<and> RR_Version res = String next \<and> RR_Tag res = ''artifacts/'' @ artifact @ ''/'' @ String next"
proof -
  from assms obtain versions w2 where
    v: "onGit (Git_Versions (Git S) (Actor_OrgSlug a) (Project_Slug p) artifact) w1 = (Inr versions, w2)"
    and rest: "(case Latest versions of (cur, ok) \<Rightarrow>
        andThen (ofSum (Bump (if \<not> ok then version_zero else cur) bump)) (publish_release S a artifact notes p)) w2 = (Inr res, w')"
    unfolding release_body_def andThen_Inr Let_def by blast
  from rest obtain nxt where
    "Bump (case Latest versions of (b, ok) \<Rightarrow> if ok then b else version_zero) bump = Inr nxt"
    and p: "publish_release S a artifact notes p nxt w2 = (Inr res, w')"
    by (cases "Latest versions") (auto simp: andThen_Inr split: if_splits)
  moreover have "fst (Git_Versions (Git S) (Actor_OrgSlug a) (Project_Slug p) artifact (sys_git w1)) = Inr versions"
    using v [unfolded onGit_Inr] by simp
  ultimately show ?thesis
    using publish_release_Inr [OF p] by blast
qed


definition sample_release :: "(goerr + ReleaseResult) \<times> nat sys" where
  "sample_release = Svc_ReleaseArtifact sample_service sample_ana ''web'' ''brief'' ''minor'' ''first'' sample_sys"

lemma sample_release_ok:
  "sample_release = (Inr \<lparr> RR_Artifact = ''brief'', RR_Version = ''v0.1.0'', RR_Tag = ''artifacts/brief/v0.1.0'' \<rparr>, snd sample_release)"
  "fst (Git_Versions (Git sample_service) (Actor_OrgSlug sample_ana) ''web'' ''brief'' (sys_git sample_sys)) = Inr []"
  by code_simp+


section \<open>Tags come before release rows\<close>

text \<open>
  A step from which every new release row has its tag in the part of the trace that was added.
  It is a preorder, so it is shown for the steps and follows for every method.
\<close>

definition tag_first :: "'w sys \<Rightarrow> 'w sys \<Rightarrow> bool" where
  "tag_first w w' \<longleftrightarrow> (\<exists>t. trace (sys_git w') = trace (sys_git w) @ t
     \<and> (\<forall>rel \<in> set (releases (sys_db w')). rel \<in> set (releases (sys_db w)) \<or> tagged (r_tag rel) t))"

lemma tag_first_refl: "tag_first w w"
  by (simp add: tag_first_def)

lemma tagged_append: "tagged tag (t @ u) \<longleftrightarrow> tagged tag t \<or> tagged tag u"
  by (auto simp: tagged_def)

lemma tag_first_trans: "tag_first w w' \<Longrightarrow> tag_first w' w'' \<Longrightarrow> tag_first w w''"
proof -
  assume "tag_first w w'" "tag_first w' w''"
  then obtain t u where "trace (sys_git w'') = trace (sys_git w) @ (t @ u)"
    and "\<forall>rel \<in> set (releases (sys_db w')). rel \<in> set (releases (sys_db w)) \<or> tagged (r_tag rel) t"
    and "\<forall>rel \<in> set (releases (sys_db w'')). rel \<in> set (releases (sys_db w')) \<or> tagged (r_tag rel) u"
    by (auto simp: tag_first_def)
  then show ?thesis
    unfolding tag_first_def by (intro exI [of _ "t @ u"]) (auto simp: tagged_append)
qed

interpretation tf: two_state tag_first
  by unfold_locales (rule tag_first_refl, erule (1) tag_first_trans)

lemma tag_first_untouched: "untouched w w' \<Longrightarrow> tag_first w w'"
  unfolding untouched_def tag_first_def same_data_def
  by (metis append_Nil2 db.select_convs(11) db.surjective db.update_convs(12))

lemma tag_first_onDB: "keeps (keeps_table releases) m \<Longrightarrow> keeps tag_first (onDB m)"
  unfolding onDB_def by (rule keeps_zoom [where Q = "keeps_table releases"]) (simp_all add: tag_first_def keeps_table_def)

lemma tag_first_onGit:
  assumes "keeps (git_steps S) m"
  shows "keeps tag_first (onGit m)"
  unfolding onGit_def
proof (rule keeps_zoom [OF assms])
  fix w :: "'a sys" and g
  assume "git_steps S (sys_git w) g"
  then obtain t where "trace g = trace (sys_git w) @ t"
    by (auto simp: emits_def dest!: git_calls_clean)
  then show "tag_first w (w\<lparr>sys_git := g\<rparr>)"
    by (auto simp: tag_first_def)
qed

lemma tag_first_authorized:
  assumes "\<And>p role. keeps tag_first (body p role)"
  shows "keeps tag_first (authorized S a slug action body)"
  unfolding authorized_def gate_def
  by (intro tf.keeps_andThen tf.keeps_case_prod tf.keeps_case_option tf.keeps_ret tf.keeps_failwith assms
      keepsI [THEN tf.keeps_andThen] keepsI) (auto intro: tag_first_untouched projectCtx_untouched [THEN keepsD])

text \<open>The row that \<open>CreateRelease\<close> inserts carries the tag it is given.\<close>

definition new_tags :: "string \<Rightarrow> db \<Rightarrow> db \<Rightarrow> bool" where
  "new_tags tag d d' \<longleftrightarrow> (\<forall>rel \<in> set (releases d'). rel \<in> set (releases d) \<or> r_tag rel = tag)"

interpretation nt: db_two_state "new_tags tag" for tag
  by unfold_locales (auto simp: new_tags_def)

lemma tags_CreateRelease:
  "keeps (new_tags tag) (DB_CreateRelease E orgID pid artifact version tag notes uid)"
  unfolding DB_CreateRelease_def
  by (intro nt.keeps_sql nt.check_all_step) (auto simp: new_tags_def)

lemma table_releases:
  "keeps (keeps_table releases) (DB_CreateProposal E orgID pid artifact branch uid summary)"
  "keeps (keeps_table releases) (DB_ResolveProposal E prid status uid files)"
  unfolding DB_CreateProposal_def DB_ResolveProposal_def
  by (intro kr.keeps_sql table_check_all; simp add: keeps_table_def)+

lemma releases_reads: "keeps same_data m \<Longrightarrow> keeps (keeps_table releases) m"
  unfolding keeps_def keeps_table_def same_data_def
  by (metis db.select_convs(11) db.surjective db.update_convs(12))

lemma append_event_releases: "keeps tag_first (append_event S a p kind summary)"
  unfolding append_event_def by (intro tag_first_onDB table_AppendEvent(2))

lemma publish_release_tag_first: "keeps tag_first (publish_release S a artifact notes p nxt)"
proof (rule keepsI)
  fix w :: "'a sys"
  let ?tag = "onGit (Git_Tag (Git S) (Actor_OrgSlug a) (Project_Slug p) artifact (String nxt) notes)"
  let ?row = "\<lambda>tag. onDB (DB_CreateRelease (DB S) (Actor_OrgID a) (Project_ID p) artifact (String nxt) tag
         notes (Actor_UserID a))"
  let ?rest = "\<lambda>tag. andThen (ignoring (append_event S a p ''release.published''
         (''released '' @ artifact @ '' '' @ String nxt @ '': '' @ firstLine notes))) (\<lambda>_.
       ret \<lparr> RR_Artifact = artifact, RR_Version = String nxt, RR_Tag = tag \<rparr>)"
  have p: "publish_release S a artifact notes p nxt = andThen ?tag (\<lambda>tag. andThen (?row tag) (\<lambda>_. ?rest tag))"
    by (rule publish_release_def)
  have tag: "keeps tag_first ?tag"
    by (rule tag_first_onGit [OF git_steps_methods(9)])
  have rest: "keeps tag_first (?rest tag)" for tag
    by (intro tf.keeps_andThen tf.keeps_ret tf.keeps_ignoring append_event_releases)
  show "tag_first w (snd (publish_release S a artifact notes p nxt w))"
  proof (cases "?tag w")
    case (Pair r w1)
    show ?thesis
    proof (cases r)
      case (Inl e)
      then show ?thesis
        using keepsD [OF tag, of w] Pair unfolding p by (simp add: andThen_eq_Inl)
    next
      case (Inr tag)
      have g1: "Git_Tag (Git S) (Actor_OrgSlug a) (Project_Slug p) artifact (String nxt) notes (sys_git w)
          = (Inr tag, sys_git w1)" and db: "sys_db w1 = sys_db w"
        using Pair [unfolded Inr onGit_Inr] by (simp, metis sys.select_convs(1) sys.surjective sys.update_convs(2))
      obtain t where t: "trace (sys_git w1) = trace (sys_git w) @ t" "tagged tag t"
        using Git_Tag_Inr [OF g1] by blast
      obtain r2 w2 where row: "?row tag w1 = (r2, w2)" by (cases "?row tag w1")
      have g: "sys_git w2 = sys_git w1"
        using row by (auto simp: onDB_def zoom_def split: prod.splits)
      have "keeps (new_tags tag) (DB_CreateRelease (DB S) (Actor_OrgID a) (Project_ID p) artifact (String nxt) tag
         notes (Actor_UserID a))" by (rule tags_CreateRelease)
      from keepsD [OF this, of "sys_db w1"] have new: "new_tags tag (sys_db w1) (sys_db w2)"
        using row by (auto simp: onDB_def zoom_def split: prod.splits)
      have "tag_first w w2"
        using new unfolding tag_first_def new_tags_def g db t(1)
        by (intro exI [of _ t]) (use t(2) in auto)
      moreover have "tag_first w2 (snd (andThen (?row tag) (\<lambda>_. ?rest tag) w1))"
        using row rest [THEN keepsD, of w2] tag_first_refl [of w2]
        by (cases r2) (simp_all only: andThen_eq_Inl andThen_eq_Inr snd_conv)
      ultimately show ?thesis
        using Pair Inr tag_first_trans unfolding p by (simp only: andThen_eq_Inr)
    qed
  qed
qed

lemmas tag_first_rules = tag_first_authorized tf.keeps_andThen tf.keeps_handle tf.keeps_forEach
  tf.keeps_if tf.keeps_case_option tf.keeps_case_prod tf.keeps_ret tf.keeps_failwith tf.keeps_ofSum
  tf.keeps_ignoring tag_first_onDB append_event_releases publish_release_tag_first
  tag_first_onGit [OF git_steps_methods(1)] tag_first_onGit [OF git_steps_methods(2)]
  tag_first_onGit [OF git_steps_methods(3)] tag_first_onGit [OF git_steps_methods(4)]
  tag_first_onGit [OF git_steps_methods(5)] tag_first_onGit [OF git_steps_methods(6)]
  tag_first_onGit [OF git_steps_methods(7)] tag_first_onGit [OF git_steps_methods(8)]
  table_releases table_Remember(2)
  releases_reads [OF read_methods(1)] releases_reads [OF read_methods(7)]
  releases_reads [OF read_methods(9)] releases_reads [OF read_methods(10)]
  releases_reads [OF read_methods(12)] releases_reads [OF read_methods(13)]
  releases_reads [OF read_methods(14)] releases_reads [OF read_methods(15)]
  releases_reads [OF read_methods(16)]

lemma tag_first_svc:
  "keeps tag_first (Svc_GetContext S a slug section)"
  "keeps tag_first (Svc_ListArtifacts S a slug)"
  "keeps tag_first (Svc_ReadArtifact S a slug artifact ref path)"
  "keeps tag_first (Svc_WriteArtifact S a slug artifact message files)"
  "keeps tag_first (Svc_ProposeMerge S a slug artifact summary)"
  "keeps tag_first (Svc_ListProposals S a slug status withDiff)"
  "keeps tag_first (Svc_MergeProposal S a slug proposalID)"
  "keeps tag_first (Svc_ReleaseArtifact S a slug artifact bump notes)"
  "keeps tag_first (Svc_Remember S a slug scope content)"
  "keeps tag_first (Svc_Recall S a slug q limit)"
  "keeps tag_first (Svc_Activity S a slug limit)"
  "keeps tag_first (Svc_RecordSessionEnd S a slug summary)"
  unfolding Svc_defs write_body_def merge_body_def record_merge_def release_body_def Let_def activityDigest_def
  by (intro tag_first_rules)+

lemma any_call_tag_first: "any_call S w w' \<Longrightarrow> tag_first w w'"
  unfolding any_call_def by (auto elim!: svc_call.cases simp: tag_first_svc [THEN keepsD])

text \<open>
  Git first: a release row only ever exists for a tag that was made. Over any number of calls of
  the service, by anyone, each release row that is there afterwards and was not before has its tag
  made by a successful \<open>git tag\<close> on main in the course of these calls.
\<close>

theorem released_only_after_tag:
  assumes "(any_call S)\<^sup>*\<^sup>* w w'" and "rel \<in> set (releases (sys_db w'))"
    and "rel \<notin> set (releases (sys_db w))"
  shows "\<exists>t. trace (sys_git w') = trace (sys_git w) @ t \<and> tagged (r_tag rel) t"
proof -
  have "tag_first w w'"
    using assms(1)
    by (induction rule: rtranclp_induct) (auto intro: tag_first_refl tag_first_trans any_call_tag_first)
  then show ?thesis
    using assms(2,3) by (auto simp: tag_first_def)
qed

lemma sample_release_call: "any_call sample_service sample_sys (snd sample_release)"
  unfolding any_call_def sample_release_def by (blast intro: svc_call.intros)

theorem released_only_after_tag_witness:
  "\<exists>t. trace (sys_git (snd sample_release)) = trace (sys_git sample_sys) @ t
     \<and> tagged ''artifacts/brief/v0.1.0'' t"
proof -
  have "map r_tag (releases (sys_db (snd sample_release))) = [''artifacts/brief/v0.1.0'']"
    "releases (sys_db sample_sys) = []"
    by code_simp+
  then obtain rel where "rel \<in> set (releases (sys_db (snd sample_release)))"
      "rel \<notin> set (releases (sys_db sample_sys))" "r_tag rel = ''artifacts/brief/v0.1.0''"
    by (cases "releases (sys_db (snd sample_release))") auto
  then show ?thesis
    using released_only_after_tag [OF r_into_rtranclp [of "any_call sample_service"],
        OF sample_release_call] by metis
qed

end
