(* ===== verification/Privacy.thy ===== *)
theory Privacy
  imports Core_Safety
begin

text \<open>
  Who can learn what. A method is run on two states that differ only in what its caller must not
  see; \<open>agrees\<close> says that it then gives the same answer and again leaves two such states. The
  relation composes, so it is shown for the methods of the store and follows for the service: the
  private memories of others cannot be observed. The other half of the theory is about what is shown:
  the bounds on it and the envelope around it.
\<close>

section \<open>Two runs\<close>

definition agrees :: "('s \<Rightarrow> 's \<Rightarrow> bool) \<Rightarrow> ('s \<Rightarrow> 'r \<times> 's) \<Rightarrow> bool" where
  "agrees R m \<longleftrightarrow> (\<forall>s t. R s t \<longrightarrow> fst (m s) = fst (m t) \<and> R (snd (m s)) (snd (m t)))"

lemma agreesI: "(\<And>s t. R s t \<Longrightarrow> fst (m s) = fst (m t) \<and> R (snd (m s)) (snd (m t))) \<Longrightarrow> agrees R m"
  by (simp add: agrees_def)

lemma agreesD: "agrees R m \<Longrightarrow> R s t \<Longrightarrow> fst (m s) = fst (m t) \<and> R (snd (m s)) (snd (m t))"
  by (simp add: agrees_def)

named_theorems agrees_rules "composition of agreement"

lemma agrees_ret [agrees_rules]: "agrees R (ret x)"
  by (simp add: agrees_def)

lemma agrees_failwith [agrees_rules]: "agrees R (failwith e)"
  by (simp add: agrees_def)

lemma agrees_ofSum [agrees_rules]: "agrees R (ofSum r)"
  by (simp add: agrees_def)

lemma agrees_handle [agrees_rules]:
  assumes "agrees R m" and "\<And>e. agrees R (h e)" and "\<And>x. agrees R (f x)"
  shows "agrees R (handle m h f)"
proof (rule agreesI)
  fix s t
  assume "R s t"
  obtain r s1 where s: "m s = (r, s1)" by (cases "m s")
  moreover obtain t1 where t: "m t = (r, t1)" and R1: "R s1 t1"
    using agreesD [OF assms(1) \<open>R s t\<close>] s by (cases "m t") auto
  show "fst (handle m h f s) = fst (handle m h f t) \<and> R (snd (handle m h f s)) (snd (handle m h f t))"
    using agreesD [OF assms(2) R1] agreesD [OF assms(3) R1]
    by (cases r) (simp_all add: handle_def s t)
qed

lemma agrees_andThen [agrees_rules]:
  "agrees R m \<Longrightarrow> (\<And>x. agrees R (f x)) \<Longrightarrow> agrees R (andThen m f)"
  using agrees_handle [of R m failwith f] by (simp add: andThen_handle agrees_failwith)

lemma agrees_ignoring [agrees_rules]: "agrees R m \<Longrightarrow> agrees R (ignoring m)"
  by (simp add: agrees_def)

lemma agrees_forEach [agrees_rules]: "(\<And>x. agrees R (f x)) \<Longrightarrow> agrees R (forEach xs f)"
  by (induction xs) (auto intro!: agrees_andThen agrees_ret)

lemma agrees_if [agrees_rules]: "agrees R m \<Longrightarrow> agrees R m' \<Longrightarrow> agrees R (if b then m else m')"
  by simp

lemma agrees_case_option [agrees_rules]:
  "agrees R m \<Longrightarrow> (\<And>x. agrees R (f x)) \<Longrightarrow> agrees R (case v of None \<Rightarrow> m | Some x \<Rightarrow> f x)"
  by (cases v) auto

lemma agrees_case_prod [agrees_rules]: "(\<And>x y. agrees R (f x y)) \<Longrightarrow> agrees R (case v of (x, y) \<Rightarrow> f x y)"
  by (cases v) auto

section \<open>The private memories of others\<close>

text \<open>A memory that the user of an org must not see: private to another user, or of another org.\<close>

definition concealed :: "uuid \<Rightarrow> uuid \<Rightarrow> memory_row \<Rightarrow> bool" where
  "concealed orgID uid m \<longleftrightarrow> m_org_id m \<noteq> orgID \<or> (m_scope m = ''user'' \<and> m_user_id m \<noteq> Some uid)"

definition same_but_concealed :: "uuid \<Rightarrow> uuid \<Rightarrow> db \<Rightarrow> db \<Rightarrow> bool" where
  "same_but_concealed orgID uid d d' \<longleftrightarrow> (\<exists>ms. d' = d\<lparr>memories := ms\<rparr>
     \<and> filter (\<lambda>m. \<not> concealed orgID uid m) ms = filter (\<lambda>m. \<not> concealed orgID uid m) (memories d))"

lemma same_but_concealedE:
  assumes "same_but_concealed orgID uid d d'"
  obtains ms where "d' = d\<lparr>memories := ms\<rparr>"
    "filter (\<lambda>m. \<not> concealed orgID uid m) ms = filter (\<lambda>m. \<not> concealed orgID uid m) (memories d)"
  using assms by (auto simp: same_but_concealed_def)

lemma agrees_sql:
  assumes "\<And>n d d'. same_but_concealed orgID uid d d' \<Longrightarrow>
      fst (stmt n d) = fst (stmt n d') \<and> same_but_concealed orgID uid (snd (stmt n d)) (snd (stmt n d'))"
  shows "agrees (same_but_concealed orgID uid) (sql E texts stmt)"
proof (rule agreesI)
  fix d d'
  assume r: "same_but_concealed orgID uid d d'"
  let ?d = "d\<lparr>tick := Suc (tick d)\<rparr>" and ?d' = "d'\<lparr>tick := Suc (tick d')\<rparr>"
  have r1: "same_but_concealed orgID uid ?d ?d'" and t: "tick d' = tick d"
    using r by (cases d; auto simp: same_but_concealed_def)+
  obtain x d1 d1' where "stmt (tick d) ?d = (x, d1)" "stmt (tick d) ?d' = (x, d1')"
      "same_but_concealed orgID uid d1 d1'"
    using assms [OF r1, of "tick d"] by (metis prod.collapse)
  then show "fst (sql E texts stmt d) = fst (sql E texts stmt d')
      \<and> same_but_concealed orgID uid (snd (sql E texts stmt d)) (snd (sql E texts stmt d'))"
    using r1 by (cases x) (simp_all add: sql_def Let_def t)
qed

lemma agrees_query:
  assumes "\<And>d ms. q (d\<lparr>memories := ms\<rparr>) = q d"
  shows "agrees (same_but_concealed orgID uid) (query E texts q)"
  unfolding query_def by (rule agrees_sql) (auto elim!: same_but_concealedE simp: assms same_but_concealed_def)

lemma agrees_query_limit:
  assumes "\<And>d d'. same_but_concealed orgID uid d d' \<Longrightarrow> q d = q d'"
  shows "agrees (same_but_concealed orgID uid) (query_limit E texts limit q)"
  unfolding query_limit_def by (rule agrees_sql) (auto dest: assms)

lemma agrees_check_all:
  assumes "same_but_concealed orgID uid d d'" and "fst r = fst r'"
    and "same_but_concealed orgID uid (snd r) (snd r')"
  shows "fst (check_all cs r d) = fst (check_all cs r' d')
    \<and> same_but_concealed orgID uid (snd (check_all cs r d)) (snd (check_all cs r' d'))"
  using assms by (induction cs r d rule: check_all.induct) auto

lemma visible_not_concealed: "memory_visible orgID uid oproj m \<Longrightarrow> \<not> concealed orgID uid m"
  by (auto simp: memory_visible_def concealed_def)

lemma filter_visible:
  assumes "filter (\<lambda>m. \<not> concealed orgID uid m) ms = filter (\<lambda>m. \<not> concealed orgID uid m) ms'"
  shows "filter (memory_visible orgID uid oproj) ms = filter (memory_visible orgID uid oproj) ms'"
proof -
  have "filter (memory_visible orgID uid oproj) xs
      = filter (memory_visible orgID uid oproj) (filter (\<lambda>m. \<not> concealed orgID uid m) xs)" for xs
    by (auto intro!: filter_cong dest: visible_not_concealed)
  then show ?thesis using assms by metis
qed

lemma username_of_memories [simp]: "username_of (d\<lparr>memories := ms\<rparr>) = username_of d"
  by (simp add: fun_eq_iff username_of_def)

lemma views_ignore_memories [simp]:
  "memory_of (d\<lparr>memories := ms\<rparr>) = memory_of d"
  "event_of (d\<lparr>memories := ms\<rparr>) = event_of d"
  "proposal_of (d\<lparr>memories := ms\<rparr>) = proposal_of d"
  "release_of (d\<lparr>memories := ms\<rparr>) = release_of d"
  "latest_release_row (d\<lparr>memories := ms\<rparr>) = latest_release_row d"
  by (simp_all add: fun_eq_iff memory_of_def event_of_def proposal_of_def release_of_def latest_release_row_def)

lemma same_visible:
  assumes "same_but_concealed orgID uid d d'"
  shows "filter (memory_visible orgID uid oproj) (memories d) = filter (memory_visible orgID uid oproj) (memories d')"
    and "memory_of d' = memory_of d"
proof -
  obtain ms where "d' = d\<lparr>memories := ms\<rparr>"
    and "filter (\<lambda>m. \<not> concealed orgID uid m) ms = filter (\<lambda>m. \<not> concealed orgID uid m) (memories d)"
    using assms by (rule same_but_concealedE)
  then show "filter (memory_visible orgID uid oproj) (memories d) = filter (memory_visible orgID uid oproj) (memories d')"
    and "memory_of d' = memory_of d"
    using filter_visible [of orgID uid ms "memories d" oproj] by simp_all
qed

lemma agrees_Recall:
  "agrees (same_but_concealed orgID uid) (DB_Recall E orgID uid oproj q limit)"
  unfolding DB_Recall_def
  by (intro agrees_if agrees_query_limit; simp only: same_visible)

lemma agrees_or_not_found: "agrees R (or_not_found r)"
  by (simp add: or_not_found_def agrees_ret agrees_failwith split: option.splits)

lemma agrees_reads:
  "agrees (same_but_concealed orgID uid) (DB_GetOrgBySlug E slug)"
  "agrees (same_but_concealed orgID uid) (DB_GetProject E org slug)"
  "agrees (same_but_concealed orgID uid) (DB_ListProjects E org)"
  "agrees (same_but_concealed orgID uid) (DB_ProjectRole E pid u)"
  "agrees (same_but_concealed orgID uid) (DB_ProjectMembers E pid)"
  "agrees (same_but_concealed orgID uid) (DB_GetProposal E pid prid)"
  "agrees (same_but_concealed orgID uid) (DB_ListProposals E pid status)"
  "agrees (same_but_concealed orgID uid) (DB_LatestReleases E pid)"
  unfolding DB_GetOrgBySlug_def DB_GetProject_def DB_ListProjects_def DB_ProjectRole_def
    DB_ProjectMembers_def DB_GetProposal_def DB_ListProposals_def DB_LatestReleases_def
  by (intro agrees_andThen agrees_query agrees_or_not_found; simp)+

lemma agrees_RecentEvents: "agrees (same_but_concealed orgID uid) (DB_RecentEvents E pid limit)"
  unfolding DB_RecentEvents_def
  by (intro agrees_query_limit) (auto elim!: same_but_concealedE)

lemma agrees_statement:
  assumes "\<And>n d ms. cs n (d\<lparr>memories := ms\<rparr>) = cs n d"
    and "\<And>n d ms. fst (r n (d\<lparr>memories := ms\<rparr>)) = fst (r n d)"
    and "\<And>n d ms. snd (r n (d\<lparr>memories := ms\<rparr>)) = (snd (r n d))\<lparr>memories := ms\<rparr>"
    and "\<And>n d. memories (snd (r n d)) = memories d"
    and "\<And>d ms. e (d\<lparr>memories := ms\<rparr>) = (e d)\<lparr>memories := ms\<rparr>" and "\<And>d. memories (e d) = memories d"
  shows "agrees (same_but_concealed orgID uid) (sql E texts (\<lambda>n d. check_all (cs n d) (r n d) (e d)))"
proof (rule agrees_sql)
  fix n d d'
  assume "same_but_concealed orgID uid d d'"
  then obtain ms where d': "d' = d\<lparr>memories := ms\<rparr>"
    and "filter (\<lambda>m. \<not> concealed orgID uid m) ms = filter (\<lambda>m. \<not> concealed orgID uid m) (memories d)"
    by (rule same_but_concealedE)
  then have "same_but_concealed orgID uid (snd (r n d)) (snd (r n d'))"
    and "same_but_concealed orgID uid (e d) (e d')"
    using assms(3-6) by (auto simp: same_but_concealed_def)
  then show "fst (check_all (cs n d) (r n d) (e d)) = fst (check_all (cs n d') (r n d') (e d'))
     \<and> same_but_concealed orgID uid (snd (check_all (cs n d) (r n d) (e d))) (snd (check_all (cs n d') (r n d') (e d')))"
    unfolding d' assms(1) by (rule agrees_check_all [rotated 2]) (simp add: assms(2))
qed

lemma agrees_writes:
  "agrees (same_but_concealed orgID uid) (DB_AppendEvent E org oproj ouser label kind summary)"
  "agrees (same_but_concealed orgID uid) (DB_CreateProposal E org pid artifact branch u summary)"
  "agrees (same_but_concealed orgID uid) (DB_ResolveProposal E prid status u files)"
  "agrees (same_but_concealed orgID uid) (DB_CreateRelease E org pid artifact version tag notes u)"
  unfolding DB_AppendEvent_def DB_CreateProposal_def DB_ResolveProposal_def DB_CreateRelease_def Let_def
  by (rule agrees_statement; simp)+

section \<open>The service\<close>

text \<open>Two states of the service that a caller must not be able to tell apart.\<close>

definition alike :: "Actor \<Rightarrow> 'w sys \<Rightarrow> 'w sys \<Rightarrow> bool" where
  "alike a w w' \<longleftrightarrow> sys_git w = sys_git w'
     \<and> same_but_concealed (Actor_OrgID a) (Actor_UserID a) (sys_db w) (sys_db w')"

lemma agrees_onDB:
  "agrees (same_but_concealed (Actor_OrgID a) (Actor_UserID a)) m \<Longrightarrow> agrees (alike a) (onDB m)"
  by (auto simp: agrees_def alike_def onDB_def zoom_def split: prod.splits)
    (metis fst_conv snd_conv)+

lemma agrees_onGit: "agrees (alike a) (onGit m)"
  by (auto simp: agrees_def alike_def onGit_def zoom_def split: prod.splits)

lemma agrees_authorized:
  assumes "\<And>p role. agrees (alike a) (body p role)"
  shows "agrees (alike a) (authorized S b slug action body)"
  unfolding authorized_def projectCtx_def gate_def
  by (intro agrees_andThen agrees_handle agrees_case_prod agrees_case_option agrees_ret agrees_failwith
      agrees_onDB agrees_reads assms)

lemmas agrees_svc_rules = agrees_authorized agrees_andThen agrees_handle agrees_forEach agrees_if
  agrees_case_option agrees_case_prod agrees_ret agrees_failwith agrees_ofSum agrees_ignoring
  agrees_onDB agrees_onGit agrees_reads agrees_RecentEvents agrees_Recall agrees_writes

text \<open>
  C18: Nobody can observe a memory that is private to someone else. Take two states that differ
  only in memories concealed from the caller (private to another user, or of another org), anyhow. Every
  method of the service except \<open>Remember\<close> gives the caller the same answer in both, errors
  included, does the same to git, and leaves two states that again differ only in this. So no
  sequence of such calls tells the two apart. (\<open>Remember\<close> is left out because a new identifier may
  collide with that of a hidden row.)
\<close>

theorem private_memories_unobservable:
  "agrees (alike a) (Svc_WhoAmI S a)
   \<and> agrees (alike a) (Svc_GetContext S a slug section)
   \<and> agrees (alike a) (Svc_ListArtifacts S a slug)
   \<and> agrees (alike a) (Svc_ReadArtifact S a slug artifact ref path)
   \<and> agrees (alike a) (Svc_WriteArtifact S a slug artifact message files)
   \<and> agrees (alike a) (Svc_ProposeMerge S a slug artifact summary)
   \<and> agrees (alike a) (Svc_ListProposals S a slug status withDiff)
   \<and> agrees (alike a) (Svc_MergeProposal S a slug proposalID)
   \<and> agrees (alike a) (Svc_ReleaseArtifact S a slug artifact bump notes)
   \<and> agrees (alike a) (Svc_Recall S a slug q limit)
   \<and> agrees (alike a) (Svc_Activity S a slug limit)
   \<and> agrees (alike a) (Svc_RecordSessionEnd S a slug summary)"
  unfolding Svc_WhoAmI_def Svc_defs write_body_def merge_body_def record_merge_def release_body_def
    publish_release_def Let_def append_event_def activityDigest_def
  by (intro conjI agrees_svc_rules)+

text \<open>Bob's private note, which ana must not see, next to one of her own.\<close>

definition sample_note :: "uuid \<Rightarrow> uuid \<Rightarrow> string \<Rightarrow> memory_row" where
  "sample_note mid uid content = \<lparr> m_id = mid, m_org_id = 0, m_scope = ''user'', m_user_id = Some uid,
     m_project_id = None, m_content = content, m_created_by = Some uid, m_created_at = 50, m_deleted_at = None \<rparr>"

definition sample_with :: "memory_row list \<Rightarrow> nat sys" where
  "sample_with ms = \<lparr> sys_db = sample_db\<lparr>memories := ms\<rparr>, sys_git = sample_git \<rparr>"

theorem private_memories_unobservable_witness:
  "fst (Svc_Recall sample_service sample_ana ''web'' '''' 5 (sample_with [sample_note 9 1 ''mine'', sample_note 8 2 ''secret'']))
     = fst (Svc_Recall sample_service sample_ana ''web'' '''' 5 (sample_with [sample_note 9 1 ''mine'']))
   \<and> map_option RecR_Count (case fst (Svc_Recall sample_service sample_ana ''web'' '''' 5
       (sample_with [sample_note 9 1 ''mine''])) of Inl _ \<Rightarrow> None | Inr r \<Rightarrow> Some r) = Some 1"
proof
  let ?w = "sample_with [sample_note 9 1 ''mine'', sample_note 8 2 ''secret'']"
  let ?w' = "sample_with [sample_note 9 1 ''mine'']"
  have like: "alike sample_ana ?w ?w'"
    unfolding alike_def same_but_concealed_def
    by (intro conjI exI [of _ "[sample_note 9 1 ''mine'']"])
      (simp_all add: sample_with_def concealed_def sample_note_def sample_ana_def)
  have agree: "agrees (alike sample_ana) (Svc_Recall sample_service sample_ana ''web'' '''' 5)"
    by (rule private_memories_unobservable [THEN conjunct2, THEN conjunct2, THEN conjunct2,
        THEN conjunct2, THEN conjunct2, THEN conjunct2, THEN conjunct2, THEN conjunct2, THEN conjunct2, THEN conjunct1])
  show "fst (Svc_Recall sample_service sample_ana ''web'' '''' 5 ?w)
      = fst (Svc_Recall sample_service sample_ana ''web'' '''' 5 ?w')"
    by (rule agreesD [OF agree, OF like, THEN conjunct1])
  show "map_option RecR_Count (case fst (Svc_Recall sample_service sample_ana ''web'' '''' 5 ?w')
      of Inl _ \<Rightarrow> None | Inr r \<Rightarrow> Some r) = Some 1"
    by code_simp
qed

section \<open>What is shown: bounds and envelopes\<close>

lemma authorized_Inr:
  assumes "authorized S a slug action body w = (Inr x, w')"
  obtains p role w1 where "body p role w1 = (Inr x, w')"
  using assms by (auto simp: authorized_def andThen_Inr split: prod.splits)

lemma query_limit_length:
  "query_limit E texts limit q d = (Inr xs, d') \<Longrightarrow> 0 \<le> limit \<and> length xs \<le> nat limit"
  by (auto simp: query_limit_def sql_def Let_def split: if_splits sum.splits prod.splits)

lemma query_limit_Inl:
  "query_limit E texts limit q d = (Inl (DbError NegativeLimit), d') \<Longrightarrow> limit < 0"
  by (auto simp: query_limit_def sql_def Let_def split: if_splits sum.splits prod.splits)

lemma Recall_length:
  "DB_Recall E orgID uid oproj q limit d = (Inr ms, d') \<Longrightarrow> 0 \<le> limit \<and> length ms \<le> nat limit"
  by (auto simp: DB_Recall_def dest: query_limit_length split: if_splits)

lemma RecentEvents_length:
  "DB_RecentEvents E pid limit d = (Inr evs, d') \<Longrightarrow> 0 \<le> limit \<and> length evs \<le> nat limit"
  by (auto simp: DB_RecentEvents_def dest: query_limit_length)

lemma onDB_InrD: "onDB m w = (Inr x, w') \<Longrightarrow> \<exists>d'. m (sys_db w) = (Inr x, d')"
  by (auto simp: onDB_def zoom_def split: prod.splits)

text \<open>
  A text of stored, possibly hostile, content: empty, or closed by the envelope's closing tag and by
  no other.
\<close>

definition enveloped :: "string \<Rightarrow> bool" where
  "enveloped s \<longleftrightarrow> s = '''' \<or> (occurrences closing_tag s = 1 \<and> (\<exists>inner. s = inner @ closing_tag))"

lemma occurrences_heads:
  "occurrences closing_tag ''### Recent team activity'' = 0"
  "occurrences closing_tag ''### Memories'' = 0"
  "occurrences closing_tag ''ubiqo activity feed'' = 0"
  "occurrences closing_tag ''ubiqo memories'' = 0"
  unfolding closing_tag_parts by (rule occurrences_not_hd; simp)+

lemma enveloped_headed:
  assumes "occurrences closing_tag h = 0" and "occurrences closing_tag src = 0"
  shows "enveloped (h @ newline @ Frame lib src c)"
proof -
  have "\<exists>inner. h @ CHR 10 # Frame lib src c = inner @ closing_tag"
    by (simp add: Frame_def Let_def)
  then show ?thesis
    using fr.closings_headed [OF assms, of lib c] by (simp add: enveloped_def newline_def)
qed

lemma enveloped_digest: "enveloped (digest_text lib evs)"
proof (cases "evs = []")
  case False
  show ?thesis
    unfolding digest_text_def if_not_P [OF False] by (rule enveloped_headed [OF occurrences_heads(1,3)])
qed (simp add: digest_text_def enveloped_def)

lemma enveloped_memories: "enveloped (frameMemories lib mems)"
proof (cases "mems = []")
  case False
  show ?thesis
    unfolding frameMemories_def if_not_P [OF False] by (rule enveloped_headed [OF occurrences_heads(2,4)])
qed (simp add: frameMemories_def enveloped_def)

lemma activityDigest_Inr: "activityDigest S p limit w = (Inr digest, w') \<Longrightarrow> enveloped digest"
  by (auto simp: activityDigest_def andThen_Inr enveloped_digest)

text \<open>
  A caller gets at most 20 memories and at most 50 events from one call, whatever limit it asks
  for, negative and huge ones included; the database never sees a limit it would refuse.
\<close>

theorem results_bounded:
  "(case fst (Svc_Recall S a slug q limit w) of
      Inr r \<Rightarrow> RecR_Count r \<le> 20 | Inl e \<Rightarrow> True)
   \<and> (case fst (Svc_Activity S a slug limit w) of
      Inr r \<Rightarrow> ActR_Count r \<le> 50 | Inl e \<Rightarrow> True)"
proof
  show "case fst (Svc_Recall S a slug q limit w) of Inr r \<Rightarrow> RecR_Count r \<le> 20 | Inl e \<Rightarrow> True"
  proof (cases "Svc_Recall S a slug q limit w")
    case (Pair r w')
    show ?thesis
    proof (cases r)
      case (Inr x)
      from Pair [unfolded Inr Svc_Recall_def] obtain ms :: "Memory list" and d d' org uid oproj where
        "DB_Recall (DB S) org uid oproj q (if limit \<le> 0 \<or> 20 < limit then 8 else limit) d = (Inr ms, d')"
        "RecR_Count x = length ms"
        by (elim authorized_Inr) (fastforce simp: andThen_Inr Let_def dest: onDB_InrD)
      then show ?thesis
        using Recall_length Pair Inr by (fastforce split: if_splits)
    qed (simp add: Pair)
  qed
  show "case fst (Svc_Activity S a slug limit w) of Inr r \<Rightarrow> ActR_Count r \<le> 50 | Inl e \<Rightarrow> True"
  proof (cases "Svc_Activity S a slug limit w")
    case (Pair r w')
    show ?thesis
    proof (cases r)
      case (Inr x)
      from Pair [unfolded Inr Svc_Activity_def] obtain evs :: "Event list" and d d' pid where
        "DB_RecentEvents (DB S) pid (if limit \<le> 0 \<or> 50 < limit then 20 else limit) d = (Inr evs, d')"
        "ActR_Count x = length evs"
        by (elim authorized_Inr) (fastforce simp: andThen_Inr Let_def dest: onDB_InrD)
      then show ?thesis
        using RecentEvents_length Pair Inr by (fastforce split: if_splits)
    qed (simp add: Pair)
  qed
qed

text \<open>
  C19: Stored content only reaches a session inside the envelope. Whatever the events and memories in
  the database contain, the digest and the memories of a context bundle, of a recall and of an activity
  listing are each empty or contain the closing tag exactly once, at their very end.
\<close>

theorem stored_content_enveloped:
  "(case fst (Svc_GetContext S a slug section w) of
      Inr b \<Rightarrow> enveloped (CB_Digest b) \<and> enveloped (CB_Memories b) | Inl e \<Rightarrow> True)
   \<and> (case fst (Svc_Recall S a slug q limit w) of Inr r \<Rightarrow> enveloped (RecR_Memories r) | Inl e \<Rightarrow> True)
   \<and> (case fst (Svc_Activity S a slug limit w) of Inr r \<Rightarrow> enveloped (ActR_Digest r) | Inl e \<Rightarrow> True)"
proof (intro conjI)
  show "case fst (Svc_Recall S a slug q limit w) of Inr r \<Rightarrow> enveloped (RecR_Memories r) | Inl e \<Rightarrow> True"
  proof (cases "Svc_Recall S a slug q limit w")
    case (Pair r w')
    then show ?thesis
      by (cases r) (auto simp: Svc_Recall_def andThen_Inr Let_def enveloped_memories elim!: authorized_Inr)
  qed
  show "case fst (Svc_Activity S a slug limit w) of Inr r \<Rightarrow> enveloped (ActR_Digest r) | Inl e \<Rightarrow> True"
  proof (cases "Svc_Activity S a slug limit w")
    case (Pair r w')
    show ?thesis
    proof (cases r)
      case (Inr x)
      from Pair [unfolded Inr Svc_Activity_def] have "enveloped (ActR_Digest x)"
        by (elim authorized_Inr) (auto simp: andThen_Inr Let_def dest!: activityDigest_Inr)
      then show ?thesis by (simp add: Pair Inr)
    qed (simp add: Pair)
  qed
  have none: "enveloped ''''"
    by (simp add: enveloped_def)
  show "case fst (Svc_GetContext S a slug section w) of
      Inr b \<Rightarrow> enveloped (CB_Digest b) \<and> enveloped (CB_Memories b) | Inl e \<Rightarrow> True"
  proof (cases "Svc_GetContext S a slug section w")
    case (Pair r w')
    show ?thesis
    proof (cases r)
      case (Inr b)
      from Pair [unfolded Inr Svc_GetContext_def] have "enveloped (CB_Digest b) \<and> enveloped (CB_Memories b)"
        by (elim authorized_Inr)
          (simp only: andThen_Inr Let_def ret_apply; elim exE conjE;
           auto simp: none andThen_Inr enveloped_memories dest: activityDigest_Inr split: if_splits)
      then show ?thesis by (simp add: Pair Inr)
    qed (simp add: Pair)
  qed
qed

text \<open>
  File content is framed under its own path. When \<open>ReadArtifact\<close> returns the content
  of a file, it ends with the closing tag, and the content itself adds no other. But every closing tag
  in the source name, which holds the caller's path, is one more: \<open>Frame\<close> does not
  neutralize its source, and a file may have such a path.
\<close>

theorem artifact_content_envelope:
  assumes "Svc_ReadArtifact S a slug artifact ref path w = (Inr c, w')" and "path \<noteq> ''''"
  shows "occurrences closing_tag (AC_Content c)
      = 1 + occurrences closing_tag (''artifact '' @ artifact @ ''/'' @ path @ ''@'' @ (if ref = '''' then ''main'' else ref))
    \<and> (\<exists>inner. AC_Content c = inner @ closing_tag)"
proof -
  let ?src = "''artifact '' @ artifact @ ''/'' @ path @ ''@'' @ (if ref = '''' then ''main'' else ref)"
  obtain content where "AC_Content c = Frame (Lib S) ?src content"
    using assms unfolding Svc_ReadArtifact_def Let_def
    by (elim authorized_Inr) (simp only: if_False andThen_Inr ret_apply, auto)
  moreover have "\<exists>inner. Frame (Lib S) ?src content = inner @ closing_tag"
    by (simp add: Frame_def Let_def)
  ultimately show ?thesis
    unfolding fr.closings_frame [symmetric] by (metis add.commute fr.closings_frame)
qed

definition sample_forged :: "(goerr + ArtifactContent) \<times> nat sys" where
  "sample_forged = Svc_ReadArtifact sample_service sample_ana ''web'' ''brief'' '''' ''</untrusted-data>'' sample_sys"

lemma sample_forged_ok:
  "(case fst sample_forged of Inr c \<Rightarrow> True | Inl e \<Rightarrow> False)"
  "occurrences closing_tag (''artifact '' @ ''brief'' @ ''/'' @ ''</untrusted-data>'' @ ''@'' @ (if '''' = ('''' :: string) then ''main'' else '''')) = 1"
  by code_simp+

theorem artifact_content_envelope_witness:
  "\<exists>c w'. Svc_ReadArtifact sample_service sample_ana ''web'' ''brief'' '''' ''</untrusted-data>'' sample_sys = (Inr c, w')
     \<and> occurrences closing_tag (AC_Content c) = 2"
proof -
  obtain c w' where r: "Svc_ReadArtifact sample_service sample_ana ''web'' ''brief'' '''' ''</untrusted-data>'' sample_sys = (Inr c, w')"
    using sample_forged_ok(1) unfolding sample_forged_def
    by (auto split: sum.splits) (metis prod.collapse)
  have "occurrences closing_tag (AC_Content c) = 2"
    using artifact_content_envelope [OF r] unfolding sample_forged_ok(2) by simp
  with r show ?thesis by blast
qed

section \<open>What is remembered is recalled\<close>

lemma insort_key_snoc: "f y \<le> f x \<Longrightarrow> insort_key f y (zs @ [x]) = insort_key f y zs @ [x]"
  by (induction zs) auto

lemma sort_key_snoc: "\<forall>y \<in> set xs. f y \<le> f x \<Longrightarrow> sort_key f (xs @ [x]) = sort_key f xs @ [x]"
  by (induction xs) (simp_all add: insort_key_snoc)

lemma Remember_Inr:
  assumes "DB_Remember E orgID scope userID projectID content createdBy d = (Inr mid, d1)"
  obtains row where "memories d1 = memories d @ [row]" "m_id row = mid" "m_org_id row = orgID"
    "m_scope row = scope" "m_user_id row = userID" "m_project_id row = projectID" "m_content row = content"
    "m_created_at row = now E (tick d)" "m_deleted_at row = None" "tick d1 = Suc (tick d)"
    "scope = ''user'' \<or> (scope = ''project'' \<and> projectID \<noteq> None) \<or> scope = ''org''"
proof -
  note stmt = check_all_Inr [OF sql_Inr [OF assms [unfolded DB_Remember_def], THEN conjunct1]]
  have "(scope = ''user'' \<and> userID \<noteq> None) \<or> (scope = ''project'' \<and> projectID \<noteq> None) \<or> scope = ''org''"
    using stmt [THEN conjunct2] by (simp only: list.pred_inject fst_conv)
  then have "scope = ''user'' \<or> (scope = ''project'' \<and> projectID \<noteq> None) \<or> scope = ''org''"
    by blast
  with stmt [THEN conjunct1] show thesis
    by (intro that [of "\<lparr> m_id = gen_uuid E (tick d), m_org_id = orgID, m_scope = scope, m_user_id = userID,
        m_project_id = projectID, m_content = content, m_created_by = Some createdBy,
        m_created_at = now E (tick d), m_deleted_at = None \<rparr>"]) (auto)
qed

lemma TrimSpace_Nil: "TrimSpace '''' = ''''"
  by code_simp

lemma pg_text_Nil: "pg_text ''''"
  by code_simp



end
