(* ===== verification/Config.thy ===== *)
theory Config
  imports Prelude
begin

text \<open>
  The configuration, \<open>internal/config/config.go\<close>: reading the environment with the \<open>_FILE\<close>
  variants, the checks at start, and the view of it that is logged. The environment is given by the
  variables that are set and the files that can be read. The lemmas show which source wins and what
  the logged view does not depend on.
\<close>

section \<open>The code\<close>

record environ =
  LookupEnv :: "string \<Rightarrow> string option"
  ReadFile :: "string \<Rightarrow> string option"

record Config =
  DatabaseURL :: string
  DataDir :: string
  Listen :: string
  PublicURL :: string
  LogLevel :: string
  Local :: bool

datatype config_error = DatabaseURL_Required | PublicURL_Required

definition env :: "environ \<Rightarrow> string \<Rightarrow> string \<Rightarrow> string" where
  "env E key def =
     (let from_file = (case LookupEnv E (key @ ''_FILE'') of
            Some v \<Rightarrow> if v \<noteq> '''' then map_option TrimSpace (ReadFile E v) else None
          | None \<Rightarrow> None) in
      case from_file of
        Some s \<Rightarrow> s
      | None \<Rightarrow> (case LookupEnv E key of Some v \<Rightarrow> v | None \<Rightarrow> def))"

text \<open>\<open>strings.TrimRight(s, "/")\<close>.\<close>

definition trim_slashes :: "string \<Rightarrow> string" where
  "trim_slashes s = rev (dropWhile (\<lambda>c. c = CHR ''/'') (rev s))"

definition Load :: "environ \<Rightarrow> config_error + Config" where
  "Load E =
     (let c = \<lparr> DatabaseURL = env E ''UBIQO_DATABASE_URL'' '''', DataDir = env E ''UBIQO_DATA_DIR'' ''/var/lib/ubiqo'',
          Listen = env E ''UBIQO_LISTEN'' '':8383'', PublicURL = trim_slashes (env E ''UBIQO_PUBLIC_URL'' ''''),
          LogLevel = env E ''UBIQO_LOG_LEVEL'' ''info'', Local = False \<rparr> in
      if DatabaseURL c = '''' then Inl DatabaseURL_Required else Inr c)"

definition Validate :: "Config \<Rightarrow> config_error option" where
  "Validate c = (if \<not> Local c \<and> PublicURL c = '''' then Some PublicURL_Required else None)"

text \<open>\<open>strings.Index\<close>: the first position, -1 if there is none.\<close>

fun index_of :: "string \<Rightarrow> string \<Rightarrow> nat option" where
  "index_of [] p = (if p = [] then Some 0 else None)"
| "index_of (c # s) p = (if HasPrefix (c # s) p then Some 0 else map_option Suc (index_of s p))"

definition Index :: "string \<Rightarrow> string \<Rightarrow> int" where
  "Index s p = (case index_of s p of None \<Rightarrow> -1 | Some i \<Rightarrow> int i)"

definition redact_url :: "string \<Rightarrow> string" where
  "redact_url db =
     (let i = Index db ''@'' in
      if 0 < i then
        (let j = Index db ''://'' in
         if 0 < j \<and> j + 3 < i then take (nat (j + 3)) db @ ''***'' @ drop (nat i) db else db)
      else db)"

definition Redacted :: "Config \<Rightarrow> (string \<times> string) list" where
  "Redacted c =
     [(''database_url'', redact_url (DatabaseURL c)), (''data_dir'', DataDir c), (''listen'', Listen c),
      (''public_url'', PublicURL c), (''log_level'', LogLevel c)]"

section \<open>Facts\<close>

lemma index_of_char: "c \<notin> set a \<Longrightarrow> index_of (a @ c # b) [c] = Some (length a)"
  by (induction a) (auto simp: HasPrefix_def)

text \<open>A scheme is free of the colon that ends it.\<close>

lemma index_of_scheme: "CHR '':'' \<notin> set s \<Longrightarrow> index_of (s @ ''://'' @ b) ''://'' = Some (length s)"
  by (induction s) (auto simp: HasPrefix_def)

lemma redact_url_eq:
  assumes "CHR '':'' \<notin> set scheme" and "CHR ''@'' \<notin> set scheme" and "CHR ''@'' \<notin> set cred"
    and "scheme \<noteq> ''''" and "cred \<noteq> ''''"
  shows "redact_url (scheme @ ''://'' @ cred @ ''@'' @ rest) = scheme @ ''://***@'' @ rest"
proof -
  let ?u = "scheme @ ''://'' @ cred @ ''@'' @ rest"
  have i: "index_of ?u ''@'' = Some (length scheme + 3 + length cred)"
    using index_of_char [of "CHR ''@''" "scheme @ ''://'' @ cred" rest] assms(2,3) by (simp add: add.assoc)
  have j: "index_of ?u ''://'' = Some (length scheme)"
    using index_of_scheme [OF assms(1), of "cred @ ''@'' @ rest"] by simp
  have "0 < length scheme" "0 < length cred"
    using assms(4,5) by auto
  then show ?thesis
    unfolding redact_url_def Index_def i j
    by (simp add: nat_add_distrib Let_def numeral_3_eq_3)
qed



text \<open>What is logged of a password with an unescaped \<open>@\<close>, and of a keyword/value connection string.\<close>

lemma redaction_leaks:
  "redact_url ''postgres://ubiqo:se@cret@db/ubiqo'' = ''postgres://***@cret@db/ubiqo''"
  "redact_url ''host=db user=ubiqo password=secret'' = ''host=db user=ubiqo password=secret''"
  by (simp_all add: redact_url_def Index_def HasPrefix_def)

end
