(* ===== verification/Flags.thy ===== *)
theory Flags
  imports Prelude
begin

text \<open>
  The flags of the command line, as Go's package \<open>flag\<close> parses them with \<open>ExitOnError\<close>: the
  commands of \<open>cmd/ubiqo\<close> declare text flags and boolean ones and read their values. A declared
  flag is its name and whether it is boolean; the defaults are given where the value is read.
\<close>

section \<open>Parsing\<close>

datatype flag_result = Parsed "string \<Rightarrow> string option" | Exits nat

definition ParseBool :: "string \<Rightarrow> bool option" where
  "ParseBool s =
     (if s \<in> {''1'', ''t'', ''T'', ''TRUE'', ''true'', ''True''} then Some True
      else if s \<in> {''0'', ''f'', ''F'', ''FALSE'', ''false'', ''False''} then Some False
      else None)"

text \<open>The name and the value of \<open>name=value\<close>, cut at the first sign.\<close>

definition flag_cut :: "string \<Rightarrow> string \<times> string option" where
  "flag_cut s =
     (let name = takeWhile (\<lambda>c. c \<noteq> CHR ''='') s in
      (name, if length name < length s then Some (drop (Suc (length name)) s) else None))"

text \<open>Parsing ends at the first argument that is not a flag, or after \<open>--\<close>.\<close>

fun parse_flags ::
  "(string \<times> bool) list \<Rightarrow> (string \<Rightarrow> string option) \<Rightarrow> string list \<Rightarrow> flag_result" where
  "parse_flags fs vals [] = Parsed vals"
| "parse_flags fs vals (s # rest) =
     (if length s < 2 \<or> hd s \<noteq> CHR ''-'' \<or> s = ''--'' then Parsed vals
      else
        let body = TrimPrefix (tl s) ''-'' in
        if body = '''' \<or> hd body = CHR ''-'' \<or> hd body = CHR ''='' then Exits 2
        else (case flag_cut body of (name, given) \<Rightarrow>
          (case map_of fs name of
             None \<Rightarrow> if name = ''help'' \<or> name = ''h'' then Exits 0 else Exits 2
           | Some True \<Rightarrow>
               (case given of
                  None \<Rightarrow> parse_flags fs (vals(name \<mapsto> ''true'')) rest
                | Some v \<Rightarrow> (case ParseBool v of
                    None \<Rightarrow> Exits 2
                  | Some b \<Rightarrow> parse_flags fs (vals(name \<mapsto> if b then ''true'' else ''false'')) rest))
           | Some False \<Rightarrow>
               (case given of
                  Some v \<Rightarrow> parse_flags fs (vals(name \<mapsto> v)) rest
                | None \<Rightarrow> (case rest of
                    [] \<Rightarrow> Exits 2
                  | v # rest' \<Rightarrow> parse_flags fs (vals(name \<mapsto> v)) rest')))))"

definition flag_value :: "(string \<Rightarrow> string option) \<Rightarrow> string \<Rightarrow> string \<Rightarrow> string" where
  "flag_value vals name def = (case vals name of None \<Rightarrow> def | Some v \<Rightarrow> v)"

definition flag_set :: "(string \<Rightarrow> string option) \<Rightarrow> string \<Rightarrow> bool" where
  "flag_set vals name \<longleftrightarrow> vals name = Some ''true''"

section \<open>Facts\<close>

text \<open>
  Written as \<open>--name value\<close>, the values of text flags are read back whatever they hold; the last one
  of a name counts.
\<close>

definition flag_name :: "string \<Rightarrow> bool" where
  "flag_name n \<longleftrightarrow> n \<noteq> '''' \<and> hd n \<noteq> CHR ''-'' \<and> CHR ''='' \<notin> set n"

lemma flag_cut_name:
  assumes "flag_name n"
  shows "flag_cut n = (n, None)"
proof -
  have tw: "takeWhile (\<lambda>c. c \<noteq> CHR ''='') n = n"
    using assms by (auto simp: takeWhile_eq_all_conv flag_name_def)
  show ?thesis
    unfolding flag_cut_def tw Let_def by simp
qed

lemma parse_flags_pairs:
  assumes "\<forall>(n, v) \<in> set ps. flag_name n \<and> map_of fs n = Some False"
  shows "parse_flags fs vals (concat (map (\<lambda>(n, v). [''--'' @ n, v]) ps)) = Parsed (vals ++ map_of (rev ps))"
  using assms
proof (induction ps arbitrary: vals)
  case (Cons p ps)
  obtain n v where p: "p = (n, v)" by (cases p)
  have n: "flag_name n" "map_of fs n = Some False"
    using Cons.prems by (auto simp: p)
  then obtain c m where c: "n = c # m" "c \<noteq> CHR ''-''" "c \<noteq> CHR ''=''"
    by (cases n) (auto simp: flag_name_def)
  have t: "TrimPrefix (CHR ''-'' # n) ''-'' = n"
    by (simp add: TrimPrefix_def)
  have "parse_flags fs vals (concat (map (\<lambda>(n, v). [''--'' @ n, v]) (p # ps)))
      = parse_flags fs (vals(n \<mapsto> v)) (concat (map (\<lambda>(n, v). [''--'' @ n, v]) ps))"
    using t n flag_cut_name [OF n(1)] c by (simp add: p)
  then show ?case
    using Cons by (simp add: p)
qed simp

end
