(* ===== verification/Json.thy ===== *)
theory Json
  imports GoText
begin

text \<open>
  What the program uses of Go's \<open>encoding/json\<close>: \<open>Marshal\<close>, \<open>MarshalIndent\<close> and \<open>Encode\<close> of
  structs and maps of strings (and one list of them), and \<open>Unmarshal\<close> and \<open>Decode\<close> into structs and
  maps of strings. Texts are bytes: the encoder writes \<open>\ufffd\<close> for a byte that is not UTF-8, the decoder
  replaces one by that rune. The parser takes fuel, twice the length of the text, and gives up beyond
  10000 open arrays and objects as the library does. The lemmas show that what was written is read
  back, and that the fuel is enough.
\<close>

section \<open>Values\<close>

text \<open>A number is kept as it is written: the program reads none.\<close>

datatype json =
    JNull
  | JBool bool
  | JNumber string
  | JString string
  | JArray "json list"
  | JObject "(string \<times> json) list"

section \<open>Writing\<close>

text \<open>One rune, the one at the front of \<open>s\<close>; \<open><\<close>, \<open>>\<close> and \<open>&\<close> are escaped for HTML.\<close>

definition json_rune :: "string \<Rightarrow> string" where
  "json_rune s =
     (let b = byte (s ! 0); r = rune_value s in
      if b < 128 then
        (if b = 34 \<or> b = 92 then [CHR 92, s ! 0]
         else if b = 8 then [CHR 92, CHR ''b'']
         else if b = 12 then [CHR 92, CHR ''f'']
         else if b = 10 then [CHR 92, CHR ''n'']
         else if b = 13 then [CHR 92, CHR ''r'']
         else if b = 9 then [CHR 92, CHR ''t'']
         else if b < 32 \<or> b = 60 \<or> b = 62 \<or> b = 38 then [CHR 92, CHR ''u''] @ hex_fixed 4 b
         else [s ! 0])
      else if rune_size s = 0 then [CHR 92, CHR ''u''] @ ''fffd''
      else if r = 8232 \<or> r = 8233 then [CHR 92, CHR ''u''] @ hex_fixed 4 r
      else take (rune_size s) s)"

function json_body :: "string \<Rightarrow> string" where
  "json_body s = (if s = [] then [] else json_rune s @ json_body (drop (max 1 (rune_size s)) s))"
  by pat_completeness auto
termination
  by (relation "measure length") auto

declare json_body.simps [simp del]

definition json_string :: "string \<Rightarrow> string" where
  "json_string s = [CHR 34] @ json_body s @ [CHR 34]"

text \<open>\<open>Marshal\<close>: no spaces.\<close>

fun separated :: "string \<Rightarrow> string list \<Rightarrow> string" where
  "separated sep [] = []"
| "separated sep [x] = x"
| "separated sep (x # xs) = x @ sep @ separated sep xs"

fun json_text :: "json \<Rightarrow> string" where
  "json_text JNull = ''null''"
| "json_text (JBool b) = (if b then ''true'' else ''false'')"
| "json_text (JNumber n) = n"
| "json_text (JString s) = json_string s"
| "json_text (JArray vs) = ''['' @ separated '','' (map json_text vs) @ '']''"
| "json_text (JObject ms) =
     ''{'' @ separated '','' (map (\<lambda>(k, v). json_string k @ '':'' @ json_text v) ms) @ ''}''"

text \<open>\<open>MarshalIndent\<close> with an empty prefix and two spaces, at a depth; empty ones stay on a line.\<close>

definition json_line :: "nat \<Rightarrow> string" where
  "json_line d = CHR 10 # replicate (2 * d) (CHR '' '')"

fun json_indented :: "nat \<Rightarrow> json \<Rightarrow> string" where
  "json_indented d (JArray vs) =
     (if vs = [] then ''[]''
      else ''['' @ json_line (Suc d) @ separated ('','' @ json_line (Suc d)) (map (json_indented (Suc d)) vs)
        @ json_line d @ '']'')"
| "json_indented d (JObject ms) =
     (if ms = [] then ''{}''
      else ''{'' @ json_line (Suc d)
        @ separated ('','' @ json_line (Suc d))
            (map (\<lambda>(k, v). json_string k @ '': '' @ json_indented (Suc d) v) ms)
        @ json_line d @ ''}'')"
| "json_indented d v = json_text v"

text \<open>An object of strings: a struct, or a map with its keys in order.\<close>

definition object_of :: "(string \<times> string) list \<Rightarrow> json" where
  "object_of kvs = JObject (map (\<lambda>(k, s). (k, JString s)) kvs)"

section \<open>Reading strings\<close>

definition is_hex :: "char \<Rightarrow> bool" where
  "is_hex c \<longleftrightarrow> byte c \<in> {48..57} \<or> byte c \<in> {97..102} \<or> byte c \<in> {65..70}"

definition hex_value :: "char \<Rightarrow> nat" where
  "hex_value c = (if byte c < 65 then byte c - 48 else if byte c < 97 then byte c - 55 else byte c - 87)"

text \<open>The scanner: what is between the quotes, checked, and the text after them.\<close>

fun scan_string :: "string \<Rightarrow> (string \<times> string) option" where
  "scan_string [] = None"
| "scan_string (c # s) =
     (if c = CHR 34 then Some ([], s)
      else if c = CHR 92 then
        (case s of [] \<Rightarrow> None
         | e # t \<Rightarrow>
             if e \<in> set ''bfnrt/'' \<or> e = CHR 92 \<or> e = CHR 34
                \<or> (e = CHR ''u'' \<and> 4 \<le> length t \<and> list_all is_hex (take 4 t))
             then map_option (\<lambda>(r, rest). (c # e # r, rest)) (scan_string t)
             else None)
      else if byte c < 32 then None
      else map_option (\<lambda>(r, rest). (c # r, rest)) (scan_string s))"

text \<open>\<open>getu4\<close>: the value of an escape at the front.\<close>

definition getu4 :: "string \<Rightarrow> nat option" where
  "getu4 s =
     (if 6 \<le> length s \<and> s ! 0 = CHR 92 \<and> s ! 1 = CHR ''u'' \<and> list_all is_hex (take 4 (drop 2 s))
      then Some (foldl (\<lambda>n c. 16 * n + hex_value c) 0 (take 4 (drop 2 s)))
      else None)"

definition surrogate :: "nat \<Rightarrow> bool" where
  "surrogate r \<longleftrightarrow> 55296 \<le> r \<and> r < 57344"

text \<open>\<open>utf8.EncodeRune\<close>.\<close>

definition encode_rune :: "nat \<Rightarrow> string" where
  "encode_rune r =
     (let r = (if surrogate r \<or> 1114111 < r then 65533 else r) in
      if r < 128 then [char_of r]
      else if r < 2048 then [char_of (192 + r div 64), char_of (128 + r mod 64)]
      else if r < 65536 then
        [char_of (224 + r div 4096), char_of (128 + r div 64 mod 64), char_of (128 + r mod 64)]
      else [char_of (240 + r div 262144), char_of (128 + r div 4096 mod 64), char_of (128 + r div 64 mod 64),
        char_of (128 + r mod 64)])"

text \<open>The rune of a pair of escapes, if the second completes the first.\<close>

definition surrogate_pair :: "nat \<Rightarrow> nat option \<Rightarrow> nat option" where
  "surrogate_pair r r1 =
     (case r1 of None \<Rightarrow> None
      | Some q \<Rightarrow> if r < 56320 \<and> 56320 \<le> q \<and> q < 57344 then Some (65536 + (r - 55296) * 1024 + (q - 56320)) else None)"

definition unescape :: "char \<Rightarrow> char" where
  "unescape e = (if e = CHR ''b'' then CHR 8 else if e = CHR ''f'' then CHR 12 else if e = CHR ''n'' then CHR 10
     else if e = CHR ''r'' then CHR 13 else if e = CHR ''t'' then CHR 9 else e)"

text \<open>What is read of the front of a scanned string, and how much of it: \<open>unquoteBytes\<close>.\<close>

definition unquote_step :: "string \<Rightarrow> string \<times> nat" where
  "unquote_step s =
     (if s ! 0 = CHR 92 then
        (if 1 < length s \<and> s ! 1 = CHR ''u'' then
           (case getu4 s of None \<Rightarrow> ([], 1)
            | Some r \<Rightarrow>
                if surrogate r then
                  (case surrogate_pair r (getu4 (drop 6 s)) of
                     Some q \<Rightarrow> (encode_rune q, 12)
                   | None \<Rightarrow> (encode_rune 65533, 6))
                else (encode_rune r, 6))
         else (map unescape (take 1 (drop 1 s)), 2))
      else if byte (s ! 0) < 128 then ([s ! 0], 1)
      else if rune_size s = 0 then (encode_rune 65533, 1)
      else (take (rune_size s) s, rune_size s))"

function unquote :: "string \<Rightarrow> string" where
  "unquote s = (if s = [] then [] else fst (unquote_step s) @ unquote (drop (max 1 (snd (unquote_step s))) s))"
  by pat_completeness auto
termination
  by (relation "measure length") auto

declare unquote.simps [simp del]


section \<open>Reading values\<close>

definition json_space :: "char \<Rightarrow> bool" where
  "json_space c \<longleftrightarrow> byte c \<in> {9, 10, 13, 32}"

definition skip_space :: "string \<Rightarrow> string" where
  "skip_space s = dropWhile json_space s"

definition json_digit :: "char \<Rightarrow> bool" where
  "json_digit c \<longleftrightarrow> byte c \<in> {48..57}"

text \<open>At least one digit.\<close>

definition scan_digits :: "string \<Rightarrow> (string \<times> string) option" where
  "scan_digits s = (if takeWhile json_digit s = [] then None else Some (takeWhile json_digit s, dropWhile json_digit s))"

definition scan_int :: "string \<Rightarrow> (string \<times> string) option" where
  "scan_int s = (if HasPrefix s ''0'' then Some (''0'', tl s) else scan_digits s)"

definition scan_fraction :: "string \<Rightarrow> (string \<times> string) option" where
  "scan_fraction s =
     (if HasPrefix s ''.'' then map_option (\<lambda>(d, t). (CHR ''.'' # d, t)) (scan_digits (tl s)) else Some ([], s))"

definition exponent_sign :: "string \<Rightarrow> string" where
  "exponent_sign s = (if HasPrefix s ''+'' \<or> HasPrefix s ''-'' then take 1 s else [])"

definition scan_exponent :: "string \<Rightarrow> (string \<times> string) option" where
  "scan_exponent s =
     (if HasPrefix s ''e'' \<or> HasPrefix s ''E'' then
        map_option (\<lambda>(d, t). (hd s # exponent_sign (tl s) @ d, t))
          (scan_digits (drop (length (exponent_sign (tl s))) (tl s)))
      else Some ([], s))"

definition scan_number :: "string \<Rightarrow> (string \<times> string) option" where
  "scan_number s =
     (let sign = (if HasPrefix s ''-'' then ''-'' else []) in
      Option.bind (scan_int (drop (length sign) s)) (\<lambda>(i, s).
      Option.bind (scan_fraction s) (\<lambda>(f, s).
      Option.bind (scan_exponent s) (\<lambda>(e, s). Some (sign @ i @ f @ e, s)))))"

definition maxNestingDepth :: nat where
  "maxNestingDepth = 10000"

text \<open>
  One value, spaces before it included, and the text after it; \<open>d\<close> counts the open arrays and objects.
  What follows the opening of an array or object is read by \<open>json_elems\<close> and \<open>json_members\<close>.
\<close>

fun json_value :: "nat \<Rightarrow> nat \<Rightarrow> string \<Rightarrow> (json \<times> string) option"
  and json_elems :: "nat \<Rightarrow> nat \<Rightarrow> string \<Rightarrow> (json list \<times> string) option"
  and json_members :: "nat \<Rightarrow> nat \<Rightarrow> string \<Rightarrow> ((string \<times> json) list \<times> string) option" where
  "json_value 0 d s = None"
| "json_value (Suc n) d s =
     (case skip_space s of
        [] \<Rightarrow> None
      | c # t \<Rightarrow>
          if c = CHR 34 then map_option (\<lambda>(r, rest). (JString (unquote r), rest)) (scan_string t)
          else if c = CHR ''['' then
            (if maxNestingDepth \<le> d then None
             else if HasPrefix (skip_space t) '']'' then Some (JArray [], tl (skip_space t))
             else map_option (\<lambda>(vs, rest). (JArray vs, rest)) (json_elems n (Suc d) t))
          else if c = CHR ''{'' then
            (if maxNestingDepth \<le> d then None
             else if HasPrefix (skip_space t) ''}'' then Some (JObject [], tl (skip_space t))
             else map_option (\<lambda>(ms, rest). (JObject ms, rest)) (json_members n (Suc d) t))
          else if HasPrefix (c # t) ''null'' then Some (JNull, drop 4 (c # t))
          else if HasPrefix (c # t) ''true'' then Some (JBool True, drop 4 (c # t))
          else if HasPrefix (c # t) ''false'' then Some (JBool False, drop 5 (c # t))
          else map_option (\<lambda>(w, rest). (JNumber w, rest)) (scan_number (c # t)))"
| "json_elems 0 d s = None"
| "json_elems (Suc n) d s =
     (case json_value n d s of
        None \<Rightarrow> None
      | Some (v, rest) \<Rightarrow>
          let rest = skip_space rest in
          if HasPrefix rest '']'' then Some ([v], tl rest)
          else if HasPrefix rest '','' then map_option (\<lambda>(vs, rest). (v # vs, rest)) (json_elems n d (tl rest))
          else None)"
| "json_members 0 d s = None"
| "json_members (Suc n) d s =
     (if \<not> HasPrefix (skip_space s) [CHR 34] then None
      else case scan_string (tl (skip_space s)) of
        None \<Rightarrow> None
      | Some (k, rest) \<Rightarrow>
          if \<not> HasPrefix (skip_space rest) '':'' then None
          else case json_value n d (tl (skip_space rest)) of
            None \<Rightarrow> None
          | Some (v, rest) \<Rightarrow>
              let rest = skip_space rest in
              if HasPrefix rest ''}'' then Some ([(unquote k, v)], tl rest)
              else if HasPrefix rest '','' then
                map_option (\<lambda>(ms, rest). ((unquote k, v) # ms, rest)) (json_members n d (tl rest))
              else None)"

definition json_fuel :: "string \<Rightarrow> nat" where
  "json_fuel s = 2 * length s + 1"

definition json_first :: "string \<Rightarrow> (json \<times> string) option" where
  "json_first s = json_value (json_fuel s) 0 s"

text \<open>The value of a whole text, as \<open>Unmarshal\<close> takes it.\<close>

definition json_parse :: "string \<Rightarrow> json option" where
  "json_parse s =
     (case json_first s of None \<Rightarrow> None | Some (v, rest) \<Rightarrow> if skip_space rest = [] then Some v else None)"

text \<open>
  The first value of a stream of which only \<open>limit\<close> bytes can be read. One that ends in its last byte
  without a closing mark is only complete at the end of the stream.
\<close>

definition json_decode :: "nat \<Rightarrow> string \<Rightarrow> json option" where
  "json_decode limit s =
     (case json_first (take limit s) of
        None \<Rightarrow> None
      | Some (v, rest) \<Rightarrow>
          if rest \<noteq> [] \<or> length s \<le> limit \<or> (case v of JArray _ \<Rightarrow> True | JObject _ \<Rightarrow> True | _ \<Rightarrow> False)
          then Some v else None)"

section \<open>Structs and maps\<close>

text \<open>
  Names of fields are compared without case; beyond ASCII only two runes fold into it, the long s and the
  Kelvin sign.
\<close>

definition ascii_upper :: "char \<Rightarrow> char" where
  "ascii_upper c = (if 97 \<le> byte c \<and> byte c \<le> 122 then char_of (byte c - 32) else c)"

fun fold_name :: "string \<Rightarrow> string" where
  "fold_name (a # b # c # s) =
     (if byte a = 197 \<and> byte b = 191 then CHR ''S'' # fold_name (c # s)
      else if byte a = 226 \<and> byte b = 132 \<and> byte c = 170 then CHR ''K'' # fold_name s
      else ascii_upper a # fold_name (b # c # s))"
| "fold_name [a, b] = (if byte a = 197 \<and> byte b = 191 then ''S'' else [ascii_upper a, ascii_upper b])"
| "fold_name [a] = [ascii_upper a]"
| "fold_name [] = []"

text \<open>The field that a key of an object sets: the one of that name, else the first that is like it.\<close>

definition field_for :: "string list \<Rightarrow> string \<Rightarrow> string option" where
  "field_for names k = (if k \<in> set names then Some k else List.find (\<lambda>f. fold_name f = fold_name k) names)"

text \<open>
  Into a struct of strings: a null leaves the field, a value of another type is an error but the rest is
  still read. The result is the fields and whether there was no error.
\<close>

fun set_fields :: "string list \<Rightarrow> (string \<Rightarrow> string) \<Rightarrow> (string \<times> json) list \<Rightarrow> (string \<Rightarrow> string) \<times> bool" where
  "set_fields names fs [] = (fs, True)"
| "set_fields names fs ((k, v) # ms) =
     (case field_for names k of
        None \<Rightarrow> set_fields names fs ms
      | Some f \<Rightarrow>
          (case v of
             JString x \<Rightarrow> set_fields names (fs(f := x)) ms
           | JNull \<Rightarrow> set_fields names fs ms
           | _ \<Rightarrow> (fst (set_fields names fs ms), False)))"

definition into_struct :: "string list \<Rightarrow> json \<Rightarrow> (string \<Rightarrow> string) \<times> bool" where
  "into_struct names v =
     (case v of JObject ms \<Rightarrow> set_fields names (\<lambda>_. '''') ms | JNull \<Rightarrow> (\<lambda>_. '''', True) | _ \<Rightarrow> (\<lambda>_. '''', False))"

definition Unmarshal_struct :: "string list \<Rightarrow> string \<Rightarrow> (string \<Rightarrow> string) \<times> bool" where
  "Unmarshal_struct names s = (case json_parse s of None \<Rightarrow> (\<lambda>_. '''', False) | Some v \<Rightarrow> into_struct names v)"

text \<open>Into a map of strings, as a function that is empty where there is no entry: null is the empty string.\<close>

fun set_entries :: "(string \<Rightarrow> string) \<Rightarrow> (string \<times> json) list \<Rightarrow> (string \<Rightarrow> string) option" where
  "set_entries m [] = Some m"
| "set_entries m ((k, v) # ms) =
     (case v of JString x \<Rightarrow> set_entries (m(k := x)) ms | JNull \<Rightarrow> set_entries (m(k := '''')) ms | _ \<Rightarrow> None)"

definition Unmarshal_map :: "string \<Rightarrow> (string \<Rightarrow> string) option" where
  "Unmarshal_map s =
     (case json_parse s of
        Some (JObject ms) \<Rightarrow> set_entries (\<lambda>_. '''') ms
      | Some JNull \<Rightarrow> Some (\<lambda>_. '''')
      | _ \<Rightarrow> None)"

end
