(* ===== verification/Client.thy ===== *)
theory Client
  imports Paths Effects Config Flags Json
begin

text \<open>
  The client side of the command line, \<open>cmd/ubiqo/client.go\<close>: credentials, the binding of a
  directory to a project, the cached context and the two session hooks with the spool of undelivered
  summaries. The state is the files, the requests sent with their answers, and the output. The machine
  (\<open>client_env\<close>) gives the environment, what the network and the disk do at each step, and whether a URL
  parses. \<open>http.NewRequest\<close> gives nil for an invalid URL and its
  error is ignored, so setting a header then panics: \<open>Panic\<close> is not caught by any handler.
\<close>

section \<open>State and machine\<close>

record clientConfig =
  CC_Server :: string
  CC_Token :: string

record http_request =
  hr_method :: string
  hr_url :: string
  hr_auth :: "string option"
  hr_body :: string

record http_answer =
  ha_status :: nat
  ha_version :: string       \<comment> \<open>the header X-Ubiqo-Bundle-Version\<close>
  ha_body :: string

record client_env =
  Getenv :: "string \<Rightarrow> string"
  UserHomeDir :: "string option"
  Getwd :: string
  Hostname :: string
  network :: "nat \<Rightarrow> http_request \<Rightarrow> http_answer option"    \<comment> \<open>None: transport error or timeout\<close>
  disk_ok :: "nat \<Rightarrow> string \<Rightarrow> bool"
  torn :: "nat \<Rightarrow> string \<Rightarrow> string option"              \<comment> \<open>what a failed write leaves\<close>
  valid_url :: "string \<Rightarrow> bool"
  new_uuid :: "nat \<Rightarrow> string"
  rune_isPrint :: "nat \<Rightarrow> bool"

datatype client_error =
    Panic
  | Client_Usage string
  | Client_Exits nat            \<comment> \<open>the process ends, with this code\<close>
  | Not_Logged_In
  | Bad_Config
  | Transport_Error
  | Server_Said nat string
  | Path_Status string nat
  | Unbound
  | Server_Unreachable client_error
  | No_Cache string client_error
  | Disk_Error string

text \<open>What is printed: a text, a status line, or the line that says that a hook got no context.\<close>

datatype status_line = Loaded string string | Stale client_error string

datatype printout = Line string | Status status_line | Unavailable_Line client_error

record client =
  files :: "(string \<times> string) list"
  client_tick :: nat
  sent :: "(http_request \<times> http_answer option) list"
  printed :: "printout list"

type_synonym 'a cl = "(client, client_error, 'a) act"

text \<open>A handler of errors does not see a panic.\<close>

definition catching :: "'a cl \<Rightarrow> (client_error \<Rightarrow> 'b cl) \<Rightarrow> ('a \<Rightarrow> 'b cl) \<Rightarrow> 'b cl" where
  "catching m h f = handle m (\<lambda>e. if e = Panic then failwith Panic else h e) f"

section \<open>Files and requests\<close>

definition os_ReadFile :: "string \<Rightarrow> client \<Rightarrow> string option" where
  "os_ReadFile path s = map_of (files s) path"

definition set_file :: "string \<Rightarrow> string option \<Rightarrow> (string \<times> string) list \<Rightarrow> (string \<times> string) list" where
  "set_file path content fs =
     (case content of None \<Rightarrow> [] | Some c \<Rightarrow> [(path, c)]) @ filter (\<lambda>f. fst f \<noteq> path) fs"

text \<open>A write that fails leaves nothing, the old content or a part of the new one, as \<open>torn\<close> says.\<close>

definition client_WriteFile :: "client_env \<Rightarrow> string \<Rightarrow> string \<Rightarrow> unit cl" where
  "client_WriteFile E path content = (\<lambda>s.
     let n = client_tick s; s = s\<lparr>client_tick := Suc n\<rparr> in
     if disk_ok E n path then (Inr (), s\<lparr>files := set_file path (Some content) (files s)\<rparr>)
     else (Inl (Disk_Error path), s\<lparr>files := set_file path (torn E n path) (files s)\<rparr>))"

definition client_Remove :: "client_env \<Rightarrow> string \<Rightarrow> unit cl" where
  "client_Remove E path = (\<lambda>s.
     let n = client_tick s; s = s\<lparr>client_tick := Suc n\<rparr> in
     if disk_ok E n path then (Inr (), s\<lparr>files := set_file path None (files s)\<rparr>) else (Inl (Disk_Error path), s))"

text \<open>Making the directories; they are not represented, only whether it worked.\<close>

definition client_MkdirAll :: "client_env \<Rightarrow> string \<Rightarrow> unit cl" where
  "client_MkdirAll E path = (\<lambda>s.
     let n = client_tick s; s = s\<lparr>client_tick := Suc n\<rparr> in
     if disk_ok E n path then (Inr (), s) else (Inl (Disk_Error path), s))"

text \<open>\<open>os.ReadDir\<close>: the names of the files of a directory, sorted.\<close>

definition dir_names :: "string \<Rightarrow> client \<Rightarrow> string list" where
  "dir_names dir s =
     sort (List.map_filter (\<lambda>f. case CutPrefix (fst f) (dir @ ''/'') of None \<Rightarrow> None
        | Some nm \<Rightarrow> if CHR ''/'' \<in> set nm \<or> nm = '''' then None else Some nm) (files s))"

definition client_print :: "printout \<Rightarrow> unit cl" where
  "client_print line = (\<lambda>s. (Inr (), s\<lparr>printed := printed s @ [line]\<rparr>))"

text \<open>\<open>http.NewRequest\<close> with its error ignored, setting the headers, and \<open>client.Do\<close>.\<close>

definition do_request :: "client_env \<Rightarrow> http_request \<Rightarrow> http_answer cl" where
  "do_request E r = (\<lambda>s.
     if \<not> valid_url E (hr_url r) then (Inl Panic, s)
     else
       let n = client_tick s; answer = network E n r;
           s = s\<lparr>client_tick := Suc n, sent := sent s @ [(r, answer)]\<rparr> in
       (case answer of None \<Rightarrow> (Inl Transport_Error, s) | Some a \<Rightarrow> (Inr a, s)))"

section \<open>What is stored and sent as JSON\<close>

definition config_json :: "clientConfig \<Rightarrow> string" where
  "config_json c = json_indented 0 (object_of [(''server'', CC_Server c), (''token'', CC_Token c)])"

definition json_config :: "string \<Rightarrow> clientConfig option" where
  "json_config b = (case Unmarshal_struct [''server'', ''token''] b of
     (f, ok) \<Rightarrow> if ok then Some \<lparr> CC_Server = f ''server'', CC_Token = f ''token'' \<rparr> else None)"

text \<open>The file \<open>ubiqo.yaml\<close> holds JSON, without its last newline here.\<close>

definition binding_json :: "string \<Rightarrow> string" where
  "binding_json project = json_indented 0 (object_of [(''project'', project)])"

definition json_binding :: "string \<Rightarrow> string option" where
  "json_binding b = (case Unmarshal_struct [''project''] b of (f, ok) \<Rightarrow> if ok then Some (f ''project'') else None)"

text \<open>A project and a summary, in a request or in the spool.\<close>

definition summary_json :: "string \<times> string \<Rightarrow> string" where
  "summary_json entry = json_text (object_of [(''project'', fst entry), (''summary'', snd entry)])"

definition json_summary :: "string \<Rightarrow> (string \<times> string) option" where
  "json_summary b = map_option (\<lambda>m. (m ''project'', m ''summary'')) (Unmarshal_map b)"

text \<open>The error of decoding the server's description is ignored.\<close>

definition json_server_version :: "string \<Rightarrow> string" where
  "json_server_version b = fst (Unmarshal_struct [''server_version'', ''min_cli_version''] b) ''server_version''"

section \<open>Configuration and binding\<close>

definition configDir :: "client_env \<Rightarrow> string" where
  "configDir E = filepath_Join [(case UserHomeDir E of None \<Rightarrow> ''.'' | Some home \<Rightarrow> home), ''.ubiqo'']"

definition loadClientConfig :: "client_env \<Rightarrow> clientConfig cl" where
  "loadClientConfig E =
     (let server = Getenv E ''UBIQO_SERVER_URL''; token = Getenv E ''UBIQO_TOKEN'' in
      if server \<noteq> '''' \<and> token \<noteq> '''' then ret \<lparr> CC_Server = trim_slashes server, CC_Token = token \<rparr>
      else reading (os_ReadFile (filepath_Join [configDir E, ''config.json''])) (\<lambda>r. case r of
          None \<Rightarrow> failwith Not_Logged_In
        | Some b \<Rightarrow> (case json_config b of None \<Rightarrow> failwith Bad_Config | Some c \<Rightarrow> ret c)))"

text \<open>At most ten directories, from the working directory up.\<close>

fun bound_walk :: "client_env \<Rightarrow> nat \<Rightarrow> string \<Rightarrow> client \<Rightarrow> string option" where
  "bound_walk E 0 dir s = None"
| "bound_walk E (Suc n) dir s =
     (if dir = ''/'' \<or> dir = ''.'' then None
      else case Option.bind (os_ReadFile (filepath_Join [dir, ''ubiqo.yaml'']) s) (json_binding) of
        Some project \<Rightarrow> if project \<noteq> '''' then Some project else bound_walk E n (filepath_Dir dir) s
      | None \<Rightarrow> bound_walk E n (filepath_Dir dir) s)"

definition boundProject :: "client_env \<Rightarrow> string \<Rightarrow> string cl" where
  "boundProject E explicit =
     (if explicit \<noteq> '''' then ret explicit
      else if Getenv E ''UBIQO_PROJECT'' \<noteq> '''' then ret (Getenv E ''UBIQO_PROJECT'')
      else reading (bound_walk E 10 (Getwd E)) (\<lambda>r. case r of None \<Rightarrow> failwith Unbound | Some p \<Rightarrow> ret p))"

section \<open>Requests to the server\<close>

definition bearer :: "clientConfig \<Rightarrow> string option" where
  "bearer c = Some (''Bearer '' @ CC_Token c)"

definition firstN :: "string \<Rightarrow> nat \<Rightarrow> string" where
  "firstN s n =
     (let s = ReplaceAll s [CHR 10] '' '' in
      if n < length s then take n s @ map char_of [226, 128, 166 :: nat] else s)"

definition fetchContext :: "client_env \<Rightarrow> clientConfig \<Rightarrow> string \<Rightarrow> (string \<times> string) cl" where
  "fetchContext E c project =
     andThen (do_request E \<lparr> hr_method = ''GET'', hr_url = CC_Server c @ ''/v1/context?project='' @ project,
         hr_auth = bearer c, hr_body = '''' \<rparr>) (\<lambda>a.
     let b = take 1048576 (ha_body a) in
     if ha_status a \<noteq> 200 then failwith (Server_Said (ha_status a) (firstN b 200)) else ret (b, ha_version a))"

definition httpGet :: "client_env \<Rightarrow> clientConfig \<Rightarrow> string \<Rightarrow> string cl" where
  "httpGet E c path =
     andThen (do_request E \<lparr> hr_method = ''GET'', hr_url = CC_Server c @ path,
         hr_auth = (if CC_Token c \<noteq> '''' then bearer c else None), hr_body = '''' \<rparr>) (\<lambda>a.
     if ha_status a \<noteq> 200 then failwith (Path_Status path (ha_status a)) else ret (take 1048576 (ha_body a)))"

definition post_request :: "client_env \<Rightarrow> clientConfig \<Rightarrow> string \<times> string \<Rightarrow> http_request" where
  "post_request E c entry = \<lparr> hr_method = ''POST'', hr_url = CC_Server c @ ''/v1/session-end'',
     hr_auth = bearer c, hr_body = summary_json entry \<rparr>"

definition postSessionEnd :: "client_env \<Rightarrow> string \<times> string \<Rightarrow> unit cl" where
  "postSessionEnd E entry =
     andThen (loadClientConfig E) (\<lambda>c.
     andThen (do_request E (post_request E c entry)) (\<lambda>a.
     if 300 \<le> ha_status a then failwith (Server_Said (ha_status a) '''') else ret ()))"

section \<open>The cached context\<close>

definition cache_path :: "client_env \<Rightarrow> string \<Rightarrow> string" where
  "cache_path E slug = filepath_Join [configDir E, ''cache'', slug @ ''.ctx'']"

text \<open>The end of \<open>pullContext\<close>, reached on every failure.\<close>

definition from_cache :: "client_env \<Rightarrow> string \<Rightarrow> client_error \<Rightarrow> (string \<times> status_line) cl" where
  "from_cache E slug err = reading (os_ReadFile (cache_path E slug)) (\<lambda>r. case r of
       None \<Rightarrow> failwith (No_Cache slug err)
     | Some cached \<Rightarrow> ret (cached, Stale err slug))"

definition pullContext :: "client_env \<Rightarrow> string \<Rightarrow> (string \<times> status_line) cl" where
  "pullContext E project =
     andThen (boundProject E project) (\<lambda>slug.
     catching (loadClientConfig E) (from_cache E slug) (\<lambda>c.
     catching (fetchContext E c slug) (from_cache E slug) (\<lambda>(body, version).
       andThen (ignoring (client_MkdirAll E (filepath_Dir (cache_path E slug)))) (\<lambda>_.
       andThen (ignoring (client_WriteFile E (cache_path E slug) body)) (\<lambda>_.
       ret (body, Loaded version slug))))))"

section \<open>The spool\<close>

definition spool_dir :: "client_env \<Rightarrow> string" where
  "spool_dir E = filepath_Join [configDir E, ''spool'']"

definition spool :: "client_env \<Rightarrow> string \<times> string \<Rightarrow> unit cl" where
  "spool E entry =
     andThen (ignoring (client_MkdirAll E (spool_dir E))) (\<lambda>_.
     reading client_tick (\<lambda>n.
     ignoring (client_WriteFile E (filepath_Join [spool_dir E, new_uuid E n @ ''.json'']) (summary_json entry))))"

definition drain_one :: "client_env \<Rightarrow> string \<Rightarrow> unit cl" where
  "drain_one E nm =
     (let path = filepath_Join [spool_dir E, nm] in
      reading (os_ReadFile path) (\<lambda>r. case r of
        None \<Rightarrow> ret ()
      | Some b \<Rightarrow>
          (case json_summary b of
             None \<Rightarrow> ignoring (client_Remove E path)
           | Some entry \<Rightarrow>
               catching (postSessionEnd E entry) (\<lambda>_. ret ()) (\<lambda>_. ignoring (client_Remove E path)))))"

definition drainSpool :: "client_env \<Rightarrow> unit cl" where
  "drainSpool E = reading (dir_names (spool_dir E)) (\<lambda>names. andThen (forEach names (drain_one E)) (\<lambda>_. ret ()))"

section \<open>Commands\<close>

definition session_summary :: "client_env \<Rightarrow> string" where
  "session_summary E =
     (if Getenv E ''UBIQO_SESSION_SUMMARY'' = '''' then ''session ended on '' @ Hostname E
      else Getenv E ''UBIQO_SESSION_SUMMARY'')"

definition hook_session_start :: "client_env \<Rightarrow> unit cl" where
  "hook_session_start E =
     catching (pullContext E '''')
       (\<lambda>err. client_print (Unavailable_Line err))
       (\<lambda>(text, status).
          andThen (client_print (Status status)) (\<lambda>_.
          andThen (client_print (Line '''')) (\<lambda>_. client_print (Line text))))"

definition hook_session_end :: "client_env \<Rightarrow> unit cl" where
  "hook_session_end E =
     catching (boundProject E '''') (\<lambda>_. ret ()) (\<lambda>slug.
     andThen (drainSpool E) (\<lambda>_.
     catching (postSessionEnd E (slug, session_summary E)) (\<lambda>_. spool E (slug, session_summary E)) ret))"

definition cmdHook :: "client_env \<Rightarrow> string list \<Rightarrow> unit cl" where
  "cmdHook E args =
     (case args of
        [] \<Rightarrow> failwith (Client_Usage ''usage: ubiqo hook session-start|session-end'')
      | hook # _ \<Rightarrow>
          if hook = ''session-start'' then hook_session_start E
          else if hook = ''session-end'' then hook_session_end E
          else failwith (Client_Usage (''unknown hook '' @ Quote (rune_isPrint E) hook)))"

text \<open>The commands with flags; on a bad one the process exits.\<close>

definition client_flags :: "(string \<times> bool) list \<Rightarrow> string list \<Rightarrow> ((string \<Rightarrow> string option) \<Rightarrow> 'a cl) \<Rightarrow> 'a cl" where
  "client_flags fs args body =
     (case parse_flags fs Map.empty args of Exits n \<Rightarrow> failwith (Client_Exits n) | Parsed v \<Rightarrow> body v)"

definition cmdContext :: "client_env \<Rightarrow> string list \<Rightarrow> unit cl" where
  "cmdContext E args =
     (if args = [] \<or> hd args \<noteq> ''pull'' then failwith (Client_Usage ''usage: ubiqo context pull [--project SLUG]'')
      else client_flags [(''project'', False)] (tl args) (\<lambda>v.
        andThen (pullContext E (flag_value v ''project'' '''')) (\<lambda>(text, status).
        andThen (client_print (Status status)) (\<lambda>_. client_print (Line text)))))"

definition cmdLogin :: "client_env \<Rightarrow> string list \<Rightarrow> unit cl" where
  "cmdLogin E args = client_flags [(''server'', False), (''token'', False)] args (\<lambda>v.
     let server = flag_value v ''server'' ''''; token = flag_value v ''token'' '''' in
     if server = '''' \<or> token = '''' then failwith (Client_Usage ''login requires --server and --token'')
     else
       let c = \<lparr> CC_Server = trim_slashes server, CC_Token = token \<rparr> in
       catching (httpGet E c ''/v1/meta'') (\<lambda>e. failwith (Server_Unreachable e)) (\<lambda>m.
       andThen (client_MkdirAll E (configDir E)) (\<lambda>_.
       andThen (client_WriteFile E (filepath_Join [configDir E, ''config.json'']) (config_json c)) (\<lambda>_.
       andThen (client_print (Line (''logged in to '' @ CC_Server c @ '' (server '' @ json_server_version m @ '')''))) (\<lambda>_.
       client_print (Line ''next: `ubiqo init --project <slug>` inside your project directory''))))))"

definition cmdInit :: "client_env \<Rightarrow> string list \<Rightarrow> unit cl" where
  "cmdInit E args = client_flags [(''project'', False)] args (\<lambda>v.
     let project = flag_value v ''project'' '''' in
     if project = '''' then failwith (Client_Usage ''init requires --project'')
     else andThen (client_WriteFile E (filepath_Join [Getwd E, ''ubiqo.yaml'']) (binding_json project @ [CHR 10])) (\<lambda>_.
       client_print (Line (''bound this directory to project '' @ Quote (rune_isPrint E) project @ '' (ubiqo.yaml)''))))"

end
