(* ===== verification/Json_Facts.thy ===== *)
theory Json_Facts
  imports Json
begin

text \<open>
  Facts about \<open>Json\<close>: strings, flat objects of strings and structs that were written are read back,
  with bytes that are not UTF-8 replaced; reading consumes its text, so the parser's fuel is enough.
\<close>

section \<open>What was written is read back\<close>

text \<open>The rune at the front, U+FFFD for a byte that is none; and a text with all such bytes replaced.\<close>

definition valid_rune :: "string \<Rightarrow> string" where
  "valid_rune s = (if rune_size s = 0 then encode_rune 65533 else take (rune_size s) s)"

function to_valid :: "string \<Rightarrow> string" where
  "to_valid s = (if s = [] then [] else valid_rune s @ to_valid (drop (max 1 (rune_size s)) s))"
  by pat_completeness auto
termination
  by (relation "measure length") auto

declare to_valid.simps [simp del]

lemma to_valid_Nil [simp]: "to_valid [] = []"
  by (simp add: to_valid.simps)

lemma json_body_Nil [simp]: "json_body [] = []"
  by (simp add: json_body.simps)

lemma unquote_Nil [simp]: "unquote [] = []"
  by (simp add: unquote.simps)

lemma to_valid_id: "valid_utf8 s \<Longrightarrow> to_valid s = s"
proof (induction s rule: valid_utf8.induct)
  case (1 s)
  show ?case
  proof (cases "s = []")
    case False
    with 1(2) have "rune_size s \<noteq> 0" "valid_utf8 (drop (rune_size s) s)"
      by (simp_all add: valid_utf8.simps [of s] split: if_splits)
    with 1(1) False show ?thesis
      by (simp add: to_valid.simps [of s] valid_rune_def max_def)
  qed simp
qed

lemma rune_size_le: "rune_size s \<le> length s"
  by (auto simp: rune_size_def split: list.splits prod.splits)

lemma rune_size_take:
  assumes "rune_size s \<noteq> 0"
  shows "rune_size (take (rune_size s) s @ t) = rune_size s"
proof (cases s)
  case Nil
  then show ?thesis using assms by (simp add: rune_size_def)
next
  case (Cons c r)
  obtain n lo hi where k: "utf8_class (byte c) = (n, lo, hi)" by (metis prod_cases3)
  show ?thesis
  proof (cases "n \<le> 1")
    case True
    then have "n = 1" "rune_size s = 1"
      using assms Cons k by (auto simp: rune_size_def le_Suc_eq)
    then show ?thesis using Cons k by (simp add: rune_size_def)
  next
    case False
    then have n: "rune_size s = n" "n - 1 \<le> length r" "lo \<le> byte (r ! 0)" "byte (r ! 0) \<le> hi"
      "list_all cont_byte (take (n - 1) r)"
      using assms Cons k by (auto simp: rune_size_def split: if_splits)
    have "take n s @ t = c # take (n - 1) r @ t"
      using False Cons by (cases n) auto
    moreover have "(take (n - 1) r @ t) ! 0 = r ! 0"
      using n(2) False by (simp add: nth_append)
    ultimately show ?thesis
      using n False k by (simp add: rune_size_def)
  qed
qed

lemma nth0_take: "s \<noteq> [] \<Longrightarrow> 0 < n \<Longrightarrow> (take n s @ t) ! 0 = s ! 0"
  by (simp add: nth_append)

lemma byte_char_of: "n < 256 \<Longrightarrow> byte (char_of n) = n"
  by (simp add: byte_def)

lemma char_of_byte [simp]: "char_of (byte c) = c"
  by (simp add: byte_def)

lemma utf8_class_cases:
  assumes "utf8_class b = (n, lo, hi)" and "1 < n"
  shows "(n = 2 \<and> 194 \<le> b \<and> b < 224 \<and> lo = 128 \<and> hi = 191)
    \<or> (n = 3 \<and> 224 \<le> b \<and> b < 240 \<and> (b = 224 \<longrightarrow> lo = 160) \<and> (b = 237 \<longrightarrow> hi = 159) \<and> 128 \<le> lo \<and> hi \<le> 191)
    \<or> (n = 4 \<and> 240 \<le> b \<and> b \<le> 244 \<and> (b = 240 \<longrightarrow> lo = 144) \<and> (b = 244 \<longrightarrow> hi = 143) \<and> 128 \<le> lo \<and> hi \<le> 191)"
  using assms by (auto simp: utf8_class_def split: if_splits)

lemma rune_size_bounds: "rune_size s = 0 \<or> rune_size s = 1 \<or> rune_size s = 2 \<or> rune_size s = 3 \<or> rune_size s = 4"
  by (auto simp: rune_size_def utf8_class_def split: list.splits prod.splits if_splits)

lemma take_nths:
  "n \<le> length s \<Longrightarrow> take n s = map (\<lambda>i. s ! i) [0..<n]"
  by (simp add: take_map [symmetric] map_nth list_eq_iff_nth_eq)

lemma rune_bytes:
  assumes "rune_size s = n" and "1 < n"
  shows "\<exists>lo hi. utf8_class (byte (s ! 0)) = (n, lo, hi) \<and> lo \<le> byte (s ! 1) \<and> byte (s ! 1) \<le> hi
    \<and> (\<forall>i. 0 < i \<and> i < n \<longrightarrow> 128 \<le> byte (s ! i) \<and> byte (s ! i) \<le> 191)"
proof (cases s)
  case Nil
  then show ?thesis using assms by (simp add: rune_size_def)
next
  case (Cons c r)
  obtain m lo hi where k: "utf8_class (byte c) = (m, lo, hi)" by (metis prod_cases3)
  have n: "m = n" "n - 1 \<le> length r" "lo \<le> byte (r ! 0)" "byte (r ! 0) \<le> hi" "list_all cont_byte (take (n - 1) r)"
    using assms Cons k by (auto simp: rune_size_def split: if_splits)
  have "128 \<le> byte (s ! i) \<and> byte (s ! i) \<le> 191" if "0 < i" "i < n" for i
  proof -
    have "r ! (i - 1) \<in> set (take (n - 1) r)"
      using that n(2) by (metis One_nat_def Suc_pred diff_less_mono in_set_conv_nth le_simps(3) length_take min.absorb2 nth_take)
    then show ?thesis
      using n(5) that Cons by (auto simp: list_all_iff cont_byte_def nth_Cons')
  qed
  then show ?thesis
    using k n Cons by auto
qed

lemma low_digit: "c < (64 :: nat) \<Longrightarrow> (n * 64 + c) div 64 = n" "c < (64 :: nat) \<Longrightarrow> (n * 64 + c) mod 64 = c"
  by simp_all

lemma base64_digits:
  fixes a b c d :: nat
  assumes "b < 64" and "c < 64"
  shows "(a * 4096 + b * 64 + c) div 4096 = a" "(a * 4096 + b * 64 + c) div 64 mod 64 = b"
    and "(a * 4096 + b * 64 + c) mod 64 = c"
    and "d < 64 \<Longrightarrow> (a * 262144 + d * 4096 + b * 64 + c) div 262144 = a"
    and "d < 64 \<Longrightarrow> (a * 262144 + d * 4096 + b * 64 + c) div 4096 mod 64 = d"
    and "(a * 262144 + d * 4096 + b * 64 + c) div 64 mod 64 = b"
    and "(a * 262144 + d * 4096 + b * 64 + c) mod 64 = c"
proof -
  have two: "a * 4096 + b * 64 + c = (a * 64 + b) * 64 + c" for a :: nat by simp
  have d1: "(a * 4096 + b * 64 + c) div 64 = a * 64 + b" "(a * 4096 + b * 64 + c) mod 64 = c" for a
    unfolding two by (rule low_digit [OF assms(2)])+
  have d2: "(a * 4096 + b * 64 + c) div 4096 = a" for a
    using d1(1) [of a] assms(1) div_mult2_eq [of "a * 4096 + b * 64 + c" 64 64] by simp
  have four: "a * 262144 + d * 4096 + b * 64 + c = (a * 64 + d) * 4096 + b * 64 + c" by simp
  have d3: "n div 262144 = n div 4096 div 64" for n :: nat
    using div_mult2_eq [of n 4096 64] by simp
  show "(a * 4096 + b * 64 + c) div 4096 = a" by (rule d2)
  show "(a * 4096 + b * 64 + c) div 64 mod 64 = b" using assms(1) by (simp add: d1)
  show "(a * 4096 + b * 64 + c) mod 64 = c" by (rule d1)
  show "(a * 262144 + d * 4096 + b * 64 + c) div 262144 = a" if "d < 64"
    unfolding four d3 d2 using that by simp
  show "(a * 262144 + d * 4096 + b * 64 + c) div 4096 mod 64 = d" if "d < 64"
    unfolding four d2 using that by simp
  show "(a * 262144 + d * 4096 + b * 64 + c) div 64 mod 64 = b"
    unfolding four d1 by (rule low_digit(2) [OF assms(1)])
  show "(a * 262144 + d * 4096 + b * 64 + c) mod 64 = c"
    unfolding four by (rule d1)
qed

lemma three_byte_values:
  fixes a b c :: nat
  assumes "b < 64" and "c < 64" and "a < 16" and "a = 0 \<Longrightarrow> 32 \<le> b" and "a = 13 \<Longrightarrow> b < 32"
  shows "2048 \<le> a * 4096 + b * 64 + c" "a * 4096 + b * 64 + c < 65536"
    and "\<not> (55296 \<le> a * 4096 + b * 64 + c \<and> a * 4096 + b * 64 + c < 57344)"
proof -
  show "2048 \<le> a * 4096 + b * 64 + c"
    using assms(4) by (cases "a = 0") linarith+
  show "a * 4096 + b * 64 + c < 65536"
    using assms(1-3) by linarith
  consider "a < 13" | "a = 13" | "13 < a" by linarith
  then show "\<not> (55296 \<le> a * 4096 + b * 64 + c \<and> a * 4096 + b * 64 + c < 57344)"
    using assms(1,2,5) by cases linarith+
qed

lemma encode_rune_value:
  assumes "rune_size s \<noteq> 0"
  shows "encode_rune (rune_value s) = take (rune_size s) s"
proof -
  have len: "rune_size s \<le> length s" by (rule rune_size_le)
  consider "rune_size s = 1" | "rune_size s = 2" | "rune_size s = 3" | "rune_size s = 4"
    using assms rune_size_bounds [of s] by auto
  then show ?thesis
  proof cases
    case 1
    then have "byte (s ! 0) < 128"
      using assms by (auto simp: rune_size_def utf8_class_def split: list.splits prod.splits if_splits)
    then show ?thesis
      using 1 len by (cases s) (simp_all add: rune_value_def encode_rune_def surrogate_def)
  next
    case 2
    then obtain lo hi where k: "utf8_class (byte (s ! 0)) = (2, lo, hi)" "128 \<le> byte (s ! 1)" "byte (s ! 1) \<le> 191"
      using rune_bytes [OF 2] by auto
    define a b where ab: "a = byte (s ! 0) - 192" "b = byte (s ! 1) - 128"
    have s: "s ! 0 = char_of (192 + a)" "s ! 1 = char_of (128 + b)" "2 \<le> a" "a < 32" "b < 64"
      using utf8_class_cases [OF k(1)] k(2,3) by (auto simp: ab)
    have v: "rune_value s = a * 64 + b"
      using 2 by (simp add: rune_value_def ab numeral_2_eq_2)
    show ?thesis
      using s by (simp add: 2 take_nths [OF len [unfolded 2]] upt_rec v encode_rune_def surrogate_def)
  next
    case 3
    then obtain lo hi where k: "utf8_class (byte (s ! 0)) = (3, lo, hi)" "lo \<le> byte (s ! 1)" "byte (s ! 1) \<le> hi"
        "128 \<le> byte (s ! 2)" "byte (s ! 2) \<le> 191"
      using rune_bytes [OF 3] by auto
    define a b c where ab: "a = byte (s ! 0) - 224" "b = byte (s ! 1) - 128" "c = byte (s ! 2) - 128"
    have s: "s ! 0 = char_of (224 + a)" "s ! 1 = char_of (128 + b)" "s ! 2 = char_of (128 + c)"
        "a < 16" "b < 64" "c < 64" "a = 0 \<Longrightarrow> 32 \<le> b" "a = 13 \<Longrightarrow> b < 32"
      using utf8_class_cases [OF k(1)] k(2-5) by (auto simp: ab)
    have v: "rune_value s = a * 4096 + b * 64 + c"
      using 3 by (simp add: rune_value_def ab numeral_3_eq_3)
    have "\<not> surrogate (rune_value s)" "2048 \<le> rune_value s" "rune_value s < 65536"
      unfolding v surrogate_def using s(4-8) three_byte_values [OF s(5,6,4,7,8)] by simp_all
    moreover have "rune_value s div 4096 = a" "rune_value s div 64 mod 64 = b" "rune_value s mod 64 = c"
      unfolding v using base64_digits(1-3) [OF s(5,6)] by simp_all
    ultimately show ?thesis
      using s(1-3) by (simp add: 3 take_nths [OF len [unfolded 3]] upt_rec encode_rune_def numeral_2_eq_2)
  next
    case 4
    then obtain lo hi where k: "utf8_class (byte (s ! 0)) = (4, lo, hi)" "lo \<le> byte (s ! 1)" "byte (s ! 1) \<le> hi"
        "128 \<le> byte (s ! 2)" "byte (s ! 2) \<le> 191" "128 \<le> byte (s ! 3)" "byte (s ! 3) \<le> 191"
      using rune_bytes [OF 4] by auto
    have i: "byte (s ! 0) = 240 \<Longrightarrow> lo = 144" "byte (s ! 0) = 244 \<Longrightarrow> hi = 143" "240 \<le> byte (s ! 0)" "byte (s ! 0) \<le> 244" "128 \<le> lo" "hi \<le> 191"
      using utf8_class_cases [OF k(1)] by auto
    have b1: "128 \<le> byte (s ! 1)" "byte (s ! 1) \<le> 191"
      using i(5,6) k(2,3) by linarith+
    define a b c d where ab: "a = byte (s ! 0) - 240" "b = byte (s ! 1) - 128" "c = byte (s ! 2) - 128" "d = byte (s ! 3) - 128"
    have s: "s ! 0 = char_of (240 + a)" "s ! 1 = char_of (128 + b)" "s ! 2 = char_of (128 + c)" "s ! 3 = char_of (128 + d)"
        "a \<le> 4" "b < 64" "c < 64" "d < 64" "a = 0 \<Longrightarrow> 16 \<le> b" "a = 4 \<Longrightarrow> b < 16"
      unfolding ab using i b1 k(2-7) by simp_all
    have "rune_size s = Suc (Suc (Suc (Suc 0)))"
      using 4 by simp
    then have v: "rune_value s = a * 262144 + b * 4096 + c * 64 + d"
      by (simp add: rune_value_def ab)
    have big: "65536 \<le> rune_value s"
      unfolding v using s(9) by (cases "a = 0") linarith+
    moreover have "rune_value s \<le> 1114111"
      unfolding v using s(5-8,10) by (cases "a = 4") linarith+
    moreover have "\<not> surrogate (rune_value s)"
      using big by (simp add: surrogate_def)
    moreover have "rune_value s div 262144 = a" "rune_value s div 4096 mod 64 = b" "rune_value s div 64 mod 64 = c"
        "rune_value s mod 64 = d"
      unfolding v using base64_digits(4,5) [OF s(7,8,6)] base64_digits(6,7) [OF s(7,8)] by simp_all
    ultimately show ?thesis
      using s(1-4) by (simp add: 4 take_nths [OF len [unfolded 4]] upt_rec encode_rune_def numeral_2_eq_2 numeral_3_eq_3)
  qed
qed

text \<open>The escapes of the encoder.\<close>

lemma hex_digit_value: "d < 16 \<Longrightarrow> is_hex (hex_digit d) \<and> hex_value (hex_digit d) = d"
  by (auto simp: is_hex_def hex_value_def hex_digit_def byte_def)

lemma hex_fixed_4:
  "hex_fixed 4 v = [hex_digit (v div 4096 mod 16), hex_digit (v div 256 mod 16), hex_digit (v div 16 mod 16), hex_digit (v mod 16)]"
proof -
  have "v div 16 div 16 = v div 256" "v div 256 div 16 = v div 4096"
    by (simp_all add: div_mult2_eq [symmetric])
  moreover have "(4 :: nat) = Suc (Suc (Suc (Suc 0)))"
    by simp
  ultimately show ?thesis
    by (simp only: hex_fixed.simps append.simps)
qed

lemma hex_sum:
  fixes v :: nat
  shows "4096 * (v div 4096) + 256 * (v div 256 mod 16) + 16 * (v div 16 mod 16) + v mod 16 = v"
proof -
  have b: "v div 256 = 16 * (v div 4096) + v div 256 mod 16"
    using mult_div_mod_eq [of 16 "v div 256"] by (simp add: div_mult2_eq [symmetric])
  have c: "v div 16 = 16 * (v div 256) + v div 16 mod 16"
    using mult_div_mod_eq [of 16 "v div 16"] by (simp add: div_mult2_eq [symmetric])
  have d: "v = 16 * (v div 16) + v mod 16"
    by simp
  have "y = 16 * z + p \<Longrightarrow> x = 16 * y + q \<Longrightarrow> v = 16 * x + r \<Longrightarrow> 4096 * z + 256 * p + 16 * q + r = v"
    for x y z p q r by simp
  from this [OF b c d] show ?thesis .
qed

lemma getu4_escape:
  assumes "v < 65536"
  shows "getu4 ([CHR 92, CHR ''u''] @ hex_fixed 4 v @ t) = Some v"
  using hex_sum [of v] assms
  by (simp add: getu4_def hex_fixed_4 hex_digit_value)

lemma char_eq_byte: "c = d \<longleftrightarrow> byte c = byte d"
  by (metis char_of_byte)

lemma byte_escapes [simp]:
  "byte (CHR 34) = 34" "byte (CHR 92) = 92" "byte (CHR 8) = 8" "byte (CHR 12) = 12" "byte (CHR 10) = 10"
  "byte (CHR 13) = 13" "byte (CHR 9) = 9"
  by (simp_all add: byte_def)

lemma scan_plain:
  assumes "\<forall>c \<in> set w. 32 \<le> byte c \<and> c \<noteq> CHR 34 \<and> c \<noteq> CHR 92"
  shows "scan_string (w @ t) = map_option (\<lambda>(r, rest). (w @ r, rest)) (scan_string t)"
  using assms
proof (induction w)
  case (Cons c w)
  then show ?case
    by (simp add: option.map_comp comp_def case_prod_beta)
qed (simp add: option.map_id)

lemma hex_fixed_plain: "\<forall>c \<in> set (hex_fixed k v). 32 \<le> byte c \<and> c \<noteq> CHR 34 \<and> c \<noteq> CHR 92"
  using hex_fixed_alnum [of _ k v] by (fastforce simp: char_eq_byte)

lemma scan_escape:
  "scan_string ([CHR 92, CHR ''u''] @ hex_fixed 4 v @ t)
     = map_option (\<lambda>(r, rest). ([CHR 92, CHR ''u''] @ hex_fixed 4 v @ r, rest)) (scan_string t)"
proof -
  have "length (hex_fixed 4 v) = 4" "list_all is_hex (hex_fixed 4 v)"
    by (simp_all add: hex_fixed_4 hex_digit_value)
  then show ?thesis
    by (simp add: scan_plain [OF hex_fixed_plain] option.map_comp comp_def case_prod_unfold)
qed

lemma escape_fffd: "[CHR 92, CHR ''u''] @ ''fffd'' = [CHR 92, CHR ''u''] @ hex_fixed 4 65533"
  by (simp add: hex_fixed_4 hex_digit_def char_eq_byte) (simp add: byte_def)

text \<open>The runes of a text are written as raw bytes, as a short escape or as \<open>\uXXXX\<close>.\<close>

lemma json_rune_cases:
  assumes "s \<noteq> []"
  obtains (raw) "json_rune s = valid_rune s" "\<forall>c \<in> set (json_rune s). 32 \<le> byte c \<and> c \<noteq> CHR 34 \<and> c \<noteq> CHR 92"
      "rune_size s \<noteq> 0"
  | (short) e where "json_rune s = [CHR 92, e]" "e \<in> set ''bfnrt'' \<or> e = CHR 92 \<or> e = CHR 34" "valid_rune s = [unescape e]"
  | (hex) v where "json_rune s = [CHR 92, CHR ''u''] @ hex_fixed 4 v" "v < 65536" "\<not> surrogate v" "valid_rune s = encode_rune v"
proof (cases "byte (s ! 0) < 128")
  case True
  then have size: "rune_size s = 1" and one: "valid_rune s = [s ! 0]" "rune_value s = byte (s ! 0)"
    using assms by (cases s; simp add: rune_size_ascii valid_rune_def rune_value_def)+
  have of_byte: "s ! 0 = char_of (byte (s ! 0))" by simp
  have ascii: "encode_rune (byte (s ! 0)) = [s ! 0]" "\<not> surrogate (byte (s ! 0))"
    using True by (simp_all add: encode_rune_def surrogate_def)
  show thesis
  proof (cases "byte (s ! 0) \<in> {34, 92, 8, 12, 10, 13, 9}")
    case True
    then consider "s ! 0 = CHR 34" | "s ! 0 = CHR 92" | "s ! 0 = CHR 8" | "s ! 0 = CHR 12" | "s ! 0 = CHR 10"
      | "s ! 0 = CHR 13" | "s ! 0 = CHR 9"
      by (auto simp: char_eq_byte [of "s ! 0"])
    then show thesis
      using one(1) by cases (rule short [of "json_rune s ! 1"]; simp add: json_rune_def unescape_def)+
  next
    case other: False
    show thesis
    proof (cases "byte (s ! 0) < 32 \<or> byte (s ! 0) \<in> {60, 62, 38}")
      case esc: True
      then show thesis
        using other True ascii one by (intro hex [of "byte (s ! 0)"]) (auto simp: json_rune_def Let_def)
    next
      case False
      moreover have "s ! 0 \<noteq> CHR 34" "s ! 0 \<noteq> CHR 92"
        using other by (auto simp: byte_def)
      ultimately show thesis
        using other True one size by (intro raw) (simp_all add: json_rune_def Let_def)
    qed
  qed
next
  case high: False
  show thesis
  proof (cases "rune_size s = 0")
    case True
    then show thesis
      using high escape_fffd by (intro hex [of 65533]) (simp_all add: json_rune_def Let_def surrogate_def valid_rune_def)
  next
    case False
    show thesis
    proof (cases "rune_value s = 8232 \<or> rune_value s = 8233")
      case True
      then show thesis
        using high False encode_rune_value [OF False]
        by (intro hex [of "rune_value s"]) (auto simp: json_rune_def Let_def surrogate_def valid_rune_def)
    next
      case other: False
      have "128 \<le> byte d" if "d \<in> set (take (rune_size s) s)" for d
        using that high False rune_size_bytes [of "hd s" d "tl s"] assms by (cases s) (auto simp: max_def split: if_splits)
      moreover have "d \<noteq> CHR 34 \<and> d \<noteq> CHR 92" if "128 \<le> byte d" for d
        using that by (auto simp: byte_def)
      ultimately have "\<forall>c \<in> set (take (rune_size s) s). 32 \<le> byte c \<and> c \<noteq> CHR 34 \<and> c \<noteq> CHR 92"
        by fastforce
      then show thesis
        using high False other by (intro raw) (simp_all add: json_rune_def Let_def valid_rune_def)
    qed
  qed
qed

lemma scan_rune:
  assumes "s \<noteq> []"
  shows "scan_string (json_rune s @ t) = map_option (\<lambda>(r, rest). (json_rune s @ r, rest)) (scan_string t)"
  using assms
proof (cases s rule: json_rune_cases)
  case raw
  then show ?thesis by (simp add: scan_plain)
next
  case (short e)
  then show ?thesis by auto
next
  case (hex v)
  then show ?thesis using scan_escape [of v t] by simp
qed

lemma scan_body: "scan_string (json_body s @ CHR 34 # rest) = Some (json_body s, rest)"
proof (induction s rule: json_body.induct)
  case (1 s)
  show ?case
  proof (cases "s = []")
    case False
    then show ?thesis
      using 1 by (simp add: json_body.simps [of s] scan_rune)
  qed simp
qed

lemma unquote_rune:
  assumes "s \<noteq> []"
  shows "unquote (json_rune s @ t) = valid_rune s @ unquote t"
  using assms
proof (cases s rule: json_rune_cases)
  case raw
  then have s: "take (rune_size s) s = json_rune s" "0 < length (json_rune s)" "length (json_rune s) = rune_size s"
    using assms rune_size_le [of s] by (simp_all add: valid_rune_def)
  have "(json_rune s @ t) ! 0 = s ! 0"
    using s(1,2) assms by (metis nth0_take s(3))
  moreover have "s ! 0 \<noteq> CHR 92"
    using raw(2) s assms by (metis length_greater_0_conv nth_mem nth_take)
  moreover have "rune_size (json_rune s @ t) = rune_size s"
    using rune_size_take [OF raw(3)] s(1) by simp
  ultimately have "unquote_step (json_rune s @ t) = (json_rune s, rune_size s)"
    using s raw(3) rune_size_ascii assms
    by (cases s) (auto simp: unquote_step_def)
  then show ?thesis
    using s raw by (subst unquote.simps) (simp add: max_def)
next
  case (short e)
  then show ?thesis by (auto simp: unquote.simps [of "CHR 92 # e # t"] unquote_step_def)
next
  case (hex v)
  have "unquote_step (json_rune s @ t) = (encode_rune v, 6)"
    using hex getu4_escape [OF hex(2), of t] by (simp add: unquote_step_def)
  then show ?thesis
    using hex by (subst unquote.simps) (simp add: hex_fixed_4)
qed

lemma unquote_body: "unquote (json_body s) = to_valid s"
proof (induction s rule: json_body.induct)
  case (1 s)
  show ?case
  proof (cases "s = []")
    case False
    then show ?thesis
      using 1 by (simp add: json_body.simps [of s] to_valid.simps [of s] unquote_rune)
  qed simp
qed

section \<open>Reading what was written\<close>

lemma skip_space_mark: "\<not> json_space c \<Longrightarrow> skip_space (c # s) = c # s"
  by (simp add: skip_space_def)

lemma skip_space_append: "list_all json_space w \<Longrightarrow> skip_space (w @ s) = skip_space s"
  unfolding skip_space_def by (induction w) simp_all

lemma marks_no_space [simp]:
  "\<not> json_space (CHR 34)" "\<not> json_space (CHR '','')" "\<not> json_space (CHR '':'')" "\<not> json_space (CHR ''{'')"
  "\<not> json_space (CHR ''}'')" "\<not> json_space (CHR '']'')" "\<not> json_space (CHR ''['')"
  by (simp_all add: json_space_def byte_def)

lemmas skip_marks [simp] = marks_no_space [THEN skip_space_mark]

lemma json_value_string:
  "list_all json_space w \<Longrightarrow> json_value (Suc n) d (w @ json_string s @ rest) = Some (JString (to_valid s), rest)"
  by (simp add: skip_space_append json_string_def scan_body unquote_body)

text \<open>The members of an object of strings, with spaces \<open>w\<close> before each and \<open>u\<close> before each value.\<close>

definition member_text :: "string \<Rightarrow> string \<times> string \<Rightarrow> string" where
  "member_text u kv = json_string (fst kv) @ '':'' @ u @ json_string (snd kv)"

lemma json_member_string:
  assumes "list_all json_space w" and "list_all json_space u"
  shows "json_members (Suc (Suc m)) d (w @ member_text u (k, s) @ t) =
    (if HasPrefix (skip_space t) ''}'' then Some ([(to_valid k, JString (to_valid s))], tl (skip_space t))
     else if HasPrefix (skip_space t) '','' then
       map_option (\<lambda>(ms, rest). ((to_valid k, JString (to_valid s)) # ms, rest)) (json_members (Suc m) d (tl (skip_space t)))
     else None)"
proof -
  have "skip_space (w @ json_string k @ t) = CHR 34 # json_body k @ CHR 34 # t" for t
    by (simp add: skip_space_append assms(1) json_string_def)
  moreover have "json_value (Suc m) d (u @ json_string s @ t) = Some (JString (to_valid s), t)"
    by (rule json_value_string [OF assms(2)])
  ultimately show ?thesis
    by (subst json_members.simps(2)) (simp add: member_text_def scan_body unquote_body del: json_value.simps json_members.simps)
qed

lemma json_members_strings:
  assumes "list_all json_space w" and "list_all json_space u" and "list_all json_space w'"
    and "kvs \<noteq> []" and "Suc (length kvs) \<le> n"
  shows "json_members n d (w @ separated ('','' @ w) (map (member_text u) kvs) @ w' @ ''}'' @ rest)
    = Some (map (\<lambda>(k, s). (to_valid k, JString (to_valid s))) kvs, rest)"
  using assms(4,5)
proof (induction kvs arbitrary: n)
  case (Cons kv kvs)
  obtain k s where kv: "kv = (k, s)" by fastforce
  obtain m where n: "n = Suc (Suc m)" "length kvs \<le> m"
  proof
    show "n = Suc (Suc (n - 2))" "length kvs \<le> n - 2"
      using Cons.prems(2) by simp_all
  qed
  note step = json_member_string [OF assms(1,2), of m d k s]
  show ?case
  proof (cases kvs)
    case Nil
    then show ?thesis
      using step [of "w' @ ''}'' @ rest"] n(1) by (simp add: kv skip_space_append assms(3) del: json_members.simps)
  next
    case (Cons kv' kvs')
    let ?t = "w @ separated ('','' @ w) (map (member_text u) kvs) @ w' @ ''}'' @ rest"
    have "json_members (Suc m) d ?t = Some (map (\<lambda>(k, s). (to_valid k, JString (to_valid s))) kvs, rest)"
      using Cons.IH [of "Suc m"] Cons n by (simp del: json_members.simps)
    moreover have "w @ separated ('','' @ w) (map (member_text u) (kv # kvs)) @ w' @ ''}'' @ rest
        = w @ member_text u (k, s) @ '','' @ ?t"
      by (simp add: kv Cons)
    ultimately show ?thesis
      using step [of "'','' @ ?t"] n(1) by (simp add: kv del: json_members.simps)
  qed
qed simp

definition valid_members :: "(string \<times> string) list \<Rightarrow> (string \<times> string) list" where
  "valid_members kvs = map (\<lambda>(k, s). (to_valid k, to_valid s)) kvs"

lemma separated_length: "length xs \<le> Suc (length (separated (c # sep) xs))"
  by (induction "c # sep" xs rule: separated.induct) auto

lemma json_object_strings:
  assumes "list_all json_space w" and "list_all json_space u" and "list_all json_space w'" and "kvs \<noteq> []"
  shows "json_first (''{'' @ w @ separated ('','' @ w) (map (member_text u) kvs) @ w' @ ''}'' @ rest)
    = Some (object_of (valid_members kvs), rest)"
proof -
  let ?t = "w @ separated ('','' @ w) (map (member_text u) kvs) @ w' @ ''}'' @ rest"
  obtain kv kvs' where kvs: "kvs = kv # kvs'" using assms(4) by (cases kvs) auto
  have "\<exists>q. skip_space ?t = CHR 34 # q"
    by (cases kvs') (simp_all add: kvs skip_space_append assms(1) member_text_def json_string_def)
  then have mark: "\<not> HasPrefix (skip_space ?t) ''}''"
    by (elim exE) (simp only: HasPrefix_Cons, simp)
  have "Suc (length kvs) \<le> 2 * length (CHR ''{'' # ?t)"
    using separated_length [of "map (member_text u) kvs" "CHR '',''" w] by simp
  note members = json_members_strings [OF assms(1-4) this, of 1 rest]
  have step: "json_value (Suc n) 0 (CHR ''{'' # t) = map_option (\<lambda>(ms, rest). (JObject ms, rest)) (json_members n 1 t)"
    if "\<not> HasPrefix (skip_space t) ''}''" for n t
    using that by (simp add: maxNestingDepth_def)
  let ?n = "2 * length (CHR ''{'' # ?t)"
  have "json_first (CHR ''{'' # ?t) = json_value (Suc ?n) 0 (CHR ''{'' # ?t)"
    by (simp only: json_first_def json_fuel_def Suc_eq_plus1)
  also have "\<dots> = map_option (\<lambda>(ms, rest). (JObject ms, rest)) (json_members ?n 1 ?t)"
    by (rule step [OF mark])
  also have "\<dots> = Some (JObject (map (\<lambda>(k, s). (to_valid k, JString (to_valid s))) kvs), rest)"
    by (simp only: members option.map prod.case)
  finally show ?thesis
    by (simp add: object_of_def valid_members_def comp_def case_prod_unfold)
qed

lemma json_text_members: "json_text (object_of kvs) = ''{'' @ [] @ separated ('','' @ []) (map (member_text []) kvs) @ [] @ ''}''"
  by (simp add: object_of_def member_text_def [abs_def] comp_def case_prod_unfold)

lemma json_indented_members:
  assumes "kvs \<noteq> []"
  shows "json_indented 0 (object_of kvs) = ''{'' @ json_line 1 @ separated ('','' @ json_line 1) (map (member_text '' '') kvs)
    @ json_line 0 @ ''}''"
  using assms by (simp add: object_of_def member_text_def [abs_def] comp_def case_prod_unfold)

lemma json_line_space: "list_all json_space (json_line d)"
  by (simp add: json_line_def list_all_iff json_space_def byte_def)

lemma json_first_text: "kvs \<noteq> [] \<Longrightarrow> json_first (json_text (object_of kvs) @ rest) = Some (object_of (valid_members kvs), rest)"
  using json_object_strings [of "[]" "[]" "[]" kvs rest] by (simp add: json_text_members)

lemma json_first_indented:
  assumes "kvs \<noteq> []"
  shows "json_first (json_indented 0 (object_of kvs) @ rest) = Some (object_of (valid_members kvs), rest)"
  using json_object_strings [OF json_line_space _ json_line_space assms, of "'' ''" 1 0 rest]
  by (simp add: json_indented_members [OF assms] json_space_def byte_def)

lemma json_parse_text:
  assumes "kvs \<noteq> []"
  shows "json_parse (json_text (object_of kvs)) = Some (object_of (valid_members kvs))"
    and "list_all json_space w \<Longrightarrow> json_parse (json_indented 0 (object_of kvs) @ w) = Some (object_of (valid_members kvs))"
  using json_first_text [OF assms, of "[]"] json_first_indented [OF assms, of w] skip_space_append [of w "[]"]
  by (simp_all add: json_parse_def skip_space_def)

lemma json_decode_text:
  assumes "kvs \<noteq> []" and "length (json_text (object_of kvs)) \<le> limit"
  shows "json_decode limit (json_text (object_of kvs)) = Some (object_of (valid_members kvs))"
  using assms json_first_text [OF assms(1), of "[]"] by (simp add: json_decode_def object_of_def)

lemma valid_members_id: "list_all (\<lambda>(k, s). valid_utf8 k \<and> valid_utf8 s) kvs \<Longrightarrow> valid_members kvs = kvs"
  by (induction kvs) (auto simp: valid_members_def to_valid_id)

section \<open>Structs and maps of strings\<close>

lemma set_fields_strings:
  assumes "set (map fst kvs) \<subseteq> set names" and "distinct (map fst kvs)"
  shows "set_fields names fs (map (\<lambda>(k, s). (k, JString s)) kvs)
    = ((\<lambda>f. case map_of kvs f of None \<Rightarrow> fs f | Some s \<Rightarrow> s), True)"
  using assms
proof (induction kvs arbitrary: fs)
  case (Cons kv kvs)
  then show ?case
    by (cases kv) (auto simp: field_for_def fun_eq_iff map_of_eq_None_iff [THEN iffD2] split: option.splits)
qed simp

lemma set_entries_strings:
  "distinct (map fst kvs) \<Longrightarrow> set_entries m (map (\<lambda>(k, s). (k, JString s)) kvs)
    = Some (\<lambda>k. case map_of kvs k of None \<Rightarrow> m k | Some s \<Rightarrow> s)"
  by (induction kvs arbitrary: m) (auto simp: fun_eq_iff map_of_eq_None_iff [THEN iffD2] split: option.splits)

lemma into_struct_object:
  assumes "set (map fst kvs) \<subseteq> set names" and "distinct (map fst kvs)"
  shows "into_struct names (object_of kvs) = ((\<lambda>f. case map_of kvs f of None \<Rightarrow> '''' | Some s \<Rightarrow> s), True)"
  by (simp add: into_struct_def object_of_def set_fields_strings [OF assms])

text \<open>The fields and entries of what was written, empty where there is none.\<close>

definition field_of :: "(string \<times> string) list \<Rightarrow> string \<Rightarrow> string" where
  "field_of kvs k = (case map_of kvs k of None \<Rightarrow> '''' | Some s \<Rightarrow> s)"

lemma Unmarshal_map_text:
  assumes "kvs \<noteq> []" and "distinct (map fst (valid_members kvs))"
  shows "Unmarshal_map (json_text (object_of kvs)) = Some (field_of (valid_members kvs))"
  unfolding Unmarshal_map_def json_parse_text(1) [OF assms(1)]
  using set_entries_strings [OF assms(2), of "\<lambda>_. ''''"] by (simp add: object_of_def field_of_def [abs_def])

lemma Unmarshal_struct_indented:
  assumes "kvs \<noteq> []" and "set (map fst (valid_members kvs)) \<subseteq> set names" and "distinct (map fst (valid_members kvs))"
    and "list_all json_space w"
  shows "Unmarshal_struct names (json_indented 0 (object_of kvs) @ w) = (field_of (valid_members kvs), True)"
  unfolding Unmarshal_struct_def json_parse_text(2) [OF assms(1,4)]
  using into_struct_object [OF assms(2,3)] by (simp add: field_of_def [abs_def])

section \<open>The parser's fuel\<close>

lemma skip_space_length: "length (skip_space s) \<le> length s"
  by (simp add: skip_space_def length_dropWhile_le)

lemma scan_string_shorter: "scan_string s = Some (r, t) \<Longrightarrow> length t < length s"
  by (induction s arbitrary: r rule: scan_string.induct) (fastforce split: if_splits list.splits)+

lemma scan_digits_shorter: "scan_digits s = Some (r, t) \<Longrightarrow> length t < length s"
  using length_dropWhile_le [of json_digit "tl s"]
  by (cases s) (auto simp: scan_digits_def split: if_splits)

lemma scan_int_shorter: "scan_int s = Some (i, t) \<Longrightarrow> length t < length s"
  using scan_digits_shorter [of s i t] by (cases s) (auto simp: scan_int_def split: if_splits)

lemma scan_number_shorter:
  assumes "scan_number s = Some (r, t)"
  shows "length t < length s"
proof -
  let ?sign = "if HasPrefix s ''-'' then ''-'' else []"
  obtain i s1 f s2 e where i: "scan_int (drop (length ?sign) s) = Some (i, s1)" and f: "scan_fraction s1 = Some (f, s2)"
      and e: "scan_exponent s2 = Some (e, t)"
    using assms by (auto simp: scan_number_def Let_def bind_eq_Some_conv)
  have "length s1 < length (drop (length ?sign) s)"
    by (rule scan_int_shorter [OF i])
  also have "\<dots> \<le> length s"
    by (simp only: length_drop diff_le_self)
  finally have "length s1 < length s" .
  moreover have "length s2 \<le> length s1"
    using f scan_digits_shorter [of "tl s1"] by (fastforce simp: scan_fraction_def split: if_splits)
  moreover have "length t \<le> length s2"
  proof (cases "HasPrefix s2 ''e'' \<or> HasPrefix s2 ''E''")
    case True
    then obtain d where "scan_digits (drop (length (exponent_sign (tl s2))) (tl s2)) = Some (d, t)"
      using e by (auto simp: scan_exponent_def)
    from scan_digits_shorter [OF this] show ?thesis
      by (simp only: length_drop length_tl)
  qed (use e in \<open>simp add: scan_exponent_def\<close>)
  ultimately show ?thesis by linarith
qed

lemma json_value_Suc:
  assumes "json_value (Suc n) d s = Some (v, r)"
  shows "(\<exists>w t. length t < length s \<and> scan_string t = Some (w, r))
    \<or> (\<exists>vs t. length t < length s \<and> json_elems n (Suc d) t = Some (vs, r))
    \<or> (\<exists>ms t. length t < length s \<and> json_members n (Suc d) t = Some (ms, r))
    \<or> length r < length s"
proof (cases "skip_space s")
  case Nil
  then show ?thesis using assms by simp
next
  case (Cons c t)
  then have t: "length t < length s" "length (c # t) \<le> length s"
    using skip_space_length [of s] by simp_all
  have tl: "length (tl (skip_space t)) < length s"
    using skip_space_length [of t] t by simp
  consider "c = CHR 34" | "c = CHR ''[''" | "c = CHR ''{''" | "c \<noteq> CHR 34 \<and> c \<noteq> CHR ''['' \<and> c \<noteq> CHR ''{''"
    by blast
  then show ?thesis
  proof cases
    case 1
    then show ?thesis using assms t(1) by (auto simp: Cons)
  next
    case 2
    then show ?thesis using assms t(1) tl by (auto simp: Cons simp del: json_elems.simps split: if_splits)
  next
    case 3
    then show ?thesis using assms t(1) tl by (auto simp: Cons simp del: json_members.simps split: if_splits)
  next
    case 4
    have "length (drop k (c # t)) < length s" if "0 < k" for k
      using t(1) that by simp
    then have "length r < length s"
      using assms 4 scan_number_shorter [of "c # t" _ r] t(2)
      by (fastforce simp: Cons simp del: HasPrefix_Cons length_Cons drop_Suc_Cons split: if_splits)
    then show ?thesis by blast
  qed
qed

lemma json_shorter:
  "json_value n d s = Some (v, r) \<Longrightarrow> length r < length s"
  "json_elems n d s = Some (vs, r) \<Longrightarrow> length r < length s"
  "json_members n d s = Some (ms, r) \<Longrightarrow> length r < length s"
proof (induction n arbitrary: d s v vs ms r)
  case 0
  {
    case 1 then show ?case by simp
  next
    case 2 then show ?case by simp
  next
    case 3 then show ?case by simp
  }
next
  case (Suc n)
  {
    case 1
    from json_value_Suc [OF this] show ?case
      using Suc.IH(2,3) scan_string_shorter by (elim disjE exE conjE) (blast intro: less_trans)+
  next
    case 2
    then obtain v1 r1 where v: "json_value n d s = Some (v1, r1)"
      by (auto split: option.splits)
    have "length (tl (skip_space r1)) < length s"
      using Suc.IH(1) [OF v] skip_space_length [of r1] by simp
    then show ?case
      using 2 Suc.IH(2) [of d "tl (skip_space r1)" _ r]
      by (fastforce simp: v Let_def split: if_splits)
  next
    case 3
    then obtain k r1 v1 r2 where k: "scan_string (tl (skip_space s)) = Some (k, r1)"
        and v: "json_value n d (tl (skip_space r1)) = Some (v1, r2)"
      by (auto split: option.splits if_splits)
    have "length r1 < length s"
      using scan_string_shorter [OF k] skip_space_length [of s] by simp
    then have "length (tl (skip_space r2)) < length s"
      using Suc.IH(1) [OF v] skip_space_length [of r1] skip_space_length [of r2] by simp
    then show ?case
      using 3 Suc.IH(3) [of d "tl (skip_space r2)" _ r]
      by (fastforce simp: k v Let_def split: if_splits)
  }
qed

text \<open>More fuel than the texts have use for changes nothing.\<close>

lemma json_fuel_enough:
  "2 * length s + 1 \<le> n \<Longrightarrow> n \<le> m \<Longrightarrow> json_value m d s = json_value n d s"
  "2 * length s + 2 \<le> n \<Longrightarrow> n \<le> m \<Longrightarrow> json_elems m d s = json_elems n d s"
  "2 * length s + 2 \<le> n \<Longrightarrow> n \<le> m \<Longrightarrow> json_members m d s = json_members n d s"
proof (induction n arbitrary: d s m)
  case (Suc n)
  {
    case 1
    then obtain m' where m: "m = Suc m'" "n \<le> m'" by (auto dest: Suc_le_D)
    show ?case
    proof (cases "skip_space s")
      case Nil
      then show ?thesis by (simp add: m)
    next
      case (Cons c t)
      then have t: "2 * length t + 2 \<le> n"
        using skip_space_length [of s] 1(1) by simp
      show ?thesis
        by (simp add: m Cons Suc.IH(2) [OF t m(2)] Suc.IH(3) [OF t m(2)] del: json_elems.simps json_members.simps)
    qed
  next
    case 2
    then obtain m' where m: "m = Suc m'" "n \<le> m'" by (auto dest: Suc_le_D)
    have v: "json_value m' d s = json_value n d s"
      using 2(1) by (intro Suc.IH(1) m(2)) simp
    have "json_elems m' d (tl (skip_space r)) = json_elems n d (tl (skip_space r))" if "json_value n d s = Some (x, r)" for x r
      using Suc.IH(2) [of "tl (skip_space r)" m' d] json_shorter(1) [OF that] skip_space_length [of r] 2(1) m(2) by simp
    then show ?case
      by (simp add: m v Let_def split: option.splits)
  next
    case 3
    then obtain m' where m: "m = Suc m'" "n \<le> m'" by (auto dest: Suc_le_D)
    show ?case
    proof (cases "scan_string (tl (skip_space s))")
      case None
      then show ?thesis by (simp add: m)
    next
      case (Some kr)
      obtain k r where k: "scan_string (tl (skip_space s)) = Some (k, r)" using Some by fastforce
      have r: "length r < length s"
        using scan_string_shorter [OF k] skip_space_length [of s] by simp
      then have v: "json_value m' d (tl (skip_space r)) = json_value n d (tl (skip_space r))"
        using Suc.IH(1) [of "tl (skip_space r)" m' d] skip_space_length [of r] 3(1) m(2) by simp
      have tail: "json_members m' d (tl (skip_space r2)) = json_members n d (tl (skip_space r2))"
        if "json_value n d (tl (skip_space r)) = Some (x, r2)" for x r2
        using Suc.IH(3) [of "tl (skip_space r2)" m' d] r json_shorter(1) [OF that]
          skip_space_length [of r] skip_space_length [of r2] 3(1) m(2) by simp
      show ?thesis
      proof (cases "json_value n d (tl (skip_space r))")
        case None
        then show ?thesis by (simp add: m k v)
      next
        case (Some xr)
        then obtain x r2 where x: "json_value n d (tl (skip_space r)) = Some (x, r2)" by (cases xr) simp
        show ?thesis
          unfolding m json_members.simps(2) k option.case prod.case v x Let_def tail [OF x] ..
      qed
    qed
  }
qed simp_all

lemma json_first_fuel: "json_fuel s \<le> n \<Longrightarrow> json_value n 0 s = json_first s"
  using json_fuel_enough(1) [of s "json_fuel s" n 0] by (simp add: json_first_def json_fuel_def del: json_value.simps)

section \<open>Longer texts\<close>

text \<open>
  What was read of a text is read of every longer one. Only a number at the very end may go on, so a text
  that is cut off before the end of its object holds no value.
\<close>

lemma skip_space_longer: "skip_space s \<noteq> [] \<Longrightarrow> skip_space (s @ u) = skip_space s @ u"
  unfolding skip_space_def by (induction s) auto

lemma HasPrefix_longer: "s \<noteq> [] \<Longrightarrow> HasPrefix (s @ u) [c] \<longleftrightarrow> HasPrefix s [c]"
  by (cases s) simp_all

definition escape_ok :: "char \<Rightarrow> string \<Rightarrow> bool" where
  "escape_ok e t \<longleftrightarrow> e \<in> set ''bfnrt/'' \<or> e = CHR 92 \<or> e = CHR 34
     \<or> (e = CHR ''u'' \<and> 4 \<le> length t \<and> list_all is_hex (take 4 t))"

lemma scan_string_escape:
  "scan_string (CHR 92 # e # t)
     = (if escape_ok e t then map_option (\<lambda>(r, rest). (CHR 92 # e # r, rest)) (scan_string t) else None)"
proof -
  have "(if CHR 92 = CHR 34 then x else if CHR 92 = CHR 92 then y else z) = y" for x y z :: "(string \<times> string) option"
    by simp
  then show ?thesis
    unfolding scan_string.simps(2) [of "CHR 92" "e # t"] escape_ok_def list.case by this
qed

lemma scan_string_other:
  "c \<noteq> CHR 34 \<Longrightarrow> c \<noteq> CHR 92 \<Longrightarrow> scan_string (c # t)
     = (if byte c < 32 then None else map_option (\<lambda>(r, rest). (c # r, rest)) (scan_string t))"
  by simp

lemma escape_ok_longer: "escape_ok e t \<Longrightarrow> escape_ok e (t @ u)"
proof -
  have "4 \<le> length t \<Longrightarrow> 4 \<le> length (t @ u)" "4 \<le> length t \<Longrightarrow> list_all is_hex (take 4 t) \<Longrightarrow> list_all is_hex (take 4 (t @ u))"
    by simp_all
  then show "escape_ok e t \<Longrightarrow> escape_ok e (t @ u)"
    unfolding escape_ok_def by blast
qed

lemma scan_string_longer: "scan_string s = Some (r, t) \<Longrightarrow> scan_string (s @ u) = Some (r, t @ u)"
proof (induction s arbitrary: r rule: length_induct)
  case (1 s)
  obtain c s1 where s: "s = c # s1"
    using 1(2) by (cases s) auto
  consider "c = CHR 34" | "c = CHR 92" | "c \<noteq> CHR 34" "c \<noteq> CHR 92" by blast
  then show ?case
  proof cases
    case 1
    then show ?thesis using \<open>scan_string s = Some (r, t)\<close> by (simp add: s)
  next
    case 2
    obtain e s2 where e: "s1 = e # s2"
      using 1(2) by (cases s1) (simp_all add: s 2)
    obtain r' where "escape_ok e s2" "scan_string s2 = Some (r', t)" "r = CHR 92 # e # r'"
      using 1(2) unfolding s 2 e scan_string_escape by (auto split: if_splits)
    moreover from this(2) have "scan_string (s2 @ u) = Some (r', t @ u)"
      using 1(1) by (simp add: s e)
    ultimately show ?thesis
      unfolding s 2 e append_Cons scan_string_escape using escape_ok_longer by simp
  next
    case 3
    obtain r' where "\<not> byte c < 32" "scan_string s1 = Some (r', t)" "r = c # r'"
      using 1(2) unfolding s scan_string_other [OF 3] by (auto split: if_splits)
    moreover from this(2) have "scan_string (s1 @ u) = Some (r', t @ u)"
      using 1(1) by (simp add: s)
    ultimately show ?thesis
      unfolding s append_Cons scan_string_other [OF 3] by simp
  qed
qed

lemma scan_digits_longer:
  assumes "scan_digits s = Some (d, t)" and "t \<noteq> []"
  shows "scan_digits (s @ u) = Some (d, t @ u)"
proof -
  have d: "takeWhile json_digit s = d" "dropWhile json_digit s = t" "d \<noteq> []"
    using assms(1) by (auto simp: scan_digits_def split: if_splits)
  obtain c t' where "t = c # t'" using assms(2) by (cases t) auto
  moreover from this have "\<not> json_digit c"
    using d(2) by (metis dropWhile_eq_Cons_conv)
  moreover have "s = d @ t" "\<forall>x \<in> set d. json_digit x"
    using d by (auto dest: set_takeWhileD)
  ultimately show ?thesis
    using d(3) by (simp add: scan_digits_def takeWhile_append dropWhile_append)
qed

lemma scan_number_longer:
  assumes "scan_number s = Some (w, t)" and "t \<noteq> []"
  shows "scan_number (s @ u) = Some (w, t @ u)"
proof -
  let ?sign = "if HasPrefix s ''-'' then ''-'' else []"
  obtain i s1 f s2 e where i: "scan_int (drop (length ?sign) s) = Some (i, s1)" and f: "scan_fraction s1 = Some (f, s2)"
      and e: "scan_exponent s2 = Some (e, t)" and w: "w = ?sign @ i @ f @ e"
    using assms by (auto simp: scan_number_def Let_def bind_eq_Some_conv)
  have s2: "s2 \<noteq> []"
    using e assms(2) by (auto simp: scan_exponent_def HasPrefix_def)
  have s1: "s1 \<noteq> []"
    using f s2 by (auto simp: scan_fraction_def HasPrefix_def)
  have s: "s \<noteq> []" and s': "drop (length ?sign) s \<noteq> []"
    using scan_int_shorter [OF i] by auto
  have "scan_int (drop (length ?sign) s @ u) = Some (i, s1 @ u)"
    using i s1 s' scan_digits_longer by (auto simp: scan_int_def HasPrefix_longer split: if_splits)
  moreover have "drop (length ?sign) s @ u = drop (length ?sign) (s @ u)"
    using s by (cases s) simp_all
  moreover have "scan_fraction (s1 @ u) = Some (f, s2 @ u)"
    using f s1 s2 scan_digits_longer [of "tl s1"] by (auto simp: scan_fraction_def HasPrefix_longer split: if_splits)
  moreover have "scan_exponent (s2 @ u) = Some (e, t @ u)"
  proof (cases "HasPrefix s2 ''e'' \<or> HasPrefix s2 ''E''")
    case False
    then show ?thesis
      using e s2 by (auto simp: scan_exponent_def HasPrefix_longer)
  next
    case True
    let ?t = "tl s2"
    obtain d where d: "scan_digits (drop (length (exponent_sign ?t)) ?t) = Some (d, t)" and ee: "e = hd s2 # exponent_sign ?t @ d"
      using e True by (auto simp: scan_exponent_def)
    have ne: "?t \<noteq> []"
      using scan_digits_shorter [OF d] by (cases "s2") auto
    have sg: "exponent_sign (?t @ u) = exponent_sign ?t" and "drop (length (exponent_sign ?t)) (?t @ u) = drop (length (exponent_sign ?t)) ?t @ u"
      using ne by (cases ?t; simp add: exponent_sign_def)+
    then show ?thesis
      using True s2 scan_digits_longer [OF d assms(2)] by (simp add: scan_exponent_def HasPrefix_longer ee)
  qed
  ultimately show ?thesis
    using s by (simp add: scan_number_def HasPrefix_longer w Let_def)
qed

lemma number_start: "scan_number (c # t) = Some x \<Longrightarrow> c = CHR ''-'' \<or> json_digit c"
  by (auto simp: scan_number_def scan_int_def scan_digits_def bind_eq_Some_conv split: if_splits)
    (simp_all add: json_digit_def byte_def)

lemma prefix_longer:
  assumes "HasPrefix s p"
  shows "HasPrefix (s @ u) p \<and> length p \<le> length s"
proof -
  have p: "take (length p) s = p"
    using assms by (simp add: HasPrefix_def)
  then have "length p \<le> length s"
    by (metis length_take min.cobounded1)
  with p show ?thesis
    by (simp add: HasPrefix_def)
qed

lemma json_empty:
  "skip_space t = [] \<Longrightarrow> json_elems n d t = None" "skip_space t = [] \<Longrightarrow> json_members n d t = None"
proof -
  have "skip_space t = [] \<Longrightarrow> json_value m d t = None" for m
    by (cases m) simp_all
  then show "skip_space t = [] \<Longrightarrow> json_elems n d t = None"
    by (cases n) simp_all
  show "skip_space t = [] \<Longrightarrow> json_members n d t = None"
    by (cases n) simp_all
qed

lemma json_longer:
  "json_value n d s = Some (v, r) \<Longrightarrow> r \<noteq> [] \<or> (\<forall>w. v \<noteq> JNumber w) \<Longrightarrow> json_value n d (s @ u) = Some (v, r @ u)"
  "json_elems n d s = Some (vs, r) \<Longrightarrow> json_elems n d (s @ u) = Some (vs, r @ u)"
  "json_members n d s = Some (ms, r) \<Longrightarrow> json_members n d (s @ u) = Some (ms, r @ u)"
proof (induction n arbitrary: d s v vs ms r)
  case 0
  {
    case 1 then show ?case by simp
  next
    case 2 then show ?case by simp
  next
    case 3 then show ?case by simp
  }
next
  case (Suc n)
  {
    case prem: 1
    then obtain c t where s: "skip_space s = c # t"
      by (cases "skip_space s") auto
    then have s': "skip_space (s @ u) = c # t @ u"
      using skip_space_longer [of s u] by simp
    have ne: "skip_space t \<noteq> []" if "json_elems n (Suc d) t \<noteq> None \<or> json_members n (Suc d) t \<noteq> None"
      using that json_empty [of t] by auto
    consider "c = CHR 34" | "c = CHR ''[''" | "c = CHR ''{''" | "c \<noteq> CHR 34" "c \<noteq> CHR ''[''" "c \<noteq> CHR ''{''"
      by blast
    then show ?case
    proof cases
      case 1
      then obtain w where "scan_string t = Some (w, r)" "v = JString (unquote w)"
        using prem(1) s by auto
      then show ?thesis
        using scan_string_longer [of t w r u] 1 s' by simp
    next
      case 2
      show ?thesis
      proof (cases "HasPrefix (skip_space t) '']''")
        case True
        then obtain t' where "skip_space t = CHR '']'' # t'" by (cases "skip_space t") auto
        then show ?thesis
          using prem(1) 2 s s' skip_space_longer [of t u] by (auto split: if_splits)
      next
        case False
        then obtain vs where vs: "json_elems n (Suc d) t = Some (vs, r)" "v = JArray vs" and d: "d < maxNestingDepth"
          using prem(1) 2 s by (auto simp del: json_elems.simps split: if_splits)
        then show ?thesis
          using False 2 s' ne Suc.IH(2) [OF vs(1)]
          by (simp add: skip_space_longer HasPrefix_longer del: json_elems.simps)
      qed
    next
      case 3
      show ?thesis
      proof (cases "HasPrefix (skip_space t) ''}''")
        case True
        then obtain t' where "skip_space t = CHR ''}'' # t'" by (cases "skip_space t") auto
        then show ?thesis
          using prem(1) 3 s s' skip_space_longer [of t u] by (auto split: if_splits)
      next
        case False
        then obtain ms where ms: "json_members n (Suc d) t = Some (ms, r)" "v = JObject ms" and d: "d < maxNestingDepth"
          using prem(1) 3 s by (auto simp del: json_members.simps split: if_splits)
        then show ?thesis
          using False 3 s' ne Suc.IH(3) [OF ms(1)]
          by (simp add: skip_space_longer HasPrefix_longer del: json_members.simps)
      qed
    next
      case 4
      consider "c = CHR ''n''" "HasPrefix t ''ull''" | "c = CHR ''t''" "HasPrefix t ''rue''" | "c = CHR ''f''" "HasPrefix t ''alse''"
        | w where "scan_number (c # t) = Some (w, r)" "v = JNumber w"
        using prem(1) 4 s by (auto split: if_splits)
      then show ?thesis
      proof cases
        case 1
        then show ?thesis using prem(1) s s' prefix_longer [of t "''ull''" u] by simp
      next
        case 2
        then show ?thesis using prem(1) s s' prefix_longer [of t "''rue''" u] by simp
      next
        case 3
        then show ?thesis using prem(1) s s' prefix_longer [of t "''alse''" u] by simp
      next
        case w: 4
        then have r: "r \<noteq> []"
          using prem(2) by simp
        have "c \<noteq> CHR ''n''" "c \<noteq> CHR ''t''" "c \<noteq> CHR ''f''"
          using number_start [OF w(1)] by (auto simp: json_digit_def byte_def)
        then show ?thesis
          using 4 s' w(2) scan_number_longer [OF w(1) r, of u] by simp
      qed
    qed
  next
    case prem: 2
    then obtain v1 r1 where v: "json_value n d s = Some (v1, r1)"
      by (auto split: option.splits)
    have r1: "skip_space r1 \<noteq> []"
      using prem v by (auto simp: Let_def HasPrefix_def)
    then have "r1 \<noteq> []"
      by (auto simp: skip_space_def)
    then have v': "json_value n d (s @ u) = Some (v1, r1 @ u)"
      using Suc.IH(1) [OF v] by blast
    show ?case
    proof (cases "HasPrefix (skip_space r1) '']''")
      case True
      then show ?thesis
        using prem v v' r1 by (simp add: skip_space_longer HasPrefix_longer Let_def)
    next
      case False
      then obtain vs' where "json_elems n d (tl (skip_space r1)) = Some (vs', r)" "vs = v1 # vs'"
          "HasPrefix (skip_space r1) '',''"
        using prem v by (auto simp: Let_def split: if_splits)
      then show ?thesis
        using False v' r1 Suc.IH(2) [of d "tl (skip_space r1)" vs' r] by (simp add: skip_space_longer HasPrefix_longer Let_def)
    qed
  next
    case prem: 3
    then have q: "HasPrefix (skip_space s) [CHR 34]" and s: "skip_space s \<noteq> []"
      by (auto simp: HasPrefix_def split: if_splits)
    then obtain k r1 where k: "scan_string (tl (skip_space s)) = Some (k, r1)"
      using prem by (auto split: option.splits)
    have colon: "HasPrefix (skip_space r1) '':''" and r1: "skip_space r1 \<noteq> []"
      using prem q k by (auto simp: HasPrefix_def split: if_splits)
    obtain v1 r2 where v: "json_value n d (tl (skip_space r1)) = Some (v1, r2)"
      using prem q k colon by (auto split: option.splits)
    have r2: "skip_space r2 \<noteq> []"
      using prem q k colon v by (auto simp: Let_def HasPrefix_def)
    then have "r2 \<noteq> []"
      by (auto simp: skip_space_def)
    then have v': "json_value n d (tl (skip_space r1) @ u) = Some (v1, r2 @ u)"
      using Suc.IH(1) [OF v] by blast
    have k': "scan_string (tl (skip_space s) @ u) = Some (k, r1 @ u)"
      by (rule scan_string_longer [OF k])
    show ?case
    proof (cases "HasPrefix (skip_space r2) ''}''")
      case True
      then show ?thesis
        using prem q s k k' colon r1 v v' r2 by (simp add: skip_space_longer HasPrefix_longer Let_def)
    next
      case False
      then obtain ms' where "json_members n d (tl (skip_space r2)) = Some (ms', r)" "ms = (unquote k, v1) # ms'"
          "HasPrefix (skip_space r2) '',''"
        using prem q k colon v by (auto simp: Let_def split: if_splits)
      then show ?thesis
        using False q s k' colon r1 v' r2 Suc.IH(3) [of d "tl (skip_space r2)" ms' r]
        by (simp add: skip_space_longer HasPrefix_longer Let_def)
    qed
  }
qed

text \<open>So a text of an object that is cut off holds no value.\<close>

lemma json_cut_off:
  assumes "kvs \<noteq> []" and "k < length (json_text (object_of kvs))"
  shows "json_decode k (json_text (object_of kvs)) = None"
proof (rule ccontr)
  let ?t = "json_text (object_of kvs)"
  let ?n = "json_fuel ?t"
  assume "json_decode k ?t \<noteq> None"
  then obtain v r where f: "json_first (take k ?t) = Some (v, r)" and "r \<noteq> [] \<or> (\<forall>w. v \<noteq> JNumber w)"
    using assms(2) by (auto simp: json_decode_def split: option.splits if_splits json.splits)
  moreover have "json_value ?n 0 (take k ?t) = Some (v, r)"
    using f json_first_fuel [of "take k ?t" ?n] by (simp add: json_fuel_def del: json_value.simps)
  ultimately have "json_value ?n 0 (take k ?t @ drop k ?t) = Some (v, r @ drop k ?t)"
    using json_longer(1) by blast
  moreover have "json_value ?n 0 ?t = Some (object_of (valid_members kvs), [])"
    using json_first_text [OF assms(1), of "[]"] by (simp add: json_first_def del: json_value.simps json_text.simps)
  ultimately show False
    using assms(2) by simp
qed

end
