(* ===== verification/Client_Facts.thy ===== *)
theory Client_Facts
  imports Client Json_Facts
begin

text \<open>
  The hooks fail open and lose nothing. The first part shows that no error but a panic can leave the
  two hooks; the second that every step keeps the undelivered summaries: what is pending in the spool
  stays there until the server has accepted it.
\<close>

section \<open>Errors\<close>

definition no_panic :: "client_error \<Rightarrow> bool" where
  "no_panic e \<longleftrightarrow> e \<noteq> Panic"

abbreviation never :: "client_error \<Rightarrow> bool" where
  "never e \<equiv> False"

lemma raises_catching [raises_rules]:
  assumes "raises no_panic m" and "\<And>e. raises P (h e)" and "\<And>x. raises P (f x)"
  shows "raises P (catching m h f)"
  unfolding catching_def
  by (rule raises_handle [OF assms(1) _ assms(3)]) (simp add: no_panic_def assms(2))

lemma raises_disk [raises_rules]:
  "raises no_panic (client_WriteFile E path content)" "raises no_panic (client_Remove E path)"
  "raises no_panic (client_MkdirAll E path)" "raises P (client_print l)"
  by (auto simp: raises_def no_panic_def client_WriteFile_def client_Remove_def client_MkdirAll_def
      client_print_def Let_def split: if_splits)

lemma no_panic_errors [simp]:
  "no_panic (Client_Usage m)" "no_panic (Client_Exits n)" "no_panic Not_Logged_In" "no_panic Bad_Config" "no_panic Transport_Error"
  "no_panic (Server_Said n m)" "no_panic (Path_Status m n)" "no_panic Unbound" "no_panic (Server_Unreachable e)"
  "no_panic (No_Cache m e)" "no_panic (Disk_Error m)"
  by (simp_all add: no_panic_def)

lemma raises_loadClientConfig [raises_rules]: "raises no_panic (loadClientConfig E)"
  unfolding loadClientConfig_def Let_def
  by (intro raises_if raises_ret raises_reading raises_case_option raises_failwith) simp_all

lemma raises_boundProject [raises_rules]: "raises no_panic (boundProject E explicit)"
  unfolding boundProject_def
  by (intro raises_if raises_ret raises_reading raises_case_option raises_failwith) simp_all

lemma raises_do_request [raises_rules]: "(\<And>u. valid_url E u) \<Longrightarrow> raises no_panic (do_request E r)"
  by (auto simp: raises_def no_panic_def do_request_def Let_def split: if_splits option.splits)

lemma raises_fetchContext [raises_rules]: "(\<And>u. valid_url E u) \<Longrightarrow> raises no_panic (fetchContext E c project)"
  unfolding fetchContext_def Let_def
  by (intro raises_andThen raises_do_request raises_if raises_failwith raises_ret) simp_all

lemma raises_postSessionEnd [raises_rules]: "(\<And>u. valid_url E u) \<Longrightarrow> raises no_panic (postSessionEnd E entry)"
  unfolding postSessionEnd_def
  by (intro raises_andThen raises_loadClientConfig raises_do_request raises_if raises_failwith raises_ret) simp_all

lemma raises_from_cache [raises_rules]: "raises no_panic (from_cache E slug err)"
  unfolding from_cache_def by (intro raises_reading raises_case_option raises_failwith raises_ret) simp_all

lemma raises_pullContext [raises_rules]: "(\<And>u. valid_url E u) \<Longrightarrow> raises no_panic (pullContext E project)"
  unfolding pullContext_def
  by (intro raises_andThen raises_boundProject raises_catching raises_loadClientConfig raises_fetchContext
      raises_from_cache raises_ignoring raises_ret raises_case_prod)

lemma raises_drainSpool: "(\<And>u. valid_url E u) \<Longrightarrow> raises never (drainSpool E)"
  unfolding drainSpool_def drain_one_def Let_def
  by (intro raises_reading raises_andThen raises_forEach raises_case_option raises_ret raises_ignoring
      raises_catching raises_postSessionEnd)

lemma raises_spool: "raises never (spool E entry)"
  unfolding spool_def by (intro raises_andThen raises_ignoring raises_reading)

lemma never_fails: "raises never m \<Longrightarrow> \<exists>x s'. m s = (Inr x, s')"
  by (cases "m s"; cases "fst (m s)") (auto simp: raises_def)

lemma hook_start_total: "(\<And>u. valid_url E u) \<Longrightarrow> raises never (hook_session_start E)"
  unfolding hook_session_start_def
  by (intro raises_catching raises_pullContext raises_disk raises_case_prod raises_andThen)

lemma hook_end_total: "(\<And>u. valid_url E u) \<Longrightarrow> raises never (hook_session_end E)"
  unfolding hook_session_end_def
  by (intro raises_catching raises_boundProject raises_andThen raises_drainSpool raises_postSessionEnd raises_spool
      raises_ret)

section \<open>Starting a session\<close>

text \<open>Steps that only talk to the server: no file changes, nothing is printed.\<close>

definition only_sends :: "client \<Rightarrow> client \<Rightarrow> bool" where
  "only_sends s s' \<longleftrightarrow> files s' = files s \<and> printed s' = printed s \<and> (\<exists>new. sent s' = sent s @ new)"

interpretation os: two_state only_sends
  by unfold_locales (auto simp: only_sends_def)

lemma sends_do_request: "keeps only_sends (do_request E r)"
  by (auto simp: keeps_def do_request_def Let_def only_sends_def split: option.splits)

lemma sends_loadClientConfig: "keeps only_sends (loadClientConfig E)"
  unfolding loadClientConfig_def Let_def
  by (intro os.keeps_if os.keeps_ret os.keeps_reading os.keeps_case_option os.keeps_failwith)

lemma sends_boundProject: "keeps only_sends (boundProject E explicit)"
  unfolding boundProject_def
  by (intro os.keeps_if os.keeps_ret os.keeps_reading os.keeps_case_option os.keeps_failwith)

lemma sends_fetchContext: "keeps only_sends (fetchContext E c project)"
  unfolding fetchContext_def Let_def
  by (intro os.keeps_andThen sends_do_request os.keeps_if os.keeps_failwith os.keeps_ret)

lemma sends_postSessionEnd: "keeps only_sends (postSessionEnd E entry)"
  unfolding postSessionEnd_def
  by (intro os.keeps_andThen sends_do_request sends_loadClientConfig os.keeps_if os.keeps_failwith os.keeps_ret)

lemma prints_nothing:
  "printed (snd (client_WriteFile E path content s)) = printed s"
  "printed (snd (client_MkdirAll E path s)) = printed s"
  by (simp_all add: client_WriteFile_def client_MkdirAll_def Let_def)

text \<open>What a run of \<open>pullContext\<close> may return, given the cache when it started.\<close>

definition pull_result :: "client_env \<Rightarrow> client \<Rightarrow> string \<Rightarrow> (client_error + string \<times> status_line) \<Rightarrow> bool" where
  "pull_result E s slug r \<longleftrightarrow> (case r of
       Inl e \<Rightarrow> e = Panic \<or> os_ReadFile (cache_path E slug) s = None
     | Inr (text, Stale err slug') \<Rightarrow> os_ReadFile (cache_path E slug) s = Some text
     | Inr (text, Loaded version slug') \<Rightarrow> True)"

lemma from_cache_result:
  "files s1 = files s \<Longrightarrow> from_cache E slug err s1 = (r, s') \<Longrightarrow> pull_result E s slug r \<and> s' = s1"
  by (auto simp: from_cache_def reading_def os_ReadFile_def pull_result_def split: option.splits)

lemma pullContext_result:
  assumes "boundProject E '''' s = (Inr slug, s1)" and "pullContext E '''' s = (r, s')"
  shows "pull_result E s slug r \<and> printed s' = printed s"
proof -
  have b: "files s1 = files s" "printed s1 = printed s"
    using keepsD [OF sends_boundProject, of s E "''''"] assms(1) by (auto simp: only_sends_def)
  obtain x s2 where x: "loadClientConfig E s1 = (x, s2)" by fastforce
  have c: "files s2 = files s" "printed s2 = printed s"
    using keepsD [OF sends_loadClientConfig, of s1 E] x b by (auto simp: only_sends_def)
  let ?rest = "\<lambda>c. catching (fetchContext E c slug) (from_cache E slug) (\<lambda>(body, version).
       andThen (ignoring (client_MkdirAll E (filepath_Dir (cache_path E slug)))) (\<lambda>_.
       andThen (ignoring (client_WriteFile E (cache_path E slug) body)) (\<lambda>_.
       ret (body, Loaded version slug))))"
  have run: "catching (loadClientConfig E) (from_cache E slug) ?rest s1 = (r, s')"
    using assms by (simp add: pullContext_def andThen_def)
  show ?thesis
  proof (cases x)
    case (Inl e)
    then show ?thesis
      using run x c from_cache_result [of s2 s E slug e r s']
      by (auto simp: catching_def handle_def pull_result_def split: if_splits)
  next
    case (Inr conf)
    obtain y s3 where y: "fetchContext E conf slug s2 = (y, s3)" by fastforce
    have d: "files s3 = files s" "printed s3 = printed s"
      using keepsD [OF sends_fetchContext, of s2 E conf slug] y c by (auto simp: only_sends_def)
    have run2: "?rest conf s2 = (r, s')"
      using run x Inr by (simp add: catching_def handle_def)
    show ?thesis
    proof (cases y)
      case (Inl e)
      then show ?thesis
        using run2 y d from_cache_result [of s3 s E slug e r s']
        by (auto simp: catching_def handle_def pull_result_def split: if_splits)
    next
      case (Inr bv)
      obtain body version where bv: "bv = (body, version)" by (cases bv)
      have "r = Inr (body, Loaded version slug)" "printed s' = printed s"
        using run2 y Inr bv d by (auto simp: catching_def handle_def andThen_def prints_nothing)
      then show ?thesis by (simp add: pull_result_def)
    qed
  qed
qed

lemma session_start_cached:
  assumes "\<And>u. valid_url E u" and "boundProject E '''' s = (Inr slug, s1)"
    and "os_ReadFile (cache_path E slug) s = Some cached"
  shows "\<exists>s' status text. cmdHook E (''session-start'' # args) s = (Inr (), s')
    \<and> printed s' = printed s @ [Status status, Line '''', Line text]
    \<and> (\<forall>err slug'. status = Stale err slug' \<longrightarrow> text = cached)"
proof -
  obtain r s2 where p: "pullContext E '''' s = (r, s2)" by fastforce
  then have res: "pull_result E s slug r" "printed s2 = printed s"
    using pullContext_result [OF assms(2)] by auto
  obtain body status where r: "r = Inr (body, status)"
  proof (cases r)
    case (Inl e)
    have "no_panic e"
      by (rule raisesD [OF raises_pullContext [OF assms(1)] p [unfolded Inl]])
    then have False
      using res(1) assms(3) by (simp add: Inl pull_result_def no_panic_def)
    then show thesis ..
  qed (use that in \<open>cases "projr r"; auto\<close>)
  have "status = Stale err slug' \<longrightarrow> body = cached" for err slug'
    using res(1) assms(3) by (auto simp: r pull_result_def)
  moreover have "cmdHook E (''session-start'' # args) s
      = (Inr (), s2\<lparr>printed := printed s @ [Status status, Line '''', Line body]\<rparr>)"
    using p r res(2) by (simp add: cmdHook_def hook_session_start_def catching_def handle_def andThen_def client_print_def)
  ultimately show ?thesis by auto
qed


definition sample_client_env :: "(string \<Rightarrow> string) \<Rightarrow> (nat \<Rightarrow> http_request \<Rightarrow> http_answer option) \<Rightarrow> client_env" where
  "sample_client_env vars net = \<lparr> Getenv = vars, UserHomeDir = Some ''/home/ana'', Getwd = ''/home/ana/web'', Hostname = ''laptop'',
     network = net, disk_ok = (\<lambda>_ _. True), torn = (\<lambda>_ _. None), valid_url = (\<lambda>_. True),
     new_uuid = (\<lambda>_. ''u''), rune_isPrint = (\<lambda>_. False) \<rparr>"

text \<open>A directory bound to project web, a cached context, no network.\<close>

definition sample_vars :: "string \<Rightarrow> string" where
  "sample_vars k = (if k = ''UBIQO_PROJECT'' then ''web'' else if k = ''UBIQO_SERVER_URL'' then ''https://u.example''
     else if k = ''UBIQO_TOKEN'' then ''ubq_1'' else if k = ''UBIQO_SESSION_SUMMARY'' then ''did it'' else '''')"

definition sample_offline :: client_env where
  "sample_offline = sample_client_env sample_vars (\<lambda>_ _. None)"

definition sample_client :: client where
  "sample_client = \<lparr> files = [(''/home/ana/.ubiqo/cache/web.ctx'', ''old context''),
       (''/home/ana/.ubiqo/spool/a.json'', summary_json (''web'', ''earlier''))], client_tick = 0, sent = [], printed = [] \<rparr>"


section \<open>Ending a session\<close>

text \<open>
  A summary is pending when a file of the spool holds it, and delivered when a request with it was
  answered without an error status.
\<close>

definition pending :: "client_env \<Rightarrow> string \<times> string \<Rightarrow> client \<Rightarrow> bool" where
  "pending E entry s \<longleftrightarrow> (\<exists>nm content. os_ReadFile (filepath_Join [spool_dir E, nm]) s = Some content
     \<and> json_summary content = Some entry)"

definition delivered :: "client_env \<Rightarrow> string \<times> string \<Rightarrow> client \<Rightarrow> bool" where
  "delivered E entry s \<longleftrightarrow> (\<exists>c answer. (post_request E c entry, Some answer) \<in> set (sent s) \<and> ha_status answer < 300)"

definition keeps_pending :: "client_env \<Rightarrow> client \<Rightarrow> client \<Rightarrow> bool" where
  "keeps_pending E s s' \<longleftrightarrow> (\<exists>new. sent s' = sent s @ new)
     \<and> (\<forall>path content entry. map_of (files s) path = Some content \<and> json_summary content = Some entry \<longrightarrow>
          map_of (files s') path = Some content \<or> delivered E entry s')"

text \<open>Draining the spool also makes no new file.\<close>

definition drains :: "client_env \<Rightarrow> client \<Rightarrow> client \<Rightarrow> bool" where
  "drains E s s' \<longleftrightarrow> keeps_pending E s s'
     \<and> (\<forall>path. map_of (files s) path = None \<longrightarrow> map_of (files s') path = None)"

lemma delivered_mono: "delivered E entry s \<Longrightarrow> sent s' = sent s @ new \<Longrightarrow> delivered E entry s'"
  by (auto simp: delivered_def)

lemma keeps_pending_trans:
  assumes "keeps_pending E s t" and "keeps_pending E t u"
  shows "keeps_pending E s u"
proof -
  have "delivered E entry t \<Longrightarrow> delivered E entry u" for entry
    using assms(2) delivered_mono unfolding keeps_pending_def by blast
  then show ?thesis
    using assms unfolding keeps_pending_def by (metis append_assoc)
qed

interpretation pe: two_state "keeps_pending E" for E
  by unfold_locales (simp add: keeps_pending_def, rule keeps_pending_trans)

interpretation dr: two_state "drains E" for E
  by unfold_locales (auto simp: drains_def pe.step_refl intro: keeps_pending_trans)

lemma pending_only_sends: "keeps only_sends m \<Longrightarrow> keeps (keeps_pending E) m"
  by (auto simp: keeps_def only_sends_def keeps_pending_def)

lemma map_of_set_file: "map_of (set_file path content fs) = (map_of fs)(path := content)"
proof -
  have "map_of (filter (\<lambda>f. fst f \<noteq> path) fs) = (map_of fs)(path := None)"
    by (induction fs) auto
  then show ?thesis
    by (auto simp: set_file_def fun_eq_iff split: option.splits)
qed

lemma postSessionEnd_Inr:
  assumes "postSessionEnd E entry s = (Inr u, s')"
  shows "delivered E entry s'"
proof -
  obtain c s1 a where "do_request E (post_request E c entry) s1 = (Inr a, s')" "ha_status a < 300"
    using assms by (auto simp: postSessionEnd_def andThen_Inr split: if_splits)
  then show ?thesis
    unfolding delivered_def by (intro exI [of _ c] exI [of _ a]) (auto simp: do_request_def Let_def split: if_splits option.splits)
qed

lemma pending_drain_one: "keeps (drains E) (drain_one E nm)"
proof (rule keepsI)
  fix s
  let ?path = "filepath_Join [spool_dir E, nm]"
  show "drains E s (snd (drain_one E nm s))"
  proof (cases "os_ReadFile ?path s")
    case None
    then show ?thesis by (simp add: drain_one_def reading_def Let_def dr.step_refl)
  next
    case (Some b)
    show ?thesis
    proof (cases "json_summary b")
      case None
      with Some show ?thesis
        by (auto simp: drain_one_def reading_def client_Remove_def Let_def drains_def keeps_pending_def map_of_set_file os_ReadFile_def)
    next
      case entry: (Some entry)
      obtain r s1 where p: "postSessionEnd E entry s = (r, s1)" by fastforce
      have q: "only_sends s s1"
        using keepsD [OF sends_postSessionEnd, of s E entry] p by simp
      then have k: "drains E s s1"
        by (auto simp: only_sends_def drains_def keeps_pending_def)
      show ?thesis
      proof (cases r)
        case (Inl e)
        then have "snd (drain_one E nm s) = s1"
          using Some entry p by (simp add: drain_one_def reading_def catching_def handle_def Let_def)
        then show ?thesis using k by simp
      next
        case (Inr u)
        then have "snd (drain_one E nm s) = snd (client_Remove E ?path s1)"
          using Some entry p by (simp add: drain_one_def reading_def catching_def handle_def Let_def)
        moreover have "delivered E entry s1"
          using postSessionEnd_Inr p Inr by blast
        ultimately show ?thesis
          using q Some entry
          by (auto simp: client_Remove_def Let_def drains_def keeps_pending_def only_sends_def map_of_set_file os_ReadFile_def
              delivered_def)
      qed
    qed
  qed
qed

lemma pending_drainSpool: "keeps (drains E) (drainSpool E)"
  unfolding drainSpool_def
  by (intro dr.keeps_reading dr.keeps_andThen dr.keeps_forEach pending_drain_one dr.keeps_ret)

lemma pending_mono:
  "keeps_pending E s s' \<Longrightarrow> pending E entry s \<Longrightarrow> pending E entry s' \<or> delivered E entry s'"
  unfolding keeps_pending_def pending_def os_ReadFile_def by metis

text \<open>The spooling of a summary under a new name.\<close>

lemma spool_fresh:
  assumes "\<And>n. map_of (files s) (filepath_Join [spool_dir E, new_uuid E n @ ''.json'']) = None"
    and "json_summary (summary_json entry) = Some entry"
  shows "keeps_pending E s (snd (spool E entry s))
    \<and> ((\<forall>n path. disk_ok E n path) \<longrightarrow> pending E entry (snd (spool E entry s)))"
proof -
  obtain s1 n where s1: "files s1 = files s" "sent s1 = sent s"
    and run: "snd (spool E entry s) = snd (client_WriteFile E
        (filepath_Join [spool_dir E, new_uuid E n @ ''.json'']) (summary_json entry) s1)"
  proof
    let ?s1 = "snd (client_MkdirAll E (spool_dir E) s)"
    show "files ?s1 = files s" "sent ?s1 = sent s"
      by (simp_all add: client_MkdirAll_def Let_def)
    show "snd (spool E entry s) = snd (client_WriteFile E
        (filepath_Join [spool_dir E, new_uuid E (client_tick ?s1) @ ''.json'']) (summary_json entry) ?s1)"
      by (simp add: spool_def andThen_def reading_def)
  qed
  let ?p = "filepath_Join [spool_dir E, new_uuid E n @ ''.json'']"
  show ?thesis
  proof (intro conjI impI)
    have "\<forall>path content. map_of (files s) path = Some content \<longrightarrow> path \<noteq> ?p"
      using assms(1) [of n] by auto
    then show "keeps_pending E s (snd (spool E entry s))"
      using assms(1) s1 unfolding run
      by (auto simp: keeps_pending_def client_WriteFile_def Let_def map_of_set_file)
    assume "\<forall>n path. disk_ok E n path"
    then show "pending E entry (snd (spool E entry s))"
      using assms(2) unfolding run pending_def
      by (intro exI [of _ "new_uuid E n @ ''.json''"] exI [of _ "summary_json entry"])
        (simp add: client_WriteFile_def Let_def os_ReadFile_def map_of_set_file)
  qed
qed

lemma session_end_runs:
  assumes "boundProject E '''' s = (Inr slug, s1)" and "drainSpool E s1 = (Inr u, s2)"
    and "postSessionEnd E (slug, session_summary E) s2 = (r, s3)"
  shows "snd (cmdHook E (''session-end'' # args) s)
    = (case r of Inr _ \<Rightarrow> s3 | Inl e \<Rightarrow> if e = Panic then s3 else snd (spool E (slug, session_summary E) s3))"
  using assms
  by (auto simp: cmdHook_def hook_session_end_def catching_def handle_def andThen_def split: sum.splits)

text \<open>What the client writes as JSON it reads back.\<close>

lemma client_fields_valid:
  "to_valid ''project'' = ''project''" "to_valid ''summary'' = ''summary''" "to_valid ''server'' = ''server''"
  "to_valid ''token'' = ''token''"
  by code_simp+

lemma json_summary_round_trip: "json_summary (summary_json (project, summary)) = Some (to_valid project, to_valid summary)"
  using Unmarshal_map_text [of "[(''project'', project), (''summary'', summary)]"]
  by (simp add: json_summary_def summary_json_def valid_members_def client_fields_valid field_of_def del: json_text.simps)

lemma json_config_round_trip:
  "json_config (config_json c) = Some \<lparr> CC_Server = to_valid (CC_Server c), CC_Token = to_valid (CC_Token c) \<rparr>"
  using Unmarshal_struct_indented [of "[(''server'', CC_Server c), (''token'', CC_Token c)]" "[''server'', ''token'']" "[]"]
  by (simp add: json_config_def config_json_def valid_members_def client_fields_valid field_of_def del: json_indented.simps)

lemma json_binding_round_trip: "json_binding (binding_json project @ [CHR 10]) = Some (to_valid project)"
  using Unmarshal_struct_indented [of "[(''project'', project)]" "[''project'']" "[CHR 10]"]
  by (simp add: json_binding_def binding_json_def valid_members_def client_fields_valid field_of_def json_space_def
      del: json_indented.simps)



end
