(* ===== verification/Mcp.thy ===== *)
theory Mcp
  imports Core_Safety Json
begin

text \<open>
  The MCP tools, \<open>internal/mcpserver/mcpserver.go\<close>. A tool call is given after the SDK has decoded
  it: the tool and its input (\<open>tool_call\<close>, one constructor per tool with the fields of its input
  struct). \<open>New\<close> registers the tools with the action each declares; \<open>run_tool\<close> is the closure
  that \<open>reg\<close> wraps around each handler. The lemmas show that what a tool declares is what its
  method is gated by, and what an agent gets to see.
\<close>

section \<open>Calls and results\<close>

datatype tool_call =
    Whoami
  | Get_Context string string
  | List_Artifacts string
  | Read_Artifact string string string string
  | Write_Artifact string string string "File list"
  | Propose_Merge string string string
  | List_Proposals string string bool
  | Merge_Proposal string string
  | Release_Artifact string string string string
  | Remember_Fact string string string
  | Recall_Facts string string int
  | Get_Activity string int

datatype tool_output =
    WhoAmI_Out WhoAmI
  | Context_Out ContextBundle
  | Artifacts_Out "ArtifactInfo list"
  | Content_Out ArtifactContent
  | Write_Out WriteResult
  | Proposal_Out ProposalResult
  | Proposals_Out "ProposalView list"
  | Merge_Out MergeOutcome
  | Release_Out ReleaseResult
  | Memory_Out MemoryResult
  | Recall_Out RecallResult
  | Activity_Out ActivityResult

text \<open>
  What goes back to the agent: the output, or a tool error. The JSON of an error is the denial, or a
  \<open>reason\<close> that is the text of the error.
\<close>

datatype tool_result =
    Tool_Output tool_output
  | Tool_Unauthenticated
  | Tool_Denied Denial
  | Tool_Reason goerr

text \<open>
  The text of a tool error, an indented object; the text of errors other than denials is not modelled.
\<close>

definition denial_object :: "Denial \<Rightarrow> json" where
  "denial_object d = object_of ([(''reason'', Reason d), (''caller_role'', CallerRole d)]
     @ (if Alternative d = '''' then [] else [(''allowed_alternative'', Alternative d)]))"

definition unauthenticated_object :: json where
  "unauthenticated_object = object_of
     [(''fix'', ''connect with Authorization: Bearer <ubq_...> (create one with `ubiqo device create`)''),
      (''reason'', ''unauthenticated: no valid device token on this connection'')]"

definition errResult :: "json \<Rightarrow> string" where
  "errResult v = json_indented 0 v"

fun tool_error_text :: "tool_result \<Rightarrow> string option" where
  "tool_error_text (Tool_Output _) = None"
| "tool_error_text Tool_Unauthenticated = Some (errResult unauthenticated_object)"
| "tool_error_text (Tool_Denied d) = Some (errResult (denial_object d))"
| "tool_error_text (Tool_Reason _) = None"

section \<open>Registration\<close>

fun tool_name :: "tool_call \<Rightarrow> string" where
  "tool_name Whoami = ''ubiqo_whoami''"
| "tool_name (Get_Context _ _) = ''ubiqo_get_context''"
| "tool_name (List_Artifacts _) = ''ubiqo_list_artifacts''"
| "tool_name (Read_Artifact _ _ _ _) = ''ubiqo_read_artifact''"
| "tool_name (Write_Artifact _ _ _ _) = ''ubiqo_write_artifact''"
| "tool_name (Propose_Merge _ _ _) = ''ubiqo_propose_merge''"
| "tool_name (List_Proposals _ _ _) = ''ubiqo_list_proposals''"
| "tool_name (Merge_Proposal _ _) = ''ubiqo_merge_proposal''"
| "tool_name (Release_Artifact _ _ _ _) = ''ubiqo_release_artifact''"
| "tool_name (Remember_Fact _ _ _) = ''ubiqo_remember''"
| "tool_name (Recall_Facts _ _ _) = ''ubiqo_recall''"
| "tool_name (Get_Activity _ _) = ''ubiqo_get_activity''"

text \<open>The calls of \<open>reg\<close> in \<open>New\<close>: name and action, in order.\<close>

definition registrations :: "(string \<times> Action) list" where
  "registrations =
     [(''ubiqo_whoami'', ContextRead),
      (''ubiqo_get_context'', ContextRead),
      (''ubiqo_list_artifacts'', ArtifactRead),
      (''ubiqo_read_artifact'', ArtifactRead),
      (''ubiqo_write_artifact'', ArtifactWrite),
      (''ubiqo_propose_merge'', ProposalCreate),
      (''ubiqo_list_proposals'', ArtifactRead),
      (''ubiqo_merge_proposal'', ProposalMerge),
      (''ubiqo_release_artifact'', ReleaseCreate),
      (''ubiqo_remember'', MemoryWrite),
      (''ubiqo_recall'', MemoryRead),
      (''ubiqo_get_activity'', ActivityRead)]"

text \<open>One \<open>reg\<close>: on the tools already seen and the package's \<open>Registry\<close>; \<open>None\<close> is the panic.\<close>

definition reg ::
  "string \<times> Action \<Rightarrow> string list \<times> (string \<rightharpoonup> Action) \<Rightarrow> (string list \<times> (string \<rightharpoonup> Action)) option" where
  "reg t sr = (case t of (tool, action) \<Rightarrow> case sr of (seen, registry) \<Rightarrow>
     if tool \<in> set seen then None else Some (tool # seen, registry(tool \<mapsto> action)))"

fun reg_all ::
  "(string \<times> Action) list \<Rightarrow> string list \<times> (string \<rightharpoonup> Action) \<Rightarrow> (string list \<times> (string \<rightharpoonup> Action)) option" where
  "reg_all [] sr = Some sr"
| "reg_all (t # ts) sr = Option.bind (reg t sr) (reg_all ts)"

text \<open>\<open>New\<close> starts with no tool seen; the registry is package state and may hold earlier entries.\<close>

definition New :: "(string \<rightharpoonup> Action) \<Rightarrow> (string list \<times> (string \<rightharpoonup> Action)) option" where
  "New registry = reg_all registrations ([], registry)"

section \<open>The handlers\<close>

text \<open>The default of \<open>ubiqo_list_proposals\<close>: the empty status is open ones, \<open>all\<close> is no filter.\<close>

definition proposals_status :: "string \<Rightarrow> string" where
  "proposals_status s =
     (let status = s;
          status = (if status = '''' then ''open'' else status);
          status = (if status = ''all'' then '''' else status) in status)"

definition giving :: "('a \<Rightarrow> tool_output) \<Rightarrow> ('s, 'a) go \<Rightarrow> ('s, tool_output) go" where
  "giving out m = andThen m (\<lambda>x. ret (out x))"

fun tool_handler :: "'w Service \<Rightarrow> Actor \<Rightarrow> tool_call \<Rightarrow> ('w sys, tool_output) go" where
  "tool_handler S a Whoami = giving WhoAmI_Out (Svc_WhoAmI S a)"
| "tool_handler S a (Get_Context project section) = giving Context_Out (Svc_GetContext S a project section)"
| "tool_handler S a (List_Artifacts project) = giving Artifacts_Out (Svc_ListArtifacts S a project)"
| "tool_handler S a (Read_Artifact project artifact ref path) =
     giving Content_Out (Svc_ReadArtifact S a project artifact ref path)"
| "tool_handler S a (Write_Artifact project artifact message files) =
     giving Write_Out (Svc_WriteArtifact S a project artifact message files)"
| "tool_handler S a (Propose_Merge project artifact summary) =
     giving Proposal_Out (Svc_ProposeMerge S a project artifact summary)"
| "tool_handler S a (List_Proposals project status withDiff) =
     giving Proposals_Out (Svc_ListProposals S a project (proposals_status status) withDiff)"
| "tool_handler S a (Merge_Proposal project proposalID) =
     giving Merge_Out (Svc_MergeProposal S a project proposalID)"
| "tool_handler S a (Release_Artifact project artifact bump notes) =
     giving Release_Out (Svc_ReleaseArtifact S a project artifact bump notes)"
| "tool_handler S a (Remember_Fact project scope content) =
     giving Memory_Out (Svc_Remember S a project scope content)"
| "tool_handler S a (Recall_Facts project q limit) = giving Recall_Out (Svc_Recall S a project q limit)"
| "tool_handler S a (Get_Activity project limit) = giving Activity_Out (Svc_Activity S a project limit)"

text \<open>The closure given to the SDK: actor lookup, handler, error mapping.\<close>

definition error_result :: "goerr \<Rightarrow> tool_result" where
  "error_result e = (case is_denial e of Some d \<Rightarrow> Tool_Denied d | None \<Rightarrow> Tool_Reason e)"

definition run_tool :: "'w Service \<Rightarrow> Actor option \<Rightarrow> tool_call \<Rightarrow> 'w sys \<Rightarrow> tool_result \<times> 'w sys" where
  "run_tool S actor c w =
     (case actor of
        None \<Rightarrow> (Tool_Unauthenticated, w)
      | Some a \<Rightarrow>
          (case tool_handler S a c w of
             (Inl e, w') \<Rightarrow> (error_result e, w')
           | (Inr out, w') \<Rightarrow> (Tool_Output out, w')))"

section \<open>Facts\<close>

text \<open>The project a call names, if its input has one.\<close>

fun tool_project :: "tool_call \<Rightarrow> string option" where
  "tool_project Whoami = None"
| "tool_project (Get_Context p _) = Some p"
| "tool_project (List_Artifacts p) = Some p"
| "tool_project (Read_Artifact p _ _ _) = Some p"
| "tool_project (Write_Artifact p _ _ _) = Some p"
| "tool_project (Propose_Merge p _ _) = Some p"
| "tool_project (List_Proposals p _ _) = Some p"
| "tool_project (Merge_Proposal p _) = Some p"
| "tool_project (Release_Artifact p _ _ _) = Some p"
| "tool_project (Remember_Fact p _ _) = Some p"
| "tool_project (Recall_Facts p _ _) = Some p"
| "tool_project (Get_Activity p _) = Some p"

lemma reg_all_Some:
  "distinct (map fst ts) \<Longrightarrow> set (map fst ts) \<inter> set seen = {} \<Longrightarrow>
     reg_all ts (seen, r) = Some (rev (map fst ts) @ seen, r ++ map_of ts)"
proof (induction ts arbitrary: seen r)
  case (Cons t ts)
  obtain n action where t: "t = (n, action)" by (cases t)
  have n: "n \<notin> dom (map_of ts)" and "n \<notin> set seen"
    using Cons.prems by (auto simp: t dom_map_of_conv_image_fst)
  have "reg_all ts (n # seen, r(n \<mapsto> action)) = Some (rev (map fst ts) @ n # seen, r(n \<mapsto> action) ++ map_of ts)"
    using Cons.prems n by (intro Cons.IH) (auto simp: t dom_map_of_conv_image_fst)
  then show ?case
    using \<open>n \<notin> set seen\<close> map_add_upd_left [OF n, of r action]
    by (simp add: t reg_def del: fun_upd_apply)
qed simp

lemma registered: "New r = Some (rev (map fst registrations), r ++ map_of registrations)"
  unfolding New_def by (subst reg_all_Some) (simp_all add: registrations_def)

lemma declared:
  "map_of registrations (tool_name c) = Some action \<longleftrightarrow>
     action = (case c of Whoami \<Rightarrow> ContextRead | Get_Context _ _ \<Rightarrow> ContextRead | List_Artifacts _ \<Rightarrow> ArtifactRead
       | Read_Artifact _ _ _ _ \<Rightarrow> ArtifactRead | Write_Artifact _ _ _ _ \<Rightarrow> ArtifactWrite
       | Propose_Merge _ _ _ \<Rightarrow> ProposalCreate | List_Proposals _ _ _ \<Rightarrow> ArtifactRead
       | Merge_Proposal _ _ \<Rightarrow> ProposalMerge | Release_Artifact _ _ _ _ \<Rightarrow> ReleaseCreate
       | Remember_Fact _ _ _ \<Rightarrow> MemoryWrite | Recall_Facts _ _ _ \<Rightarrow> MemoryRead
       | Get_Activity _ _ \<Rightarrow> ActivityRead)"
  unfolding registrations_def by (cases c) auto

lemma giving_apply:
  "giving out m w = (case m w of (Inl e, w') \<Rightarrow> (Inl e, w') | (Inr x, w') \<Rightarrow> (Inr (out x), w'))"
  by (simp add: giving_def andThen_def split: sum.splits prod.splits)

lemma giving_outcome [simp]: "outcome (giving out m w) = outcome (m w)" "snd (giving out m w) = snd (m w)"
  by (auto simp: giving_apply outcome_def split: sum.splits prod.splits)

lemma run_tool_Some:
  "run_tool S (Some a) c w = (case fst (tool_handler S a c w) of Inl e \<Rightarrow> error_result e | Inr x \<Rightarrow> Tool_Output x,
     snd (tool_handler S a c w))"
  by (auto simp: run_tool_def split: sum.splits prod.splits)

lemma tool_svc_call:
  assumes "tool_project c = Some slug" and "map_of registrations (tool_name c) = Some action"
  shows "svc_call S a slug action w (outcome (tool_handler S a c w)) (snd (tool_handler S a c w))"
  using assms unfolding declared
  by (cases c) (simp_all, (rule svc_call.intros, rule refl)+)



lemma authorized_resolved:
  "projectCtx S a slug w = (Inr (p, role), w1) \<Longrightarrow>
     authorized S a slug action body w
       = (case Can role action of Some d \<Rightarrow> (Inl (Denied d), w1) | None \<Rightarrow> body p role w1)"
  by (simp add: authorized_def andThen_def gate_def split: option.split)

text \<open>
  A denial comes back as the structured denial of the policy, and nothing happens. If the
  caller's role on the project does not allow the action its tool declares, the agent gets exactly
  the denial that \<open>Can\<close> makes for that role and action, no table changes and git is not touched.
  Without an actor no tool runs at all.
\<close>

theorem denied_tools_do_nothing:
  assumes "tool_project c = Some slug" and "map_of registrations (tool_name c) = Some action"
    and "projectCtx S a slug w = (Inr (p, role), w1)" and "Can role action = Some d"
  shows "run_tool S (Some a) c w = (Tool_Denied d, w1) \<and> untouched w w1
    \<and> run_tool S None c w = (Tool_Unauthenticated, w)"
proof (intro conjI)
  have "tool_handler S a c w = (Inl (Denied d), w1)"
    using assms(1,2,4) unfolding declared
    by (cases c) (simp_all add: giving_apply Svc_defs authorized_resolved [OF assms(3)])
  then show "run_tool S (Some a) c w = (Tool_Denied d, w1)"
    by (simp add: run_tool_def error_result_def is_denial_def)
  show "untouched w w1"
    using keepsD [OF projectCtx_untouched, of w S a slug] assms(3) by simp
qed (simp add: run_tool_def)

theorem denied_tools_do_nothing_witness:
  "fst (run_tool sample_service (Some sample_bob) (Merge_Proposal ''web'' ''7'') sample_sys)
     = Tool_Denied (the (Can '''' ProposalMerge))
   \<and> sys_git (snd (run_tool sample_service (Some sample_bob) (Merge_Proposal ''web'' ''7'') sample_sys)) = sample_git"
proof -
  have ctx: "(case fst (projectCtx sample_service sample_bob ''web'' sample_sys) of Inr (p, role) \<Rightarrow> role = '''' | _ \<Rightarrow> False)"
    by code_simp
  then obtain p w1 where c: "projectCtx sample_service sample_bob ''web'' sample_sys = (Inr (p, ''''), w1)"
    by (cases "projectCtx sample_service sample_bob ''web'' sample_sys") (auto split: sum.splits)
  have d: "Can '''' ProposalMerge = Some (the (Can '''' ProposalMerge))"
    using sample_roles(3) by auto
  have m: "map_of registrations (tool_name (Merge_Proposal ''web'' ''7'')) = Some ProposalMerge"
    by (subst declared) simp
  from denied_tools_do_nothing [OF _ m c d] show ?thesis
    by (simp add: untouched_def sample_sys_def)
qed

end
