(* ===== verification/Http.thy ===== *)
theory Http
  imports Mcp Json
begin

text \<open>
  The HTTP surface, \<open>internal/httpapi/httpapi.go\<close>: routing, the bearer middleware, the handlers and
  the instrumentation around them. A request is what the handlers read of it. What the program takes
  from libraries is the record \<open>sdk\<close>: the MCP handler's decoding of a request into tool calls and
  its reply, and the metrics page. The requests are
  those that the server's mux serves without a redirect (their path is clean).
\<close>

section \<open>Requests, responses, state\<close>

record request =
  req_method :: string
  req_path :: string
  req_auth :: string
  req_query :: "string \<Rightarrow> string"
  req_body :: string

datatype body =
    Text string
  | Error_Text string goerr       \<comment> \<open>a prefix, the text of an error, a newline\<close>
  | Denial_JSON Denial
  | JSON_Map "(string \<times> string) list"
  | Opaque string                 \<comment> \<open>written by a library handler\<close>

record response =
  resp_code :: nat
  resp_headers :: "(string \<times> string) list"
  resp_body :: body

text \<open>
  The state behind the handler: the service's, the counters of the metrics and the log.
\<close>

record 'w web =
  web_sys :: "'w sys"
  reqs :: "string \<times> string \<Rightarrow> nat"
  auth_failures :: nat
  web_log :: "(string \<times> string \<times> nat) list"

record sdk =
  sdk_calls :: "request \<Rightarrow> tool_call list"
  sdk_reply :: "request \<Rightarrow> tool_result list \<Rightarrow> response"
  metrics_page :: "request \<Rightarrow> (string \<times> string \<Rightarrow> nat) \<Rightarrow> nat \<Rightarrow> response"

record 'w Server =
  Svc :: "'w Service"
  Public :: string
  Sdk :: sdk

type_synonym 'w http_handler = "request \<Rightarrow> 'w web \<Rightarrow> response \<times> 'w web"

definition MinCLIVersion :: string where
  "MinCLIVersion = ''0.1.0''"

definition on_sys :: "('w sys \<Rightarrow> 'r \<times> 'w sys) \<Rightarrow> 'w web \<Rightarrow> 'r \<times> 'w web" where
  "on_sys m w = (case m (web_sys w) of (r, s) \<Rightarrow> (r, w\<lparr>web_sys := s\<rparr>))"

text \<open>\<open>http.Error\<close>: plain text with a newline (which an \<open>Error_Text\<close> includes).\<close>

definition plain_headers :: "(string \<times> string) list" where
  "plain_headers = [(''Content-Type'', ''text/plain; charset=utf-8''), (''X-Content-Type-Options'', ''nosniff'')]"

definition http_Error :: "body \<Rightarrow> nat \<Rightarrow> response" where
  "http_Error msg code = \<lparr> resp_code = code, resp_headers = plain_headers,
     resp_body = (case msg of Text s \<Rightarrow> Text (s @ newline) | b \<Rightarrow> b) \<rparr>"

definition json_headers :: "(string \<times> string) list" where
  "json_headers = [(''Content-Type'', ''application/json'')]"

text \<open>
  The bytes of a body: \<open>Encode\<close> writes a newline after the value. Those of an error's text and of a library
  are not modelled.
\<close>

definition body_bytes :: "body \<Rightarrow> string option" where
  "body_bytes b = (case b of
       Text s \<Rightarrow> Some s
     | Denial_JSON d \<Rightarrow> Some (json_text (denial_object d) @ newline)
     | JSON_Map kvs \<Rightarrow> Some (json_text (object_of (sort_key fst kvs)) @ newline)
     | Error_Text _ _ \<Rightarrow> None
     | Opaque _ \<Rightarrow> None)"

section \<open>Open endpoints\<close>

definition healthz :: "'w http_handler" where
  "healthz r w = (\<lparr> resp_code = 200, resp_headers = [], resp_body = Text (''ok'' @ newline) \<rparr>, w)"

text \<open>\<open>Ping\<close> of the pool is an empty statement.\<close>

definition DB_Ping :: "dbms \<Rightarrow> (db, unit) go" where
  "DB_Ping E = query E [] (\<lambda>_. ())"

definition readyz :: "'w Server \<Rightarrow> 'w http_handler" where
  "readyz S r w =
     (case on_sys (onDB (DB_Ping (DB (Svc S)))) w of
        (Inl e, w) \<Rightarrow> (http_Error (Error_Text ''postgres: '' e) 503, w)
      | (Inr _, w) \<Rightarrow>
          (case on_sys (onGit (Git_HealthCheck (Git (Svc S)))) w of
             (Inl e, w) \<Rightarrow> (http_Error (Error_Text ''git data dir: '' e) 503, w)
           | (Inr _, w) \<Rightarrow> (\<lparr> resp_code = 200, resp_headers = [], resp_body = Text (''ready'' @ newline) \<rparr>, w)))"

definition meta :: "'w Server \<Rightarrow> 'w http_handler" where
  "meta S r w =
     (\<lparr> resp_code = 200, resp_headers = json_headers,
        resp_body = JSON_Map [(''server'', ''ubiqo''), (''server_version'', Svc_Version (Svc S)),
          (''min_cli_version'', MinCLIVersion), (''mcp_url'', Public S @ ''/mcp'')] \<rparr>, w)"

definition metrics :: "'w Server \<Rightarrow> 'w http_handler" where
  "metrics S r w = (metrics_page (Sdk S) r (reqs w) (auth_failures w), w)"

section \<open>The bearer middleware\<close>

definition actor_of :: "TokenIdentity \<Rightarrow> Actor" where
  "actor_of ti = \<lparr> Actor_UserID = TI_UserID ti, Actor_Username = TI_Username ti, Actor_OrgID = TI_OrgID ti,
     Actor_OrgSlug = TI_OrgSlug ti, Actor_OrgRole = TI_OrgRole ti, Actor_Identity = TI_Label ti \<rparr>"

text \<open>The token of a header, if it has the form the middleware accepts.\<close>

definition bearer_token :: "string \<Rightarrow> string option" where
  "bearer_token h =
     (case CutPrefix h ''Bearer '' of None \<Rightarrow> None
      | Some token \<Rightarrow> if \<not> HasPrefix token ''ubq_'' then None else Some token)"

definition auth_failed :: "'w web \<Rightarrow> 'w web" where
  "auth_failed w = w\<lparr>auth_failures := Suc (auth_failures w)\<rparr>"

definition missing_token_reason :: string where
  "missing_token_reason = ''{\"reason\":\"missing or malformed bearer token\",\"fix\":\"Authorization: Bearer ubq_... (ubiqo device create)\"}''"

definition unknown_token_reason :: string where
  "unknown_token_reason = ''{\"reason\":\"unknown or revoked device token\"}''"

definition auth_down_reason :: string where
  "auth_down_reason = ''{\"reason\":\"auth backend unavailable\"}''"

definition auth :: "'w Server \<Rightarrow> (Actor \<Rightarrow> 'w http_handler) \<Rightarrow> 'w http_handler" where
  "auth S next_handler r w =
     (case bearer_token (req_auth r) of
        None \<Rightarrow>
          (\<lparr> resp_code = 401, resp_headers = (''WWW-Authenticate'', ''Bearer'') # plain_headers,
             resp_body = Text (missing_token_reason @ newline) \<rparr>, auth_failed w)
      | Some token \<Rightarrow>
          (case on_sys (onDB (DB_Authenticate (DB (Svc S)) (Lib (Svc S)) token)) w of
             (Inl e, w) \<Rightarrow>
               (if \<not> is_not_found e then http_Error (Text auth_down_reason) 503
                else http_Error (Text unknown_token_reason) 401, auth_failed w)
           | (Inr ti, w) \<Rightarrow> next_handler (actor_of ti) r w))"

section \<open>Handlers of authenticated requests\<close>

definition writeCoreError :: "goerr \<Rightarrow> response" where
  "writeCoreError e =
     (case is_denial e of
        Some d \<Rightarrow> \<lparr> resp_code = 403, resp_headers = json_headers, resp_body = Denial_JSON d \<rparr>
      | None \<Rightarrow>
          if is_not_found e then http_Error (Error_Text '''' e) 404
          else http_Error (Error_Text '''' e) 500)"

definition context_text :: "ContextBundle \<Rightarrow> string" where
  "context_text b =
     CB_Instructions b
       @ (if CB_Digest b \<noteq> '''' then newline @ newline @ CB_Digest b else '''')
       @ (if CB_Memories b \<noteq> '''' then newline @ newline @ CB_Memories b else '''')"

definition handleContext :: "'w Server \<Rightarrow> Actor \<Rightarrow> 'w http_handler" where
  "handleContext S actor r w =
     (let project = req_query r ''project'' in
      if project = '''' then (http_Error (Text ''missing ?project=<slug>'') 400, w)
      else
        (case on_sys (Svc_GetContext (Svc S) actor project (req_query r ''section'')) w of
           (Inl e, w) \<Rightarrow> (writeCoreError e, w)
         | (Inr bundle, w) \<Rightarrow>
             (\<lparr> resp_code = 200,
                resp_headers = [(''Content-Type'', ''text/plain; charset=utf-8''),
                  (''X-Ubiqo-Bundle-Version'', CB_BundleVersion bundle)],
                resp_body = Text (context_text bundle) \<rparr>, w)))"

text \<open>The decoder reads at most 64 KiB of the body.\<close>

definition json_session :: "string \<Rightarrow> (string \<times> string) option" where
  "json_session body =
     (case json_decode 65536 body of None \<Rightarrow> None
      | Some v \<Rightarrow> (case into_struct [''project'', ''summary''] v of
          (f, ok) \<Rightarrow> if ok then Some (f ''project'', f ''summary'') else None))"

definition handleSessionEnd :: "'w Server \<Rightarrow> Actor \<Rightarrow> 'w http_handler" where
  "handleSessionEnd S actor r w =
     (case json_session (req_body r) of
        None \<Rightarrow> (http_Error (Text ''bad json'') 400, w)
      | Some (project, summary) \<Rightarrow>
          (case on_sys (Svc_RecordSessionEnd (Svc S) actor project summary) w of
             (Inl e, w) \<Rightarrow> (writeCoreError e, w)
           | (Inr _, w) \<Rightarrow> (\<lparr> resp_code = 202, resp_headers = [], resp_body = Text '''' \<rparr>, w)))"

text \<open>The stateless MCP handler: the tool calls of the request, each on behalf of the actor.\<close>

fun run_tools :: "'w Service \<Rightarrow> Actor option \<Rightarrow> tool_call list \<Rightarrow> 'w sys \<Rightarrow> tool_result list \<times> 'w sys" where
  "run_tools S actor [] s = ([], s)"
| "run_tools S actor (c # cs) s =
     (case run_tool S actor c s of (x, s) \<Rightarrow> case run_tools S actor cs s of (xs, s) \<Rightarrow> (x # xs, s))"

definition handleMCP :: "'w Server \<Rightarrow> Actor \<Rightarrow> 'w http_handler" where
  "handleMCP S actor r w =
     (case on_sys (run_tools (Svc S) (Some actor) (sdk_calls (Sdk S) r)) w of
        (results, w) \<Rightarrow> (sdk_reply (Sdk S) r results, w))"

section \<open>Routing and instrumentation\<close>

datatype route = Healthz | Readyz | Metrics | Meta | MCP | Context | SessionEnd | Not_Allowed string | Not_Found

definition get_route :: "string \<Rightarrow> route \<Rightarrow> route" where
  "get_route m r = (if m = ''GET'' \<or> m = ''HEAD'' then r else Not_Allowed ''GET, HEAD'')"

text \<open>The patterns of the mux; a \<open>GET\<close> pattern also serves \<open>HEAD\<close>.\<close>

definition mux :: "string \<Rightarrow> string \<Rightarrow> route" where
  "mux m path =
     (if path = ''/healthz'' then get_route m Healthz
      else if path = ''/readyz'' then get_route m Readyz
      else if path = ''/metrics'' then get_route m Metrics
      else if path = ''/v1/meta'' then get_route m Meta
      else if path = ''/mcp'' then MCP
      else if path = ''/v1/context'' then get_route m Context
      else if path = ''/v1/session-end'' then (if m = ''POST'' then SessionEnd else Not_Allowed ''POST'')
      else Not_Found)"

definition dispatch :: "'w Server \<Rightarrow> 'w http_handler" where
  "dispatch S r w =
     (case mux (req_method r) (req_path r) of
        Healthz \<Rightarrow> healthz r w
      | Readyz \<Rightarrow> readyz S r w
      | Metrics \<Rightarrow> metrics S r w
      | Meta \<Rightarrow> meta S r w
      | MCP \<Rightarrow> auth S (handleMCP S) r w
      | Context \<Rightarrow> auth S (handleContext S) r w
      | SessionEnd \<Rightarrow> auth S (handleSessionEnd S) r w
      | Not_Allowed allow \<Rightarrow>
          (\<lparr> resp_code = 405, resp_headers = (''Allow'', allow) # plain_headers,
             resp_body = Text (''Method Not Allowed'' @ newline) \<rparr>, w)
      | Not_Found \<Rightarrow> (http_Error (Text ''404 page not found'') 404, w))"

text \<open>
  \<open>WithLabelValues\<close> panics on a label that is not valid UTF-8; the server then drops the
  connection (\<open>None\<close>), with everything the handler did already done.
\<close>

definition instrument :: "'w http_handler \<Rightarrow> request \<Rightarrow> 'w web \<Rightarrow> response option \<times> 'w web" where
  "instrument next_handler r w =
     (case next_handler r w of (resp, w) \<Rightarrow>
        let route = (if 40 < length (req_path r) then take 40 (req_path r) else req_path r) in
        if \<not> valid_utf8 route then (None, w)
        else
          let label = (route, show_nat (resp_code resp)) in
          (Some resp, w\<lparr>reqs := (reqs w)(label := Suc (reqs w label)),
             web_log := web_log w @ [(req_method r, req_path r, resp_code resp)]\<rparr>))"

definition Handler :: "'w Server \<Rightarrow> request \<Rightarrow> 'w web \<Rightarrow> response option \<times> 'w web" where
  "Handler S = instrument (dispatch S)"

end
