(* ===== verification/Http_Safety.thy ===== *)
theory Http_Safety
  imports Http
begin

text \<open>
  What the HTTP surface guarantees: nothing is done for a request without a live token, the status
  codes say the truth, and every request is counted once. The middleware relies on
  \<open>Authenticate\<close> only through the locale \<open>authenticator\<close>.
\<close>

section \<open>The interface of authentication\<close>

locale authenticator =
  fixes check :: "string \<Rightarrow> 's \<Rightarrow> ('e + 'i) \<times> 's"
    and live :: "'s \<Rightarrow> string \<Rightarrow> 'i \<Rightarrow> bool"
    and quiet :: "'s \<Rightarrow> 's \<Rightarrow> bool"
    and seen :: "'s \<Rightarrow> 's \<Rightarrow> bool"
  assumes check_live: "check token s = (Inr i, s') \<Longrightarrow> live s token i \<and> seen s s'"
    and check_quiet: "check token s = (Inl e, s') \<Longrightarrow> quiet s s'"
begin

lemma admitted:
  assumes "(case check token s of (Inl e, s') \<Rightarrow> (reject e, after s') | (Inr i, s') \<Rightarrow> handler i s') = (x, s'')"
  shows "(\<exists>e s'. x = reject e \<and> quiet s s' \<and> s'' = after s')
    \<or> (\<exists>i s'. live s token i \<and> seen s s' \<and> handler i s' = (x, s''))"
proof (cases "check token s")
  case (Pair r s')
  show ?thesis
  proof (cases r)
    case (Inl e)
    then have "x = reject e" "s'' = after s'"
      using assms Pair by auto
    then show ?thesis using check_quiet [of token s e s'] Pair Inl by blast
  next
    case (Inr i)
    then have "handler i s' = (x, s'')"
      using assms Pair by auto
    then show ?thesis using check_live [of token s i s'] Pair Inr by blast
  qed
qed

end

text \<open>The identity of a token: an unrevoked row with the digest of the presented string.\<close>

definition live_identity :: "db \<Rightarrow> golib \<Rightarrow> string \<Rightarrow> TokenIdentity \<Rightarrow> bool" where
  "live_identity d lib token ti \<longleftrightarrow> (\<exists>t \<in> set (device_tokens d). t_hash t = sha256 lib token
     \<and> t_revoked_at t = None \<and> TI_UserID ti = t_user_id t \<and> TI_OrgID ti = t_org_id t \<and> TI_Label ti = t_label t)"

text \<open>Only the clock of the database and the last-seen times of tokens differ.\<close>

definition only_last_seen :: "'w sys \<Rightarrow> 'w sys \<Rightarrow> bool" where
  "only_last_seen w w' \<longleftrightarrow> sys_git w' = sys_git w
     \<and> sys_db w' = (sys_db w)\<lparr>tick := tick (sys_db w'), device_tokens := device_tokens (sys_db w')\<rparr>
     \<and> map (\<lambda>t. t\<lparr>t_last_seen_at := None\<rparr>) (device_tokens (sys_db w'))
        = map (\<lambda>t. t\<lparr>t_last_seen_at := None\<rparr>) (device_tokens (sys_db w))"

text \<open>Everything but the service's state is the same.\<close>

definition same_web :: "'w web \<Rightarrow> 'w web \<Rightarrow> bool" where
  "same_web w w' \<longleftrightarrow> w' = w\<lparr>web_sys := web_sys w'\<rparr>"

lemma same_web_on_sys [simp]: "same_web w (snd (on_sys m w))"
  by (auto simp: same_web_def on_sys_def split: prod.splits)

lemma on_sys_eq: "on_sys m w = (r, w') \<longleftrightarrow> m (web_sys w) = (r, web_sys w') \<and> same_web w w'"
  by (cases "m (web_sys w)") (auto simp: on_sys_def same_web_def)

lemma Authenticate_Inl: "DB_Authenticate E lib token d = (Inl e, d') \<Longrightarrow> same_data d d'"
proof -
  assume a: "DB_Authenticate E lib token d = (Inl e, d')"
  let ?q = "query E [] (\<lambda>d. case token_candidates d (sha256 lib token) of [] \<Rightarrow> None | x # _ \<Rightarrow> Some x)"
  have q: "same_data d (snd (?q d))"
    using keepsD [OF rd.keeps_query] .
  have "d' = snd (?q d)"
  proof (cases "?q d")
    case (Pair x d1)
    then show ?thesis
      using a by (auto simp: DB_Authenticate_def Let_def andThen_def or_not_found_def guarded_def
          split: sum.splits option.splits if_splits prod.splits)
  qed
  then show ?thesis using q by simp
qed

interpretation au: authenticator
  "\<lambda>token. on_sys (onDB (DB_Authenticate (DB S) (Lib S) token))"
  "\<lambda>w token ti. live_identity (sys_db (web_sys w)) (Lib S) token ti"
  "\<lambda>w w'. untouched (web_sys w) (web_sys w') \<and> same_web w w'"
  "\<lambda>w w'. only_last_seen (web_sys w) (web_sys w') \<and> same_web w w'" for S
proof unfold_locales
  fix token ti and w w' :: "'a web"
  assume "on_sys (onDB (DB_Authenticate (DB S) (Lib S) token)) w = (Inr ti, w')"
  then show "live_identity (sys_db (web_sys w)) (Lib S) token ti
      \<and> only_last_seen (web_sys w) (web_sys w') \<and> same_web w w'"
    using Authenticate_live [of "DB S" "Lib S" token "sys_db (web_sys w)" ti "sys_db (web_sys w')"]
    unfolding on_sys_eq onDB_Inr live_identity_def only_last_seen_def
    by (metis sys.ext_inject sys.surjective sys.update_convs(1))
next
  fix token e and w w' :: "'a web"
  assume a: "on_sys (onDB (DB_Authenticate (DB S) (Lib S) token)) w = (Inl e, w')"
  then obtain d' where "DB_Authenticate (DB S) (Lib S) token (sys_db (web_sys w)) = (Inl e, d')"
      "web_sys w' = (web_sys w)\<lparr>sys_db := d'\<rparr>" "same_web w w'"
    by (auto simp: on_sys_eq onDB_def zoom_def split: prod.splits)
  then show "untouched (web_sys w) (web_sys w') \<and> same_web w w'"
    using Authenticate_Inl by (auto simp: untouched_def)
qed

section \<open>No token, no effect\<close>

lemma CutPrefix_Some: "CutPrefix s p = Some t \<longleftrightarrow> s = p @ t"
  by (auto simp: CutPrefix_def HasPrefix_def) (metis append_take_drop_id)

lemma bearer_token_Some:
  "bearer_token h = Some token \<longleftrightarrow> h = ''Bearer '' @ token \<and> HasPrefix token ''ubq_''"
  unfolding CutPrefix_Some [symmetric] by (auto simp: bearer_token_def split: option.splits)

lemma untouched_refl: "untouched w w"
  by (simp add: untouched_def rd.step_refl)

lemma auth_cases:
  assumes "auth S handler r w = (resp, w')"
  shows "(resp_code resp \<in> {401, 503} \<and> untouched (web_sys w) (web_sys w')
      \<and> w' = w\<lparr>web_sys := web_sys w', auth_failures := Suc (auth_failures w)\<rparr>)
    \<or> (\<exists>token ti w1. req_auth r = ''Bearer '' @ token \<and> HasPrefix token ''ubq_''
        \<and> live_identity (sys_db (web_sys w)) (Lib (Svc S)) token ti
        \<and> only_last_seen (web_sys w) (web_sys w1) \<and> same_web w w1 \<and> handler (actor_of ti) r w1 = (resp, w'))"
proof (cases "bearer_token (req_auth r)")
  case None
  then show ?thesis
    using assms untouched_refl by (auto simp: auth_def auth_failed_def)
next
  case (Some token)
  let ?check = "on_sys (onDB (DB_Authenticate (DB (Svc S)) (Lib (Svc S)) token))"
  let ?reject = "\<lambda>e. if \<not> is_not_found e then http_Error (Text auth_down_reason) 503
                else http_Error (Text unknown_token_reason) 401"
  have "(case ?check w of (Inl e, w) \<Rightarrow> (?reject e, auth_failed w)
           | (Inr ti, w) \<Rightarrow> handler (actor_of ti) r w) = (resp, w')"
    using assms Some by (simp add: auth_def)
  from au.admitted [OF this] show ?thesis
  proof (elim disjE exE conjE)
    fix e w1
    assume "resp = ?reject e" "untouched (web_sys w) (web_sys w1)" "same_web w w1" "w' = auth_failed w1"
    then have "resp_code resp \<in> {401, 503} \<and> untouched (web_sys w) (web_sys w')
      \<and> w' = w\<lparr>web_sys := web_sys w', auth_failures := Suc (auth_failures w)\<rparr>"
      by (cases w, cases w1) (auto simp: http_Error_def auth_failed_def same_web_def)
    then show ?thesis ..
  qed (use Some bearer_token_Some in blast)
qed

text \<open>
  No handler behind the middleware runs without a live token. For any handler, either the
  answer is 401 or 503, nothing changed but the count of failures, or the header is \<open>Bearer\<close> with a
  device token whose unrevoked row is in the database; then the handler ran for that row's user, org and
  label, in a state in which only last-seen times differ.
\<close>

theorem protected_needs_live_token:
  assumes "auth S handler r w = (resp, w')"
  shows "(resp_code resp \<in> {401, 503} \<and> untouched (web_sys w) (web_sys w'))
    \<or> (\<exists>token ti w1. req_auth r = ''Bearer '' @ token \<and> HasPrefix token ''ubq_''
        \<and> live_identity (sys_db (web_sys w)) (Lib (Svc S)) token ti
        \<and> only_last_seen (web_sys w) (web_sys w1) \<and> handler (actor_of ti) r w1 = (resp, w'))"
  using auth_cases [OF assms] by blast

definition sample_sdk :: sdk where
  "sample_sdk = \<lparr> sdk_calls = (\<lambda>_. [Whoami]), sdk_reply = (\<lambda>_ _. \<lparr> resp_code = 200, resp_headers = [], resp_body = Opaque '''' \<rparr>),
     metrics_page = (\<lambda>_ _ _. \<lparr> resp_code = 200, resp_headers = [], resp_body = Opaque '''' \<rparr>) \<rparr>"

definition sample_server :: "nat Server" where
  "sample_server = \<lparr> Svc = sample_service, Public = ''https://ubiqo.example'', Sdk = sample_sdk \<rparr>"

definition sample_web :: "nat web" where
  "sample_web = \<lparr> web_sys = sample_sys, reqs = (\<lambda>_. 0), auth_failures = 0, web_log = [] \<rparr>"

definition sample_request :: "string \<Rightarrow> string \<Rightarrow> string \<Rightarrow> request" where
  "sample_request m path header = \<lparr> req_method = m, req_path = path, req_auth = header,
     req_query = (\<lambda>k. if k = ''project'' then ''web'' else ''''), req_body = '''' \<rparr>"

theorem protected_needs_live_token_witness:
  "live_identity (sys_db sample_sys) sample_lib sample_token sample_identity"
proof -
  let ?r = "sample_request ''GET'' ''/v1/context'' (''Bearer '' @ sample_token)"
  let ?run = "auth sample_server (\<lambda>a r w. (\<lparr> resp_code = Actor_UserID a, resp_headers = [], resp_body = Opaque '''' \<rparr>, w)) ?r sample_web"
  have code: "resp_code (fst ?run) = 1"
    by code_simp
  have "auth sample_server (\<lambda>a r w. (\<lparr> resp_code = Actor_UserID a, resp_headers = [], resp_body = Opaque '''' \<rparr>, w)) ?r sample_web
      = (fst ?run, snd ?run)" by simp
  from protected_needs_live_token [OF this] code obtain token ti where
    "''Bearer '' @ sample_token = ''Bearer '' @ token" "live_identity (sys_db sample_sys) sample_lib token ti"
    by (auto simp: sample_request_def sample_web_def sample_server_def sample_service_def)
  then have "live_identity (sys_db sample_sys) sample_lib sample_token ti" by simp
  moreover have "(TI_UserID sample_identity, TI_OrgID sample_identity, TI_Label sample_identity) = (1, 0, ''cli'')"
    by code_simp
  moreover have "map (\<lambda>t. (t_user_id t, t_org_id t, t_label t)) (device_tokens (sys_db sample_sys)) = [(1, 0, ''cli'')]"
    by code_simp
  ultimately show ?thesis
    by (cases "device_tokens (sys_db sample_sys)") (auto simp: live_identity_def)
qed

text \<open>No command of git is run: the effects of a health check.\<close>

definition runs_nothing :: "effect list \<Rightarrow> bool" where
  "runs_nothing t \<longleftrightarrow> list_all (\<lambda>e. case e of Exec _ _ _ \<Rightarrow> False | _ \<Rightarrow> True) t"

interpretation rn: trace_lang runs_nothing
  by unfold_locales (simp_all add: runs_nothing_def)

lemma HealthCheck_runs_nothing: "keeps (emits runs_nothing) (Git_HealthCheck H)"
  unfolding Git_HealthCheck_def Let_def
  by (intro rn.keeps_andThen rn.keeps_MkdirAll rn.keeps_CreateTemp rn.keeps_Remove) (simp_all add: runs_nothing_def)

definition harmless :: "'w web \<Rightarrow> 'w web \<Rightarrow> bool" where
  "harmless w w' \<longleftrightarrow> same_data (sys_db (web_sys w)) (sys_db (web_sys w'))
     \<and> emits runs_nothing (sys_git (web_sys w)) (sys_git (web_sys w'))"

lemma harmless_refl: "harmless w w"
  by (simp add: harmless_def rd.step_refl rn.emits_refl)

lemma harmless_untouched: "untouched (web_sys w) (web_sys w') \<Longrightarrow> harmless w w'"
  by (simp add: untouched_def harmless_def rn.emits_refl)

lemma readyz_harmless: "harmless w (snd (readyz S r w))"
proof -
  obtain x w1 where p: "on_sys (onDB (DB_Ping (DB (Svc S)))) w = (x, w1)" by fastforce
  have "same_data (sys_db (web_sys w)) (sys_db (web_sys w1))" and g: "sys_git (web_sys w1) = sys_git (web_sys w)"
    using p keepsD [OF rd.keeps_query, of "sys_db (web_sys w)" "DB (Svc S)" "[]" "\<lambda>_. ()"]
    by (auto simp: on_sys_def onDB_def zoom_def DB_Ping_def split: prod.splits)
  moreover obtain y w2 where h: "on_sys (onGit (Git_HealthCheck (Git (Svc S)))) w1 = (y, w2)" by fastforce
  then have "sys_db (web_sys w2) = sys_db (web_sys w1)"
      "emits runs_nothing (sys_git (web_sys w1)) (sys_git (web_sys w2))"
    using keepsD [OF HealthCheck_runs_nothing, of "sys_git (web_sys w1)" "Git (Svc S)"]
    by (auto simp: on_sys_def onGit_def zoom_def split: prod.splits)
  ultimately show ?thesis
    using p h rn.emits_refl by (cases x; cases y) (auto simp: readyz_def harmless_def g)
qed

lemma Handler_web: "snd (Handler S r w) = w' \<Longrightarrow> web_sys w' = web_sys (snd (dispatch S r w))"
  by (auto simp: Handler_def instrument_def Let_def split: prod.splits if_splits)

text \<open>
  C17: A request without a live token has no effect. Whatever its method, path, header and body,
  if the header is not \<open>Bearer\<close> with the token of an unrevoked row, then no table changes and no git
  command runs (\<open>/readyz\<close> only probes the data directory).
\<close>

theorem no_token_no_effect:
  assumes "\<And>token ti. req_auth r = ''Bearer '' @ token \<Longrightarrow> \<not> live_identity (sys_db (web_sys w)) (Lib (Svc S)) token ti"
  shows "same_data (sys_db (web_sys w)) (sys_db (web_sys (snd (Handler S r w))))
    \<and> (\<exists>t. trace (sys_git (web_sys (snd (Handler S r w)))) = trace (sys_git (web_sys w)) @ t
         \<and> (\<forall>dir args ok. Exec dir args ok \<notin> set t))"
proof -
  have "harmless w (snd (auth S handler r w))" for handler
    using auth_cases [of S handler r w "fst (auth S handler r w)" "snd (auth S handler r w)"] assms
      harmless_untouched by auto
  then have "harmless w (snd (dispatch S r w))"
    using harmless_refl readyz_harmless
    by (auto simp: dispatch_def healthz_def meta_def metrics_def split: route.splits)
  then have "harmless w (snd (Handler S r w))"
    using Handler_web [OF refl, of S r w] by (simp add: harmless_def)
  then obtain t where t: "trace (sys_git (web_sys (snd (Handler S r w)))) = trace (sys_git (web_sys w)) @ t"
      and "runs_nothing t" and "same_data (sys_db (web_sys w)) (sys_db (web_sys (snd (Handler S r w))))"
    unfolding harmless_def emits_def by blast
  moreover from this have "Exec dir args ok \<notin> set t" for dir args ok
    by (auto simp: runs_nothing_def list_all_iff)
  ultimately show ?thesis by blast
qed

theorem no_token_no_effect_witness:
  "same_data sample_db (sys_db (web_sys (snd (Handler sample_server (sample_request ''POST'' ''/mcp'' ''Bearer ubq_00'') sample_web))))"
proof -
  have "list_all (\<lambda>t. t_hash t \<noteq> ''ubq_00'') (device_tokens sample_db)"
    by code_simp
  then have "\<not> live_identity (sys_db (web_sys sample_web)) (Lib (Svc sample_server)) ''ubq_00'' ti" for ti
    by (auto simp: live_identity_def list_all_iff sample_web_def sample_sys_def sample_server_def
        sample_service_def sample_lib_def)
  moreover have "token = ''ubq_00''"
    if "req_auth (sample_request ''POST'' ''/mcp'' ''Bearer ubq_00'') = ''Bearer '' @ token" for token
    using that by (simp add: sample_request_def)
  ultimately have "same_data (sys_db (web_sys sample_web))
      (sys_db (web_sys (snd (Handler sample_server (sample_request ''POST'' ''/mcp'' ''Bearer ubq_00'') sample_web))))"
    by (intro no_token_no_effect [THEN conjunct1]) blast
  then show ?thesis
    unfolding sample_web_def [THEN arg_cong [where f = web_sys]] web.select_convs sample_sys_def sys.select_convs .
qed

section \<open>Counting\<close>

lemma same_web_run: "same_web w w' \<Longrightarrow> reqs w' = reqs w \<and> web_log w' = web_log w \<and> auth_failures w' = auth_failures w"
  unfolding same_web_def by (metis web.select_convs(2-4) web.surjective web.update_convs(1))

lemma handlers_same_web:
  "same_web w (snd (handleContext S a r w))" "same_web w (snd (handleSessionEnd S a r w))"
  "same_web w (snd (handleMCP S a r w))"
  by (auto simp: handleContext_def handleSessionEnd_def handleMCP_def Let_def same_web_def on_sys_def
      split: prod.splits sum.splits option.splits)

lemma auth_counts:
  assumes "\<And>a w. same_web w (snd (handler a r w))"
  shows "reqs (snd (auth S handler r w)) = reqs w \<and> web_log (snd (auth S handler r w)) = web_log w"
proof -
  have "auth S handler r w = (fst (auth S handler r w), snd (auth S handler r w))" by simp
  from auth_cases [OF this] show ?thesis
  proof (elim disjE exE conjE)
    fix token ti w1
    assume "same_web w w1" "handler (actor_of ti) r w1 = (fst (auth S handler r w), snd (auth S handler r w))"
    then show ?thesis
      using assms [of w1 "actor_of ti"] same_web_run [of w w1] same_web_run [of w1 "snd (handler (actor_of ti) r w1)"]
      by simp
  qed (metis web.select_convs(2,4) web.surjective web.update_convs(1,3))
qed

lemma dispatch_counts: "reqs (snd (dispatch S r w)) = reqs w \<and> web_log (snd (dispatch S r w)) = web_log w"
proof -
  have "reqs (snd (readyz S r w)) = reqs w \<and> web_log (snd (readyz S r w)) = web_log w"
    by (auto simp: readyz_def on_sys_def split: prod.splits sum.splits)
  then show ?thesis
    by (auto simp: dispatch_def healthz_def meta_def metrics_def auth_counts handlers_same_web split: route.splits)
qed

text \<open>
  C22: Every answered request is counted and logged exactly once: the counter of its label, the
  path cut to 40 bytes and the decimal status code, goes up by one, all others stay, and one line is added
  to the log. A request whose cut path is not valid UTF-8 is not answered, counted or logged.
\<close>

theorem request_counted_once:
  "case Handler S r w of (answer, w') \<Rightarrow>
     (case answer of
        Some resp \<Rightarrow> reqs w' = (reqs w)((take 40 (req_path r), show_nat (resp_code resp))
            := Suc (reqs w (take 40 (req_path r), show_nat (resp_code resp))))
          \<and> web_log w' = web_log w @ [(req_method r, req_path r, resp_code resp)]
      | None \<Rightarrow> \<not> valid_utf8 (take 40 (req_path r)) \<and> reqs w' = reqs w \<and> web_log w' = web_log w)"
proof -
  have "(if 40 < length p then take 40 p else p) = take 40 p" for p :: string
    by simp
  then show ?thesis
    using dispatch_counts [of S r w]
    by (auto simp: Handler_def instrument_def Let_def split: prod.splits)
qed

section \<open>Status codes\<close>

lemma raises_onDB [raises_rules]: "raises P m \<Longrightarrow> raises P (onDB m)"
  unfolding onDB_def by (rule raises_zoom)

lemma raises_onGit [raises_rules]: "raises P m \<Longrightarrow> raises P (onGit m)"
  unfolding onGit_def by (rule raises_zoom)

lemma raises_sql: "raises (\<lambda>e. \<exists>x. e = DbError x) (sql E texts stmt)"
  by (auto simp: raises_def sql_def Let_def split: if_splits sum.splits prod.splits)

text \<open>Failures of the two planes: neither a denial nor not-found.\<close>

definition internal :: "goerr \<Rightarrow> bool" where
  "internal e \<longleftrightarrow> is_denial e = None \<and> \<not> is_not_found e"

lemma internal_query [raises_rules]: "raises internal (query E texts q)"
  unfolding query_def by (rule raises_weaken [OF raises_sql]) (auto simp: internal_def is_denial_def is_not_found_def)

lemma internal_query_limit [raises_rules]: "raises internal (query_limit E texts l q)"
  unfolding query_limit_def by (rule raises_weaken [OF raises_sql]) (auto simp: internal_def is_denial_def is_not_found_def)

lemma internal_git [raises_rules]: "raises internal (Git_git H dir args)"
  by (auto simp: raises_def Git_git_def git_output_def internal_def is_denial_def is_not_found_def
      split: prod.splits option.splits)

lemma internal_repoPath [raises_rules]: "raises internal (ofSum (repoPath base org project))"
  by (rule raises_ofSum) (auto simp: repoPath_def internal_def is_denial_def is_not_found_def split: if_splits)

lemma internal_methods [raises_rules]:
  "raises internal (DB_ProjectMembers E pid)" "raises internal (DB_LatestReleases E pid)"
  "raises internal (DB_ListProposals E pid status)" "raises internal (DB_RecentEvents E pid limit)"
  "raises internal (DB_Recall E orgID uid oproj q limit)" "raises internal (DB_ProjectRole E pid uid)"
  "raises internal (Git_ListArtifacts H org project)"
  unfolding DB_ProjectMembers_def DB_LatestReleases_def DB_ListProposals_def DB_RecentEvents_def DB_Recall_def
    DB_ProjectRole_def Git_ListArtifacts_def
  by (intro raises_rules)+

lemma internal_digest [raises_rules]: "raises internal (activityDigest S p limit)"
  unfolding activityDigest_def by (intro raises_rules)

lemma GetOrgBySlug_Inl:
  "DB_GetOrgBySlug E slug d = (Inl e, d') \<Longrightarrow> internal e \<or> (e = NotFound \<and> slug \<notin> o_slug ` set (orgs d))"
  unfolding DB_GetOrgBySlug_def andThen_Inl
  by (auto dest!: raisesD [OF internal_query] query_Inr simp: or_not_found_def first_row_None split: option.splits)

lemma GetProject_Inl:
  "DB_GetProject E orgID slug d = (Inl e, d') \<Longrightarrow> internal e \<or> (e = NotFound \<and> first_row p_key (orgID, slug) (projects d) = None)"
  unfolding DB_GetProject_def andThen_Inl
  by (auto dest!: raisesD [OF internal_query] query_Inr simp: or_not_found_def split: option.splits)

definition no_such_project :: "db \<Rightarrow> Actor \<Rightarrow> string \<Rightarrow> bool" where
  "no_such_project d a slug \<longleftrightarrow> first_row p_key (Actor_OrgID a, slug) (projects d) = None
     \<or> Actor_OrgSlug a \<notin> o_slug ` set (orgs d)"

lemma onDB_Inl: "onDB m w = (Inl e, w') \<longleftrightarrow> m (sys_db w) = (Inl e, sys_db w') \<and> w' = w\<lparr>sys_db := sys_db w'\<rparr>"
  by (cases "m (sys_db w)") (auto simp: onDB_def zoom_def)

lemma projectCtx_Inl:
  assumes "projectCtx S a slug w = (Inl e, w')"
  shows "internal e \<or> (is_denial e = None \<and> no_such_project (sys_db w) a slug)"
proof (cases "onDB (DB_GetProject (DB S) (Actor_OrgID a) slug) w")
  case (Pair x w1)
  show ?thesis
  proof (cases x)
    case (Inl e1)
    then have "e = (if is_not_found e1 then ProjectNotFound slug (Actor_OrgSlug a) else e1)"
      using assms Pair by (simp add: projectCtx_def handle_def)
    then show ?thesis
      using Pair [unfolded Inl onDB_Inl] GetProject_Inl [of "DB S" "Actor_OrgID a" slug "sys_db w" e1]
      by (auto simp: no_such_project_def internal_def is_denial_def is_not_found_def)
  next
    case (Inr p)
    have "raises internal (andThen (onDB (DB_ProjectRole (DB S) (Project_ID p) (Actor_UserID a)))
        (\<lambda>role. ret (p, effective_role a role)))"
      by (intro raises_rules)
    then show ?thesis
      using assms Pair Inr by (auto simp: projectCtx_def handle_def dest: raisesD)
  qed
qed

lemma not_internal [simp]: "\<not> internal (Denied d)" "\<not> internal NotFound"
  by (simp_all add: internal_def is_denial_def is_not_found_def)

lemma GetContext_Inl:
  fixes S :: "'w Service"
  assumes "Svc_GetContext S a slug section w = (Inl e, w')"
  shows "internal e \<or> (is_denial e = None \<and> no_such_project (sys_db w) a slug)
    \<or> (is_denial e \<noteq> None \<and> \<not> permitted (sys_db w) a slug ContextRead)"
proof (cases "projectCtx S a slug w")
  case (Pair x w1)
  then have u: "untouched w w1"
    using keepsD [OF projectCtx_untouched, of w S a slug] by simp
  show ?thesis
  proof (cases x)
    case (Inl e1)
    then show ?thesis
      using assms Pair projectCtx_Inl [of S a slug w e w'] by (auto simp: Svc_GetContext_def authorized_def andThen_def)
  next
    case (Inr pr)
    obtain p role where pr: "pr = (p, role)" by (cases pr)
    note ctx = Pair [unfolded Inr pr]
    show ?thesis
    proof (cases "Can role ContextRead")
      case (Some d)
      then have "e = Denied d"
        using assms unfolding Svc_GetContext_def authorized_resolved [OF ctx] by simp
      moreover have "\<not> permitted (sys_db w) a slug ContextRead"
        using projectCtx_Inr [OF ctx] Some by (auto simp: permitted_def)
      ultimately show ?thesis by (simp add: is_denial_def)
    next
      case None
      obtain rest :: "Org \<Rightarrow> ('w sys, ContextBundle) go" where body: "andThen (onDB (DB_GetOrgBySlug (DB S) (Actor_OrgSlug a))) rest w1 = (Inl e, w')"
          and rest: "\<And>og. raises internal (rest og)"
      proof (rule that [OF assms [unfolded Svc_GetContext_def authorized_resolved [OF ctx] None option.case Let_def]])
      qed (intro raises_rules)
      from body show ?thesis
        unfolding andThen_Inl
      proof (elim disjE exE conjE)
        assume "onDB (DB_GetOrgBySlug (DB S) (Actor_OrgSlug a)) w1 = (Inl e, w')"
        then have "internal e \<or> (e = NotFound \<and> Actor_OrgSlug a \<notin> o_slug ` set (orgs (sys_db w1)))"
          unfolding onDB_Inl by (auto dest: GetOrgBySlug_Inl)
        moreover have "orgs (sys_db w1) = orgs (sys_db w)"
          using u unfolding untouched_def same_data_def by (metis db.select_convs(1) db.surjective db.update_convs(12))
        ultimately show ?thesis
          by (auto simp: no_such_project_def is_denial_def)
      next
        fix og w2
        assume "rest og w2 = (Inl e, w')"
        then have "internal e" by (rule raisesD [OF rest])
        then show ?thesis ..
      qed
    qed
  qed
qed

lemma GetContext_Inr:
  assumes "Svc_GetContext S a slug section w = (Inr b, w')"
  shows "permitted (sys_db w) a slug ContextRead"
  using assms unfolding Svc_GetContext_def by (cases rule: authorized_cases) auto



end
