(* ===== verification/Delivery.thy ===== *)
theory Delivery
  imports Client_Facts Http_Safety
begin

text \<open>
  The client and the server together, through the JSON they exchange and store: what \<open>ubiqo login\<close> and
  \<open>ubiqo init\<close> were given is what later commands use, a summary that the server takes is the event of
  its sender, and the server's descriptions and denials are read as they were meant.
\<close>

section \<open>What login and init leave\<close>

lemma WriteFile_Inr:
  "client_WriteFile E path content s = (Inr u, s') \<Longrightarrow> map_of (files s') path = Some content"
  by (auto simp: client_WriteFile_def Let_def map_of_set_file split: if_splits)

text \<open>
  C33: A login is remembered. When \<open>ubiqo login\<close> succeeds, every later command without credentials in its
  environment uses the server (without trailing slashes) and the token it was given. (Assumed: both are
  valid UTF-8, since JSON holds nothing else.)
\<close>

theorem login_is_remembered:
  assumes "cmdLogin E args s = (Inr (), s')"
    and "parse_flags [(''server'', False), (''token'', False)] Map.empty args = Parsed v"
    and "c = \<lparr> CC_Server = trim_slashes (flag_value v ''server'' ''''), CC_Token = flag_value v ''token'' '''' \<rparr>"
    and "valid_utf8 (CC_Server c)" and "valid_utf8 (CC_Token c)"
    and "Getenv E ''UBIQO_SERVER_URL'' = '''' \<or> Getenv E ''UBIQO_TOKEN'' = ''''"
  shows "loadClientConfig E s' = (Inr c, s')"
proof -
  let ?path = "filepath_Join [configDir E, ''config.json'']"
  obtain s1 s2 where w: "client_WriteFile E ?path (config_json c) s1 = (Inr (), s2)" and "files s' = files s2"
    using assms(1-3)
    by (auto simp: cmdLogin_def client_flags_def Let_def andThen_Inr catching_def handle_def client_print_def
        split: if_splits sum.splits prod.splits)
  then have "map_of (files s') ?path = Some (config_json c)"
    using WriteFile_Inr [OF w] by simp
  moreover have "json_config (config_json c) = Some c"
    using assms(4,5) by (cases c) (simp add: json_config_round_trip to_valid_id)
  ultimately show ?thesis
    using assms(6) by (auto simp: loadClientConfig_def reading_def os_ReadFile_def Let_def)
qed

text \<open>A new machine, and a server that describes itself.\<close>

definition sample_newcomer :: client_env where
  "sample_newcomer = sample_client_env (\<lambda>_. '''')
     (\<lambda>_ _. Some \<lparr> ha_status = 200, ha_version = '''', ha_body = ''{\"server_version\":\"0.1.0\"}'' \<rparr>)"

definition sample_login_args :: "string list" where
  "sample_login_args = [''--server'', ''https://u.example/'', ''--token'', ''ubq_1'']"

theorem login_is_remembered_witness:
  "fst (loadClientConfig sample_newcomer (snd (cmdLogin sample_newcomer sample_login_args sample_client)))
     = Inr \<lparr> CC_Server = ''https://u.example'', CC_Token = ''ubq_1'' \<rparr>"
proof -
  have "(case fst (cmdLogin sample_newcomer sample_login_args sample_client) of Inr u \<Rightarrow> True | Inl e \<Rightarrow> False)"
    by code_simp
  then have run: "cmdLogin sample_newcomer sample_login_args sample_client
      = (Inr (), snd (cmdLogin sample_newcomer sample_login_args sample_client))"
    by (cases "cmdLogin sample_newcomer sample_login_args sample_client") (auto split: sum.splits)
  have "(case parse_flags [(''server'', False), (''token'', False)] Map.empty sample_login_args of
      Parsed v \<Rightarrow> trim_slashes (flag_value v ''server'' '''') = ''https://u.example'' \<and> flag_value v ''token'' '''' = ''ubq_1''
    | Exits n \<Rightarrow> False)"
    by code_simp
  then obtain v where v: "parse_flags [(''server'', False), (''token'', False)] Map.empty sample_login_args = Parsed v"
      "trim_slashes (flag_value v ''server'' '''') = ''https://u.example''" "flag_value v ''token'' '''' = ''ubq_1''"
    by (auto split: flag_result.splits)
  have u: "valid_utf8 ''https://u.example''" "valid_utf8 ''ubq_1''"
    by code_simp+
  have "Getenv sample_newcomer ''UBIQO_TOKEN'' = ''''"
    by (simp add: sample_newcomer_def sample_client_env_def)
  with login_is_remembered [OF run v(1) refl] u show ?thesis
    by (simp add: v(2,3))
qed

text \<open>
  A binding is remembered. When \<open>ubiqo init\<close> succeeds in a directory, commands run there without a
  project in their flags or environment are about the project it was given. (Assumed: it is valid UTF-8.)
\<close>

theorem init_is_remembered:
  assumes "cmdInit E args s = (Inr (), s')"
    and "parse_flags [(''project'', False)] Map.empty args = Parsed v"
    and "valid_utf8 (flag_value v ''project'' '''')"
    and "Getenv E ''UBIQO_PROJECT'' = ''''" and "Getwd E \<noteq> ''/''" and "Getwd E \<noteq> ''.''"
  shows "boundProject E '''' s' = (Inr (flag_value v ''project'' ''''), s')"
proof -
  let ?project = "flag_value v ''project'' ''''"
  let ?path = "filepath_Join [Getwd E, ''ubiqo.yaml'']"
  obtain s2 where w: "client_WriteFile E ?path (binding_json ?project @ [CHR 10]) s = (Inr (), s2)" and "files s' = files s2"
    and ne: "?project \<noteq> ''''"
    using assms(1,2)
    by (auto simp: cmdInit_def client_flags_def Let_def andThen_Inr client_print_def split: if_splits)
  then have "map_of (files s') ?path = Some (binding_json ?project @ [CHR 10])"
    using WriteFile_Inr [OF w] by simp
  moreover have "json_binding (binding_json ?project @ [CHR 10]) = Some ?project"
    using assms(3) by (simp add: json_binding_round_trip to_valid_id)
  ultimately have "bound_walk E (Suc n) (Getwd E) s' = Some ?project" for n
    using assms(5,6) ne by (simp add: os_ReadFile_def)
  from this [of 9] show ?thesis
    using assms(4) by (simp add: boundProject_def reading_def del: bound_walk.simps)
qed

theorem init_is_remembered_witness:
  "fst (boundProject sample_newcomer '''' (snd (cmdInit sample_newcomer [''--project'', ''web''] sample_client))) = Inr ''web''"
proof -
  have "(case fst (cmdInit sample_newcomer [''--project'', ''web''] sample_client) of Inr u \<Rightarrow> True | Inl e \<Rightarrow> False)"
    by code_simp
  then have run: "cmdInit sample_newcomer [''--project'', ''web''] sample_client
      = (Inr (), snd (cmdInit sample_newcomer [''--project'', ''web''] sample_client))"
    by (cases "cmdInit sample_newcomer [''--project'', ''web''] sample_client") (auto split: sum.splits)
  have "(case parse_flags [(''project'', False)] Map.empty [''--project'', ''web''] of
      Parsed v \<Rightarrow> flag_value v ''project'' '''' = ''web'' | Exits n \<Rightarrow> False)"
    by code_simp
  then obtain v where v: "parse_flags [(''project'', False)] Map.empty [''--project'', ''web''] = Parsed v"
      "flag_value v ''project'' '''' = ''web''"
    by (auto split: flag_result.splits)
  have "valid_utf8 ''web''"
    by code_simp
  with init_is_remembered [OF run v(1)] show ?thesis
    by (simp add: v(2) sample_newcomer_def sample_client_env_def)
qed

section \<open>A summary that arrives\<close>

text \<open>What the server takes of a request of the client.\<close>

definition arrives_as :: "http_request \<Rightarrow> string \<Rightarrow> request \<Rightarrow> bool" where
  "arrives_as q path r \<longleftrightarrow> req_method r = hr_method q \<and> req_path r = path
     \<and> hr_auth q = Some (req_auth r) \<and> req_body r = hr_body q"

lemma json_session_summary:
  assumes "valid_utf8 project" and "valid_utf8 summary" and "length (summary_json (project, summary)) \<le> 65536"
  shows "json_session (summary_json (project, summary)) = Some (project, summary)"
proof -
  let ?kvs = "[(''project'', project), (''summary'', summary)]"
  have "valid_members ?kvs = ?kvs"
    using assms(1,2) by (simp add: valid_members_def client_fields_valid to_valid_id)
  then have "json_decode 65536 (summary_json (project, summary)) = Some (object_of ?kvs)"
    using json_decode_text [of ?kvs 65536] assms(3) by (simp add: summary_json_def del: json_text.simps)
  then show ?thesis
    using into_struct_object [of ?kvs "[''project'', ''summary'']"] by (simp add: json_session_def)
qed

lemma DB_AppendEvent_Inr:
  assumes "DB_AppendEvent E orgID oproj actor label kind summary d = (Inr (), d')"
  shows "events d' = events d @ [\<lparr> e_id = Suc (event_seq d), e_org_id = orgID, e_project_id = oproj,
    e_actor_user_id = actor, e_identity_label = label, e_kind = kind, e_summary = summary, e_created_at = now E (tick d) \<rparr>]"
  using check_all_Inr [OF sql_Inr [OF assms [unfolded DB_AppendEvent_def], THEN conjunct1, unfolded Let_def]] by auto

lemma untouched_events: "untouched w w' \<Longrightarrow> events (sys_db w') = events (sys_db w)"
  by (drule untouched_def [THEN iffD1], drule conjunct2, drule same_data_def [THEN iffD1], drule arg_cong [of _ _ events]) simp

lemma RecordSessionEnd_appends:
  assumes "Svc_RecordSessionEnd S a slug summary w = (Inr (), w')" and "TrimSpace summary \<noteq> ''''"
  shows "\<exists>e row. events (sys_db w') = events (sys_db w) @ [e] \<and> e_kind e = ''session.summary''
    \<and> e_summary e = take 2000 (TrimSpace summary) \<and> e_actor_user_id e = Some (Actor_UserID a)
    \<and> e_identity_label e = Actor_Identity a \<and> e_org_id e = Actor_OrgID a
    \<and> first_row p_key (Actor_OrgID a, slug) (projects (sys_db w)) = Some row \<and> e_project_id e = Some (p_id row)"
  using assms(1) unfolding Svc_RecordSessionEnd_def
proof (cases rule: authorized_cases)
  case (passed p role w1 row)
  have same: "events (sys_db w1) = events (sys_db w)"
    using untouched_events [OF passed(2)] .
  have cut: "(if 2000 < length (TrimSpace summary) then take 2000 (TrimSpace summary) else TrimSpace summary)
      = take 2000 (TrimSpace summary)"
    by simp
  have "append_event S a p ''session.summary'' (take 2000 (TrimSpace summary)) w1 = (Inr (), w')"
    using passed(4) assms(2) by (simp add: Let_def cut)
  then have ev: "DB_AppendEvent (DB S) (Actor_OrgID a) (Some (Project_ID p)) (Some (Actor_UserID a)) (Actor_Identity a)
      ''session.summary'' (take 2000 (TrimSpace summary)) (sys_db w1) = (Inr (), sys_db w')"
    by (simp add: append_event_def onDB_Inr)
  show ?thesis
    using DB_AppendEvent_Inr [OF ev] same passed(5,6) by (auto simp: project_of_def)
qed auto

lemma only_last_seen_data:
  assumes "only_last_seen w w'"
  shows "events (sys_db w') = events (sys_db w)" "projects (sys_db w') = projects (sys_db w)"
proof -
  have "sys_db w' = (sys_db w)\<lparr>tick := tick (sys_db w'), device_tokens := device_tokens (sys_db w')\<rparr>"
    using assms by (simp add: only_last_seen_def)
  from arg_cong [OF this, of events] arg_cong [OF this, of projects]
  show "events (sys_db w') = events (sys_db w)" "projects (sys_db w') = projects (sys_db w)"
    by simp_all
qed

lemma session_end_runs_auth:
  assumes "req_method r = ''POST''" and "req_path r = ''/v1/session-end''" and "Handler S r w = (Some resp, w')"
  shows "\<exists>w2. auth S (handleSessionEnd S) r w = (resp, w2) \<and> web_sys w' = web_sys w2"
proof -
  have "dispatch S r = auth S (handleSessionEnd S) r"
    by (simp add: dispatch_def mux_def assms(1,2) fun_eq_iff)
  then show ?thesis
    using assms(3) by (cases "dispatch S r w") (auto simp: Handler_def instrument_def Let_def split: if_splits)
qed


text \<open>The owner of the sample deployment reports a session.\<close>

definition sample_poster :: clientConfig where
  "sample_poster = \<lparr> CC_Server = ''https://u.example'', CC_Token = sample_token \<rparr>"

definition sample_report :: request where
  "sample_report = \<lparr> req_method = ''POST'', req_path = ''/v1/session-end'', req_auth = ''Bearer '' @ sample_token,
     req_query = (\<lambda>_. ''''), req_body = summary_json (''web'', '' did it'') \<rparr>"


section \<open>A summary that is too long\<close>

lemma json_session_cut_off:
  assumes "65536 < length (summary_json entry)"
  shows "json_session (summary_json entry) = None"
  using json_cut_off [of "[(''project'', fst entry), (''summary'', snd entry)]" 65536] assms
  by (simp add: json_session_def summary_json_def del: json_text.simps)

lemma undecoded_session_end:
  assumes "req_method r = ''POST''" and "req_path r = ''/v1/session-end''" and "Handler S r w = (Some resp, w')"
    and "json_session (req_body r) = None"
  shows "resp_code resp \<in> {400, 401, 503}" and "events (sys_db (web_sys w')) = events (sys_db (web_sys w))"
proof -
  obtain w2 where run: "auth S (handleSessionEnd S) r w = (resp, w2)" and sys: "web_sys w' = web_sys w2"
    using session_end_runs_auth [OF assms(1-3)] by blast
  from auth_cases [OF run]
  have "resp_code resp \<in> {400, 401, 503} \<and> events (sys_db (web_sys w2)) = events (sys_db (web_sys w))"
  proof (elim disjE conjE exE)
    assume "resp_code resp \<in> {401, 503}" and "untouched (web_sys w) (web_sys w2)"
    then show ?thesis
      using untouched_events by auto
  next
    fix token ti w1
    assume "only_last_seen (web_sys w) (web_sys w1)" and "handleSessionEnd S (actor_of ti) r w1 = (resp, w2)"
    then show ?thesis
      using only_last_seen_data(1) assms(4) by (auto simp: handleSessionEnd_def http_Error_def)
  qed
  then show "resp_code resp \<in> {400, 401, 503}" and "events (sys_db (web_sys w')) = events (sys_db (web_sys w))"
    by (simp_all add: sys)
qed

text \<open>
  C32: The limit on a summary is exact. A request of the client whose body has at most 64 KiB is decoded to
  the project and the summary that were sent. A longer one is never taken, whatever the service and
  whoever the caller: the answer is 400 or a failed authentication, and no event is recorded. (Assumed:
  project and summary are valid UTF-8.)
\<close>

theorem summary_size_limit:
  assumes "arrives_as (post_request E c (project, summary)) ''/v1/session-end'' r"
    and "valid_utf8 project" and "valid_utf8 summary" and "Handler S r w = (Some resp, w')"
  shows "json_session (req_body r) = (if length (req_body r) \<le> 65536 then Some (project, summary) else None)
    \<and> (length (req_body r) \<le> 65536
       \<or> resp_code resp \<in> {400, 401, 503} \<and> events (sys_db (web_sys w')) = events (sys_db (web_sys w)))"
proof -
  have r: "req_method r = ''POST''" "req_path r = ''/v1/session-end''" "req_body r = summary_json (project, summary)"
    using assms(1) by (simp_all add: arrives_as_def post_request_def)
  have "json_session (req_body r) = (if length (req_body r) \<le> 65536 then Some (project, summary) else None)"
    using json_session_summary [OF assms(2,3)] json_session_cut_off [of "(project, summary)"] by (simp add: r(3))
  then show ?thesis
    using undecoded_session_end [OF r(1,2) assms(4)] by (cases "length (req_body r) \<le> 65536") simp_all
qed

text \<open>A summary of 64 KiB is too long: its body has the keys as well.\<close>

lemma long_text:
  "valid_utf8 (replicate n (CHR ''x''))" "json_body (replicate n (CHR ''x'')) = replicate n (CHR ''x'')"
proof -
  have b: "byte (CHR ''x'') = 120" by code_simp
  have size: "rune_size (CHR ''x'' # s) = 1" for s
    by (simp add: rune_size_def utf8_class_def b)
  have rune: "json_rune (CHR ''x'' # s) = ''x''" for s
    by (simp add: json_rune_def b)
  show "valid_utf8 (replicate n (CHR ''x''))"
    by (induction n) (simp_all add: valid_utf8.simps [of "CHR ''x'' # _"] valid_utf8.simps [of "[]"] size)
  show "json_body (replicate n (CHR ''x'')) = replicate n (CHR ''x'')"
    by (induction n) (simp_all add: json_body.simps [of "CHR ''x'' # _"] size rune)
qed

definition sample_long_report :: request where
  "sample_long_report = sample_report\<lparr>req_body := summary_json (''web'', replicate 65536 (CHR ''x''))\<rparr>"

theorem summary_size_limit_witness:
  "\<exists>resp w'. Handler sample_server sample_long_report sample_web = (Some resp, w')
     \<and> resp_code resp \<in> {400, 401, 503} \<and> events (sys_db (web_sys w')) = events (sys_db (web_sys sample_web))"
proof -
  let ?long = "replicate 65536 (CHR ''x'')"
  have a: "arrives_as (post_request sample_offline sample_poster (''web'', ?long)) ''/v1/session-end'' sample_long_report"
    by (simp add: arrives_as_def post_request_def bearer_def sample_long_report_def sample_report_def sample_poster_def)
  have "valid_utf8 ''/v1/session-end''" and web: "valid_utf8 ''web''"
    by code_simp+
  then obtain resp w' where h: "Handler sample_server sample_long_report sample_web = (Some resp, w')"
    by (cases "dispatch sample_server sample_long_report sample_web")
      (auto simp: Handler_def instrument_def Let_def sample_long_report_def sample_report_def)
  have "65536 < length (req_body sample_long_report)"
    by (simp add: sample_long_report_def summary_json_def object_of_def json_string_def long_text)
  then show ?thesis
    using summary_size_limit [OF a web long_text(1) h] h by auto
qed

text \<open>
  So such a summary is never removed from the spool: while the server refuses it, every session end posts
  it again and keeps it.
\<close>

lemma refused_entry_stays:
  assumes "os_ReadFile (filepath_Join [spool_dir E, nm]) s = Some b" and "json_summary b = Some entry"
    and "\<And>n c a. network E n (post_request E c entry) = Some a \<Longrightarrow> 300 \<le> ha_status a"
  shows "files (snd (drain_one E nm s)) = files s"
proof -
  obtain r s' where p: "postSessionEnd E entry s = (r, s')" by fastforce
  have "files s' = files s"
    using keepsD [OF sends_postSessionEnd, of s E entry] p by (simp add: only_sends_def)
  moreover have "r \<noteq> Inr u" for u
    using p assms(3) by (auto simp: postSessionEnd_def andThen_Inr do_request_def Let_def not_le [symmetric]
        split: if_splits option.splits)
  ultimately show ?thesis
    using assms(1,2) p by (cases r) (auto simp: drain_one_def Let_def reading_def catching_def handle_def failwith_def)
qed

section \<open>What the server says of itself and of a refusal\<close>

text \<open>The version that login prints is the server's: its description has other keys as well.\<close>

lemma meta_fields:
  "field_for [''server_version'', ''min_cli_version''] ''server'' = None"
  "field_for [''server_version'', ''min_cli_version''] ''mcp_url'' = None"
  "field_for [''server_version'', ''min_cli_version''] ''server_version'' = Some ''server_version''"
  "field_for [''server_version'', ''min_cli_version''] ''min_cli_version'' = Some ''min_cli_version''"
  "map to_valid [''server'', ''server_version'', ''min_cli_version'', ''mcp_url''] = [''server'', ''server_version'', ''min_cli_version'', ''mcp_url'']"
  by code_simp+

lemma meta_order:
  "sort_key fst [(''server'', a), (''server_version'', b), (''min_cli_version'', c), (''mcp_url'', d)]
     = [(''mcp_url'', d), (''min_cli_version'', c), (''server'', a), (''server_version'', b)]"
  by (simp add: char_of_def)

lemma login_reads_server_version:
  assumes "body_bytes (resp_body (fst (meta S r w))) = Some b"
  shows "json_server_version b = to_valid (Svc_Version (Svc S))"
proof -
  let ?kvs = "[(''mcp_url'', Public S @ ''/mcp''), (''min_cli_version'', MinCLIVersion), (''server'', ''ubiqo''),
    (''server_version'', Svc_Version (Svc S))]"
  have b: "b = json_text (object_of ?kvs) @ newline"
    using assms by (simp add: meta_def body_bytes_def meta_order del: json_text.simps)
  have "json_parse b = Some (object_of (valid_members ?kvs))"
    using json_first_text [of ?kvs newline] unfolding b
    by (simp add: json_parse_def newline_def skip_space_def json_space_def del: json_text.simps)
  then show ?thesis
    using meta_fields by (simp add: json_server_version_def Unmarshal_struct_def into_struct_def object_of_def valid_members_def)
qed

text \<open>A refused caller can read the denial back from either surface.\<close>

lemma denial_fields:
  "to_valid ''reason'' = ''reason''" "to_valid ''caller_role'' = ''caller_role''"
  "to_valid ''allowed_alternative'' = ''allowed_alternative''"
  by code_simp+

lemma denial_readable:
  assumes "valid_utf8 (Reason d)" and "valid_utf8 (CallerRole d)" and "valid_utf8 (Alternative d)"
  shows "Unmarshal_struct [''reason'', ''caller_role'', ''allowed_alternative''] (errResult (denial_object d))
    = (field_of [(''reason'', Reason d), (''caller_role'', CallerRole d), (''allowed_alternative'', Alternative d)], True)"
proof -
  let ?kvs = "[(''reason'', Reason d), (''caller_role'', CallerRole d)]
    @ (if Alternative d = '''' then [] else [(''allowed_alternative'', Alternative d)])"
  have "valid_members ?kvs = ?kvs"
    using assms by (simp add: valid_members_def denial_fields to_valid_id)
  then have "Unmarshal_struct [''reason'', ''caller_role'', ''allowed_alternative''] (errResult (denial_object d)) = (field_of ?kvs, True)"
    using Unmarshal_struct_indented [of ?kvs "[''reason'', ''caller_role'', ''allowed_alternative'']" "[]"]
    by (simp add: errResult_def denial_object_def del: json_indented.simps)
  then show ?thesis
    by (simp add: field_of_def fun_eq_iff)
qed

end
