(* ===== verification/Migrate.thy ===== *)
theory Migrate
  imports Store
begin

text \<open>
  Schema migration, \<open>Migrate\<close> of \<open>internal/store/store.go\<close>. Its state is what it reads and writes:
  the table of applied migrations and the scripts whose effects are committed. Every statement may fail
  before or after it takes effect, a commit included, so an interrupted run is part of the model. The
  lemmas show that whatever fails, scripts are applied once and in order, and that a run to the end
  applies all of them.
\<close>

section \<open>The code\<close>

record migrations_db =
  mig_table :: bool                 \<comment> \<open>schema_migrations exists\<close>
  mig_applied :: "string list"      \<comment> \<open>its rows, in the order of insertion\<close>
  mig_scripts :: "string list"      \<comment> \<open>the migrations whose script has been executed, in order\<close>
  mig_tick :: nat

text \<open>The embedded files (all can be read), the failures, and whether a script succeeds.\<close>

record migrator =
  mig_files :: "string list"
  mig_fault :: "nat \<Rightarrow> db_fault"
  script_ok :: "string \<Rightarrow> nat \<Rightarrow> bool"

datatype migrate_error = Migrate_Unavailable | Script_Failed string | Already_Applied string

type_synonym 'a mig = "(migrations_db, migrate_error, 'a) act"

definition mig_statement ::
  "migrator \<Rightarrow> (nat \<Rightarrow> migrations_db \<Rightarrow> (migrate_error + 'a) \<times> migrations_db) \<Rightarrow> 'a mig" where
  "mig_statement M stmt = (\<lambda>d.
     let n = mig_tick d; d = d\<lparr>mig_tick := Suc n\<rparr> in
     if mig_fault M n = FaultBefore then (Inl Migrate_Unavailable, d)
     else (case stmt n d of
         (Inl e, d') \<Rightarrow> (Inl e, d')
       | (Inr x, d') \<Rightarrow> if mig_fault M n = FaultAfter then (Inl Migrate_Unavailable, d') else (Inr x, d')))"

definition create_table :: "migrator \<Rightarrow> unit mig" where
  "create_table M = mig_statement M (\<lambda>n d. (Inr (), d\<lparr>mig_table := True\<rparr>))"

definition mig_exists :: "migrator \<Rightarrow> string \<Rightarrow> bool mig" where
  "mig_exists M nm = mig_statement M (\<lambda>n d. (Inr (nm \<in> set (mig_applied d)), d))"

text \<open>
  The statements of a transaction see and change a copy of the database that only \<open>Commit\<close> makes the
  database; on an error before that the copy is dropped (\<open>Rollback\<close>, or the lost connection).
\<close>

definition in_transaction :: "migrator \<Rightarrow> unit mig \<Rightarrow> unit mig" where
  "in_transaction M body =
     andThen (mig_statement M (\<lambda>n d. (Inr (), d))) (\<lambda>_ d.
       case body d of
         (Inl e, d') \<Rightarrow> (Inl e, d\<lparr>mig_tick := Suc (mig_tick d')\<rparr>)
       | (Inr _, d') \<Rightarrow>
           mig_statement M (\<lambda>n c. (Inr (), d'\<lparr>mig_tick := mig_tick c\<rparr>)) (d\<lparr>mig_tick := mig_tick d'\<rparr>))"

definition run_script :: "migrator \<Rightarrow> string \<Rightarrow> unit mig" where
  "run_script M nm = mig_statement M (\<lambda>n d.
     if script_ok M nm n then (Inr (), d\<lparr>mig_scripts := mig_scripts d @ [nm]\<rparr>) else (Inl (Script_Failed nm), d))"

definition record_migration :: "migrator \<Rightarrow> string \<Rightarrow> unit mig" where
  "record_migration M nm = mig_statement M (\<lambda>n d.
     if nm \<in> set (mig_applied d) then (Inl (Already_Applied nm), d)
     else (Inr (), d\<lparr>mig_applied := mig_applied d @ [nm]\<rparr>))"

definition apply_migration :: "migrator \<Rightarrow> string \<Rightarrow> unit mig" where
  "apply_migration M nm =
     andThen (mig_exists M nm) (\<lambda>there.
     if there then ret ()
     else in_transaction M (andThen (run_script M nm) (\<lambda>_. record_migration M nm)))"

definition migration_names :: "migrator \<Rightarrow> string list" where
  "migration_names M = sort (filter (\<lambda>f. HasSuffix f ''.sql'') (mig_files M))"

definition DB_Migrate :: "migrator \<Rightarrow> unit mig" where
  "DB_Migrate M = andThen (create_table M) (\<lambda>_. andThen (forEach (migration_names M) (apply_migration M)) (\<lambda>_. ret ()))"

section \<open>Facts\<close>

lemma mig_statement_Inr:
  "mig_statement M stmt d = (Inr x, d') \<longleftrightarrow> mig_fault M (mig_tick d) = NoFault
     \<and> stmt (mig_tick d) (d\<lparr>mig_tick := Suc (mig_tick d)\<rparr>) = (Inr x, d')"
  by (cases "mig_fault M (mig_tick d)") (auto simp: mig_statement_def Let_def split: prod.splits sum.splits)

lemma mig_statement_same:
  assumes "\<And>n d. mig_applied (snd (stmt n d)) = mig_applied d \<and> mig_scripts (snd (stmt n d)) = mig_scripts d"
  shows "mig_applied (snd (mig_statement M stmt d)) = mig_applied d \<and> mig_scripts (snd (mig_statement M stmt d)) = mig_scripts d"
proof -
  let ?d = "d\<lparr>mig_tick := Suc (mig_tick d)\<rparr>"
  show ?thesis
    using assms [of "mig_tick d" ?d]
    by (cases "stmt (mig_tick d) ?d") (auto simp: mig_statement_def Let_def split: sum.splits)
qed

text \<open>What a call did to the rows and scripts: nothing, or both got the one migration.\<close>

definition applied_at_most :: "string \<Rightarrow> migrations_db \<Rightarrow> migrations_db \<Rightarrow> bool" where
  "applied_at_most nm d d' \<longleftrightarrow>
     (mig_applied d' = mig_applied d \<and> mig_scripts d' = mig_scripts d)
     \<or> (nm \<notin> set (mig_applied d) \<and> mig_applied d' = mig_applied d @ [nm] \<and> mig_scripts d' = mig_scripts d @ [nm])"

lemma apply_body_Inr:
  assumes "andThen (run_script M nm) (\<lambda>_. record_migration M nm) d = (Inr u, d')"
  shows "mig_applied d' = mig_applied d @ [nm] \<and> mig_scripts d' = mig_scripts d @ [nm] \<and> nm \<notin> set (mig_applied d)"
  using assms
  by (auto simp: andThen_Inr run_script_def record_migration_def mig_statement_Inr split: if_splits)

lemma transaction_effect:
  assumes "in_transaction M (andThen (run_script M nm) (\<lambda>_. record_migration M nm)) d = (r, d')"
  shows "applied_at_most nm d d' \<and> (r = Inr u \<longrightarrow> nm \<in> set (mig_applied d'))"
proof -
  let ?body = "andThen (run_script M nm) (\<lambda>_. record_migration M nm)"
  obtain b d1 where b: "mig_statement M (\<lambda>n d. (Inr (), d)) d = (b, d1)" by fastforce
  have d1: "mig_applied d1 = mig_applied d" "mig_scripts d1 = mig_scripts d"
    using mig_statement_same [of "\<lambda>n d. (Inr (), d)" M d] b by auto
  obtain x d2 where x: "?body d1 = (x, d2)" by fastforce
  show ?thesis
  proof (cases b)
    case (Inl e)
    then show ?thesis using assms b d1 by (auto simp: in_transaction_def andThen_def applied_at_most_def)
  next
    case b: (Inr u)
    show ?thesis
    proof (cases x)
      case (Inl e)
      then show ?thesis
        using assms \<open>mig_statement M (\<lambda>n d. (Inr (), d)) d = (b, d1)\<close> b x d1
        by (auto simp: in_transaction_def andThen_def applied_at_most_def)
    next
      case (Inr v)
      then have "mig_applied d2 = mig_applied d @ [nm] \<and> mig_scripts d2 = mig_scripts d @ [nm] \<and> nm \<notin> set (mig_applied d)"
        using apply_body_Inr [of M nm d1 v d2] x d1 by simp
      then show ?thesis
        using assms \<open>mig_statement M (\<lambda>n d. (Inr (), d)) d = (b, d1)\<close> b x d1 Inr
        by (auto simp: in_transaction_def andThen_def applied_at_most_def mig_statement_def Let_def split: if_splits)
    qed
  qed
qed

lemma apply_migration_effect:
  assumes "apply_migration M nm d = (r, d')"
  shows "applied_at_most nm d d' \<and> (r = Inr u \<longrightarrow> nm \<in> set (mig_applied d'))"
proof -
  obtain b d1 where b: "mig_exists M nm d = (b, d1)" by fastforce
  have d1: "mig_applied d1 = mig_applied d" "mig_scripts d1 = mig_scripts d"
    using mig_statement_same [of "\<lambda>n d. (Inr (nm \<in> set (mig_applied d)), d)" M d] b by (auto simp: mig_exists_def)
  show ?thesis
  proof (cases b)
    case (Inl e)
    then show ?thesis using assms b d1 by (auto simp: apply_migration_def andThen_def applied_at_most_def)
  next
    case (Inr there)
    then have "there \<longleftrightarrow> nm \<in> set (mig_applied d)"
      using b by (auto simp: mig_exists_def mig_statement_Inr)
    then show ?thesis
      using assms b Inr d1 transaction_effect [of M nm d1 r d' u]
      by (cases there) (auto simp: apply_migration_def andThen_def applied_at_most_def)
  qed
qed

text \<open>A prefix of the sorted names is recorded, and exactly those scripts have run, each once.\<close>

definition migrated :: "string list \<Rightarrow> migrations_db \<Rightarrow> bool" where
  "migrated names d \<longleftrightarrow> prefix (mig_applied d) names \<and> mig_scripts d = mig_applied d"

lemma migrated_step:
  assumes "distinct (pre @ nm # post)" and "migrated (pre @ nm # post) d" and "prefix pre (mig_applied d)"
    and "applied_at_most nm d d'"
  shows "migrated (pre @ nm # post) d' \<and> (nm \<in> set (mig_applied d') \<longrightarrow> prefix (pre @ [nm]) (mig_applied d'))"
proof -
  obtain rest where rest: "mig_applied d = pre @ rest" "prefix rest (nm # post)"
    using assms(2,3) by (auto simp: migrated_def prefix_def)
  show ?thesis
  proof (cases rest)
    case Nil
    then show ?thesis
      using assms(1,2,4) rest by (auto simp: migrated_def applied_at_most_def)
  next
    case (Cons n rs)
    then have "n = nm" using rest(2) by simp
    then show ?thesis
      using assms(2,4) rest Cons by (auto simp: migrated_def applied_at_most_def prefix_def)
  qed
qed

lemma migrated_loop:
  assumes "distinct (pre @ post)" and "migrated (pre @ post) d" and "prefix pre (mig_applied d)"
    and "forEach post (apply_migration M) d = (r, d')"
  shows "migrated (pre @ post) d' \<and> (\<forall>u. r = Inr u \<longrightarrow> mig_applied d' = pre @ post)"
  using assms
proof (induction post arbitrary: pre d r)
  case Nil
  then show ?case by (auto simp: migrated_def prefix_order.eq_iff)
next
  case (Cons nm post)
  obtain x d1 where x: "apply_migration M nm d = (x, d1)" by fastforce
  show ?case
  proof (cases x)
    case (Inl e)
    then have "r = Inl e" "d' = d1"
      using Cons.prems(4) x by (auto simp: andThen_def)
    then show ?thesis
      using migrated_step [OF Cons.prems(1-3), of d1] apply_migration_effect [OF x] by auto
  next
    case (Inr u)
    obtain y d2 where y: "forEach post (apply_migration M) d1 = (y, d2)" by fastforce
    have d': "d' = d2" and r: "(\<exists>v. r = Inr v) \<longleftrightarrow> (\<exists>v. y = Inr v)"
      using Cons.prems(4) x Inr y by (auto simp: andThen_def split: sum.splits)
    have "nm \<in> set (mig_applied d1)" "applied_at_most nm d d1"
      using apply_migration_effect [OF x, of u] Inr by simp_all
    then have "migrated ((pre @ [nm]) @ post) d1" "prefix (pre @ [nm]) (mig_applied d1)"
      using migrated_step [OF Cons.prems(1-3), of d1] by simp_all
    then have "migrated ((pre @ [nm]) @ post) d2 \<and> (\<forall>u. y = Inr u \<longrightarrow> mig_applied d2 = (pre @ [nm]) @ post)"
      using Cons.IH [of "pre @ [nm]" d1 y] Cons.prems(1) y d' by simp
    then show ?thesis using d' r by auto
  qed
qed

lemma DB_Migrate_migrated:
  assumes "distinct (migration_names M)" and "migrated (migration_names M) d" and "DB_Migrate M d = (r, d')"
  shows "migrated (migration_names M) d' \<and> (r = Inr () \<longrightarrow> mig_applied d' = migration_names M)"
proof -
  obtain x d1 where x: "create_table M d = (x, d1)" by fastforce
  then have "mig_applied d1 = mig_applied d" "mig_scripts d1 = mig_scripts d"
    using mig_statement_same [of "\<lambda>n d. (Inr (), d\<lparr>mig_table := True\<rparr>)" M d] by (auto simp: create_table_def)
  then have d1: "migrated (migration_names M) d1"
    using assms(2) by (simp add: migrated_def)
  obtain y d2 where y: "forEach (migration_names M) (apply_migration M) d1 = (y, d2)" by fastforce
  have "migrated (migration_names M) d2 \<and> (\<forall>u. y = Inr u \<longrightarrow> mig_applied d2 = migration_names M)"
    using migrated_loop [of "[]" "migration_names M" d1 M y d2] assms(1) d1 y by simp
  then show ?thesis
    using assms(3) x y d1 by (cases x; cases y) (auto simp: DB_Migrate_def andThen_def)
qed

lemma apply_migration_no_fault:
  assumes "\<And>n. mig_fault M n = NoFault" and "\<And>n. script_ok M nm n"
  shows "\<exists>d'. apply_migration M nm d = (Inr (), d')"
  using assms
  by (auto simp: apply_migration_def mig_exists_def in_transaction_def run_script_def record_migration_def
      andThen_def mig_statement_def Let_def)

lemma DB_Migrate_no_fault:
  assumes "\<And>n. mig_fault M n = NoFault" and "\<And>nm n. script_ok M nm n"
  shows "\<exists>d'. DB_Migrate M d = (Inr (), d')"
proof -
  have "\<exists>us d'. forEach nms (apply_migration M) d = (Inr us, d')" for nms d
  proof (induction nms arbitrary: d)
    case (Cons nm nms)
    obtain d1 where "apply_migration M nm d = (Inr (), d1)"
      using apply_migration_no_fault [of M nm d] assms by blast
    moreover obtain us d2 where "forEach nms (apply_migration M) d1 = (Inr us, d2)"
      using Cons by blast
    ultimately show ?case by (simp add: andThen_def)
  qed simp
  then obtain us d' where "forEach (migration_names M) (apply_migration M)
      (d\<lparr>mig_tick := Suc (mig_tick d), mig_table := True\<rparr>) = (Inr us, d')" by blast
  then show ?thesis
    using assms(1) by (simp add: DB_Migrate_def create_table_def mig_statement_def Let_def andThen_def)
qed

text \<open>One start of a binary with these embedded files, whatever fails in it.\<close>

definition migrate_run :: "string list \<Rightarrow> migrations_db \<Rightarrow> migrations_db \<Rightarrow> bool" where
  "migrate_run files d d' \<longleftrightarrow> (\<exists>M. mig_files M = files \<and> d' = snd (DB_Migrate M d))"

text \<open>
  C28: Migrations are applied once each, in order, however often a start is interrupted. After any
  number of runs from a fresh database, with a failure before or after any statement (the commits
  included) or in any script, the recorded migrations are a prefix of the sorted file names and exactly
  these scripts have been executed, once each and in this order. A run in which nothing fails then
  succeeds and leaves all of them executed.
\<close>

theorem migrations_resume:
  assumes "(migrate_run files)\<^sup>*\<^sup>* d d'" and "mig_applied d = []" and "mig_scripts d = []" and "distinct files"
    and "mig_files M = files" and "\<And>n. mig_fault M n = NoFault" and "\<And>nm n. script_ok M nm n"
  shows "prefix (mig_applied d') (migration_names M) \<and> mig_scripts d' = mig_applied d'
    \<and> (\<exists>d''. DB_Migrate M d' = (Inr (), d'') \<and> mig_scripts d'' = migration_names M)"
proof -
  have names: "migration_names M' = migration_names M" if "mig_files M' = files" for M'
    using that assms(5) by (simp add: migration_names_def)
  have dist: "distinct (migration_names M)"
    using assms(4,5) by (simp add: migration_names_def)
  have "migrated (migration_names M) d'"
    using assms(1)
  proof (induction rule: rtranclp_induct)
    case base
    then show ?case using assms(2,3) by (simp add: migrated_def)
  next
    case (step d1 d2)
    then obtain M' where M': "mig_files M' = files" "d2 = snd (DB_Migrate M' d1)"
      by (auto simp: migrate_run_def)
    then show ?case
      using DB_Migrate_migrated [of M' d1 "fst (DB_Migrate M' d1)" d2] step.IH dist names [OF M'(1)] by simp
  qed
  moreover obtain d'' where d'': "DB_Migrate M d' = (Inr (), d'')"
    using DB_Migrate_no_fault [of M d'] assms(6,7) by blast
  ultimately show ?thesis
    using DB_Migrate_migrated [OF dist _ d''] by (auto simp: migrated_def)
qed

definition sample_migrator :: "(nat \<Rightarrow> db_fault) \<Rightarrow> migrator" where
  "sample_migrator f = \<lparr> mig_files = [''0002_more.sql'', ''0001_init.sql'', ''README''], mig_fault = f, script_ok = (\<lambda>_ _. True) \<rparr>"

definition sample_fresh :: migrations_db where
  "sample_fresh = \<lparr> mig_table = False, mig_applied = [], mig_scripts = [], mig_tick = 0 \<rparr>"

theorem migrations_resume_witness:
  "\<exists>d''. DB_Migrate (sample_migrator (\<lambda>_. NoFault))
       (snd (DB_Migrate (sample_migrator (\<lambda>n. if n = 5 then FaultAfter else NoFault)) sample_fresh)) = (Inr (), d'')
     \<and> mig_scripts d'' = migration_names (sample_migrator (\<lambda>_. NoFault))"
proof -
  let ?M = "sample_migrator (\<lambda>n. if n = 5 then FaultAfter else NoFault)"
  have "(migrate_run (mig_files ?M))\<^sup>*\<^sup>* sample_fresh (snd (DB_Migrate ?M sample_fresh))"
    by (rule r_into_rtranclp) (auto simp: migrate_run_def)
  from migrations_resume [OF this, of "sample_migrator (\<lambda>_. NoFault)"] show ?thesis
    by (simp add: sample_fresh_def sample_migrator_def)
qed

end
