(* ===== verification/Pool.thy ===== *)
theory Pool
  imports Migrate
begin

text \<open>
  Connections: \<open>Open\<close> and \<open>Close\<close> of \<open>internal/store/store.go\<close>. The state is the pools that are
  open, each by its URL; a \<open>Store\<close> is the pool it holds. What connecting and the first ping answer is a
  parameter. \<open>ResetForTest\<close> acts on what the migrations have left in the schema.
\<close>

section \<open>Open and Close\<close>

record pgxpool =
  pgxpool_New :: "string \<Rightarrow> string option"     \<comment> \<open>the text of the error, if any\<close>
  pool_Ping :: "string \<Rightarrow> string option"

datatype open_error = Connect_Failed string | Ping_Failed string

definition DB_Close :: "string \<Rightarrow> string list \<Rightarrow> string list" where
  "DB_Close db pools = remove1 db pools"

definition DB_Open :: "pgxpool \<Rightarrow> string \<Rightarrow> (string list, open_error, string) act" where
  "DB_Open P databaseURL pools =
     (case pgxpool_New P databaseURL of
        Some err \<Rightarrow> (Inl (Connect_Failed err), pools)
      | None \<Rightarrow>
          (let pools = databaseURL # pools in
           case pool_Ping P databaseURL of
             Some err \<Rightarrow> (Inl (Ping_Failed err), DB_Close databaseURL pools)
           | None \<Rightarrow> (Inr databaseURL, pools)))"

text \<open>A failed \<open>Open\<close> leaves no pool behind; closing undoes a successful one.\<close>

lemma DB_Open_cases:
  assumes "DB_Open P url pools = (r, pools')"
  shows "(\<exists>e. r = Inl e \<and> pools' = pools) \<or> (r = Inr url \<and> pools' = url # pools \<and> pgxpool_New P url = None \<and> pool_Ping P url = None)"
  using assms by (auto simp: DB_Open_def DB_Close_def Let_def split: option.splits)

lemma DB_Close_opened [simp]: "DB_Close url (url # pools) = pools"
  by (simp add: DB_Close_def)

section \<open>Resetting a test database\<close>

datatype reset_error = Reset_Failed migrate_error | Reset_Refused string

text \<open>The two statements of the reset are one command without arguments, which PostgreSQL runs as a transaction.\<close>

definition DB_ResetForTest :: "migrator \<Rightarrow> string \<Rightarrow> (migrations_db, reset_error, unit) act" where
  "DB_ResetForTest M current_database =
     handle (mig_statement M (\<lambda>n d. (Inr current_database, d))) (\<lambda>e. failwith (Reset_Failed e)) (\<lambda>db.
     if \<not> HasSuffix db ''_test'' then failwith (Reset_Refused db)
     else handle (mig_statement M (\<lambda>n d. (Inr (), d\<lparr>mig_table := False, mig_applied := [], mig_scripts := []\<rparr>)))
       (\<lambda>e. failwith (Reset_Failed e)) ret)"

lemma reset_refused:
  assumes "\<not> HasSuffix name ''_test''"
  shows "\<exists>e. fst (DB_ResetForTest M name d) = Inl e"
    and "mig_applied (snd (DB_ResetForTest M name d)) = mig_applied d"
    and "mig_scripts (snd (DB_ResetForTest M name d)) = mig_scripts d"
  using assms by (auto simp: DB_ResetForTest_def handle_def mig_statement_def Let_def)

text \<open>After a reset the next migration starts from nothing and applies every script.\<close>

lemma reset_then_migrate:
  assumes "DB_ResetForTest M name d = (Inr (), d1)" and "DB_Migrate M d1 = (Inr (), d2)" and "distinct (mig_files M)"
  shows "HasSuffix name ''_test''" and "mig_scripts d2 = migration_names M"
proof -
  show name: "HasSuffix name ''_test''"
    using assms(1) reset_refused(1) [of name M d] by force
  have "mig_applied d1 = []" "mig_scripts d1 = []"
    using assms(1) name
    by (auto simp: DB_ResetForTest_def handle_def mig_statement_def Let_def split: if_splits)
  then have "migrated (migration_names M) d1" and dist: "distinct (migration_names M)"
    using assms(3) by (simp_all add: migrated_def migration_names_def)
  from DB_Migrate_migrated [OF dist this(1) assms(2)] show "mig_scripts d2 = migration_names M"
    by (simp add: migrated_def)
qed

end
