(* ===== verification/Cli.thy ===== *)
theory Cli
  imports Http Pool Client
begin

text \<open>
  The server side of the command line, \<open>cmd/ubiqo/main.go\<close> and \<open>ops.go\<close>: every command
  that opens the store, from its arguments to its output. The state is the migrations, the open connection
  pools, the service's tables and git plane, and what was printed. The machine (\<open>machine\<close>) gives the environment, the
  outcome of connecting, the database, the host and the requests that arrive at a server.
\<close>

section \<open>State and machine\<close>

text \<open>What is printed: a text, a text that ends in that of an error, or the logged configuration.\<close>

datatype cli_line = Out string | Warning string goerr | Serving string "(string \<times> string) list"

record 'w site =
  site_migrations :: migrations_db
  site_pools :: "string list"
  site_sys :: "'w sys"
  site_out :: "cli_line list"

datatype cli_error =
    Usage string
  | Exit_Code nat
  | Bad_Config_Env config_error
  | Open_Failed open_error
  | Migrate_Failed migrate_error
  | Service_Failed string goerr       \<comment> \<open>the prefix put before the error's text\<close>
  | Invalid_ID string
  | File_Error string
  | Pg_Dump_Failed string string
  | Serve_Failed string

record backup_manifest =
  bm_version :: string
  bm_created_at :: string
  bm_bundles :: "string list"

record 'w machine =
  m_environ :: environ
  m_pool :: pgxpool
  m_migrator :: migrator
  m_dbms :: dbms
  m_host :: "'w host"                                  \<comment> \<open>with any base directory\<close>
  m_lib :: golib
  m_version :: string
  m_sdk :: sdk
  m_clock :: nat
  m_stdin :: "string option"
  m_readfile :: "string \<Rightarrow> (string + string)"
  pg_dump :: "string list \<Rightarrow> 'w \<Rightarrow> (string \<times> string option) \<times> 'w"
  m_requests :: "request list"                         \<comment> \<open>served before the end, in order\<close>
  m_serve_end :: "string option"                       \<comment> \<open>the error of listening or of the shutdown\<close>

type_synonym ('w, 'a) cli = "('w site, cli_error, 'a) act"

text \<open>An operation of the service, its error returned under a prefix.\<close>

definition svc :: "string \<Rightarrow> ('w sys, 'a) go \<Rightarrow> ('w, 'a) cli" where
  "svc pre m = (\<lambda>s. case m (site_sys s) of
       (Inl e, w) \<Rightarrow> (Inl (Service_Failed pre e), s\<lparr>site_sys := w\<rparr>)
     | (Inr x, w) \<Rightarrow> (Inr x, s\<lparr>site_sys := w\<rparr>))"

text \<open>The same, with the error handled by the caller.\<close>

definition svc_try :: "('w sys, 'a) go \<Rightarrow> (goerr \<Rightarrow> ('w, 'b) cli) \<Rightarrow> ('a \<Rightarrow> ('w, 'b) cli) \<Rightarrow> ('w, 'b) cli" where
  "svc_try m h f = handle (svc '''' m) (\<lambda>e. case e of Service_Failed _ e \<Rightarrow> h e | _ \<Rightarrow> failwith e) f"

definition put :: "cli_line \<Rightarrow> ('w, unit) cli" where
  "put l = (\<lambda>s. (Inr (), s\<lparr>site_out := site_out s @ [l]\<rparr>))"

definition quoted :: "'w Service \<Rightarrow> string \<Rightarrow> string" where
  "quoted S = Quote (isPrint (Lib S))"

section \<open>Opening the service\<close>

text \<open>\<open>gitstore.New\<close>: the same repositories, and no lock made yet.\<close>

definition gitstore_New :: "'w host \<Rightarrow> string \<Rightarrow> 'w host" where
  "gitstore_New H dir = H\<lparr>base_dir := dir\<rparr>"

definition new_process :: "'w site \<Rightarrow> 'w site" where
  "new_process s = s\<lparr>site_sys := (site_sys s)\<lparr>sys_git := (sys_git (site_sys s))\<lparr>locks := []\<rparr>\<rparr>\<rparr>"

definition service_of :: "'w machine \<Rightarrow> Config \<Rightarrow> 'w Service" where
  "service_of M cfg = \<lparr> DB = m_dbms M, Git = gitstore_New (m_host M) (DataDir cfg),
     Svc_Version = m_version M, Lib = m_lib M \<rparr>"

text \<open>Connecting, with \<open>defer db.Close()\<close>, and migrating, from a configuration.\<close>

definition closing :: "string \<Rightarrow> 'w site \<Rightarrow> 'w site" where
  "closing db s = s\<lparr>site_pools := DB_Close db (site_pools s)\<rparr>"

definition opened :: "'w machine \<Rightarrow> Config \<Rightarrow> ('w Service \<Rightarrow> ('w, 'a) cli) \<Rightarrow> ('w, 'a) cli" where
  "opened M cfg f =
     handle (zoom site_pools (\<lambda>p s. s\<lparr>site_pools := p\<rparr>) (DB_Open (m_pool M) (DatabaseURL cfg)))
       (\<lambda>e. failwith (Open_Failed e))
       (\<lambda>db. deferred (closing db)
          (handle (zoom site_migrations (\<lambda>d s. s\<lparr>site_migrations := d\<rparr>) (DB_Migrate (m_migrator M)))
            (\<lambda>e. failwith (Migrate_Failed e))
            (\<lambda>_ s. f (service_of M cfg) (new_process s))))"

definition withService :: "'w machine \<Rightarrow> ('w Service \<Rightarrow> ('w, 'a) cli) \<Rightarrow> ('w, 'a) cli" where
  "withService M f =
     (case Load (m_environ M) of
        Inl e \<Rightarrow> failwith (Bad_Config_Env e)
      | Inr cfg \<Rightarrow> opened M cfg f)"

definition cmdMigrate :: "'w machine \<Rightarrow> ('w, unit) cli" where
  "cmdMigrate M = withService M (\<lambda>S. ret ())"

section \<open>Serving\<close>

text \<open>The requests of one run, one after the other, with their responses.\<close>

fun serve_requests :: "'w Server \<Rightarrow> request list \<Rightarrow> 'w web \<Rightarrow> response option list \<times> 'w web" where
  "serve_requests api [] w = ([], w)"
| "serve_requests api (r # rs) w =
     (case Handler api r w of (resp, w) \<Rightarrow>
        (case serve_requests api rs w of (resps, w) \<Rightarrow> (resp # resps, w)))"

definition with_flags ::
  "(string \<times> bool) list \<Rightarrow> string list \<Rightarrow> ((string \<Rightarrow> string option) \<Rightarrow> ('w, 'a) cli) \<Rightarrow> ('w, 'a) cli" where
  "with_flags fs args body =
     (case parse_flags fs Map.empty args of Exits n \<Rightarrow> failwith (Exit_Code n) | Parsed v \<Rightarrow> body v)"

text \<open>The responses are the result; an error of the server's end replaces them.\<close>

definition cmdServe :: "'w machine \<Rightarrow> string list \<Rightarrow> ('w, response option list) cli" where
  "cmdServe M args = with_flags [(''local'', True)] args (\<lambda>v.
     case Load (m_environ M) of
       Inl e \<Rightarrow> failwith (Bad_Config_Env e)
     | Inr cfg \<Rightarrow>
         (let cfg = cfg\<lparr>Local := flag_set v ''local''\<rparr> in
          case Validate cfg of
            Some e \<Rightarrow> failwith (Bad_Config_Env e)
          | None \<Rightarrow> opened M cfg (\<lambda>S.
              andThen (put (Serving (m_version M) (Redacted cfg))) (\<lambda>_ s.
                case serve_requests \<lparr> Svc = S, Public = PublicURL cfg, Sdk = m_sdk M \<rparr> (m_requests M)
                    \<lparr> web_sys = site_sys s, reqs = (\<lambda>_. 0), auth_failures = 0, web_log = [] \<rparr> of
                  (resps, w) \<Rightarrow>
                    (case m_serve_end M of None \<Rightarrow> Inr resps | Some msg \<Rightarrow> Inl (Serve_Failed msg),
                     s\<lparr>site_sys := web_sys w\<rparr>)))))"

section \<open>Setup\<close>

definition emdash :: string where
  "emdash = map char_of [226, 128, 148 :: nat]"

definition lines :: "string list \<Rightarrow> string" where
  "lines ls = concat (map (\<lambda>l. l @ newline) ls)"

definition setup_notice :: "string \<Rightarrow> string" where
  "setup_notice token = lines ['''',
     ''device token (shown ONCE '' @ emdash @ '' store it now):'', '''',
     ''  '' @ token, '''',
     ''Connect Claude Code:'',
     ''  claude mcp add --transport http ubiqo <server-url>/mcp --header \"Authorization: Bearer '' @ token @ ''\"'', '''',
     ''Or for hooks/CLI on this machine:'',
     ''  ubiqo login --server <server-url> --token '' @ token]"

definition setup_project :: "'w Service \<Rightarrow> Org \<Rightarrow> User \<Rightarrow> string \<Rightarrow> ('w, unit) cli" where
  "setup_project S o1 user project =
     andThen (svc '''' (onDB (DB_CreateProject (DB S) (Org_ID o1) project project True))) (\<lambda>p.
     andThen (svc '''' (onDB (DB_AddProjectMember (DB S) p (User_ID user) ''maintainer''))) (\<lambda>_.
     andThen (svc '''' (onGit (Git_EnsureRepo (Git S) (Org_Slug o1) (Project_Slug p)))) (\<lambda>_.
     put (Out (lines [''project '' @ quoted S project @ '' created (solo mode)''])))))"

definition setup_body ::
  "'w Service \<Rightarrow> string \<Rightarrow> string \<Rightarrow> string \<Rightarrow> string \<Rightarrow> string \<Rightarrow> string \<Rightarrow> ('w, unit) cli" where
  "setup_body S orgSlug orgName user display project label =
     andThen (svc ''create org: '' (onDB (DB_CreateOrg (DB S) orgSlug orgName))) (\<lambda>o1.
     andThen (svc ''create user: '' (onDB (DB_CreateUser (DB S) user display))) (\<lambda>u.
     andThen (svc '''' (onDB (DB_AddOrgMember (DB S) (Org_ID o1) (User_ID u) ''owner''))) (\<lambda>_.
     andThen (svc '''' (onDB (DB_NewToken (DB S) (Lib S) (Org_ID o1) (User_ID u) label ''cli''))) (\<lambda>token.
     andThen (put (Out (lines [''org '' @ quoted S orgSlug @ '' created; owner '' @ quoted S user]))) (\<lambda>_.
     andThen (if project \<noteq> '''' then setup_project S o1 u project else ret ()) (\<lambda>_.
     put (Out (setup_notice token))))))))"

definition cmdSetup :: "'w machine \<Rightarrow> string list \<Rightarrow> ('w, unit) cli" where
  "cmdSetup M args =
     with_flags [(''org'', False), (''org-name'', False), (''user'', False), (''display'', False),
         (''project'', False), (''label'', False)] args (\<lambda>v.
       let orgSlug = flag_value v ''org'' ''''; user = flag_value v ''user'' '''';
           orgName = flag_value v ''org-name'' '''' in
       if orgSlug = '''' \<or> user = '''' then failwith (Usage ''setup requires --org and --user'')
       else withService M (\<lambda>S. setup_body S orgSlug (if orgName = '''' then orgSlug else orgName) user
         (flag_value v ''display'' '''') (flag_value v ''project'' '''') (flag_value v ''label'' ''first-device'')))"

section \<open>Administration\<close>

definition getOrg :: "'w Service \<Rightarrow> string \<Rightarrow> (db, Org) go" where
  "getOrg S slug = (if slug = '''' then DB_FirstOrg (DB S) else DB_GetOrgBySlug (DB S) slug)"

text \<open>At most 4 MiB of the standard input; a file is trimmed.\<close>

definition readFileOrStdin :: "'w machine \<Rightarrow> string \<Rightarrow> ('w, string) cli" where
  "readFileOrStdin M path =
     (if path = '''' then failwith (Usage ''--file required ('-' for stdin)'')
      else if path = ''-'' then
        (case m_stdin M of None \<Rightarrow> failwith (File_Error path) | Some b \<Rightarrow> ret (take 4194304 b))
      else (case m_readfile M path of Inl msg \<Rightarrow> failwith (File_Error msg) | Inr b \<Rightarrow> ret (TrimSpace b)))"

definition admin_flags :: "(string \<times> bool) list" where
  "admin_flags = [(''org'', False), (''slug'', False), (''name'', False), (''team'', True), (''project'', False),
     (''user'', False), (''display'', False), (''role'', False), (''file'', False), (''label'', False), (''id'', False)]"

definition user_create :: "'w Service \<Rightarrow> string \<Rightarrow> string \<Rightarrow> string \<Rightarrow> ('w, unit) cli" where
  "user_create S orgSlug user display =
     (if user = '''' then failwith (Usage ''--user required'')
      else andThen (svc '''' (onDB (DB_CreateUser (DB S) user display))) (\<lambda>u.
        andThen (svc_try (onDB (getOrg S orgSlug)) (\<lambda>_. ret ())
          (\<lambda>o1. ignoring (svc '''' (onDB (DB_AddOrgMember (DB S) (Org_ID o1) (User_ID u) ''member''))))) (\<lambda>_.
        put (Out (lines [''user created: '' @ User_Username u])))))"

definition project_create :: "'w Service \<Rightarrow> string \<Rightarrow> string \<Rightarrow> string \<Rightarrow> bool \<Rightarrow> ('w, unit) cli" where
  "project_create S orgSlug slug name team =
     andThen (svc '''' (onDB (getOrg S orgSlug))) (\<lambda>o1.
     if slug = '''' then failwith (Usage ''--slug required'')
     else
       andThen (svc '''' (onDB (DB_CreateProject (DB S) (Org_ID o1) slug (if name = '''' then slug else name) (\<not> team)))) (\<lambda>p.
       andThen (svc '''' (onGit (Git_EnsureRepo (Git S) (Org_Slug o1) (Project_Slug p)))) (\<lambda>_.
       put (Out (lines [''project '' @ quoted S slug @ '' created ('' @ (if team then ''team'' else ''solo'') @ '' mode)''])))))"

definition project_add_member :: "'w Service \<Rightarrow> string \<Rightarrow> string \<Rightarrow> string \<Rightarrow> string \<Rightarrow> ('w, unit) cli" where
  "project_add_member S orgSlug project user role =
     andThen (svc '''' (onDB (getOrg S orgSlug))) (\<lambda>o1.
     andThen (svc '''' (onDB (DB_GetProject (DB S) (Org_ID o1) project))) (\<lambda>p.
     andThen (svc '''' (onDB (DB_GetUserByUsername (DB S) user))) (\<lambda>u.
     andThen (svc '''' (onDB (DB_AddProjectMember (DB S) p (User_ID u) role))) (\<lambda>_.
     put (Out (lines [user @ '' added to '' @ project @ '' as '' @ role]))))))"

definition set_instructions :: "'w machine \<Rightarrow> 'w Service \<Rightarrow> bool \<Rightarrow> string \<Rightarrow> string \<Rightarrow> string \<Rightarrow> ('w, unit) cli" where
  "set_instructions M S org_noun orgSlug project file =
     andThen (svc '''' (onDB (getOrg S orgSlug))) (\<lambda>o1.
     andThen (readFileOrStdin M file) (\<lambda>txt.
     if org_noun then svc '''' (onDB (DB_SetOrgInstructions (DB S) (Org_ID o1) txt))
     else andThen (svc '''' (onDB (DB_GetProject (DB S) (Org_ID o1) project))) (\<lambda>p.
       svc '''' (onDB (DB_SetProjectInstructions (DB S) (Project_ID p) txt)))))"

definition device_create :: "'w Service \<Rightarrow> string \<Rightarrow> string \<Rightarrow> string \<Rightarrow> ('w, unit) cli" where
  "device_create S orgSlug user label =
     andThen (svc '''' (onDB (getOrg S orgSlug))) (\<lambda>o1.
     andThen (svc '''' (onDB (DB_GetUserByUsername (DB S) user))) (\<lambda>u.
     andThen (svc '''' (onDB (DB_NewToken (DB S) (Lib S) (Org_ID o1) (User_ID u)
        (if label = '''' then user @ ''-device'' else label) ''''))) (\<lambda>token.
     andThen (put (Out (lines [''device token (shown ONCE):'']))) (\<lambda>_.
     put (Out (lines [''  '' @ token]))))))"

text \<open>\<open>%-12s\<close>: the width counts runes.\<close>

definition padded :: "nat \<Rightarrow> string \<Rightarrow> string" where
  "padded n s = s @ replicate (n - rune_count s) (CHR '' '')"

definition device_line :: "TokenView \<Rightarrow> string" where
  "device_line r = TV_id r @ ''  '' @ padded 12 (TV_user r) @ '' '' @ padded 20 (TV_label r) @ '' '' @ padded 8 (TV_state r)
     @ '' last_seen='' @ TV_last_seen r @ ''  '' @ TV_client r"

definition device_list :: "'w Service \<Rightarrow> string \<Rightarrow> ('w, unit) cli" where
  "device_list S orgSlug =
     andThen (svc '''' (onDB (getOrg S orgSlug))) (\<lambda>o1.
     andThen (svc '''' (onDB (DB_ListTokens (DB S) (Lib S) (Org_ID o1)))) (\<lambda>rows.
     andThen (forEach rows (\<lambda>r. put (Out (lines [device_line r])))) (\<lambda>_. ret ())))"

definition parseUUID :: "golib \<Rightarrow> string \<Rightarrow> ('w, uuid) cli" where
  "parseUUID lib s =
     (if s = '''' then failwith (Usage ''--id required'')
      else (case uuidParse lib s of None \<Rightarrow> failwith (Invalid_ID s) | Some i \<Rightarrow> ret i))"

definition device_revoke :: "'w Service \<Rightarrow> string \<Rightarrow> ('w, unit) cli" where
  "device_revoke S ident =
     andThen (parseUUID (Lib S) ident) (\<lambda>uid.
     andThen (svc '''' (onDB (DB_RevokeToken (DB S) uid))) (\<lambda>_.
     put (Out (lines [''revoked '' @ ident]))))"

definition cmdAdmin :: "'w machine \<Rightarrow> string \<Rightarrow> string list \<Rightarrow> ('w, unit) cli" where
  "cmdAdmin M noun args =
     (case args of
        [] \<Rightarrow> failwith (Usage (noun @ '' needs a verb''))
      | verb # rest \<Rightarrow> with_flags admin_flags rest (\<lambda>v. withService M (\<lambda>S.
          let arg = (\<lambda>n. flag_value v n ''''); orgSlug = flag_value v ''org'' ''''; cmd = noun @ '' '' @ verb in
          if cmd = ''user create'' then user_create S orgSlug (arg ''user'') (arg ''display'')
          else if cmd = ''project create'' then
            project_create S orgSlug (arg ''slug'') (arg ''name'') (flag_set v ''team'')
          else if cmd = ''project add-member'' then
            project_add_member S orgSlug (arg ''project'') (arg ''user'') (flag_value v ''role'' ''contributor'')
          else if cmd = ''project set-instructions'' \<or> cmd = ''org set-instructions'' then
            set_instructions M S (noun = ''org'') orgSlug (arg ''project'') (arg ''file'')
          else if cmd = ''device create'' then device_create S orgSlug (arg ''user'') (arg ''label'')
          else if cmd = ''device list'' then device_list S orgSlug
          else if cmd = ''device revoke'' then device_revoke S (arg ''id'')
          else failwith (Usage (''unknown command '' @ cmd)))))"

end
