(* ===== verification/Ops.thy ===== *)
theory Ops
  imports Cli
begin

text \<open>
  The operations of \<open>cmd/ubiqo/ops.go\<close> (the demo fixture, backup, and the rebuilding of release rows
  from git tags) and the dispatch of \<open>main\<close>. The program never restarts itself: one run of \<open>main\<close>
  is one command, on the server's state or on the client's.
\<close>

section \<open>The demo fixture\<close>

definition seed_actor :: "Org \<Rightarrow> User \<Rightarrow> string \<Rightarrow> string \<Rightarrow> string \<Rightarrow> Actor" where
  "seed_actor o1 u name role ident = \<lparr> Actor_UserID = User_ID u, Actor_Username = name, Actor_OrgID = Org_ID o1,
     Actor_OrgSlug = ''acme'', Actor_OrgRole = role, Actor_Identity = ident \<rparr>"

definition arrow :: string where
  "arrow = map char_of [226, 134, 146 :: nat]"

definition seed_notice :: "string \<Rightarrow> string \<Rightarrow> string" where
  "seed_notice tokJon tokSam = lines [''seeded org \"acme\" / project \"website-redesign\" (team mode)'', '''',
     ''  jon (contributor, \"account A\"): '' @ tokJon,
     ''  sam (maintainer,  \"account B\"): '' @ tokSam, '''',
     ''15-minute demo:'',
     ''  claude mcp add --transport http ubiqo <server>/mcp --header \"Authorization: Bearer <token>\"'',
     ''  '' @ arrow @ '' as sam, ask Claude: \"what happened in website-redesign while I was away?\"'',
     ''  '' @ arrow @ '' it calls ubiqo_get_context and narrates jon's open proposal.'']"

text \<open>Sam ships a release through the service's own methods.\<close>

definition seed_sam :: "'w Service \<Rightarrow> Actor \<Rightarrow> string \<Rightarrow> ('w, unit) cli" where
  "seed_sam S sam slug =
     andThen (svc '''' (Svc_WriteArtifact S sam slug ''brand-kit'' ''initial brand palette and voice''
       [\<lparr> File_Path = ''README.md'', File_Content = lines [''# Brand kit'', '''',
          ''Palette: slate + amber. Voice: plain, confident.''] \<rparr>])) (\<lambda>_.
     andThen (svc '''' (Svc_ProposeMerge S sam slug ''brand-kit'' ''initial brand kit'')) (\<lambda>prop.
     andThen (svc '''' (Svc_MergeProposal S sam slug (PR_ProposalID prop))) (\<lambda>_.
     andThen (svc '''' (Svc_ReleaseArtifact S sam slug ''brand-kit'' ''minor'' ''first usable palette'')) (\<lambda>_.
     ret ()))))"

text \<open>Jon leaves a proposal open.\<close>

definition seed_jon :: "'w Service \<Rightarrow> Actor \<Rightarrow> string \<Rightarrow> ('w, unit) cli" where
  "seed_jon S jon slug =
     andThen (svc '''' (Svc_WriteArtifact S jon slug ''api-design'' ''draft API surface''
       [\<lparr> File_Path = ''README.md'', File_Content = lines [''# API design'', '''',
          ''Draft: REST, versioned under /v1.''] \<rparr>])) (\<lambda>_.
     andThen (svc '''' (Svc_ProposeMerge S jon slug ''api-design''
       (''first draft of the API surface '' @ emdash @ '' needs Sam's review''))) (\<lambda>_.
     andThen (svc '''' (Svc_Remember S jon slug ''project'' ''Client prefers Tailwind v4 for all frontend work.'')) (\<lambda>_.
     ignoring (svc '''' (Svc_RecordSessionEnd S jon slug ''drafted the API design and proposed it for review'')))))"

definition seed_project :: "'w Service \<Rightarrow> Org \<Rightarrow> User \<Rightarrow> User \<Rightarrow> ('w, Project) cli" where
  "seed_project S o1 jon sam =
     andThen (svc '''' (onDB (DB_AddOrgMember (DB S) (Org_ID o1) (User_ID jon) ''owner''))) (\<lambda>_.
     andThen (svc '''' (onDB (DB_AddOrgMember (DB S) (Org_ID o1) (User_ID sam) ''member''))) (\<lambda>_.
     andThen (svc '''' (onDB (DB_CreateProject (DB S) (Org_ID o1) ''website-redesign'' ''Website Redesign'' False))) (\<lambda>p.
     andThen (ignoring (svc '''' (onDB (DB_SetProjectInstructions (DB S) (Project_ID p)
        ''Client prefers understated design. All public copy is reviewed by Sam.'')))) (\<lambda>_.
     andThen (svc '''' (onDB (DB_AddProjectMember (DB S) p (User_ID jon) ''contributor''))) (\<lambda>_.
     andThen (svc '''' (onDB (DB_AddProjectMember (DB S) p (User_ID sam) ''maintainer''))) (\<lambda>_.
     andThen (svc '''' (onGit (Git_EnsureRepo (Git S) (Org_Slug o1) (Project_Slug p)))) (\<lambda>_. ret p)))))))"

definition cmdSeed :: "'w machine \<Rightarrow> ('w, unit) cli" where
  "cmdSeed M = withService M (\<lambda>S.
     andThen (svc ''seed expects an empty database: '' (onDB (DB_CreateOrg (DB S) ''acme'' ''Acme''))) (\<lambda>o1.
     andThen (ignoring (svc '''' (onDB (DB_SetOrgInstructions (DB S) (Org_ID o1)
        ''Prefer boring technology. Write decisions down before acting on them.'')))) (\<lambda>_.
     andThen (svc '''' (onDB (DB_CreateUser (DB S) ''jon'' ''Jon''))) (\<lambda>jon.
     andThen (svc '''' (onDB (DB_CreateUser (DB S) ''sam'' ''Sam''))) (\<lambda>sam.
     andThen (seed_project S o1 jon sam) (\<lambda>p.
     andThen (seed_sam S (seed_actor o1 sam ''sam'' ''member'' ''claude-code/studio'') (Project_Slug p)) (\<lambda>_.
     andThen (seed_jon S (seed_actor o1 jon ''jon'' ''owner'' ''claude-desktop/laptop-1'') (Project_Slug p)) (\<lambda>_.
     andThen (svc '''' (onDB (DB_NewToken (DB S) (Lib S) (Org_ID o1) (User_ID jon) ''claude-desktop/laptop-1'' ''seed''))) (\<lambda>tokJon.
     andThen (svc '''' (onDB (DB_NewToken (DB S) (Lib S) (Org_ID o1) (User_ID sam) ''claude-code/studio'' ''seed''))) (\<lambda>tokSam.
     put (Out (seed_notice tokJon tokSam))))))))))))"

section \<open>Backup\<close>

definition run_pg_dump :: "'w machine \<Rightarrow> string list \<Rightarrow> ('w, unit) cli" where
  "run_pg_dump M args = (\<lambda>s.
     let g = sys_git (site_sys s) in
     case pg_dump M args (world g) of ((out, err), w) \<Rightarrow>
       (case err of None \<Rightarrow> Inr () | Some e \<Rightarrow> Inl (Pg_Dump_Failed e out),
        s\<lparr>site_sys := (site_sys s)\<lparr>sys_git := performed (Exec '''' (''pg_dump'' # args) (err = None)) w g\<rparr>\<rparr>))"

text \<open>The manifest: the keys of a map in order; no bundle is a nil slice, hence null.\<close>

definition manifest_json :: "backup_manifest \<Rightarrow> string" where
  "manifest_json b = json_indented 0 (JObject
     [(''created_at'', JString (bm_created_at b)),
      (''database'', JString ''db.sql''),
      (''git_bundles'', if bm_bundles b = [] then JNull else JArray (map JString (bm_bundles b))),
      (''restore'', JString ''see docs/runbooks/restore.md''),
      (''ubiqo_version'', JString (bm_version b))])"

definition cmdBackup :: "'w machine \<Rightarrow> string list \<Rightarrow> ('w, unit) cli" where
  "cmdBackup M args =
     (let H = m_host M; lib = m_lib M;
          default_out = ''ubiqo-backup-'' @ formatTime lib ''20060102-150405'' (m_clock M);
          out = (case args of a # b # _ \<Rightarrow> if a = ''--out'' then b else default_out | _ \<Rightarrow> default_out);
          dbURL = (case LookupEnv (m_environ M) ''UBIQO_DATABASE_URL'' of None \<Rightarrow> '''' | Some v \<Rightarrow> v) in
      andThen (svc '''' (onGit (os_MkdirAll H out))) (\<lambda>_.
      if dbURL = '''' then failwith (Usage ''UBIQO_DATABASE_URL required'')
      else
        andThen (run_pg_dump M [''--no-owner'', ''--file'', filepath_Join [out, ''db.sql''], dbURL]) (\<lambda>_.
        andThen (withService M (\<lambda>S. svc '''' (onGit (Git_BundleAll (Git S) out)))) (\<lambda>bundles.
        andThen (svc '''' (onGit (os_WriteFile H (filepath_Join [out, ''manifest.json''])
           (manifest_json \<lparr> bm_version = m_version M,
              bm_created_at = formatTime lib ''2006-01-02T15:04:05Z07:00'' (m_clock M), bm_bundles = bundles \<rparr>)))) (\<lambda>_.
        put (Out (lines [''backup written to '' @ out @ '' ('' @ show_nat (length bundles)
           @ '' git bundles + db.sql + manifest.json)'']))))))) "

section \<open>Rebuilding release rows from tags\<close>

definition fsck_version :: "'w Service \<Rightarrow> Org \<Rightarrow> Project \<Rightarrow> string \<Rightarrow> string \<Rightarrow> ('w, nat) cli" where
  "fsck_version S o1 p a v =
     andThen (svc '''' (onDB (DB_EnsureRelease (DB S) (Org_ID o1) (Project_ID p) a v (''artifacts/'' @ a @ ''/'' @ v)))) (\<lambda>ok.
     if ok then
       andThen (put (Out (lines [''repaired: release row '' @ a @ '' '' @ v @ '' in '' @ Org_Slug o1 @ ''/'' @ Project_Slug p])))
         (\<lambda>_. ret 1)
     else ret 0)"

definition fsck_artifact :: "'w Service \<Rightarrow> Org \<Rightarrow> Project \<Rightarrow> string \<Rightarrow> ('w, nat) cli" where
  "fsck_artifact S o1 p a =
     svc_try (onGit (Git_Versions (Git S) (Org_Slug o1) (Project_Slug p) a))
       (\<lambda>_. ret 0)
       (\<lambda>versions. andThen (forEach versions (fsck_version S o1 p a)) (\<lambda>ns. ret (sum_list ns)))"

definition fsck_orphan :: "'w Service \<Rightarrow> string list \<Rightarrow> Proposal \<Rightarrow> ('w, nat) cli" where
  "fsck_orphan S branches pr =
     (if Proposal_Branch pr \<in> set branches then ret 0
      else
        andThen (put (Out (lines [''ORPHAN: open proposal '' @ uuidString (Lib S) (Proposal_ID pr) @ '' (''
            @ Proposal_Artifact pr @ '') has no branch '' @ Proposal_Branch pr @ '' '' @ emdash
            @ '' reject it or restore the branch'']))) (\<lambda>_. ret 1))"

definition fsck_orphans :: "'w Service \<Rightarrow> Org \<Rightarrow> Project \<Rightarrow> ('w, nat) cli" where
  "fsck_orphans S o1 p =
     svc_try (onGit (Git_Branches (Git S) (Org_Slug o1) (Project_Slug p)))
       (\<lambda>_. ret 0)
       (\<lambda>branches.
          andThen (svc '''' (onDB (DB_ListProposals (DB S) (Project_ID p) ''open''))) (\<lambda>prs.
          andThen (forEach prs (fsck_orphan S branches)) (\<lambda>ns. ret (sum_list ns))))"

text \<open>The counts of repaired rows and orphans of a project.\<close>

definition fsck_project :: "'w Service \<Rightarrow> Org \<Rightarrow> Project \<Rightarrow> ('w, nat \<times> nat) cli" where
  "fsck_project S o1 p =
     svc_try (onGit (Git_ListArtifacts (Git S) (Org_Slug o1) (Project_Slug p)))
       (\<lambda>e. andThen (put (Warning (''WARN '' @ Org_Slug o1 @ ''/'' @ Project_Slug p @ '': '') e)) (\<lambda>_. ret (0, 0)))
       (\<lambda>arts.
          andThen (forEach arts (fsck_artifact S o1 p)) (\<lambda>ns.
          andThen (fsck_orphans S o1 p) (\<lambda>orphans. ret (sum_list ns, orphans))))"

definition fsck_org :: "'w Service \<Rightarrow> Org \<Rightarrow> ('w, nat \<times> nat) cli" where
  "fsck_org S o1 =
     andThen (svc '''' (onDB (DB_ListProjects (DB S) (Org_ID o1)))) (\<lambda>projects.
     andThen (forEach projects (fsck_project S o1)) (\<lambda>ns. ret (sum_list (map fst ns), sum_list (map snd ns))))"

definition fsck_summary :: "nat \<Rightarrow> nat \<Rightarrow> cli_line" where
  "fsck_summary repaired orphans =
     Out (lines [''fsck done: '' @ show_nat repaired @ '' release rows repaired, '' @ show_nat orphans @ '' orphan proposals''])"

definition cmdFsck :: "'w machine \<Rightarrow> ('w, unit) cli" where
  "cmdFsck M = withService M (\<lambda>S.
     andThen (svc '''' (onDB (DB_ListOrgs (DB S)))) (\<lambda>orgs.
     andThen (forEach orgs (fsck_org S)) (\<lambda>ns.
     put (fsck_summary (sum_list (map fst ns)) (sum_list (map snd ns))))))"

section \<open>Main\<close>

record 'w process =
  proc_site :: "'w site"
  proc_client :: client

datatype main_end =
    Usage_Shown
  | Server_Ended "cli_error option"
  | Client_Ended "client_error option"
  | Version_Shown

definition on_site :: "('w, 'a) cli \<Rightarrow> 'w process \<Rightarrow> main_end \<times> 'w process" where
  "on_site m w = (case m (proc_site w) of (r, s) \<Rightarrow>
     (Server_Ended (case r of Inl e \<Rightarrow> Some e | Inr _ \<Rightarrow> None), w\<lparr>proc_site := s\<rparr>))"

definition on_client :: "'a cl \<Rightarrow> 'w process \<Rightarrow> main_end \<times> 'w process" where
  "on_client m w = (case m (proc_client w) of (r, s) \<Rightarrow>
     (Client_Ended (case r of Inl e \<Rightarrow> Some e | Inr _ \<Rightarrow> None), w\<lparr>proc_client := s\<rparr>))"

text \<open>The exit status; a panic ends a Go program with status 2.\<close>

definition exit_status :: "main_end \<Rightarrow> nat" where
  "exit_status e = (case e of
       Usage_Shown \<Rightarrow> 2
     | Version_Shown \<Rightarrow> 0
     | Server_Ended None \<Rightarrow> 0
     | Server_Ended (Some (Exit_Code n)) \<Rightarrow> n
     | Server_Ended (Some _) \<Rightarrow> 1
     | Client_Ended None \<Rightarrow> 0
     | Client_Ended (Some (Client_Exits n)) \<Rightarrow> n
     | Client_Ended (Some Panic) \<Rightarrow> 2
     | Client_Ended (Some _) \<Rightarrow> 1)"

definition main :: "'w machine \<Rightarrow> client_env \<Rightarrow> string list \<Rightarrow> 'w process \<Rightarrow> main_end \<times> 'w process" where
  "main M E argv w =
     (case argv of
        _ # cmd # args \<Rightarrow>
          if cmd = ''serve'' then on_site (cmdServe M args) w
          else if cmd = ''migrate'' then on_site (cmdMigrate M) w
          else if cmd = ''setup'' then on_site (cmdSetup M args) w
          else if cmd = ''seed'' then on_site (cmdSeed M) w
          else if cmd \<in> {''org'', ''project'', ''user'', ''device''} then on_site (cmdAdmin M cmd args) w
          else if cmd = ''backup'' then on_site (cmdBackup M args) w
          else if cmd = ''fsck'' then on_site (cmdFsck M) w
          else if cmd = ''login'' then on_client (cmdLogin E args) w
          else if cmd = ''init'' then on_client (cmdInit E args) w
          else if cmd = ''hook'' then on_client (cmdHook E args) w
          else if cmd = ''context'' then on_client (cmdContext E args) w
          else if cmd = ''version'' then (Version_Shown, w)
          else (Usage_Shown, w)
      | _ \<Rightarrow> (Usage_Shown, w))"

end
