(* ===== verification/Fsck.thy ===== *)
theory Fsck
  imports Ops Lifecycle Core_Safety
begin

text \<open>
  What \<open>ubiqo fsck\<close> does to the projections: it only adds release rows, one for each it reports, and
  after it has looked at an artifact every version git listed has a row. The first section lifts
  relations on the service's state to the commands (\<open>site_relation\<close>), which also close every pool they open; the counting of added rows is the
  triple \<open>tally\<close>, composed along the code.
\<close>

section \<open>Relations on the state of the commands\<close>

definition site_step :: "('w sys \<Rightarrow> 'w sys \<Rightarrow> bool) \<Rightarrow> 'w site \<Rightarrow> 'w site \<Rightarrow> bool" where
  "site_step Q s s' \<longleftrightarrow> Q (site_sys s) (site_sys s') \<and> site_pools s' = site_pools s"

locale site_relation = two_state Q for Q :: "'w sys \<Rightarrow> 'w sys \<Rightarrow> bool"
begin

lemma site_refl: "site_step Q s s"
  by (simp add: site_step_def step_refl)

lemma site_trans: "site_step Q s s' \<Longrightarrow> site_step Q s' s'' \<Longrightarrow> site_step Q s s''"
  by (auto simp: site_step_def intro: step_trans)

lemma keeps_svc:
  assumes "keeps Q m"
  shows "keeps (site_step Q) (svc pre m)"
proof (rule keepsI)
  fix s
  show "site_step Q s (snd (svc pre m s))"
    using keepsD [OF assms, of "site_sys s"]
    by (auto simp: svc_def site_step_def split: prod.splits sum.splits)
qed

lemma keeps_put: "keeps (site_step Q) (put l)"
  by (simp add: keeps_def put_def site_step_def step_refl)

end

sublocale site_relation < st: two_state "site_step Q"
  by unfold_locales (rule site_refl, erule (1) site_trans)

context site_relation
begin

lemma keeps_svc_try:
  assumes "keeps Q m" and "\<And>e. keeps (site_step Q) (h e)" and "\<And>x. keeps (site_step Q) (f x)"
  shows "keeps (site_step Q) (svc_try m h f)"
  unfolding svc_try_def
  by (intro st.keeps_handle keeps_svc assms) (auto simp: assms st.keeps_failwith split: cli_error.split)

lemma keeps_opened:
  assumes "keeps (site_step Q) (f (service_of M cfg))" and "\<And>w. Q w (w\<lparr>sys_git := (sys_git w)\<lparr>locks := []\<rparr>\<rparr>)"
  shows "keeps (site_step Q) (opened M cfg f)"
proof (rule keepsI)
  fix s :: "'w site"
  let ?url = "DatabaseURL cfg"
  let ?m = "handle (zoom site_migrations (\<lambda>d s. s\<lparr>site_migrations := d\<rparr>) (DB_Migrate (m_migrator M)))
            (\<lambda>e. failwith (Migrate_Failed e)) (\<lambda>_ s. f (service_of M cfg) (new_process s))"
  have "keeps (site_step Q) (zoom site_migrations (\<lambda>d s. s\<lparr>site_migrations := d\<rparr>) (DB_Migrate (m_migrator M)))"
    by (auto simp: keeps_def zoom_def site_step_def step_refl split: prod.splits)
  moreover have "keeps (site_step Q) (\<lambda>s. f (service_of M cfg) (new_process s))"
  proof (rule keepsI)
    fix s
    have "site_step Q s (new_process s)"
      by (simp add: site_step_def new_process_def assms(2))
    then show "site_step Q s (snd (f (service_of M cfg) (new_process s)))"
      by (rule site_trans) (rule keepsD [OF assms(1)])
  qed
  ultimately have m: "keeps (site_step Q) ?m"
    by (intro st.keeps_handle st.keeps_failwith)
  obtain r pools where o: "DB_Open (m_pool M) ?url (site_pools s) = (r, pools)" by fastforce
  from DB_Open_cases [OF o] show "site_step Q s (snd (opened M cfg f s))"
  proof (elim disjE exE conjE)
    fix e
    assume "r = Inl e" "pools = site_pools s"
    then show ?thesis
      using o by (simp add: opened_def handle_def zoom_def site_refl)
  next
    assume r: "r = Inr ?url" "pools = ?url # site_pools s"
    let ?s = "s\<lparr>site_pools := pools\<rparr>"
    have "snd (opened M cfg f s) = closing ?url (snd (?m ?s))"
    proof -
      have "zoom site_pools (\<lambda>p s. s\<lparr>site_pools := p\<rparr>) (DB_Open (m_pool M) ?url) s = (Inr ?url, ?s)"
        using o r(1) by (simp add: zoom_def)
      then have "opened M cfg f s = deferred (closing ?url) ?m ?s"
        by (simp add: opened_def handle_def [of "zoom site_pools a b" for a b])
      then show ?thesis
        by (cases "?m ?s") (simp add: deferred_def)
    qed
    moreover have "site_step Q ?s (snd (?m ?s))"
      by (rule keepsD [OF m])
    ultimately show ?thesis
      using r(2) by (simp add: site_step_def closing_def)
  qed
qed

lemma keeps_withService:
  assumes "\<And>cfg. keeps (site_step Q) (f (service_of M cfg))" and "\<And>w. Q w (w\<lparr>sys_git := (sys_git w)\<lparr>locks := []\<rparr>\<rparr>)"
  shows "keeps (site_step Q) (withService M f)"
  unfolding withService_def
  by (auto intro!: keeps_opened assms st.keeps_failwith split: sum.split)

end

section \<open>Only release rows are added\<close>

definition rebuilt :: "release_row \<Rightarrow> bool" where
  "rebuilt r \<longleftrightarrow> r_created_by r = None \<and> r_notes r = fsck_notes
     \<and> r_tag r = ''artifacts/'' @ r_artifact r @ ''/'' @ r_version r"

definition adds_rebuilt :: "db \<Rightarrow> db \<Rightarrow> bool" where
  "adds_rebuilt d d' \<longleftrightarrow> (\<exists>new. d' = d\<lparr>tick := tick d', releases := releases d @ new\<rparr> \<and> list_all rebuilt new)"

lemma adds_rebuilt_same: "same_data d d' \<Longrightarrow> adds_rebuilt d d'"
  unfolding adds_rebuilt_def same_data_def by (rule exI [of _ "[]"]) (cases d; cases d'; simp)

lemma adds_rebuilt_trans:
  assumes "adds_rebuilt d d'" and "adds_rebuilt d' d''"
  shows "adds_rebuilt d d''"
proof -
  obtain n1 n2 where n: "d' = d\<lparr>tick := tick d', releases := releases d @ n1\<rparr>"
      "d'' = d'\<lparr>tick := tick d'', releases := releases d' @ n2\<rparr>" "list_all rebuilt n1" "list_all rebuilt n2"
    using assms unfolding adds_rebuilt_def by auto
  have "releases d' = releases d @ n1"
    by (subst n(1)) simp
  then have "d'' = d\<lparr>tick := tick d'', releases := releases d @ n1 @ n2\<rparr>"
    by (subst n(2), subst (1) n(1)) simp
  then show ?thesis
    unfolding adds_rebuilt_def using n(3,4) by (intro exI [of _ "n1 @ n2"]) simp
qed

lemma adds_rebuilt_releases: "adds_rebuilt d d' \<Longrightarrow> r \<in> set (releases d) \<Longrightarrow> r \<in> set (releases d')"
proof -
  assume "adds_rebuilt d d'" and r: "r \<in> set (releases d)"
  then obtain new where "d' = d\<lparr>tick := tick d', releases := releases d @ new\<rparr>"
    by (auto simp: adds_rebuilt_def)
  then have "releases d' = releases d @ new"
    by (metis db.select_convs(11) db.surjective db.update_convs(11))
  with r show "r \<in> set (releases d')" by simp
qed

interpretation ar: two_state adds_rebuilt
  by unfold_locales (simp add: adds_rebuilt_same same_data_def, erule (1) adds_rebuilt_trans)

definition reads_only :: "effect list \<Rightarrow> bool" where
  "reads_only t \<longleftrightarrow> list_all (\<lambda>e. case e of Exec dir args ok \<Rightarrow> \<not> mutating args | _ \<Rightarrow> False) t"

interpretation ro: trace_lang reads_only
  by unfold_locales (simp_all add: reads_only_def)

lemma reads_only_git:
  "keeps (emits reads_only) (Git_ListArtifacts H og project)"
  "keeps (emits reads_only) (Git_Versions H og project artifact)"
  "keeps (emits reads_only) (Git_Branches H og project)"
  unfolding Git_ListArtifacts_def Git_Versions_def Git_Branches_def
  by (intro ro.keeps_andThen ro.keeps_ofSum ro.keeps_git ro.keeps_ret; simp add: reads_only_def)+

interpretation fs: sys_relation adds_rebuilt "emits reads_only"
  by unfold_locales

interpretation fk: site_relation "sys_step adds_rebuilt (emits reads_only)"
  by unfold_locales

lemma adds_EnsureRelease: "keeps adds_rebuilt (DB_EnsureRelease E orgID projectID a v (''artifacts/'' @ a @ ''/'' @ v))"
proof (rule keepsI)
  fix d :: db
  let ?st = "\<lambda>n d. if has_row r_key (projectID, a, v) (releases d) then (Inr False, d)
       else check_all
       [(\<not> has_row r_id (gen_uuid E n) (releases d), ''releases_pkey''),
        (has_row o_id orgID (orgs d), ''releases_org_id_fkey''),
        (has_row p_id projectID (projects d), ''releases_project_id_fkey'')]
       (Inr True, d\<lparr>releases := releases d @ [\<lparr> r_id = gen_uuid E n, r_org_id = orgID,
          r_project_id = projectID, r_artifact = a, r_version = v, r_tag = ''artifacts/'' @ a @ ''/'' @ v,
          r_notes = fsck_notes, r_created_by = None, r_created_at = now E n \<rparr>]\<rparr>) d"
  let ?r = "\<lparr> r_id = gen_uuid E (tick d), r_org_id = orgID, r_project_id = projectID, r_artifact = a,
     r_version = v, r_tag = ''artifacts/'' @ a @ ''/'' @ v, r_notes = fsck_notes, r_created_by = None,
     r_created_at = now E (tick d) \<rparr>"
  let ?d = "d\<lparr>tick := Suc (tick d)\<rparr>"
  have "snd (?st (tick d) ?d) \<in> {?d, ?d\<lparr>releases := releases d @ [?r]\<rparr>}"
    by (simp del: has_row_iff)
  then have "snd (DB_EnsureRelease E orgID projectID a v (''artifacts/'' @ a @ ''/'' @ v) d) \<in> {?d, ?d\<lparr>releases := releases d @ [?r]\<rparr>}"
    using sql_snd [of E "[a, v, ''artifacts/'' @ a @ ''/'' @ v]" ?st d] unfolding DB_EnsureRelease_def by auto
  moreover have "adds_rebuilt d ?d"
    by (rule adds_rebuilt_same) (simp add: same_data_def)
  moreover have "adds_rebuilt d (?d\<lparr>releases := releases d @ [?r]\<rparr>)"
    unfolding adds_rebuilt_def by (rule exI [of _ "[?r]"]) (simp add: rebuilt_def)
  ultimately show "adds_rebuilt d (snd (DB_EnsureRelease E orgID projectID a v (''artifacts/'' @ a @ ''/'' @ v) d))"
    by auto
qed

lemma adds_reads: "keeps same_data m \<Longrightarrow> keeps adds_rebuilt m"
  by (auto simp: keeps_def intro: adds_rebuilt_same)

lemmas fsck_rules = fk.keeps_svc fk.keeps_svc_try fk.keeps_put fk.st.keeps_andThen fk.st.keeps_ret
  fk.st.keeps_forEach fk.st.keeps_if fs.keeps_onDB fs.keeps_onGit reads_only_git adds_EnsureRelease
  reads_DB [THEN adds_reads]

lemma fsck_steps:
  "keeps (site_step (sys_step adds_rebuilt (emits reads_only))) (fsck_version S o1 p a v)"
  "keeps (site_step (sys_step adds_rebuilt (emits reads_only))) (fsck_artifact S o1 p a)"
  "keeps (site_step (sys_step adds_rebuilt (emits reads_only))) (fsck_orphans S o1 p)"
  "keeps (site_step (sys_step adds_rebuilt (emits reads_only))) (fsck_project S o1 p)"
  "keeps (site_step (sys_step adds_rebuilt (emits reads_only))) (fsck_org S o1)"
  unfolding fsck_org_def fsck_project_def fsck_orphans_def fsck_orphan_def fsck_artifact_def fsck_version_def
  by (intro fsck_rules)+

lemma cmdFsck_step: "keeps (site_step (sys_step adds_rebuilt (emits reads_only))) (cmdFsck M)"
  unfolding cmdFsck_def
proof (intro fk.keeps_withService fsck_rules fsck_steps)
  fix w :: "'a sys"
  show "sys_step adds_rebuilt (emits reads_only) w (w\<lparr>sys_git := (sys_git w)\<lparr>locks := []\<rparr>\<rparr>)"
    by (simp add: sys_step_def ar.step_refl emits_def reads_only_def)
qed

section \<open>Counting the added rows\<close>

definition release_count :: "'w site \<Rightarrow> nat" where
  "release_count s = length (releases (sys_db (site_sys s)))"

text \<open>
  A successful run of \<open>m\<close>, started when \<open>c\<close> rows have been added, returns an \<open>x\<close> with
  \<open>f x\<close> the rows added in all.
\<close>

definition tally :: "nat \<Rightarrow> ('a \<Rightarrow> nat) \<Rightarrow> ('w, 'a) cli \<Rightarrow> bool" where
  "tally c f m \<longleftrightarrow> (\<forall>s x s'. m s = (Inr x, s') \<longrightarrow> release_count s' + c = release_count s + f x)"

lemma tallyD: "tally c f m \<Longrightarrow> m s = (Inr x, s') \<Longrightarrow> release_count s' + c = release_count s + f x"
  by (auto simp: tally_def)

lemma tally_ret: "f x = c \<Longrightarrow> tally c f (ret x)"
  by (auto simp: tally_def)

lemma tally_andThen:
  assumes "tally 0 f m" and "\<And>x. tally (c + f x) g (k x)"
  shows "tally c g (andThen m k)"
  unfolding tally_def andThen_Inr using tallyD [OF assms(1)] tallyD [OF assms(2)] by fastforce

lemma tally_forEach:
  fixes f :: "'a \<Rightarrow> nat"
  shows "(\<And>x. tally 0 f (m x)) \<Longrightarrow> tally 0 (\<lambda>ys. sum_list (map f ys)) (forEach xs m)"
proof (induction xs)
  case (Cons x xs)
  show ?case
    unfolding forEach.simps
  proof (rule tally_andThen [OF Cons.prems])
    fix y
    show "tally (0 + f y) (\<lambda>ys. sum_list (map f ys)) (andThen (forEach xs m) (\<lambda>ys. ret (y # ys)))"
      unfolding add_0 tally_def andThen_Inr
      using tallyD [OF Cons.IH [OF Cons.prems]] by fastforce
  qed
qed (simp add: tally_ret)

lemma tally_if: "tally c f m \<Longrightarrow> tally c f m' \<Longrightarrow> tally c f (if b then m else m')"
  by simp

lemma tally_same: "(\<And>s. release_count (snd (m s)) = release_count s) \<Longrightarrow> tally 0 (\<lambda>_. 0) m"
  unfolding tally_def by (metis add.right_neutral snd_conv)

lemma tally_svc_same:
  assumes "\<And>w. releases (sys_db (snd (m w))) = releases (sys_db w)"
  shows "release_count (snd (svc pre m s)) = release_count s"
  using assms [of "site_sys s"] by (auto simp: svc_def release_count_def split: prod.splits sum.splits)

lemma tally_svc_try:
  assumes "\<And>w. releases (sys_db (snd (m w))) = releases (sys_db w)"
    and "\<And>e. tally c g (h e)" and "\<And>x. tally c g (f x)"
  shows "tally c g (svc_try m h f)"
  unfolding tally_def
proof (intro allI impI)
  fix s x s'
  assume run: "svc_try m h f s = (Inr x, s')"
  obtain r s1 where r: "svc '''' m s = (r, s1)" by fastforce
  have "release_count s1 = release_count s"
    using tally_svc_same [OF assms(1), of "''''" s] r by simp
  moreover have "release_count s' + c = release_count s1 + g x"
    using run r tallyD [OF assms(2)] tallyD [OF assms(3)]
    by (auto simp: svc_try_def handle_def split: sum.splits cli_error.splits)
  ultimately show "release_count s' + c = release_count s + g x" by simp
qed

lemma tally_put: "tally 0 (\<lambda>_. 0) (put l)"
  by (rule tally_same) (simp add: put_def release_count_def)

lemma onDB_reads_releases:
  assumes "keeps same_data m"
  shows "releases (sys_db (snd (onDB m w))) = releases (sys_db w)"
proof -
  have "same_data (sys_db w) (snd (m (sys_db w)))"
    by (rule keepsD [OF assms])
  then have "releases (snd (m (sys_db w))) = releases (sys_db w)"
    unfolding same_data_def by (metis db.select_convs(11) db.surjective db.update_convs(12))
  then show ?thesis
    by (cases "m (sys_db w)") (simp add: onDB_def zoom_def)
qed

lemma EnsureRelease_Inr:
  assumes "DB_EnsureRelease E orgID pid a v tag d = (Inr ok, d')"
  shows "(pid, a, v) \<in> r_key ` set (releases d')
    \<and> length (releases d') = length (releases d) + (if ok then 1 else 0)"
proof (cases "(pid, a, v) \<in> r_key ` set (releases d)")
  case True
  then show ?thesis
    using sql_Inr [OF assms [unfolded DB_EnsureRelease_def]] by auto
next
  case False
  then show ?thesis
    using sql_Inr [OF assms [unfolded DB_EnsureRelease_def]]
    by (auto simp: r_key_def simp del: check_all.simps dest!: check_all_Inr)
qed

lemma tally_fsck_version: "tally 0 (\<lambda>n. n) (fsck_version S o1 p a v)"
proof -
  have ok: "release_count s' = release_count s + (if ok then 1 else 0)"
    if "svc '''' (onDB (DB_EnsureRelease E orgID pid a v tag)) s = (Inr ok, s')"
    for E orgID pid tag ok and s s' :: "'w site"
    using that by (auto simp: svc_def onDB_def zoom_def release_count_def
        split: prod.splits sum.splits dest!: EnsureRelease_Inr)
  show ?thesis
    unfolding fsck_version_def tally_def
    by (auto simp: andThen_Inr put_def dest!: ok split: if_splits) (simp add: release_count_def)
qed

lemma reads_releases:
  "releases (sys_db (snd (onDB (DB_ListOrgs E) w))) = releases (sys_db w)"
  "releases (sys_db (snd (onDB (DB_ListProjects E orgID) w))) = releases (sys_db w)"
  "releases (sys_db (snd (onDB (DB_ListProposals E projectID status) w))) = releases (sys_db w)"
  by (intro onDB_reads_releases reads_DB)+

lemma tally_svc: "(\<And>w. releases (sys_db (snd (m w))) = releases (sys_db w)) \<Longrightarrow> tally 0 (\<lambda>_. 0) (svc pre m)"
  by (rule tally_same) (rule tally_svc_same)

lemma tally_fsck_artifact: "tally 0 (\<lambda>n. n) (fsck_artifact S o1 p a)"
  unfolding fsck_artifact_def
  by (intro tally_svc_try tally_ret tally_andThen [OF tally_forEach [OF tally_fsck_version]]) simp_all

lemma tally_fsck_orphans: "tally 0 (\<lambda>_. 0) (fsck_orphans S o1 p)"
  unfolding fsck_orphans_def
proof (intro tally_svc_try tally_ret)
  fix branches
  have one: "tally 0 (\<lambda>_. 0) (fsck_orphan S branches pr)" for pr
    unfolding fsck_orphan_def
    by (intro tally_if tally_ret tally_andThen [OF tally_put]) simp_all
  have "tally 0 (\<lambda>_. 0) (forEach prs (fsck_orphan S branches))" for prs
    using tally_forEach [OF one] by simp
  then show "tally 0 (\<lambda>_. 0) (andThen (svc '''' (onDB (DB_ListProposals (DB S) (Project_ID p) ''open'')))
      (\<lambda>prs. andThen (forEach prs (fsck_orphan S branches)) (\<lambda>ns. ret (sum_list ns))))"
    by (intro tally_andThen [where f = "\<lambda>_. 0"] tally_svc reads_releases) (simp_all add: tally_ret)
qed simp_all

lemma tally_fsck_project: "tally 0 fst (fsck_project S o1 p)"
  unfolding fsck_project_def
proof (intro tally_svc_try)
  fix e
  show "tally 0 fst (andThen (put (Warning (''WARN '' @ Org_Slug o1 @ ''/'' @ Project_Slug p @ '': '') e)) (\<lambda>_. ret (0, 0)))"
    by (rule tally_andThen [OF tally_put]) (simp add: tally_ret)
next
  fix arts
  show "tally 0 fst (andThen (forEach arts (fsck_artifact S o1 p)) (\<lambda>ns.
      andThen (fsck_orphans S o1 p) (\<lambda>orphans. ret (sum_list ns, orphans))))"
  proof (rule tally_andThen [OF tally_forEach [OF tally_fsck_artifact]])
    fix ns :: "nat list"
    have "tally (k + 0) (\<lambda>x. fst x) (ret (k, orphans))" for k orphans :: nat
      by (simp add: tally_ret)
    show "tally (0 + sum_list (map (\<lambda>n. n) ns)) fst
        (andThen (fsck_orphans S o1 p) (\<lambda>orphans. ret (sum_list ns, orphans)))"
      unfolding tally_def andThen_Inr using tallyD [OF tally_fsck_orphans] by fastforce
  qed
qed simp

lemma tally_fsck_org: "tally 0 fst (fsck_org S o1)"
  unfolding fsck_org_def
proof (rule tally_andThen [where f = "\<lambda>_. 0"])
  fix ps
  have "tally 0 fst (andThen (forEach ps (fsck_project S o1))
      (\<lambda>ns. ret (sum_list (map fst ns), sum_list (map snd ns))))"
    by (rule tally_andThen [OF tally_forEach [OF tally_fsck_project]]) (simp add: tally_ret)
  then show "tally (0 + 0) fst (andThen (forEach ps (fsck_project S o1))
      (\<lambda>ns. ret (sum_list (map fst ns), sum_list (map snd ns))))"
    by simp
qed (rule tally_svc, rule reads_releases)

section \<open>What a run does and reports\<close>

lemma opened_Inr:
  assumes "opened M cfg f s = (Inr x, s')"
  shows "\<exists>s1 s2. f (service_of M cfg) s1 = (Inr x, s2) \<and> sys_db (site_sys s1) = sys_db (site_sys s)
    \<and> s' = closing (DatabaseURL cfg) s2"
proof -
  obtain r pools where o: "DB_Open (m_pool M) (DatabaseURL cfg) (site_pools s) = (r, pools)" by fastforce
  obtain r1 d where d: "DB_Migrate (m_migrator M) (site_migrations s) = (r1, d)" by fastforce
  let ?s1 = "new_process (s\<lparr>site_pools := pools, site_migrations := d\<rparr>)"
  obtain r2 s2 where r2: "f (service_of M cfg) ?s1 = (r2, s2)" by fastforce
  from assms DB_Open_cases [OF o] r2 have "r2 = Inr x" "s' = closing (DatabaseURL cfg) s2"
    by (auto simp: opened_def handle_def zoom_def deferred_def o d split: sum.splits)
  then show ?thesis
    using r2 by (intro exI [of _ ?s1] exI [of _ s2]) (simp add: new_process_def)
qed

lemma closing_parts [simp]: "site_sys (closing db s) = site_sys s" "site_out (closing db s) = site_out s"
  by (simp_all add: closing_def)

lemma withService_Inr:
  "withService M f s = (Inr x, s') \<Longrightarrow> \<exists>S s1 s2 db. f S s1 = (Inr x, s2) \<and> sys_db (site_sys s1) = sys_db (site_sys s)
     \<and> s' = closing db s2"
  unfolding withService_def by (fastforce split: sum.splits dest!: opened_Inr)

lemma cmdFsck_reports:
  assumes "cmdFsck M s = (Inr (), s')"
  shows "\<exists>n orphans. last (site_out s') = fsck_summary n orphans \<and> release_count s' = release_count s + n"
proof -
  obtain S s1 s0 db where s1: "sys_db (site_sys s1) = sys_db (site_sys s)"
    and run: "andThen (svc '''' (onDB (DB_ListOrgs (DB S)))) (\<lambda>orgs. andThen (forEach orgs (fsck_org S)) (\<lambda>ns.
        put (fsck_summary (sum_list (map fst ns)) (sum_list (map snd ns))))) s1 = (Inr (), s0)"
    and s0: "s' = closing db s0"
    using withService_Inr [OF assms [unfolded cmdFsck_def]] by blast
  obtain os s2 where s2: "svc '''' (onDB (DB_ListOrgs (DB S))) s1 = (Inr os, s2)"
    and run2: "andThen (forEach os (fsck_org S)) (\<lambda>ns.
        put (fsck_summary (sum_list (map fst ns)) (sum_list (map snd ns)))) s2 = (Inr (), s0)"
    using run unfolding andThen_Inr by blast
  obtain ns s3 where s3: "forEach os (fsck_org S) s2 = (Inr ns, s3)"
    and s': "put (fsck_summary (sum_list (map fst ns)) (sum_list (map snd ns))) s3 = (Inr (), s0)"
    using run2 unfolding andThen_Inr by blast
  have "release_count s2 = release_count s1"
    using tallyD [OF tally_svc [OF reads_releases(1)] s2] by simp
  moreover have "release_count s3 = release_count s2 + sum_list (map fst ns)"
    using tallyD [OF tally_forEach [OF tally_fsck_org] s3] by simp
  ultimately show ?thesis
    using s' s1 by (auto simp: s0 put_def release_count_def)
qed

text \<open>
  C34: Fsck only repairs, and reports what it repaired. Whatever happens in it, \<open>ubiqo fsck\<close> runs no git
  command but reading ones, and changes the tables only by adding release rows at the end, each with the
  tag \<open>artifacts/<artifact>/<version>\<close> and no author. If it ends without an error, the number of repaired
  rows in its last line is the number of rows added.
\<close>

theorem fsck_adds_reported_rows:
  assumes "cmdFsck M s = (r, s')"
  shows "\<exists>new t. sys_db (site_sys s') = (sys_db (site_sys s))
       \<lparr>tick := tick (sys_db (site_sys s')), releases := releases (sys_db (site_sys s)) @ new\<rparr>
    \<and> list_all rebuilt new
    \<and> trace (sys_git (site_sys s')) = trace (sys_git (site_sys s)) @ t \<and> reads_only t
    \<and> (r = Inr () \<longrightarrow> (\<exists>orphans. last (site_out s') = fsck_summary (length new) orphans))"
proof -
  have "sys_step adds_rebuilt (emits reads_only) (site_sys s) (site_sys s')"
    using keepsD [OF cmdFsck_step, of s M] assms by (simp add: site_step_def)
  then obtain new t where db: "sys_db (site_sys s') = (sys_db (site_sys s))
       \<lparr>tick := tick (sys_db (site_sys s')), releases := releases (sys_db (site_sys s)) @ new\<rparr>"
      and rest: "list_all rebuilt new" "trace (sys_git (site_sys s')) = trace (sys_git (site_sys s)) @ t" "reads_only t"
    by (auto simp: sys_step_def adds_rebuilt_def emits_def)
  have "releases (sys_db (site_sys s')) = releases (sys_db (site_sys s)) @ new"
    by (subst db) simp
  then have "r = Inr () \<longrightarrow> (\<exists>orphans. last (site_out s') = fsck_summary (length new) orphans)"
    using cmdFsck_reports [of M s s'] assms by (auto simp: release_count_def)
  with db rest show ?thesis by blast
qed

text \<open>A site whose git plane holds a tag of artifact logo that no release row records.\<close>

definition sample_tag_host :: "nat host" where
  "sample_tag_host = sample_host\<lparr>git_exec := (\<lambda>_ args w.
     ((if ''ls-tree'' \<in> set args then ''shared/logo'' @ newline
       else if ''tag'' \<in> set args then ''artifacts/logo/v1.0.0'' @ newline
       else '''', None), Suc w))\<rparr>"

definition sample_machine :: "nat host \<Rightarrow> nat machine" where
  "sample_machine H = \<lparr> m_environ = \<lparr> LookupEnv = (\<lambda>k. if k = ''UBIQO_DATABASE_URL'' then Some ''postgres://db'' else None),
       ReadFile = (\<lambda>_. None) \<rparr>,
     m_pool = \<lparr> pgxpool_New = (\<lambda>_. None), pool_Ping = (\<lambda>_. None) \<rparr>, m_migrator = sample_migrator (\<lambda>_. NoFault), m_dbms = sample_dbms, m_host = H,
     m_lib = sample_lib, m_version = ''1.0'',
     m_sdk = \<lparr> sdk_calls = (\<lambda>_. []), sdk_reply = (\<lambda>_ _. http_Error (Text '''') 400),
       metrics_page = (\<lambda>_ _ _. http_Error (Text '''') 200) \<rparr>,
     m_clock = 0, m_stdin = None, m_readfile = (\<lambda>_. Inl ''no such file''), pg_dump = (\<lambda>_ w. (('''', None), Suc w)),
     m_requests = [], m_serve_end = None \<rparr>"

definition sample_site :: "db \<Rightarrow> nat site" where
  "sample_site d = \<lparr> site_migrations = sample_fresh, site_pools = [], site_sys = \<lparr> sys_db = d, sys_git = sample_git \<rparr>, site_out = [] \<rparr>"

definition sample_fsck :: "(cli_error + unit) \<times> nat site" where
  "sample_fsck = cmdFsck (sample_machine sample_tag_host) (sample_site sample_db)"

theorem fsck_adds_reported_rows_witness:
  "\<exists>row. releases (sys_db (site_sys (snd sample_fsck))) = [row] \<and> rebuilt row
     \<and> (\<exists>orphans. last (site_out (snd sample_fsck)) = fsck_summary 1 orphans)"
proof -
  have r: "fst sample_fsck = Inr ()" "length (releases (sys_db (site_sys (snd sample_fsck)))) = 1"
    "releases sample_db = []"
    by code_simp+
  have "cmdFsck (sample_machine sample_tag_host) (sample_site sample_db) = (Inr (), snd sample_fsck)"
    using r(1) by (metis sample_fsck_def prod.collapse)
  from fsck_adds_reported_rows [OF this]
  obtain new where db: "sys_db (site_sys (snd sample_fsck)) = (sys_db (site_sys (sample_site sample_db)))
       \<lparr>tick := tick (sys_db (site_sys (snd sample_fsck))), releases := releases (sys_db (site_sys (sample_site sample_db))) @ new\<rparr>"
    and new: "list_all rebuilt new" "\<exists>orphans. last (site_out (snd sample_fsck)) = fsck_summary (length new) orphans"
    by auto
  have "releases (sys_db (site_sys (snd sample_fsck))) = new"
    by (subst db) (simp add: sample_site_def r(3))
  with r(2) new show ?thesis
    by (cases new) auto
qed

text \<open>
  C35: Fsck restores what git has. When the pass over an artifact ends without an error, every version
  that git listed for it has a release row of the project, those that had one keeping theirs.
\<close>

theorem fsck_restores_listed_versions:
  assumes "fsck_artifact S o1 p a s = (Inr n, s')"
    and "fst (Git_Versions (Git S) (Org_Slug o1) (Project_Slug p) a (sys_git (site_sys s))) = Inr versions"
  shows "set (releases (sys_db (site_sys s))) \<subseteq> set (releases (sys_db (site_sys s')))
    \<and> (\<forall>v \<in> set versions. (Project_ID p, a, v) \<in> r_key ` set (releases (sys_db (site_sys s'))))"
proof -
  have grow: "set (releases (sys_db (site_sys s))) \<subseteq> set (releases (sys_db (site_sys s')))"
    if "site_step (sys_step adds_rebuilt (emits reads_only)) s s'" for s s' :: "'a site"
    using that by (auto simp: site_step_def sys_step_def dest: adds_rebuilt_releases)
  have one: "(Project_ID p, a, v) \<in> r_key ` set (releases (sys_db (site_sys s2)))"
    if "fsck_version S o1 p a v s1 = (Inr k, s2)" for v s1 k s2
    using that
    by (auto simp: fsck_version_def andThen_Inr svc_def onDB_def zoom_def put_def
        split: prod.splits sum.splits if_splits dest!: EnsureRelease_Inr)
  have all: "\<forall>v \<in> set vs. (Project_ID p, a, v) \<in> r_key ` set (releases (sys_db (site_sys s2)))"
    if "forEach vs (fsck_version S o1 p a) s1 = (Inr ks, s2)" for vs s1 ks s2
    using that
  proof (induction vs arbitrary: s1 ks)
    case (Cons v vs)
    obtain k t ks' where v: "fsck_version S o1 p a v s1 = (Inr k, t)"
      and vs: "forEach vs (fsck_version S o1 p a) t = (Inr ks', s2)"
      using Cons.prems by (auto simp: andThen_Inr)
    have "set (releases (sys_db (site_sys t))) \<subseteq> set (releases (sys_db (site_sys s2)))"
      using grow keepsD [where m = "forEach vs (fsck_version S o1 p a)" and s = t, OF fk.st.keeps_forEach [OF fsck_steps(1)]] vs by simp
    then show ?case
      using one [OF v] Cons.IH [OF vs] by auto
  qed simp
  have "\<exists>ns t. forEach versions (fsck_version S o1 p a) t = (Inr ns, s')"
    using assms
    by (auto simp: fsck_artifact_def svc_try_def handle_def svc_def onGit_def zoom_def andThen_Inr
        split: prod.splits sum.splits)
  then show ?thesis
    using all grow [of s s'] keepsD [where m = "fsck_artifact S o1 p a" and s = s, OF fsck_steps(2)] assms(1) by auto
qed

theorem fsck_restores_listed_versions_witness:
  "(3, ''logo'', ''v1.0.0'') \<in> r_key ` set (releases (sys_db (site_sys (snd (fsck_artifact
     (sample_service\<lparr>Git := sample_tag_host\<rparr>) (org_of (hd (orgs sample_db))) (project_of (hd (projects sample_db)))
     ''logo'' (sample_site sample_db))))))"
proof -
  let ?S = "sample_service\<lparr>Git := sample_tag_host\<rparr>"
  let ?o = "org_of (hd (orgs sample_db))"
  let ?p = "project_of (hd (projects sample_db))"
  have "fst (fsck_artifact ?S ?o ?p ''logo'' (sample_site sample_db)) = Inr 1"
    "fst (Git_Versions (Git ?S) (Org_Slug ?o) (Project_Slug ?p) ''logo'' (sys_git (site_sys (sample_site sample_db)))) = Inr [''v1.0.0'']"
    "Project_ID ?p = 3"
    by code_simp+
  then show ?thesis
    using fsck_restores_listed_versions [of ?S ?o ?p "''logo''" "sample_site sample_db" 1] by (metis list.set_intros(1) prod.collapse)
qed

end
