(* ===== verification/Cli_Facts.thy ===== *)
theory Cli_Facts
  imports Fsck Members Client_Facts
begin

text \<open>
  The server's commands. The first part shows that none of them touches the database of a site that is
  not configured, reachable and migrated, and that a server only runs with a public URL or
  \<open>--local\<close>. The second follows \<open>setup\<close> from its statements to the token it prints.
\<close>

section \<open>Commands need a ready store\<close>

definition store_ready :: "'w machine \<Rightarrow> 'w site \<Rightarrow> Config \<Rightarrow> bool" where
  "store_ready M s cfg \<longleftrightarrow> pgxpool_New (m_pool M) (DatabaseURL cfg) = None \<and> pool_Ping (m_pool M) (DatabaseURL cfg) = None
     \<and> (\<exists>d. DB_Migrate (m_migrator M) (site_migrations s) = (Inr (), d))"

lemma opened_ready:
  assumes "site_sys (snd (opened M cfg f s)) \<noteq> site_sys s"
  shows "store_ready M s cfg"
proof -
  obtain r pools where o: "DB_Open (m_pool M) (DatabaseURL cfg) (site_pools s) = (r, pools)" by fastforce
  obtain r1 d where d: "DB_Migrate (m_migrator M) (site_migrations s) = (r1, d)" by fastforce
  from DB_Open_cases [OF o] assms show ?thesis
    by (cases r1) (auto simp: store_ready_def opened_def handle_def zoom_def deferred_def o d)
qed

lemma withService_ready:
  assumes "site_sys (snd (withService M f s)) \<noteq> site_sys s"
  shows "\<exists>cfg. Load (m_environ M) = Inr cfg \<and> store_ready M s cfg"
  using assms opened_ready by (auto simp: withService_def split: sum.splits)

lemma with_flags_run:
  "site_sys (snd (with_flags fs args body s)) \<noteq> site_sys s \<Longrightarrow>
     \<exists>v. parse_flags fs Map.empty args = Parsed v \<and> site_sys (snd (body v s)) \<noteq> site_sys s"
  by (auto simp: with_flags_def split: flag_result.splits)

lemma cmdServe_ready:
  assumes "site_sys (snd (cmdServe M args s)) \<noteq> site_sys s"
  shows "\<exists>v cfg. parse_flags [(''local'', True)] Map.empty args = Parsed v \<and> Load (m_environ M) = Inr cfg
    \<and> store_ready M s cfg \<and> (PublicURL cfg \<noteq> '''' \<or> flag_set v ''local'')"
proof -
  obtain v where v: "parse_flags [(''local'', True)] Map.empty args = Parsed v"
    using with_flags_run [OF assms [unfolded cmdServe_def]] by blast
  obtain cfg where cfg: "Load (m_environ M) = Inr cfg"
    using assms v by (cases "Load (m_environ M)") (auto simp: cmdServe_def with_flags_def)
  let ?cfg = "cfg\<lparr>Local := flag_set v ''local''\<rparr>"
  have "Validate ?cfg = None"
    using assms v cfg by (cases "Validate ?cfg") (auto simp: cmdServe_def with_flags_def Let_def)
  moreover from this have "store_ready M s ?cfg"
    using assms v cfg by (intro opened_ready) (auto simp: cmdServe_def with_flags_def Let_def)
  ultimately show ?thesis
    using v cfg by (auto simp: store_ready_def Validate_def split: if_splits)
qed

lemma cmdAdmin_ready:
  "site_sys (snd (cmdAdmin M noun args s)) \<noteq> site_sys s \<Longrightarrow>
     \<exists>cfg. Load (m_environ M) = Inr cfg \<and> store_ready M s cfg"
  unfolding cmdAdmin_def
  by (cases args) (simp, auto dest!: with_flags_run withService_ready simp del: ret_apply)

lemma cmdSetup_ready:
  assumes "site_sys (snd (cmdSetup M args s)) \<noteq> site_sys s"
  shows "\<exists>cfg. Load (m_environ M) = Inr cfg \<and> store_ready M s cfg"
  using with_flags_run [OF assms [unfolded cmdSetup_def]]
  by (auto simp: Let_def dest: withService_ready split: if_splits)

lemma same_db_svc:
  assumes "\<And>w. sys_db (snd (m w)) = sys_db w"
  shows "sys_db (site_sys (snd (svc pre m s))) = sys_db (site_sys s)"
    and "site_migrations (snd (svc pre m s)) = site_migrations s"
  using assms [of "site_sys s"] by (auto simp: svc_def split: prod.splits sum.splits)

lemma run_pg_dump_same:
  "sys_db (site_sys (snd (run_pg_dump M args s))) = sys_db (site_sys s)"
  "site_migrations (snd (run_pg_dump M args s)) = site_migrations s"
  "site_pools (snd (run_pg_dump M args s)) = site_pools s"
  by (simp_all add: run_pg_dump_def Let_def split: prod.splits)

text \<open>Whatever is not \<open>opened\<close> leaves the tables alone.\<close>

definition same_tables :: "'w sys \<Rightarrow> 'w sys \<Rightarrow> bool" where
  "same_tables w w' \<longleftrightarrow> sys_db w' = sys_db w"

interpretation sb: site_relation same_tables
  by unfold_locales (simp_all add: same_tables_def)

lemma keeps_same_onGit: "keeps same_tables (onGit m)"
  by (simp add: keeps_def same_tables_def)

lemma cmdBackup_same:
  "sys_db (site_sys (snd (cmdBackup M args s))) = sys_db (site_sys s)" "site_pools (snd (cmdBackup M args s)) = site_pools s"
proof -
  have dump: "keeps (site_step same_tables) (run_pg_dump M as)" for as
    by (simp add: keeps_def site_step_def same_tables_def run_pg_dump_same)
  have "keeps (site_step same_tables) (cmdBackup M args)"
    unfolding cmdBackup_def Let_def
    by (intro sb.st.keeps_andThen sb.keeps_svc keeps_same_onGit sb.st.keeps_if sb.st.keeps_failwith dump
        sb.keeps_withService sb.keeps_put) (simp add: same_tables_def)
  from keepsD [OF this, of s]
  show "sys_db (site_sys (snd (cmdBackup M args s))) = sys_db (site_sys s)" "site_pools (snd (cmdBackup M args s)) = site_pools s"
    by (simp_all add: site_step_def same_tables_def)
qed

lemma command_ready:
  assumes "m \<in> {cmdMigrate M, cmdSetup M args, cmdSeed M, cmdAdmin M cmd args, cmdBackup M args, cmdFsck M}"
    and "sys_db (site_sys (snd (m s))) \<noteq> sys_db (site_sys s)"
  shows "\<exists>cfg. Load (m_environ M) = Inr cfg \<and> store_ready M s cfg"
proof -
  have ne: "site_sys (snd (m s)) \<noteq> site_sys s"
    using assms(2) by auto
  have services: "\<exists>f. cmdMigrate M = withService M f" "\<exists>f. cmdSeed M = withService M f" "\<exists>f. cmdFsck M = withService M f"
    unfolding cmdMigrate_def cmdSeed_def cmdFsck_def by (rule exI, rule refl)+
  from assms(1) show ?thesis
    unfolding insert_iff empty_iff
  proof (elim disjE)
    assume "m = cmdBackup M args"
    with assms(2) cmdBackup_same [of M args s] show ?thesis by simp
  next
    assume "m = cmdSetup M args"
    with ne show ?thesis by (simp add: cmdSetup_ready)
  next
    assume "m = cmdAdmin M cmd args"
    with ne show ?thesis by (simp add: cmdAdmin_ready)
  qed (use ne services in \<open>auto dest: withService_ready\<close>)
qed

text \<open>The commands of \<open>main\<close>: one that opens the store, one of the client, or neither.\<close>

lemma main_runs:
  assumes "main M E (prog # cmd # args) w = (e, w')"
  shows "(cmd = ''serve'' \<and> on_site (cmdServe M args) w = (e, w'))
    \<or> (cmd \<noteq> ''serve'' \<and> (\<exists>m \<in> {cmdMigrate M, cmdSetup M args, cmdSeed M, cmdAdmin M cmd args, cmdBackup M args, cmdFsck M}.
          on_site m w = (e, w')))
    \<or> (\<exists>m \<in> {cmdLogin E args, cmdInit E args, cmdHook E args, cmdContext E args}. on_client m w = (e, w'))
    \<or> w' = w"
  using assms unfolding main_def list.case
  by (simp split: if_split_asm)

text \<open>
  C37: No command changes a table of a site that is not ready. If \<open>ubiqo <cmd>\<close> changes the database,
  then the configuration could be loaded, the database was reached and every migration succeeded first;
  and if the command is \<open>serve\<close>, then a public URL is configured or \<open>--local\<close> was given.
\<close>

theorem commands_need_ready_store:
  assumes "main M E (prog # cmd # args) w = (e, w')"
    and "sys_db (site_sys (proc_site w')) \<noteq> sys_db (site_sys (proc_site w))"
  shows "\<exists>cfg. Load (m_environ M) = Inr cfg \<and> store_ready M (proc_site w) cfg
    \<and> (cmd = ''serve'' \<longrightarrow> PublicURL cfg \<noteq> ''''
        \<or> (\<exists>v. parse_flags [(''local'', True)] Map.empty args = Parsed v \<and> flag_set v ''local''))"
proof -
  have site: "sys_db (site_sys (snd (m (proc_site w)))) \<noteq> sys_db (site_sys (proc_site w))"
    if "on_site m w = (e, w')" for m :: "('a, 'b) cli"
    using that assms(2) by (auto simp: on_site_def split: prod.splits)
  have no: "proc_site w' = proc_site w" if "on_client m w = (e, w')" for m :: "'b cl"
    using that by (auto simp: on_client_def split: prod.splits)
  show ?thesis
    using main_runs [OF assms(1)]
  proof (elim disjE conjE bexE)
    assume "on_site (cmdServe M args) w = (e, w')"
    with cmdServe_ready [of M args "proc_site w"] show ?thesis
      using site by metis
  next
    fix m
    assume cmd: "cmd \<noteq> ''serve''" and m: "on_site m w = (e, w')"
      and "m \<in> {cmdMigrate M, cmdSetup M args, cmdSeed M, cmdAdmin M cmd args, cmdBackup M args, cmdFsck M}"
    then have "\<exists>cfg. Load (m_environ M) = Inr cfg \<and> store_ready M (proc_site w) cfg"
      using command_ready [of m M args cmd "proc_site w"] site [OF m] by simp
    with cmd show ?thesis by blast
  next
    fix m
    assume "on_client m w = (e, w')"
    with no assms(2) show ?thesis by metis
  next
    assume "w' = w"
    with assms(2) show ?thesis by simp
  qed
qed

definition sample_process :: "nat process" where
  "sample_process = \<lparr> proc_site = sample_site sample_empty, proc_client = sample_client \<rparr>"

definition sample_setup_args :: "string list" where
  "sample_setup_args = [''--org'', ''acme'', ''--user'', ''ana'', ''--project=web'']"

theorem commands_need_ready_store_witness:
  "\<exists>cfg. Load (m_environ (sample_machine sample_host)) = Inr cfg
     \<and> store_ready (sample_machine sample_host) (sample_site sample_empty) cfg"
proof -
  let ?r = "main (sample_machine sample_host) sample_offline (''ubiqo'' # ''setup'' # sample_setup_args) sample_process"
  have "length (orgs (sys_db (site_sys (proc_site (snd ?r))))) = 1"
    "length (orgs (sys_db (site_sys (proc_site sample_process)))) = 0"
    by code_simp+
  then have "sys_db (site_sys (proc_site (snd ?r))) \<noteq> sys_db (site_sys (proc_site sample_process))"
    by auto
  from commands_need_ready_store [OF surjective_pairing this] show ?thesis
    by (auto simp: sample_process_def)
qed

section \<open>The token of a setup\<close>

lemma svc_DB_Inr:
  "svc pre (onDB m) s = (Inr x, s') \<longleftrightarrow>
     (\<exists>d. m (sys_db (site_sys s)) = (Inr x, d) \<and> s' = s\<lparr>site_sys := (site_sys s)\<lparr>sys_db := d\<rparr>\<rparr>)"
  by (auto simp: svc_def onDB_def zoom_def split: prod.splits sum.splits)

text \<open>The tables that authentication reads.\<close>

definition same_identities :: "db \<Rightarrow> db \<Rightarrow> bool" where
  "same_identities d d' \<longleftrightarrow> users d' = users d \<and> orgs d' = orgs d \<and> org_memberships d' = org_memberships d
     \<and> device_tokens d' = device_tokens d"

interpretation sid: db_two_state same_identities
  by unfold_locales (simp_all add: same_identities_def)

lemma keeps_identities:
  "keeps same_identities (DB_CreateProject E orgID slug name solo)"
  "keeps same_identities (DB_AddProjectMember E p userID role)"
  unfolding DB_CreateProject_def DB_AddProjectMember_def
  by (intro sid.keeps_sql sid.check_all_step sid.keeps_andThen sid.keeps_guarded; simp add: same_identities_def)+

lemma any_step: "keeps (\<lambda>_ _. True) m"
  by (simp add: keeps_def)

interpretation sids: sys_relation same_identities "\<lambda>_ _. True"
  by unfold_locales simp_all

interpretation sidw: site_relation "sys_step same_identities (\<lambda>_ _. True)"
  by unfold_locales

lemma setup_project_identities:
  "keeps (site_step (sys_step same_identities (\<lambda>_ _. True))) (setup_project S o1 user project)"
  unfolding setup_project_def
  by (intro sidw.st.keeps_andThen sidw.keeps_svc sids.keeps_onDB sids.keeps_onGit keeps_identities any_step sidw.keeps_put)

lemma CreateOrg_Inr:
  assumes "DB_CreateOrg E slug name d = (Inr o1, d')"
  shows "\<exists>r. d' = d\<lparr>tick := tick d', orgs := orgs d @ [r]\<rparr> \<and> o_id r = Org_ID o1 \<and> o_slug r = slug
    \<and> Org_ID o1 \<notin> o_id ` set (orgs d)"
  using check_all_Inr [OF sql_Inr [OF assms [unfolded DB_CreateOrg_def], THEN conjunct1]] by auto

lemma CreateUser_Inr:
  assumes "DB_CreateUser E username display d = (Inr u, d')"
  shows "\<exists>r. d' = d\<lparr>tick := tick d', users := users d @ [r]\<rparr> \<and> u_id r = User_ID u \<and> u_username r = username
    \<and> User_ID u \<notin> u_id ` set (users d)"
  using check_all_Inr [OF sql_Inr [OF assms [unfolded DB_CreateUser_def], THEN conjunct1]] by auto

lemma AddOrgMember_frame:
  assumes "DB_AddOrgMember E orgID userID role d = (Inr u, d')"
  shows "users d' = users d \<and> orgs d' = orgs d \<and> device_tokens d' = device_tokens d"
  using assms by (auto simp: DB_AddOrgMember_def andThen_Inr guarded_Inr dest!: sql_Inr
      dest: check_all_Inr simp del: check_all.simps)

lemma setup_body_token:
  assumes "setup_body S orgSlug orgName user display project label s = (Inr (), s')"
    and "fault (DB S) (tick (sys_db (site_sys s'))) = NoFault"
  shows "\<exists>token ti. last (site_out s') = Out (setup_notice token)
    \<and> fst (DB_Authenticate (DB S) (Lib S) token (sys_db (site_sys s'))) = Inr ti
    \<and> TI_Username ti = user \<and> TI_OrgSlug ti = orgSlug \<and> TI_OrgRole ti = ''owner'' \<and> TI_Label ti = label"
proof -
  obtain o1 s1 u s2 x3 s3 token s4 x5 s5 x6 s6 where
    c1: "svc ''create org: '' (onDB (DB_CreateOrg (DB S) orgSlug orgName)) s = (Inr o1, s1)"
    and c2: "svc ''create user: '' (onDB (DB_CreateUser (DB S) user display)) s1 = (Inr u, s2)"
    and c3: "svc '''' (onDB (DB_AddOrgMember (DB S) (Org_ID o1) (User_ID u) ''owner'')) s2 = (Inr x3, s3)"
    and c4: "svc '''' (onDB (DB_NewToken (DB S) (Lib S) (Org_ID o1) (User_ID u) label ''cli'')) s3 = (Inr token, s4)"
    and c5: "put (Out (lines [''org '' @ quoted S orgSlug @ '' created; owner '' @ quoted S user])) s4 = (Inr x5, s5)"
    and c6: "(if project \<noteq> '''' then setup_project S o1 u project else ret ()) s5 = (Inr x6, s6)"
    and c7: "put (Out (setup_notice token)) s6 = (Inr (), s')"
    using assms(1) unfolding setup_body_def andThen_Inr by (elim exE conjE) (rule that)
  define d1 d2 d3 d4 where ds: "d1 = sys_db (site_sys s1)" "d2 = sys_db (site_sys s2)"
    "d3 = sys_db (site_sys s3)" "d4 = sys_db (site_sys s4)"
  have d1: "DB_CreateOrg (DB S) orgSlug orgName (sys_db (site_sys s)) = (Inr o1, d1)"
    and d2: "DB_CreateUser (DB S) user display d1 = (Inr u, d2)"
    and d3: "DB_AddOrgMember (DB S) (Org_ID o1) (User_ID u) ''owner'' d2 = (Inr (), d3)"
    and d4: "DB_NewToken (DB S) (Lib S) (Org_ID o1) (User_ID u) label ''cli'' d3 = (Inr token, d4)"
    using c1 c2 c3 c4 by (auto simp: svc_DB_Inr ds)
  have s5: "sys_db (site_sys s5) = d4" and s': "s' = s6\<lparr>site_out := site_out s6 @ [Out (setup_notice token)]\<rparr>"
    using c5 c7 by (auto simp: put_def ds)
  let ?d = "sys_db (site_sys s')"
  have "keeps (site_step (sys_step same_identities (\<lambda>_ _. True))) (if project \<noteq> '''' then setup_project S o1 u project else ret ())"
    by (intro sidw.st.keeps_if sidw.st.keeps_ret setup_project_identities)
  from keepsD [OF this, of s5] have same: "same_identities d4 ?d"
    using c6 s5 s' by (simp add: site_step_def sys_step_def)
  obtain ro where ro: "d1 = (sys_db (site_sys s))\<lparr>tick := tick d1, orgs := orgs (sys_db (site_sys s)) @ [ro]\<rparr>"
      "o_id ro = Org_ID o1" "o_slug ro = orgSlug" "Org_ID o1 \<notin> o_id ` set (orgs (sys_db (site_sys s)))"
    using CreateOrg_Inr [OF d1] by blast
  obtain ru where ru: "d2 = d1\<lparr>tick := tick d2, users := users d1 @ [ru]\<rparr>"
      "u_id ru = User_ID u" "u_username ru = user" "User_ID u \<notin> u_id ` set (users d1)"
    using CreateUser_Inr [OF d2] by blast
  obtain r where r: "d4 = d3\<lparr>tick := tick d4, device_tokens := device_tokens d3 @ [r]\<rparr>"
      "t_hash r = sha256 (Lib S) token" "t_revoked_at r = None" "t_org_id r = Org_ID o1" "t_user_id r = User_ID u"
      "t_label r = label" "sha256 (Lib S) token \<notin> t_hash ` set (device_tokens d3)"
    using NewToken_row [OF d4] by blast
  have tables: "users d4 = users d3" "orgs d4 = orgs d3" "org_memberships d4 = org_memberships d3"
      "device_tokens d4 = device_tokens d3 @ [r]"
    by (subst r(1), simp)+
  have m: "users d2 = users d1 @ [ru]" "orgs d2 = orgs d1" "orgs d1 = orgs (sys_db (site_sys s)) @ [ro]"
    by (subst ru(1), simp, subst ru(1), simp, subst ro(1), simp)
  have u: "first_row u_id (User_ID u) (users ?d) = Some ru"
    using same AddOrgMember_frame [OF d3] tables m ru(2,4) first_row_None [of u_id "User_ID u" "users d1"]
    by (simp add: same_identities_def first_row_snoc)
  have og: "first_row o_id (Org_ID o1) (orgs ?d) = Some ro"
    using same AddOrgMember_frame [OF d3] tables m ro(2,4)
      first_row_None [of o_id "Org_ID o1" "orgs (sys_db (site_sys s))"]
    by (simp add: same_identities_def first_row_snoc)
  have "org_role_at d3 (Org_ID o1, User_ID u) = Some ''owner''"
    using AddOrgMember_write [OF d3] by simp
  moreover have "org_memberships ?d = org_memberships d3"
    using same tables by (simp add: same_identities_def)
  ultimately have "map_option om_role (first_row om_key (Org_ID o1, User_ID u) (org_memberships ?d)) = Some ''owner''"
    by (simp add: org_role_at_def)
  then obtain mr where mr: "first_row om_key (Org_ID o1, User_ID u) (org_memberships ?d) = Some mr" "om_role mr = ''owner''"
    by auto
  have "device_tokens ?d = device_tokens d3 @ [r]"
    using same tables by (simp add: same_identities_def)
  then have "token_candidates ?d (sha256 (Lib S) token)
      = (case identity_of ?d r of None \<Rightarrow> [] | Some i \<Rightarrow> [i])"
    using token_candidates_new [of ?d "device_tokens d3" r] r(2,3,7) by simp
  then obtain ti where c: "token_candidates ?d (sha256 (Lib S) token) = [(t_id r, sha256 (Lib S) token, ti)]"
    and ti: "TI_Username ti = user \<and> TI_OrgSlug ti = orgSlug \<and> TI_OrgRole ti = ''owner'' \<and> TI_Label ti = label"
    using u og mr r ru(3) ro(3) by (simp add: identity_of_def)
  show ?thesis
    using Authenticate_candidate [OF c assms(2)] ti s' by auto
qed

text \<open>
  C36: The printed token works. When \<open>ubiqo setup\<close> ends without an error, the last thing printed is the
  notice with a device token, and (if the database answers) that token authenticates as the named user in
  the named organization, with the role owner and the given label; whatever was in the database before, and
  whether or not a project was set up too.
\<close>

theorem setup_token_authenticates:
  assumes "cmdSetup M args s = (Inr (), s')"
    and "fault (m_dbms M) (tick (sys_db (site_sys s'))) = NoFault"
  shows "\<exists>v token ti.
      parse_flags [(''org'', False), (''org-name'', False), (''user'', False), (''display'', False),
         (''project'', False), (''label'', False)] Map.empty args = Parsed v
    \<and> last (site_out s') = Out (setup_notice token)
    \<and> fst (DB_Authenticate (m_dbms M) (m_lib M) token (sys_db (site_sys s'))) = Inr ti
    \<and> TI_Username ti = flag_value v ''user'' '''' \<and> TI_OrgSlug ti = flag_value v ''org'' ''''
    \<and> TI_OrgRole ti = ''owner'' \<and> TI_Label ti = flag_value v ''label'' ''first-device''"
proof -
  obtain v where v: "parse_flags [(''org'', False), (''org-name'', False), (''user'', False), (''display'', False),
         (''project'', False), (''label'', False)] Map.empty args = Parsed v"
    using assms(1) by (simp add: cmdSetup_def with_flags_def split: flag_result.splits)
  obtain orgName where "withService M (\<lambda>S. setup_body S (flag_value v ''org'' '''') orgName (flag_value v ''user'' '''')
      (flag_value v ''display'' '''') (flag_value v ''project'' '''') (flag_value v ''label'' ''first-device'')) s = (Inr (), s')"
    using assms(1) unfolding cmdSetup_def with_flags_def v flag_result.case Let_def
    by (simp only: failwith_apply split: if_split_asm) auto
  then obtain cfg s1 s2 where run: "setup_body (service_of M cfg) (flag_value v ''org'' '''') orgName (flag_value v ''user'' '''')
      (flag_value v ''display'' '''') (flag_value v ''project'' '''') (flag_value v ''label'' ''first-device'') s1 = (Inr (), s2)"
      and s': "s' = closing (DatabaseURL cfg) s2"
    unfolding withService_def by (auto split: sum.splits dest!: opened_Inr)
  from setup_body_token [OF run] assms(2) v show ?thesis
    by (auto simp: service_of_def s')
qed

definition sample_setup_run :: "(cli_error + unit) \<times> nat site" where
  "sample_setup_run = cmdSetup (sample_machine sample_host) sample_setup_args (sample_site sample_empty)"

theorem setup_token_authenticates_witness:
  "\<exists>token ti. last (site_out (snd sample_setup_run)) = Out (setup_notice token)
     \<and> fst (DB_Authenticate sample_dbms sample_lib token (sys_db (site_sys (snd sample_setup_run)))) = Inr ti
     \<and> TI_OrgRole ti = ''owner''"
proof -
  have "fst sample_setup_run = Inr ()"
    by code_simp
  then have "cmdSetup (sample_machine sample_host) sample_setup_args (sample_site sample_empty) = (Inr (), snd sample_setup_run)"
    unfolding sample_setup_run_def by (metis prod.collapse)
  moreover have "fault (m_dbms (sample_machine sample_host)) n = NoFault" "m_dbms (sample_machine sample_host) = sample_dbms"
      "m_lib (sample_machine sample_host) = sample_lib" for n
    by (simp_all add: sample_machine_def sample_dbms_def)
  ultimately show ?thesis
    using setup_token_authenticates [of "sample_machine sample_host" sample_setup_args "sample_site sample_empty" "snd sample_setup_run"]
    by auto
qed

end
