(* ===== verification/Text_Columns.thy ===== *)
theory Text_Columns
  imports History
begin

text \<open>
  The type of the text columns: PostgreSQL holds only valid UTF-8 without NUL bytes. Every statement
  checks its text parameters and the constants of the schema are plain text, so every text that the
  methods of the store ever give back is valid: what was cut or read from elsewhere is refused on the way
  in.
\<close>

section \<open>The text columns\<close>

definition typed_members :: "db \<Rightarrow> bool" where
  "typed_members d \<longleftrightarrow>
     list_all (\<lambda>r. pg_text (o_slug r) \<and> pg_text (o_name r) \<and> pg_text (o_instructions r)) (orgs d)
     \<and> list_all (\<lambda>r. pg_text (u_username r) \<and> pg_text (u_display_name r)) (users d)
     \<and> list_all (\<lambda>r. pg_text (om_role r)) (org_memberships d)
     \<and> list_all (\<lambda>r. pg_text (p_slug r) \<and> pg_text (p_name r) \<and> pg_text (p_instructions r)) (projects d)
     \<and> list_all (\<lambda>r. pg_text (pm_role r)) (project_memberships d)
     \<and> list_all (\<lambda>r. pg_text (t_label r) \<and> pg_text (t_client_kind r)) (device_tokens d)"

definition typed_content :: "db \<Rightarrow> bool" where
  "typed_content d \<longleftrightarrow>
     list_all (\<lambda>r. pg_text (e_identity_label r) \<and> pg_text (e_kind r) \<and> pg_text (e_summary r)) (events d)
     \<and> list_all (\<lambda>r. pg_text (m_scope r) \<and> pg_text (m_content r)) (memories d)
     \<and> list_all (\<lambda>r. pg_text (mp_artifact r) \<and> pg_text (mp_branch r) \<and> pg_text (mp_summary r)
          \<and> pg_text (mp_status r) \<and> list_all pg_text (mp_conflict_files r)) (merge_proposals d)
     \<and> list_all (\<lambda>r. pg_text (r_artifact r) \<and> pg_text (r_version r) \<and> pg_text (r_tag r) \<and> pg_text (r_notes r))
         (releases d)"

definition typed_step :: "db \<Rightarrow> db \<Rightarrow> bool" where
  "typed_step d d' \<longleftrightarrow> (typed_members d \<and> typed_content d \<longrightarrow> typed_members d' \<and> typed_content d')"

lemmas typed_defs = typed_step_def typed_members_def typed_content_def

lemma pg_text_constants [simp]: "pg_text ''''" "pg_text ''open''" "pg_text fsck_notes"
  by code_simp+

interpretation ty: db_two_state typed_step
  by unfold_locales (auto simp: typed_defs)

section \<open>Every method keeps them\<close>

named_theorems typed_methods "methods of the store that keep the text columns valid"

lemma list_all_upsert:
  "list_all P rows \<Longrightarrow> P r \<Longrightarrow> (\<And>x. P x \<Longrightarrow> P (upd x)) \<Longrightarrow> list_all P (upsert key upd r rows)"
  by (auto simp: upsert_def list_all_iff)

lemma typed_reads [typed_methods]: "keeps same_data m \<Longrightarrow> keeps typed_step m"
  unfolding keeps_def same_data_def by (metis ty.step_tick)

lemma typed_inserts [typed_methods]:
  "keeps typed_step (DB_CreateOrg E slug name)"
  "keeps typed_step (DB_CreateUser E username display)"
  "keeps typed_step (DB_CreateProject E orgID slug name solo)"
  "keeps typed_step (DB_Remember E orgID scope ouser oproj content createdBy)"
  "keeps typed_step (DB_CreateProposal E orgID projectID artifact branch proposer summary)"
  "keeps typed_step (DB_CreateRelease E orgID projectID artifact version tag notes createdBy)"
  "keeps typed_step (insert_token E orgID userID digest label kind)"
  unfolding DB_CreateOrg_def DB_CreateUser_def DB_CreateProject_def DB_Remember_def DB_CreateProposal_def
    DB_CreateRelease_def insert_token_def
  by (intro ty.keeps_sql_texts ty.check_all_step; simp add: typed_defs)+

lemma typed_members_rules [typed_methods]:
  "keeps typed_step (DB_AddOrgMember E orgID userID role)"
  "keeps typed_step (DB_AddProjectMember E p userID role)"
  unfolding DB_AddOrgMember_def DB_AddProjectMember_def
  by (intro ty.keeps_andThen ty.keeps_guarded ty.keeps_sql_texts ty.check_all_step; simp add: typed_defs list_all_upsert)+

lemma typed_updates [typed_methods]:
  "keeps typed_step (DB_SetOrgInstructions E orgID txt)"
  "keeps typed_step (DB_SetProjectInstructions E projectID txt)"
  "keeps typed_step (touch_token E tid)"
  "keeps typed_step (DB_ResolveProposal E pid status resolvedBy files)"
  unfolding DB_SetOrgInstructions_def DB_SetProjectInstructions_def touch_token_def DB_ResolveProposal_def
  by (intro ty.keeps_sql_texts ty.check_all_step; auto simp: typed_defs list_all_iff)+

lemma typed_RevokeToken [typed_methods]: "keeps typed_step (DB_RevokeToken E tid)"
  unfolding DB_RevokeToken_def
  by (intro ty.keeps_andThen ty.keeps_if ty.keeps_failwith ty.keeps_ret ty.keeps_sql_texts)
    (auto simp: typed_defs list_all_iff)

lemma typed_NewToken [typed_methods]: "keeps typed_step (DB_NewToken E lib orgID userID label kind)"
proof (rule keepsI)
  fix d
  have "keeps typed_step (andThen (insert_token E orgID userID digest label kind) (\<lambda>_. ret x))" for digest and x :: string
    by (intro ty.keeps_andThen ty.keeps_ret typed_inserts)
  then show "typed_step d (snd (DB_NewToken E lib orgID userID label kind d))"
    by (auto simp: DB_NewToken_def Let_def ty.step_refl dest: keepsD split: option.splits)
qed

lemma typed_Authenticate [typed_methods]: "keeps typed_step (DB_Authenticate E lib token)"
  unfolding DB_Authenticate_def Let_def
  by (intro ty.keeps_andThen ty.keeps_query ty.keeps_or_not_found ty.keeps_case_prod ty.keeps_guarded
      ty.keeps_ignoring ty.keeps_ret typed_updates)

lemma typed_AppendEvent [typed_methods]:
  "keeps typed_step (DB_AppendEvent E orgID oproj actor label kind summary)"
  unfolding DB_AppendEvent_def Let_def
proof (intro ty.keeps_sql_texts)
  fix n and d :: db
  assume texts: "list_all pg_text [label, kind, summary]"
  let ?d = "d\<lparr>event_seq := Suc (event_seq d)\<rparr>"
  have "typed_step d ?d"
    by (simp add: typed_defs)
  moreover have "typed_step ?d (snd (check_all cs (Inr (), ?d\<lparr>events := events ?d @ [\<lparr> e_id = k, e_org_id = orgID,
      e_project_id = oproj, e_actor_user_id = actor, e_identity_label = label, e_kind = kind, e_summary = summary,
      e_created_at = t \<rparr>]\<rparr>) ?d))" for cs k t
    using texts by (intro ty.check_all_step) (simp add: typed_defs)
  ultimately show "typed_step d (snd (check_all
       [(has_row o_id orgID (orgs ?d), ''events_org_id_fkey''),
        (opt_ref p_id oproj (projects ?d), ''events_project_id_fkey''),
        (opt_ref u_id actor (users ?d), ''events_actor_user_id_fkey'')]
       (Inr (), ?d\<lparr>events := events ?d @ [\<lparr> e_id = event_seq ?d, e_org_id = orgID,
          e_project_id = oproj, e_actor_user_id = actor, e_identity_label = label,
          e_kind = kind, e_summary = summary, e_created_at = now E n \<rparr>]\<rparr>) ?d))"
    by (rule ty.step_trans)
qed

lemma typed_EnsureRelease [typed_methods]:
  "keeps typed_step (DB_EnsureRelease E orgID projectID artifact version tag)"
  unfolding DB_EnsureRelease_def
proof (intro ty.keeps_sql_texts)
  fix n and d :: db
  assume texts: "list_all pg_text [artifact, version, tag]"
  have "typed_step d (snd (check_all cs (Inr True, d\<lparr>releases := releases d @ [\<lparr> r_id = k, r_org_id = orgID,
      r_project_id = projectID, r_artifact = artifact, r_version = version, r_tag = tag, r_notes = fsck_notes,
      r_created_by = None, r_created_at = t \<rparr>]\<rparr>) d))" for cs k t
    using texts by (intro ty.check_all_step) (simp add: typed_defs)
  then show "typed_step d (snd (if has_row r_key (projectID, artifact, version) (releases d) then (Inr False, d)
       else check_all
       [(\<not> has_row r_id (gen_uuid E n) (releases d), ''releases_pkey''),
        (has_row o_id orgID (orgs d), ''releases_org_id_fkey''),
        (has_row p_id projectID (projects d), ''releases_project_id_fkey'')]
       (Inr True, d\<lparr>releases := releases d @ [\<lparr> r_id = gen_uuid E n, r_org_id = orgID,
          r_project_id = projectID, r_artifact = artifact, r_version = version, r_tag = tag,
          r_notes = fsck_notes, r_created_by = None, r_created_at = now E n \<rparr>]\<rparr>) d))"
    by (simp add: ty.step_refl del: check_all.simps)
qed

lemma db_call_typed: "db_call E lib d d' \<Longrightarrow> typed_step d d'"
  by (induction rule: db_call.induct) (rule keepsD, rule typed_methods | rule reads_DB)+

lemma db_calls_typed: "(db_call E lib)\<^sup>*\<^sup>* d d' \<Longrightarrow> typed_step d d'"
  by (induction rule: rtranclp_induct) (auto dest: db_call_typed intro: ty.step_refl ty.step_trans)



end
