(* ===== verification/Edge_Cases.thy ===== *)
theory Edge_Cases
  imports Cli_Facts Releasing Text_Columns
begin

text \<open>
  Concrete runs at the edges of the program, evaluated: what the code does there is not what its comments
  or callers expect. Each is a fact about the definitions of the other theories on a small deployment.
\<close>

section \<open>Text cut inside a rune\<close>

text \<open>
  \<open>firstLine\<close> cuts at 160 bytes, also inside the encoding of a rune. The event with such a summary is
  refused by the database, and its error is ignored by the caller.
\<close>

definition long_line :: string where
  "long_line = replicate 159 (CHR ''a'') @ map char_of [195, 169 :: nat]"

lemma firstLine_cuts_runes:
  "pg_text long_line" "\<not> pg_text (firstLine long_line)"
  "fst (DB_AppendEvent sample_dbms 0 (Some 3) (Some 1) ''cli'' ''artifact.written'' (firstLine long_line) sample_db)
     = Inl (DbError BadText)"
  by code_simp+

section \<open>The latest release after a rebuild\<close>

text \<open>
  The latest release of an artifact is the row created last, and a row rebuilt by fsck is created now: after
  the row of an old tag has been rebuilt, the old version is reported as the latest.
\<close>

definition two_releases :: "(db, bool) go" where
  "two_releases =
     andThen (DB_CreateRelease sample_dbms 0 3 ''logo'' ''v1.1.0'' ''artifacts/logo/v1.1.0'' ''second'' 1) (\<lambda>_.
     DB_EnsureRelease sample_dbms 0 3 ''logo'' ''v1.0.0'' ''artifacts/logo/v1.0.0'')"

lemma rebuilt_row_becomes_latest:
  "fst (two_releases sample_db) = Inr True"
  "map_option r_version (latest_release_row (snd (two_releases sample_db)) 3 ''logo'') = Some ''v1.0.0''"
  "fst (Latest [''v1.1.0'', ''v1.0.0'']) = \<lparr> Major = 1, Minor = 1, Patch = 0 \<rparr>"
  by code_simp+

section \<open>A repository that was never made\<close>

text \<open>
  \<open>EnsureRepo\<close> takes the existence of the directory as that of the repository. When \<open>git init\<close>
  fails after the directory has been made, the next call reports success and runs nothing.
\<close>

definition broken_git_host :: "nat host" where
  "broken_git_host = sample_host\<lparr>git_exec := (\<lambda>_ _ w. (('''', Some ''exit status 128''), Suc w)),
     stat_ok := (\<lambda>_ w. 0 < w)\<rparr>"

lemma EnsureRepo_after_failure:
  "\<exists>e. fst (Git_EnsureRepo broken_git_host ''acme'' ''web'' sample_git) = Inl e"
  "fst (Git_EnsureRepo broken_git_host ''acme'' ''web'' (snd (Git_EnsureRepo broken_git_host ''acme'' ''web'' sample_git))) = Inr ()"
proof -
  have "(case fst (Git_EnsureRepo broken_git_host ''acme'' ''web'' sample_git) of Inl _ \<Rightarrow> True | Inr _ \<Rightarrow> False)"
    by code_simp
  then show "\<exists>e. fst (Git_EnsureRepo broken_git_host ''acme'' ''web'' sample_git) = Inl e"
    by (auto split: sum.splits)
qed code_simp

section \<open>A merge that is not recorded\<close>

text \<open>
  Git has merged without conflicts and the database fails when the proposal is resolved: the merge is
  reported as done, git is asked to delete the branch, and no status has changed.
\<close>

lemma merge_reported_though_unrecorded:
  assumes "fault (DB S) (tick (sys_db w)) = FaultBefore" and "MR_Conflicts res = []"
  shows "\<exists>out w'. record_merge S a p pr res w = (Inr out, w') \<and> MO_Status out = ''merged''
    \<and> proposal_status (sys_db w') = proposal_status (sys_db w)"
proof -
  have "snd (DB_ResolveProposal (DB S) (Proposal_ID pr) ''merged'' (Actor_UserID a) [] (sys_db w))
      = (sys_db w)\<lparr>tick := Suc (tick (sys_db w))\<rparr>"
    unfolding DB_ResolveProposal_def sql_def Let_def using assms(1) by simp
  then have "proposal_status (snd (DB_ResolveProposal (DB S) (Proposal_ID pr) ''merged'' (Actor_UserID a) [] (sys_db w)))
      = proposal_status (sys_db w)"
    by (simp add: proposal_status_def fun_eq_iff)
  then show ?thesis
    using assms(2) by (simp add: record_merge_def andThen_def onDB_snd)
qed

section \<open>The client\<close>

text \<open>A slug or server that makes the URL invalid ends a hook with a panic.\<close>

lemma hook_panics:
  "fst (cmdHook (sample_offline\<lparr>valid_url := (\<lambda>_. False)\<rparr>) [''session-start''] sample_client) = Inl Panic"
  by code_simp

text \<open>The environment is used before \<open>ubiqo.yaml\<close>.\<close>

lemma environment_before_binding:
  "fst (boundProject sample_offline '''' (sample_client\<lparr>files := [(''/home/ana/web/ubiqo.yaml'', ''other'')]\<rparr>)) = Inr ''web''"
  by code_simp

text \<open>\<open>list_proposals\<close> without a status lists the open ones; only \<open>all\<close> lists all.\<close>

lemma empty_status_is_open: "proposals_status '''' = ''open''" "proposals_status ''all'' = ''''"
  by (simp_all add: proposals_status_def)

section \<open>A token without a membership\<close>

text \<open>
  A token authenticates whether or not its user is a member of the org: user 2 has no membership, and its
  token resolves to the role of nobody.
\<close>

definition outsider :: "(goerr + TokenIdentity) \<times> db" where
  "outsider = (case DB_NewToken sample_dbms sample_lib 0 2 ''x'' '''' sample_db of
     (Inr token, d) \<Rightarrow> DB_Authenticate sample_dbms sample_lib token d | (Inl e, d) \<Rightarrow> (Inl e, d))"

lemma outsider_authenticates:
  "first_row om_key (0, 2) (org_memberships sample_db) = None"
  "case fst outsider of Inr ti \<Rightarrow> TI_OrgRole ti = '''' | Inl _ \<Rightarrow> False"
proof -
  have "(case first_row om_key (0, 2) (org_memberships sample_db) of None \<Rightarrow> True | Some _ \<Rightarrow> False)"
    by code_simp
  then show "first_row om_key (0, 2) (org_memberships sample_db) = None"
    by (auto split: option.splits)
qed code_simp

section \<open>Where a backup goes\<close>

text \<open>
  The bundle path is relative when the destination is, and git runs inside the repository: the bundle of
  the default destination is not created beside the dump.
\<close>

definition one_repository_host :: "nat host" where
  "one_repository_host = sample_host\<lparr>walk_root := (\<lambda>_ _. Some (FsDir ''repos'' [FsDir ''acme'' [FsDir ''web.git'' []]]))\<rparr>"

definition bundle_commands :: "effect list \<Rightarrow> (string \<times> string) list" where
  "bundle_commands t = List.map_filter (\<lambda>e. case e of
     Exec dir [a, b, out, c] ok \<Rightarrow> if a = ''bundle'' then Some (dir, out) else None | _ \<Rightarrow> None) t"

lemma backup_bundle_path_relative:
  "bundle_commands (trace (sys_git (site_sys (snd (cmdBackup (sample_machine one_repository_host) [] (sample_site sample_empty))))))
     = [(''/var/lib/ubiqo/repos/acme/web.git'', ''ubiqo-backup-0/acme__web.bundle'')]"
  by code_simp

section \<open>A backup before the first project\<close>

text \<open>There is no directory of repositories yet, and the backup ends with an error after the dump.\<close>

lemma backup_needs_repositories:
  "(case fst (cmdBackup (sample_machine sample_host) [] (sample_site sample_empty)) of
      Inl (Service_Failed _ (OsFailed _)) \<Rightarrow> True | _ \<Rightarrow> False)"
  by code_simp

end
