(* ===== verification/Program.thy ===== *)
theory Program
  imports Cli_Facts Http_Safety Text_Columns
begin

text \<open>
  The whole program: whatever commands are run one after the other, with whatever arguments, requests
  and failures, everything they do to the database is a sequence of calls of the store's methods. So what
  holds of those calls holds of the program.
\<close>

section \<open>Everything is calls of the store\<close>

abbreviation store_run :: "dbms \<Rightarrow> golib \<Rightarrow> 'w sys \<Rightarrow> 'w sys \<Rightarrow> bool" where
  "store_run E lib \<equiv> sys_step (db_call E lib)\<^sup>*\<^sup>* (\<lambda>_ _. True)"

interpretation sr: sys_relation "(db_call E lib)\<^sup>*\<^sup>*" "\<lambda>_ _. True" for E lib
  by unfold_locales simp_all

interpretation sw: site_relation "store_run E lib" for E lib
  by unfold_locales

lemma db_methods:
  "keeps (db_call E lib)\<^sup>*\<^sup>* (DB_CreateOrg E slug name)"
  "keeps (db_call E lib)\<^sup>*\<^sup>* (DB_GetOrgBySlug E slug)"
  "keeps (db_call E lib)\<^sup>*\<^sup>* (DB_FirstOrg E)"
  "keeps (db_call E lib)\<^sup>*\<^sup>* (DB_ListOrgs E)"
  "keeps (db_call E lib)\<^sup>*\<^sup>* (DB_CreateUser E username display)"
  "keeps (db_call E lib)\<^sup>*\<^sup>* (DB_GetUserByUsername E username)"
  "keeps (db_call E lib)\<^sup>*\<^sup>* (DB_AddOrgMember E orgID userID role)"
  "keeps (db_call E lib)\<^sup>*\<^sup>* (DB_CreateProject E orgID slug name solo)"
  "keeps (db_call E lib)\<^sup>*\<^sup>* (DB_GetProject E orgID slug)"
  "keeps (db_call E lib)\<^sup>*\<^sup>* (DB_ListProjects E orgID)"
  "keeps (db_call E lib)\<^sup>*\<^sup>* (DB_AddProjectMember E p userID role)"
  "keeps (db_call E lib)\<^sup>*\<^sup>* (DB_ProjectRole E projectID userID)"
  "keeps (db_call E lib)\<^sup>*\<^sup>* (DB_SetOrgInstructions E orgID txt)"
  "keeps (db_call E lib)\<^sup>*\<^sup>* (DB_SetProjectInstructions E projectID txt)"
  "keeps (db_call E lib)\<^sup>*\<^sup>* (DB_NewToken E lib orgID userID label kind)"
  "keeps (db_call E lib)\<^sup>*\<^sup>* (DB_Authenticate E lib token)"
  "keeps (db_call E lib)\<^sup>*\<^sup>* (DB_RevokeToken E tid)"
  "keeps (db_call E lib)\<^sup>*\<^sup>* (DB_ListTokens E lib orgID)"
  "keeps (db_call E lib)\<^sup>*\<^sup>* (DB_ListProposals E projectID status)"
  "keeps (db_call E lib)\<^sup>*\<^sup>* (DB_EnsureRelease E orgID projectID artifact version tag)"
  by (rule keepsI, rule r_into_rtranclp, rule db_call.intros)+

lemma store_run_svc: "keeps (sys_step (store_steps S) (git_steps S)) m \<Longrightarrow> keeps (store_run (DB S) (Lib S)) m"
  by (auto simp: keeps_def sys_step_def)

lemmas store_run_methods = svc_keeps [THEN store_run_svc]

lemma store_run_WhoAmI: "keeps (store_run (DB S) (Lib S)) (Svc_WhoAmI S a)"
  unfolding Svc_WhoAmI_def
  by (intro sr.sy.keeps_andThen sr.sy.keeps_forEach sr.sy.keeps_ret sr.keeps_onDB db_methods)

lemma store_run_tool: "store_run (DB S) (Lib S) w (snd (run_tool S actor c w))"
proof (cases actor)
  case None
  then show ?thesis by (simp add: run_tool_def sr.sy.step_refl)
next
  case (Some a)
  have "store_run (DB S) (Lib S) w (snd (tool_handler S a c w))"
    by (cases c) (simp_all only: tool_handler.simps giving_outcome, (rule keepsD, rule store_run_methods store_run_WhoAmI)+)
  with Some show ?thesis by (simp add: run_tool_Some)
qed

lemma store_run_tools: "store_run (DB S) (Lib S) w (snd (run_tools S actor cs w))"
proof (induction cs arbitrary: w)
  case (Cons c cs)
  show ?case
    using sr.sy.step_trans [OF store_run_tool [of S w actor c] Cons.IH]
    by (cases "run_tool S actor c w"; cases "run_tools S actor cs (snd (run_tool S actor c w))") simp
qed (simp add: sr.sy.step_refl)

section \<open>The server\<close>

text \<open>A handler whose effect on the service's state is a run of the store.\<close>

definition web_run :: "'w Server \<Rightarrow> 'w web \<Rightarrow> 'w web \<Rightarrow> bool" where
  "web_run S w w' \<longleftrightarrow> store_run (DB (Svc S)) (Lib (Svc S)) (web_sys w) (web_sys w')"

interpretation wr: two_state "web_run S" for S
  by unfold_locales (auto simp: web_run_def intro: sr.sy.step_refl sr.sy.step_trans)

lemma web_run_on_sys: "keeps (store_run (DB (Svc S)) (Lib (Svc S))) m \<Longrightarrow> on_sys m w = (r, w') \<Longrightarrow> web_run S w w'"
  using keepsD [of "store_run (DB (Svc S)) (Lib (Svc S))" m "web_sys w"]
  by (auto simp: on_sys_def web_run_def split: prod.splits)

lemma web_run_same: "web_sys w' = web_sys w \<Longrightarrow> web_run S w w'"
  by (simp add: web_run_def sr.sy.step_refl)

lemma run_Ping: "keeps (db_call E lib)\<^sup>*\<^sup>* (DB_Ping E)"
proof (rule keepsI)
  fix d
  have "snd (DB_Ping E d) = snd (DB_ListOrgs E d)"
    by (simp add: DB_Ping_def DB_ListOrgs_def query_def sql_def Let_def)
  then show "(db_call E lib)\<^sup>*\<^sup>* d (snd (DB_Ping E d))"
    by (metis r_into_rtranclp db_call.ListOrgs)
qed

lemma run_open_handlers:
  "web_run S w (snd (healthz r w))" "web_run S w (snd (meta S r w))" "web_run S w (snd (metrics S r w))"
  "web_run S w (snd (readyz S r w))"
proof -
  have git: "keeps (store_run (DB (Svc S)) (Lib (Svc S))) (onGit m)" for m :: "('a gitstate, unit) go"
    by (rule sr.keeps_onGit) (simp add: keeps_def)
  note ping = web_run_on_sys [OF sr.keeps_onDB [OF run_Ping]]
  show "web_run S w (snd (readyz S r w))"
    using wr.step_trans [OF ping web_run_on_sys [OF git]] ping
    by (auto simp: readyz_def split: prod.splits sum.splits)
qed (simp_all add: healthz_def meta_def metrics_def web_run_same)

lemma run_handlers:
  "web_run S w (snd (handleContext S a r w))" "web_run S w (snd (handleSessionEnd S a r w))"
  "web_run S w (snd (handleMCP S a r w))"
proof -
  have tools: "keeps (store_run (DB (Svc S)) (Lib (Svc S))) (run_tools (Svc S) (Some a) cs)" for cs
    by (rule keepsI) (rule store_run_tools)
  show "web_run S w (snd (handleContext S a r w))"
    using web_run_on_sys [OF store_run_methods(1)]
    by (auto simp: handleContext_def Let_def wr.step_refl split: prod.splits sum.splits)
  show "web_run S w (snd (handleSessionEnd S a r w))"
    using web_run_on_sys [OF store_run_methods(12)]
    by (auto simp: handleSessionEnd_def wr.step_refl split: prod.splits sum.splits option.splits)
  show "web_run S w (snd (handleMCP S a r w))"
    using web_run_on_sys [OF tools] by (auto simp: handleMCP_def split: prod.splits)
qed

lemma run_auth:
  assumes "\<And>a w. web_run S w (snd (h a r w))"
  shows "web_run S w (snd (auth S h r w))"
proof -
  have failed: "web_run S w w1 \<Longrightarrow> web_run S w (auth_failed w1)" for w1
    by (simp add: web_run_def auth_failed_def)
  note authenticate = web_run_on_sys [OF sr.keeps_onDB [OF db_methods(16)]]
  show ?thesis
  proof (cases "bearer_token (req_auth r)")
    case None
    then show ?thesis by (simp add: auth_def failed wr.step_refl)
  next
    case (Some token)
    obtain x w1 where run: "on_sys (onDB (DB_Authenticate (DB (Svc S)) (Lib (Svc S)) token)) w = (x, w1)"
      by fastforce
    note step = authenticate [OF run]
    show ?thesis
      using Some run failed [OF step] wr.step_trans [OF step assms] by (cases x) (simp_all add: auth_def)
  qed
qed

lemma run_dispatch: "web_run S w (snd (dispatch S r w))"
  by (auto simp: dispatch_def wr.step_refl run_open_handlers intro: run_auth run_handlers split: route.splits)

lemma run_Handler: "web_run S w (snd (Handler S r w))"
  using run_dispatch [of S w r] by (auto simp: Handler_def instrument_def Let_def web_run_def split: prod.splits)

lemma run_serve_requests: "web_run S w (snd (serve_requests S rs w))"
proof (induction rs arbitrary: w)
  case (Cons r rs)
  show ?case
    using wr.step_trans [OF run_Handler [of S w r] Cons.IH]
    by (cases "Handler S r w"; cases "serve_requests S rs (snd (Handler S r w))") simp
qed (simp add: wr.step_refl)

section \<open>The commands\<close>

lemmas command_rules = sw.keeps_svc sw.keeps_svc_try sw.keeps_put sw.st.keeps_andThen sw.st.keeps_ret
  sw.st.keeps_failwith sw.st.keeps_forEach sw.st.keeps_if sw.st.keeps_ignoring sr.keeps_onDB db_methods

lemma run_onGit: "keeps (store_run E lib) (onGit m)"
  by (rule sr.keeps_onGit) (simp add: keeps_def)

lemma run_getOrg: "keeps (db_call (DB S) lib)\<^sup>*\<^sup>* (getOrg S slug)"
  by (simp add: getOrg_def db_methods)

lemma run_readFileOrStdin: "keeps (site_step (store_run E lib)) (readFileOrStdin M path)"
  by (auto simp: readFileOrStdin_def sw.st.keeps_ret sw.st.keeps_failwith split: option.splits sum.splits)

lemma run_setup_body: "keeps (site_step (store_run (DB S) (Lib S))) (setup_body S og ogName user display project label)"
  unfolding setup_body_def setup_project_def by (intro command_rules run_onGit)

lemma run_admin_commands:
  "keeps (site_step (store_run (DB S) (Lib S))) (user_create S og user display)"
  "keeps (site_step (store_run (DB S) (Lib S))) (project_create S og slug name team)"
  "keeps (site_step (store_run (DB S) (Lib S))) (project_add_member S og project user role)"
  "keeps (site_step (store_run (DB S) (Lib S))) (set_instructions M S noun og project file)"
  "keeps (site_step (store_run (DB S) (Lib S))) (device_create S og user label)"
  "keeps (site_step (store_run (DB S) (Lib S))) (device_list S og)"
  unfolding user_create_def project_create_def project_add_member_def set_instructions_def device_create_def device_list_def
  by (intro command_rules run_onGit run_getOrg run_readFileOrStdin)+

lemma run_device_revoke: "keeps (site_step (store_run (DB S) (Lib S))) (device_revoke S ident)"
proof -
  have "keeps (site_step (store_run (DB S) (Lib S))) (parseUUID (Lib S) ident)"
    by (simp add: parseUUID_def sw.st.keeps_ret sw.st.keeps_failwith split: option.splits)
  then show ?thesis
    unfolding device_revoke_def by (intro command_rules)
qed

lemma run_fsck:
  "keeps (site_step (store_run (DB S) (Lib S))) (forEach os (fsck_org S))"
  unfolding fsck_org_def fsck_project_def fsck_orphans_def fsck_orphan_def fsck_artifact_def fsck_version_def
  by (intro command_rules run_onGit)

lemma run_seed:
  "keeps (site_step (store_run (DB S) (Lib S))) (seed_project S o1 jon sam)"
  "keeps (site_step (store_run (DB S) (Lib S))) (seed_sam S a slug)"
  "keeps (site_step (store_run (DB S) (Lib S))) (seed_jon S a slug)"
  unfolding seed_project_def seed_sam_def seed_jon_def
  by (intro command_rules run_onGit store_run_methods)+

text \<open>The service that is opened has the machine's database.\<close>

lemma service_of_parts [simp]: "DB (service_of M cfg) = m_dbms M" "Lib (service_of M cfg) = m_lib M"
  by (simp_all add: service_of_def)

lemma run_opened:
  assumes "\<And>S. DB S = m_dbms M \<Longrightarrow> Lib S = m_lib M \<Longrightarrow> keeps (site_step (store_run (DB S) (Lib S))) (f S)"
  shows "keeps (site_step (store_run (m_dbms M) (m_lib M))) (opened M cfg f)"
    and "keeps (site_step (store_run (m_dbms M) (m_lib M))) (withService M f)"
proof -
  have f: "keeps (site_step (store_run (m_dbms M) (m_lib M))) (f (service_of M cfg))" for cfg
    using assms [of "service_of M cfg"] by simp
  have new: "store_run (m_dbms M) (m_lib M) w (w\<lparr>sys_git := (sys_git w)\<lparr>locks := []\<rparr>\<rparr>)" for w :: "'a sys"
    by (simp add: sys_step_def)
  show "keeps (site_step (store_run (m_dbms M) (m_lib M))) (opened M cfg f)"
    by (rule sw.keeps_opened) (rule f, rule new)
  show "keeps (site_step (store_run (m_dbms M) (m_lib M))) (withService M f)"
    by (rule sw.keeps_withService) (rule f, rule new)
qed

lemma run_with_flags:
  "(\<And>v. keeps (site_step (store_run E lib)) (body v)) \<Longrightarrow> keeps (site_step (store_run E lib)) (with_flags fs args body)"
  by (auto simp: with_flags_def sw.st.keeps_failwith split: flag_result.splits)

lemma run_served:
  fixes S :: "'w Service"
  assumes "DB S = E" and "Lib S = lib"
  shows "keeps (site_step (store_run E lib)) (\<lambda>s.
    case serve_requests \<lparr> Svc = S, Public = url, Sdk = k \<rparr> rs
        \<lparr> web_sys = site_sys s, reqs = (\<lambda>_. 0), auth_failures = 0, web_log = [] \<rparr> of
      (resps, w) \<Rightarrow> (r resps, s\<lparr>site_sys := web_sys w\<rparr>))"
proof (rule keepsI)
  fix s :: "'w site"
  let ?api = "\<lparr> Svc = S, Public = url, Sdk = k \<rparr>"
  let ?w = "\<lparr> web_sys = site_sys s, reqs = (\<lambda>_. 0), auth_failures = 0, web_log = [] \<rparr>"
  have "store_run E lib (site_sys s) (web_sys (snd (serve_requests ?api rs ?w)))"
    using run_serve_requests [of ?api ?w rs] assms by (simp add: web_run_def)
  then show "site_step (store_run E lib) s (snd (case serve_requests ?api rs ?w of
      (resps, w) \<Rightarrow> (r resps, s\<lparr>site_sys := web_sys w\<rparr>)))"
    by (cases "serve_requests ?api rs ?w") (simp add: site_step_def)
qed

lemma run_cmdServe: "keeps (site_step (store_run (m_dbms M) (m_lib M))) (cmdServe M args)"
  unfolding cmdServe_def
proof (rule run_with_flags)
  fix v
  have body: "keeps (site_step (store_run (DB S) (Lib S))) (andThen (put (Serving ver log)) (\<lambda>_ s.
      case serve_requests \<lparr> Svc = S, Public = url, Sdk = k \<rparr> rs
          \<lparr> web_sys = site_sys s, reqs = (\<lambda>_. 0), auth_failures = 0, web_log = [] \<rparr> of
        (resps, w) \<Rightarrow> (r resps, s\<lparr>site_sys := web_sys w\<rparr>)))" for S :: "'a Service" and ver log url k rs r
    by (intro sw.st.keeps_andThen sw.keeps_put run_served refl)
  show "keeps (site_step (store_run (m_dbms M) (m_lib M))) (case Load (m_environ M) of
       Inl e \<Rightarrow> failwith (Bad_Config_Env e)
     | Inr cfg \<Rightarrow>
         (let cfg = cfg\<lparr>Local := flag_set v ''local''\<rparr> in
          case Validate cfg of
            Some e \<Rightarrow> failwith (Bad_Config_Env e)
          | None \<Rightarrow> opened M cfg (\<lambda>S.
              andThen (put (Serving (m_version M) (Redacted cfg))) (\<lambda>_ s.
                case serve_requests \<lparr> Svc = S, Public = PublicURL cfg, Sdk = m_sdk M \<rparr> (m_requests M)
                    \<lparr> web_sys = site_sys s, reqs = (\<lambda>_. 0), auth_failures = 0, web_log = [] \<rparr> of
                  (resps, w) \<Rightarrow>
                    (case m_serve_end M of None \<Rightarrow> Inr resps | Some msg \<Rightarrow> Inl (Serve_Failed msg),
                     s\<lparr>site_sys := web_sys w\<rparr>)))))"
    by (auto simp: Let_def sw.st.keeps_failwith intro!: run_opened body split: sum.splits option.splits)
qed

lemma run_cmdSetup: "keeps (site_step (store_run (m_dbms M) (m_lib M))) (cmdSetup M args)"
  unfolding cmdSetup_def Let_def
  by (intro run_with_flags sw.st.keeps_if sw.st.keeps_failwith run_opened run_setup_body)

lemma run_cmdAdmin: "keeps (site_step (store_run (m_dbms M) (m_lib M))) (cmdAdmin M noun args)"
proof (cases args)
  case Nil
  then show ?thesis by (simp add: cmdAdmin_def sw.st.keeps_failwith)
next
  case (Cons verb rest)
  show ?thesis
    unfolding cmdAdmin_def Cons list.case Let_def
    by (intro run_with_flags run_opened sw.st.keeps_if sw.st.keeps_failwith run_admin_commands run_device_revoke)
qed

lemma run_cmdBackup: "keeps (site_step (store_run (m_dbms M) (m_lib M))) (cmdBackup M args)"
  by (simp add: keeps_def site_step_def sys_step_def cmdBackup_same)

lemma run_other_commands:
  "keeps (site_step (store_run (m_dbms M) (m_lib M))) (cmdMigrate M)"
  "keeps (site_step (store_run (m_dbms M) (m_lib M))) (cmdSeed M)"
  "keeps (site_step (store_run (m_dbms M) (m_lib M))) (cmdFsck M)"
  unfolding cmdMigrate_def cmdSeed_def cmdFsck_def
  by (intro run_opened command_rules run_seed run_fsck)+

section \<open>The program\<close>

text \<open>One run of the program, on any machine and with any arguments.\<close>

definition program_run :: "'w process \<Rightarrow> 'w process \<Rightarrow> bool" where
  "program_run w w' \<longleftrightarrow> (\<exists>M E prog cmd args. w' = snd (main M E (prog # cmd # args) w))"

lemma main_site_step:
  "site_step (store_run (m_dbms M) (m_lib M)) (proc_site w) (proc_site (snd (main M E (prog # cmd # args) w)))"
proof -
  let ?step = "site_step (store_run (m_dbms M) (m_lib M))"
  obtain e w' where w': "main M E (prog # cmd # args) w = (e, w')" by fastforce
  have site: "?step (proc_site w) (proc_site w')"
    if "keeps (site_step (store_run (m_dbms M) (m_lib M))) m" and "on_site m w = (e, w')"
    for m :: "('a, 'b) cli"
    using that(2) keepsD [OF that(1), of "proc_site w"]
    by (auto simp: on_site_def split: prod.splits)
  have "?step (proc_site w) (proc_site w')"
    using main_runs [OF w']
  proof (elim disjE conjE bexE)
    assume "on_site (cmdServe M args) w = (e, w')"
    then show ?thesis by (rule site [OF run_cmdServe])
  next
    fix m
    assume "m \<in> {cmdMigrate M, cmdSetup M args, cmdSeed M, cmdAdmin M cmd args, cmdBackup M args, cmdFsck M}"
      and m: "on_site m w = (e, w')"
    then have "keeps (site_step (store_run (m_dbms M) (m_lib M))) m"
      using run_other_commands run_cmdSetup run_cmdAdmin run_cmdBackup by auto
    then show ?thesis by (rule site [OF _ m])
  next
    fix m :: "unit cl"
    assume "on_client m w = (e, w')"
    then show ?thesis by (auto simp: on_client_def sw.site_refl split: prod.splits)
  qed (simp add: sw.site_refl)
  then show ?thesis
    by (simp add: w')
qed

lemma main_store_run:
  "\<exists>d lib. (db_call d lib)\<^sup>*\<^sup>* (sys_db (site_sys (proc_site w)))
     (sys_db (site_sys (proc_site (snd (main M E (prog # cmd # args) w)))))"
  using main_site_step [of M w E prog cmd args] by (auto simp: site_step_def sys_step_def)

text \<open>
  C39: Connections are given back. However a run of the program ends (a pool that cannot be made, a failed
  ping, a failed migration, an error of the command or a server that stopped), it has closed every
  connection pool it opened and no other, over any number of runs.
\<close>

theorem pools_are_closed:
  assumes "program_run\<^sup>*\<^sup>* w w'"
  shows "site_pools (proc_site w') = site_pools (proc_site w)"
  using assms
proof (induction rule: rtranclp_induct)
  case (step w1 w2)
  obtain M E prog cmd args where "w2 = snd (main M E (prog # cmd # args) w1)"
    using step.hyps(2) unfolding program_run_def by blast
  with step.IH main_site_step [of M w1 E prog cmd args] show ?case
    by (simp add: site_step_def)
qed simp

theorem pools_are_closed_witness:
  "site_pools (proc_site (snd (main ((sample_machine sample_host)
     \<lparr>m_pool := \<lparr> pgxpool_New = (\<lambda>_. None), pool_Ping = (\<lambda>_. Some ''refused'') \<rparr>\<rparr>) sample_offline
     [''ubiqo'', ''migrate''] sample_process))) = []"
proof -
  let ?M = "(sample_machine sample_host)\<lparr>m_pool := \<lparr> pgxpool_New = (\<lambda>_. None), pool_Ping = (\<lambda>_. Some ''refused'') \<rparr>\<rparr>"
  have "program_run\<^sup>*\<^sup>* sample_process (snd (main ?M sample_offline [''ubiqo'', ''migrate''] sample_process))"
    by (rule r_into_rtranclp) (unfold program_run_def, intro exI, rule refl)
  from pools_are_closed [OF this] show ?thesis
    by (simp add: sample_process_def sample_site_def)
qed

text \<open>
  C38: The program keeps its database. Over any number of runs of the program one after the other, each
  with any command, arguments, environment, requests to a server and failures: every constraint of
  the schema holds again, every text column is valid, events, memories and releases are only appended to
  and revoked tokens stay revoked.
\<close>

theorem program_keeps_invariants:
  assumes "program_run\<^sup>*\<^sup>* w w'"
    and "wf_db (sys_db (site_sys (proc_site w)))"
    and "typed_members (sys_db (site_sys (proc_site w))) \<and> typed_content (sys_db (site_sys (proc_site w)))"
  shows "wf_db (sys_db (site_sys (proc_site w')))
    \<and> typed_members (sys_db (site_sys (proc_site w'))) \<and> typed_content (sys_db (site_sys (proc_site w')))
    \<and> history_step (sys_db (site_sys (proc_site w))) (sys_db (site_sys (proc_site w')))"
  using assms(1)
proof (induction rule: rtranclp_induct)
  case base
  then show ?case using assms(2,3) by (simp add: hs.step_refl)
next
  case (step w1 w2)
  let ?d = "\<lambda>w :: 'a process. sys_db (site_sys (proc_site w))"
  obtain E lib where "(db_call E lib)\<^sup>*\<^sup>* (?d w1) (?d w2)"
    using step.hyps(2) main_store_run unfolding program_run_def by blast
  then have "wf_db (?d w1) \<longrightarrow> wf_db (?d w2)" "typed_step (?d w1) (?d w2)" "history_step (?d w1) (?d w2)"
    using db_calls_wf db_calls_history db_calls_typed by blast+
  with step.IH show ?case
    by (auto simp: typed_step_def intro: hs.step_trans)
qed

theorem program_keeps_invariants_witness:
  "wf_db (sys_db (site_sys (proc_site (snd (main (sample_machine sample_host) sample_offline
     (''ubiqo'' # ''setup'' # sample_setup_args) sample_process)))))"
proof -
  let ?w = "snd (main (sample_machine sample_host) sample_offline (''ubiqo'' # ''setup'' # sample_setup_args) sample_process)"
  have "program_run\<^sup>*\<^sup>* sample_process ?w"
    by (rule r_into_rtranclp) (unfold program_run_def, intro exI, rule refl)
  moreover have "wf_db (sys_db (site_sys (proc_site sample_process)))"
    by (simp add: sample_process_def sample_site_def sample_empty_def wf_db_def wf_tables)
  moreover have "typed_members (sys_db (site_sys (proc_site sample_process))) \<and> typed_content (sys_db (site_sys (proc_site sample_process)))"
    by (simp add: sample_process_def sample_site_def sample_empty_def typed_members_def typed_content_def)
  ultimately show ?thesis
    using program_keeps_invariants by blast
qed

end
