(* ===== verification/Concurrent.thy ===== *)
theory Concurrent
  imports Gitstore_Facts
begin

text \<open>
  Requests that run at the same time. The server handles each request in a goroutine of its own, and
  the git plane orders them with one \<open>sync.Mutex\<close> per repository (\<open>repoLock\<close>). A request is what
  it has yet to do: the trace of any sequence of operations of the git plane, on any host, so
  whatever the others make git answer. Any request may do its next effect at any moment, but taking a
  mutex waits until no request holds it. Shown are that no request waits forever, and that no two
  change the same repository at once.
\<close>

section \<open>What a request has locked and cloned\<close>

text \<open>
  The held mutex with the clones made since it was taken (directory and origin).
\<close>

type_synonym lock_section = "(nat \<times> (string \<times> string) list) option"

definition clone_of :: "string list \<Rightarrow> (string \<times> string) option" where
  "clone_of args = (case args of [] \<Rightarrow> None
     | c # as \<Rightarrow> if c = ''clone'' then Some (last as, last (butlast as)) else None)"

fun after_effect :: "lock_section \<Rightarrow> effect \<Rightarrow> lock_section" where
  "after_effect q (Lock l) = Some (l, [])"
| "after_effect q (Unlock l) = None"
| "after_effect q (Exec dir args ok) =
     (case (q, clone_of args) of
        (Some (l, cs), Some c) \<Rightarrow> if ok then Some (l, c # cs) else q
      | _ \<Rightarrow> q)"
| "after_effect q e = q"

text \<open>
  The bare repository that a mutating command changes: a push goes to the origin of the clone it runs in,
  \<open>init\<close> names the repository, the others run in it.
\<close>

definition changed_repo :: "lock_section \<Rightarrow> string \<Rightarrow> string list \<Rightarrow> string option" where
  "changed_repo q dir args = (case args of [] \<Rightarrow> None
     | c # as \<Rightarrow> if c = ''push'' then Option.bind q (\<lambda>(l, cs). map_of cs dir)
                 else if c = ''init'' then Some (last as) else Some dir)"

text \<open>
  The discipline, for a table of mutexes: they are taken one at a time, and a repository is changed only
  while its own mutex is held.
\<close>

fun permitted :: "(string \<rightharpoonup> nat) \<Rightarrow> lock_section \<Rightarrow> effect \<Rightarrow> bool" where
  "permitted L q (Lock l) \<longleftrightarrow> q = None"
| "permitted L q (Unlock l) \<longleftrightarrow> map_option fst q = Some l"
| "permitted L q (Exec dir args ok) \<longleftrightarrow> (mutating args \<longrightarrow>
     q \<noteq> None \<and> (case changed_repo q dir args of None \<Rightarrow> False | Some p \<Rightarrow> L p = map_option fst q))"
| "permitted L q e \<longleftrightarrow> True"

fun section_run :: "(string \<rightharpoonup> nat) \<Rightarrow> lock_section \<Rightarrow> effect list \<Rightarrow> lock_section option" where
  "section_run L q [] = Some q"
| "section_run L q (e # t) = (if permitted L q e then section_run L (after_effect q e) t else None)"

lemma section_run_append:
  "section_run L q (a @ b) = Option.bind (section_run L q a) (\<lambda>q'. section_run L q' b)"
  by (induction L q a rule: section_run.induct) auto

text \<open>
  Traces of whole operations, of what is done under the mutex of a repository, and of what is done there
  in a clone of it.
\<close>

definition repo_op :: "(string \<rightharpoonup> nat) \<Rightarrow> effect list \<Rightarrow> bool" where
  "repo_op L t \<longleftrightarrow> section_run L None t = Some None"

definition in_repo :: "(string \<rightharpoonup> nat) \<Rightarrow> string \<Rightarrow> effect list \<Rightarrow> bool" where
  "in_repo L path t \<longleftrightarrow> (\<forall>l cs. L path = Some l \<longrightarrow> (\<exists>cs'. section_run L (Some (l, cs)) t = Some (Some (l, cs'))))"

definition in_clone :: "(string \<rightharpoonup> nat) \<Rightarrow> string \<Rightarrow> string \<Rightarrow> effect list \<Rightarrow> bool" where
  "in_clone L path tmp t \<longleftrightarrow> (\<forall>l cs. L path = Some l \<and> map_of cs tmp = Some path
     \<longrightarrow> section_run L (Some (l, cs)) t = Some (Some (l, cs)))"

interpretation ro: trace_lang "repo_op L" for L
  by unfold_locales (simp_all add: repo_op_def section_run_append)

interpretation ir: trace_lang "in_repo L path" for L path
proof unfold_locales
  fix a b
  assume "in_repo L path a" "in_repo L path b"
  then show "in_repo L path (a @ b)"
    unfolding in_repo_def section_run_append by (metis bind.bind_lunit)
qed (simp add: in_repo_def)

interpretation ic: trace_lang "in_clone L path tmp" for L path tmp
  by unfold_locales (simp_all add: in_clone_def section_run_append)

lemma plain_exec:
  assumes "c \<notin> {''push'', ''init'', ''branch'', ''tag'', ''clone''}"
  shows "repo_op L [Exec dir (c # as) ok]" "in_repo L path [Exec dir (c # as) ok]"
    and "in_clone L path tmp [Exec dir (c # as) ok]"
  using assms by (auto simp: repo_op_def in_repo_def in_clone_def mutating_def clone_of_def split: option.splits)

lemma plain_effects:
  "repo_op L [MkdirAll d]" "repo_op L [CreateTemp d]" "repo_op L [RemoveFile f]"
  "repo_op L [Exec dir [''tag'', ''-l'', a] ok]"
  "in_repo L path [MkdirAll d]" "in_clone L path tmp [MkdirAll d]" "in_clone L path tmp [WriteFile f c]"
  by (auto simp: repo_op_def in_repo_def in_clone_def mutating_def clone_of_def)

text \<open>The mutating commands of the code.\<close>

lemma changing_effects:
  "in_clone L path tmp [Exec tmp (''push'' # as) ok]"
  "in_repo L path [Exec dir [''init'', a1, a2, a3, a4, path] ok]"
  "in_repo L path [Exec path (''branch'' # as) ok]"
  "in_repo L path [Exec path (''tag'' # as) ok]"
  by (auto simp: in_clone_def in_repo_def changed_repo_def clone_of_def mutating_def)

section \<open>The operations follow the discipline\<close>

text \<open>The table of mutexes only grows, so a repository keeps its mutex.\<close>

definition locks_grow :: "'w gitstate \<Rightarrow> 'w gitstate \<Rightarrow> bool" where
  "locks_grow s s' \<longleftrightarrow> map_of (locks s) \<subseteq>\<^sub>m map_of (locks s')"

interpretation lg: two_state locks_grow
  by unfold_locales (auto simp: locks_grow_def intro: map_le_trans)

lemma grow_performed: "locks_grow s (performed e w s)"
  by (simp add: locks_grow_def performed_def)

lemma grow_repoLock: "repoLock path s = (l, s') \<Longrightarrow> locks_grow s s' \<and> map_of (locks s') path = Some l"
  by (auto simp: repoLock_def locks_grow_def map_le_def split: option.splits)

lemma grow_deferred:
  assumes "keeps locks_grow m" and "\<And>s. locks_grow s (c s)"
  shows "keeps locks_grow (deferred c m)"
proof (rule keepsI)
  fix s
  show "locks_grow s (snd (deferred c m s))"
    using keepsD [OF assms(1), of s] assms(2)
    by (auto simp: deferred_def split: prod.splits intro: lg.step_trans)
qed

lemma grow_git: "keeps locks_grow (Git_git H dir args)" "keeps locks_grow (git_stdout H dir args)"
  by (auto simp: keeps_def Git_git_def git_stdout_def git_output_def grow_performed
      split: prod.splits option.splits)

lemma grow_os:
  "keeps locks_grow (os_MkdirAll H dir)" "keeps locks_grow (os_WriteFile H f x)" "keeps locks_grow (os_Stat H f)"
  "keeps locks_grow (os_CreateTemp H dir)" "keeps locks_grow (os_Remove H f)" "keeps locks_grow (os_MkdirTemp H)"
  by (auto simp: keeps_def os_MkdirAll_def os_WriteFile_def os_Stat_def os_CreateTemp_def os_Remove_def
      os_MkdirTemp_def grow_performed lg.step_refl locks_grow_def performed_def split: prod.splits sum.splits)

lemma grow_os_RemoveAll: "locks_grow s (os_RemoveAll H dir s)"
  by (simp add: os_RemoveAll_def grow_performed)

lemma grow_giveUp: "keeps locks_grow (\<lambda>s. (Inl e, os_RemoveAll H tmp s))"
  by (simp add: keeps_def grow_os_RemoveAll)

lemma grow_withLock:
  fixes m :: "('w gitstate, 'a) go"
  assumes "keeps locks_grow m"
  shows "keeps locks_grow (withLock path m)"
proof (rule keepsI)
  fix s :: "'w gitstate"
  obtain l s1 where l: "repoLock path s = (l, s1)" by fastforce
  have "locks_grow s1 (snd (withLock path m s))"
    using lg.step_trans [OF grow_performed keepsD [OF grow_deferred [OF assms grow_performed]]]
    by (simp add: withLock_def l)
  then show "locks_grow s (snd (withLock path m s))"
    using grow_repoLock [OF l] lg.step_trans by blast
qed

lemma grow_withClone: "(\<And>tmp. keeps locks_grow (body tmp)) \<Longrightarrow> keeps locks_grow (withClone H path branch allowEmpty body)"
  unfolding withClone_def Git_clone_def Let_def
  by (intro lg.keeps_andThen lg.keeps_handle lg.keeps_if lg.keeps_ret grow_os grow_git grow_giveUp grow_deferred
      grow_os_RemoveAll)

lemma grow_write_one: "keeps locks_grow (write_one H dir f)"
  unfolding write_one_def Let_def
  by (intro lg.keeps_andThen grow_os) (simp add: keeps_def lg.step_refl)

text \<open>
  Both together: the table of mutexes grows and, for every table it may have grown to, the trace
  follows the discipline.
\<close>

definition orderly :: "(string \<rightharpoonup> nat) \<Rightarrow> 'w gitstate \<Rightarrow> 'w gitstate \<Rightarrow> bool" where
  "orderly L s s' \<longleftrightarrow> locks_grow s s' \<and> (map_of (locks s') \<subseteq>\<^sub>m L \<longrightarrow> emits (repo_op L) s s')"

interpretation od: two_state "orderly L" for L
proof unfold_locales
  fix s t u
  assume "orderly L s t" "orderly L t u"
  then show "orderly L s u"
    unfolding orderly_def locks_grow_def by (meson map_le_trans ro.step_trans)
qed (simp add: orderly_def lg.step_refl ro.step_refl)

lemma orderlyI: "keeps locks_grow m \<Longrightarrow> keeps (emits (repo_op L)) m \<Longrightarrow> keeps (orderly L) m"
  by (simp add: keeps_def orderly_def)

lemma orderly_withLock:
  fixes m :: "('w gitstate, 'a) go"
  assumes "keeps locks_grow m" and "keeps (emits (in_repo L path)) m"
  shows "keeps (orderly L) (withLock path m)"
proof (rule keepsI)
  fix s :: "'w gitstate"
  let ?s' = "snd (withLock path m s)"
  obtain l s1 where l: "repoLock path s = (l, s1)" by fastforce
  then have s1: "trace s1 = trace s" by (auto simp: repoLock_def split: option.splits)
  let ?s1 = "performed (Lock l) (world s1) s1"
  obtain r s2 where m: "m ?s1 = (r, s2)" by fastforce
  obtain t where t: "trace s2 = trace ?s1 @ t" "in_repo L path t"
    using emitsD [OF assms(2) m] by blast
  have "emits (repo_op L) s ?s'" if "map_of (locks ?s') \<subseteq>\<^sub>m L"
  proof -
    have "locks_grow s1 ?s'"
      using keepsD [OF assms(1), of ?s1] m by (simp add: withLock_def l deferred_def locks_grow_def performed_def)
    then have "L path = Some l"
      using that grow_repoLock [OF l] by (auto simp: locks_grow_def map_le_def dom_def)
    then have "repo_op L (Lock l # t @ [Unlock l])"
      using t(2) by (auto simp: in_repo_def repo_op_def section_run_append dest: spec [of _ "[]"])
    then show ?thesis
      unfolding emits_def
      by (intro exI [of _ "Lock l # t @ [Unlock l]"]) (simp add: withLock_def l m deferred_def s1 t(1) trace_performed)
  qed
  then show "orderly L s ?s'"
    using keepsD [OF grow_withLock [OF assms(1)]] by (simp add: orderly_def)
qed

definition cloned_into :: "(string \<rightharpoonup> nat) \<Rightarrow> string \<Rightarrow> string \<Rightarrow> effect list \<Rightarrow> bool" where
  "cloned_into L path tmp t \<longleftrightarrow> (\<forall>l cs. L path = Some l \<longrightarrow>
     (\<exists>cs'. section_run L (Some (l, cs)) t = Some (Some (l, cs')) \<and> map_of cs' tmp = Some path))"

lemma clone_section:
  assumes "Git_clone H path branch allowEmpty s = (r, s')"
  shows "\<exists>t. trace s' = trace s @ t \<and> (case r of Inl _ \<Rightarrow> in_repo L path t | Inr tmp \<Rightarrow> cloned_into L path tmp t)"
  using assms
  by (auto simp: Git_clone_def andThen_def handle_def os_MkdirTemp_def os_RemoveAll_def performed_def
      Let_def in_repo_def cloned_into_def mutating_def clone_of_def
      dest!: git_trace split: prod.splits sum.splits if_splits)

lemma in_repo_cloned:
  assumes "cloned_into L path tmp t" and "in_clone L path tmp u"
  shows "in_repo L path (t @ u @ [RemoveAll d])"
  unfolding in_repo_def
proof (intro allI impI)
  fix l cs
  assume l: "L path = Some l"
  then obtain cs' where "section_run L (Some (l, cs)) t = Some (Some (l, cs'))" "map_of cs' tmp = Some path"
    using assms(1) by (auto simp: cloned_into_def)
  then show "\<exists>cs'. section_run L (Some (l, cs)) (t @ u @ [RemoveAll d]) = Some (Some (l, cs'))"
    using assms(2) l by (simp add: in_clone_def section_run_append)
qed

lemma in_repo_withClone:
  fixes body :: "string \<Rightarrow> ('w gitstate, 'a) go"
  assumes "\<And>tmp. keeps (emits (in_clone L path tmp)) (body tmp)"
  shows "keeps (emits (in_repo L path)) (withClone H path branch allowEmpty body)"
proof (rule keepsI)
  fix s :: "'w gitstate"
  obtain r s1 where c: "Git_clone H path branch allowEmpty s = (r, s1)" by fastforce
  obtain t where t: "trace s1 = trace s @ t"
      "case r of Inl _ \<Rightarrow> in_repo L path t | Inr tmp \<Rightarrow> cloned_into L path tmp t"
    using clone_section [OF c] by blast
  show "emits (in_repo L path) s (snd (withClone H path branch allowEmpty body s))"
  proof (cases r)
    case (Inl e)
    then show ?thesis using c t by (auto simp: withClone_def andThen_def emits_def)
  next
    case (Inr tmp)
    obtain r' s2 where b: "body tmp s1 = (r', s2)" by fastforce
    obtain u where u: "trace s2 = trace s1 @ u" "in_clone L path tmp u"
      using emitsD [OF assms b] by blast
    have "in_repo L path (t @ u @ [RemoveAll tmp])"
      using t(2) u(2) Inr by (simp add: in_repo_cloned)
    then show ?thesis
      using c Inr b t(1) u(1) unfolding emits_def
      by (intro exI [of _ "t @ u @ [RemoveAll tmp]"])
        (simp add: withClone_def andThen_def deferred_def os_RemoveAll_def performed_def)
  qed
qed

lemma in_clone_write_one: "keeps (emits (in_clone L path tmp)) (write_one H dir f)"
  unfolding write_one_def Let_def
  by (intro ic.keeps_andThen ic.keeps_MkdirAll ic.keeps_WriteFile plain_effects)
    (simp_all add: keeps_def ic.emits_refl)

named_theorems orderly_rules "operations that follow the discipline of the mutexes"

lemmas grow_rules = lg.keeps_andThen lg.keeps_if lg.keeps_let lg.keeps_ret lg.keeps_failwith lg.keeps_handle
  lg.keeps_forEach lg.keeps_ignoring lg.keeps_ofSum lg.keeps_guarded grow_git grow_os grow_withClone grow_write_one

lemmas in_rules = ir.keeps_andThen ir.keeps_if ir.keeps_let ir.keeps_ret ir.keeps_Stat ir.keeps_git ir.keeps_MkdirAll
  in_repo_withClone ic.keeps_andThen ic.keeps_if ic.keeps_let ic.keeps_ret ic.keeps_failwith ic.keeps_handle
  ic.keeps_forEach ic.keeps_git ic.keeps_git_stdout ic.keeps_ignoring in_clone_write_one

lemmas effect_rules = plain_effects changing_effects plain_exec

lemma od_Stat: "keeps (orderly L) (os_Stat H f)"
  by (simp add: keeps_def os_Stat_def od.step_refl)

lemma od_failIf: "keeps (orderly L) (failIf r)"
  by (simp add: failIf_def od.keeps_ret od.keeps_failwith split: option.splits)

lemma od_git: "(\<And>ok. repo_op L [Exec dir args ok]) \<Longrightarrow> keeps (orderly L) (Git_git H dir args)"
  by (intro orderlyI grow_git ro.keeps_git)

lemma od_os:
  "keeps (orderly L) (os_MkdirAll H dir)" "keeps (orderly L) (os_CreateTemp H dir)" "keeps (orderly L) (os_Remove H f)"
  by (intro orderlyI grow_os ro.keeps_MkdirAll ro.keeps_CreateTemp ro.keeps_Remove plain_effects)+

lemmas od_rules = od.keeps_andThen od.keeps_if od.keeps_let od.keeps_ret od.keeps_failwith od.keeps_ofSum
  od.keeps_guarded od.keeps_handle od_Stat od_failIf od_git od_os orderly_withLock

lemma orderly_EnsureRepo [orderly_rules]: "keeps (orderly L) (Git_EnsureRepo H org project)"
  unfolding Git_EnsureRepo_def
  by (intro od_rules grow_rules in_rules) (simp_all add: effect_rules)

lemma orderly_WriteFiles [orderly_rules]:
  "keeps (orderly L) (Git_WriteFiles H org project branch artifact fs message trailers)"
  unfolding Git_WriteFiles_def
  by (intro od_rules grow_rules in_rules) (simp_all add: effect_rules)

lemma orderly_Merge [orderly_rules]: "keeps (orderly L) (Git_Merge H org project branch message trailers)"
  unfolding Git_Merge_def
  by (intro od_rules grow_rules in_rules) (simp_all add: effect_rules)

lemma orderly_DeleteBranch [orderly_rules]: "keeps (orderly L) (Git_DeleteBranch H org project branch)"
  unfolding Git_DeleteBranch_def
  by (intro od_rules grow_rules in_rules) (simp_all add: effect_rules)

lemma orderly_Tag [orderly_rules]: "keeps (orderly L) (Git_Tag H org project artifact version notes)"
  unfolding Git_Tag_def
  by (intro od_rules grow_rules in_rules) (simp_all add: effect_rules)

lemma orderly_reads [orderly_rules]:
  "keeps (orderly L) (Git_ReadFile H org project ref artifact relPath)"
  "keeps (orderly L) (Git_ListTree H org project ref artifact)"
  "keeps (orderly L) (Git_ListArtifacts H org project)"
  "keeps (orderly L) (Git_Versions H org project artifact)"
  "keeps (orderly L) (Git_DiffStat H org project branch)"
  "keeps (orderly L) (Git_Branches H org project)"
  unfolding Git_ReadFile_def Git_ListTree_def Git_ListArtifacts_def Git_Versions_def Git_DiffStat_def
    Git_Branches_def Let_def
  by (intro od_rules; simp add: effect_rules)+

lemma orderly_HealthCheck [orderly_rules]: "keeps (orderly L) (Git_HealthCheck H)"
  unfolding Git_HealthCheck_def Let_def by (intro od_rules)

lemma orderly_bundle: "keeps (orderly L) (bundle_repo H root dest p)"
  unfolding bundle_repo_def Let_def by (intro od_rules) (simp add: effect_rules)

lemma orderly_walk:
  "keeps (orderly L) (walk_node H root dest p n)"
  "keeps (orderly L) (walk_nodes H root dest p ns)"
  by (induction H root dest p n and H root dest p ns rule: walk_node_walk_nodes.induct)
    (auto simp del: ret_apply failwith_apply
      intro!: orderly_bundle od.keeps_andThen od.keeps_ret od.keeps_failwith)

lemma orderly_BundleAll [orderly_rules]: "keeps (orderly L) (Git_BundleAll H dest)"
  by (rule keepsI) (auto simp: Git_BundleAll_def Let_def od.step_refl keepsD [OF orderly_walk(1)] split: option.splits)

lemma git_call_orderly: "git_call H s s' \<Longrightarrow> orderly L s s'"
  by (induction rule: git_call.induct) (rule keepsD, rule orderly_rules)+

lemma git_calls_orderly: "(git_call H)\<^sup>*\<^sup>* s s' \<Longrightarrow> orderly L s s'"
  by (induction rule: rtranclp_induct) (auto dest: git_call_orderly intro: od.step_refl od.step_trans)

section \<open>Requests that run together\<close>

record request =
  in_section :: lock_section
  to_do :: "effect list"

definition request_for :: "effect list \<Rightarrow> request" where
  "request_for t = \<lparr> in_section = None, to_do = t \<rparr>"

definition holds :: "request \<Rightarrow> nat \<Rightarrow> bool" where
  "holds r l \<longleftrightarrow> map_option fst (in_section r) = Some l"

text \<open>\<open>Mutex.Lock\<close> returns when nobody holds the mutex; nothing else waits.\<close>

fun can_go :: "request list \<Rightarrow> effect \<Rightarrow> bool" where
  "can_go rs (Lock l) \<longleftrightarrow> list_all (\<lambda>r. \<not> holds r l) rs"
| "can_go rs e \<longleftrightarrow> True"

inductive interleaves :: "request list \<Rightarrow> request list \<Rightarrow> bool" where
  "i < length rs \<Longrightarrow> to_do (rs ! i) = e # t \<Longrightarrow> can_go rs e \<Longrightarrow>
     interleaves rs (rs[i := \<lparr> in_section = after_effect (in_section (rs ! i)) e, to_do = t \<rparr>])"

inductive_cases interleavesE: "interleaves rs rs'"

definition work_left :: "request list \<Rightarrow> nat" where
  "work_left rs = (\<Sum>r\<leftarrow>rs. length (to_do r))"

text \<open>The repository a request changes with its next effect.\<close>

definition about_to_change :: "request \<Rightarrow> string option" where
  "about_to_change r = (case to_do r of
     Exec dir args ok # t \<Rightarrow> if mutating args then changed_repo (in_section r) dir args else None
   | _ \<Rightarrow> None)"

text \<open>Every request goes on by the discipline, and a mutex has one holder.\<close>

definition well_run :: "(string \<rightharpoonup> nat) \<Rightarrow> request list \<Rightarrow> bool" where
  "well_run L rs \<longleftrightarrow> (\<forall>r \<in> set rs. section_run L (in_section r) (to_do r) = Some None)
     \<and> (\<forall>i < length rs. \<forall>j < length rs. \<forall>l. holds (rs ! i) l \<and> holds (rs ! j) l \<longrightarrow> i = j)"

lemma holds_after:
  assumes "holds \<lparr> in_section = after_effect q e, to_do = t \<rparr> l" and "\<forall>l. e \<noteq> Lock l"
  shows "holds \<lparr> in_section = q, to_do = t' \<rparr> l"
  using assms by (cases e) (auto simp: holds_def split: option.splits prod.splits if_splits)

lemma step_well_run:
  assumes "interleaves rs rs'" and "well_run L rs"
  shows "well_run L rs'" "work_left rs = Suc (work_left rs')"
proof -
  obtain i e t where i: "i < length rs" and e: "to_do (rs ! i) = e # t" and go: "can_go rs e"
    and rs': "rs' = rs[i := \<lparr> in_section = after_effect (in_section (rs ! i)) e, to_do = t \<rparr>]"
    using assms(1) by (rule interleavesE)
  let ?r = "\<lparr> in_section = after_effect (in_section (rs ! i)) e, to_do = t \<rparr>"
  have "section_run L (in_section (rs ! i)) (to_do (rs ! i)) = Some None"
    using assms(2) i by (simp add: well_run_def)
  then have runs: "section_run L (in_section ?r) (to_do ?r) = Some None"
    by (simp add: e split: if_splits)
  have alone: "j = i" if "holds ?r l" "j < length rs" "holds (rs ! j) l" for j l
  proof (cases "\<exists>l. e = Lock l")
    case True
    with that go show ?thesis by (auto simp: holds_def list_all_length)
  next
    case False
    then have "holds (rs ! i) l"
      using holds_after [OF that(1)] by (simp add: holds_def)
    with assms(2) that i show ?thesis by (auto simp: well_run_def)
  qed
  show "well_run L rs'"
    using assms(2) i runs alone unfolding well_run_def rs'
    by (auto simp: nth_list_update dest!: set_update_subset_insert [THEN subsetD])
  show "work_left rs = Suc (work_left rs')"
    using i e elem_le_sum_list [of i "map (length \<circ> to_do) rs"]
    by (simp add: rs' work_left_def map_update sum_list_update comp_def)
qed

lemma work_left_pos: "0 < work_left rs \<longleftrightarrow> (\<exists>r \<in> set rs. to_do r \<noteq> [])"
  by (induction rs) (auto simp: work_left_def)

lemma well_run_progress:
  assumes "well_run L rs" and "0 < work_left rs"
  shows "\<exists>rs'. interleaves rs rs'"
proof (cases "\<exists>i l. i < length rs \<and> holds (rs ! i) l")
  case True
  then obtain i l where i: "i < length rs" "holds (rs ! i) l" by blast
  then have run: "section_run L (in_section (rs ! i)) (to_do (rs ! i)) = Some None"
    using assms(1) by (simp add: well_run_def)
  then obtain e t where e: "to_do (rs ! i) = e # t"
    using i(2) by (cases "to_do (rs ! i)") (auto simp: holds_def)
  have "can_go rs e"
    using run i(2) by (cases e) (auto simp: e holds_def)
  with i e show ?thesis by (blast intro: interleaves.intros)
next
  case False
  obtain r where "r \<in> set rs" "to_do r \<noteq> []"
    using assms(2) by (auto simp: work_left_pos)
  then obtain i e t where "i < length rs" "to_do (rs ! i) = e # t"
    by (metis in_set_conv_nth neq_Nil_conv)
  moreover have "can_go rs e"
    using False by (cases e) (auto simp: list_all_length)
  ultimately show ?thesis by (blast intro: interleaves.intros)
qed

lemma well_run_one_change:
  assumes "well_run L rs" and "i < length rs" and "about_to_change (rs ! i) = Some p"
  shows "\<exists>l. L p = Some l \<and> holds (rs ! i) l"
proof -
  obtain dir args ok t where e: "to_do (rs ! i) = Exec dir args ok # t"
    and c: "mutating args" "changed_repo (in_section (rs ! i)) dir args = Some p"
    using assms(3) by (auto simp: about_to_change_def split: list.splits effect.splits if_splits)
  have "section_run L (in_section (rs ! i)) (to_do (rs ! i)) = Some None"
    using assms(1,2) by (simp add: well_run_def)
  then show ?thesis
    using c by (auto simp: e holds_def split: if_splits)
qed

text \<open>
  The traces of requests of the service, \<open>L\<close> being the table of mutexes when all are done: entries of it
  are never removed, so all requests see parts of one table.
\<close>

definition requests_of :: "'w itself \<Rightarrow> (string \<rightharpoonup> nat) \<Rightarrow> effect list list \<Rightarrow> bool" where
  "requests_of w L ts \<longleftrightarrow> (\<forall>t \<in> set ts. \<exists>(H :: 'w host) s s'.
     (git_call H)\<^sup>*\<^sup>* s s' \<and> trace s' = trace s @ t \<and> map_of (locks s') \<subseteq>\<^sub>m L)"

lemma requests_well_run:
  fixes w :: "'w itself"
  assumes "requests_of w L ts"
  shows "well_run L (map request_for ts)"
proof -
  have "section_run L None t = Some None" if t: "t \<in> set ts" for t
  proof -
    obtain H :: "'w host" and s s' where run: "(git_call H)\<^sup>*\<^sup>* s s'" "trace s' = trace s @ t" "map_of (locks s') \<subseteq>\<^sub>m L"
      using assms t by (auto simp: requests_of_def)
    then show ?thesis
      using git_calls_orderly [OF run(1), of L] by (auto simp: orderly_def emits_def repo_op_def)
  qed
  then show ?thesis
    by (auto simp: well_run_def request_for_def holds_def)
qed

lemma interleaving_well_run:
  assumes "(interleaves ^^ n) rs rs'" and "well_run L rs"
  shows "well_run L rs' \<and> n + work_left rs' = work_left rs"
  using assms
proof (induction n arbitrary: rs')
  case (Suc n)
  from Suc.prems(1) obtain rs1 where "(interleaves ^^ n) rs rs1" "interleaves rs1 rs'"
    by (rule relpowp_Suc_E)
  with Suc.IH [OF _ Suc.prems(2)] step_well_run [of rs1 rs' L] show ?case
    by fastforce
qed simp

text \<open>
  C8: Requests do not wait for each other forever. However the requests' effects are interleaved, as
  long as any is left one request can go on, each step uses one up, so every schedule of the requests
  ends, after exactly as many steps as they have effects together, with all done.
\<close>

theorem requests_finish:
  assumes "requests_of w L ts" and "(interleaves ^^ n) (map request_for ts) rs"
  shows "n + work_left rs = (\<Sum>t\<leftarrow>ts. length t) \<and> (work_left rs = 0 \<or> (\<exists>rs'. interleaves rs rs'))"
proof -
  have "well_run L rs" "n + work_left rs = work_left (map request_for ts)"
    using interleaving_well_run [OF assms(2) requests_well_run [OF assms(1)]] by simp_all
  moreover have "work_left (map request_for ts) = (\<Sum>t\<leftarrow>ts. length t)"
    by (simp add: work_left_def request_for_def comp_def)
  ultimately show ?thesis
    using well_run_progress [of L rs] by fastforce
qed

text \<open>
  C9: Changes of one repository exclude each other. However the requests' effects are interleaved, two
  different requests are never both about to run a command that changes the same bare repository
  (a push to it from a clone, \<open>init\<close>, \<open>branch\<close> or \<open>tag -a\<close>).
\<close>

theorem one_change_at_a_time:
  assumes "requests_of w L ts" and "(interleaves ^^ n) (map request_for ts) rs"
    and "i < length rs" and "j < length rs"
    and "about_to_change (rs ! i) = Some p" and "about_to_change (rs ! j) = Some p"
  shows "i = j"
proof -
  have run: "well_run L rs"
    using interleaving_well_run [OF assms(2) requests_well_run [OF assms(1)]] by simp
  obtain l l' where "L p = Some l" "holds (rs ! i) l" "L p = Some l'" "holds (rs ! j) l'"
    using well_run_one_change [OF run assms(3,5)] well_run_one_change [OF run assms(4,6)] by blast
  then show ?thesis
    using run assms(3,4) unfolding well_run_def by (metis option.inject)
qed

text \<open>Two requests that delete branches of one project.\<close>

definition sample_delete :: "string \<Rightarrow> effect list" where
  "sample_delete branch = trace (snd (Git_DeleteBranch sample_host ''acme'' ''web'' branch sample_git))"

definition sample_table :: "string \<rightharpoonup> nat" where
  "sample_table = map_of (locks (snd (Git_DeleteBranch sample_host ''acme'' ''web'' ''u/jon'' sample_git)))"

lemma sample_repo:
  "slugRe ''acme'' \<and> slugRe ''web''
   \<and> filepath_Join [''/data'', ''repos'', ''acme'', ''web.git''] = ''/data/repos/acme/web.git''"
  by code_simp

lemma sample_delete_runs:
  "sample_delete branch = [Lock 0, Exec ''/data/repos/acme/web.git'' [''branch'', ''-D'', branch] True, Unlock 0]"
  "map_of (locks (snd (Git_DeleteBranch sample_host ''acme'' ''web'' branch sample_git)))
     = [''/data/repos/acme/web.git'' \<mapsto> 0]"
  using sample_repo
  by (simp_all add: sample_delete_def Git_DeleteBranch_def andThen_def ofSum_def repoPath_def
      sample_host_def sample_git_def withLock_def repoLock_def deferred_def performed_def Git_git_def git_output_def)

lemma sample_delete_locks:
  "map_of (locks (snd (Git_DeleteBranch sample_host ''acme'' ''web'' branch sample_git))) = sample_table"
  by (simp add: sample_table_def sample_delete_runs)

definition sample_requests :: "effect list list" where
  "sample_requests = [sample_delete ''u/jon'', sample_delete ''u/sam'']"

text \<open>The second request has taken the mutex.\<close>

definition sample_running :: "request list" where
  "sample_running = [request_for (sample_delete ''u/jon''),
     \<lparr> in_section = Some (0, []), to_do = tl (sample_delete ''u/sam'') \<rparr>]"

lemma sample_requests_of: "requests_of TYPE(nat) sample_table sample_requests"
proof -
  have run: "\<exists>(H :: nat host) s s'. (git_call H)\<^sup>*\<^sup>* s s' \<and> trace s' = trace s @ sample_delete branch
      \<and> map_of (locks s') \<subseteq>\<^sub>m sample_table" for branch
  proof -
    let ?s' = "snd (Git_DeleteBranch sample_host ''acme'' ''web'' branch sample_git)"
    have "(git_call sample_host)\<^sup>*\<^sup>* sample_git ?s'"
      by (rule r_into_rtranclp, rule git_call.DeleteBranch)
    moreover have "trace ?s' = trace sample_git @ sample_delete branch"
      by (simp add: sample_delete_def sample_git_def)
    moreover have "map_of (locks ?s') \<subseteq>\<^sub>m sample_table"
      by (simp add: sample_delete_locks)
    ultimately show ?thesis by blast
  qed
  show ?thesis
    by (simp add: requests_of_def sample_requests_def run)
qed

lemma sample_step: "(interleaves ^^ 1) (map request_for sample_requests) sample_running"
proof -
  have "interleaves (map request_for sample_requests) sample_running"
    using interleaves.intros [of 1 "map request_for sample_requests" "Lock 0" "tl (sample_delete ''u/sam'')"]
    by (simp add: sample_requests_def sample_running_def request_for_def sample_delete_runs holds_def)
  then show ?thesis by (simp only: relpowp_1)
qed

theorem requests_finish_witness:
  "work_left sample_running = 5 \<and> (\<exists>rs'. interleaves sample_running rs')"
  using requests_finish [OF sample_requests_of sample_step]
  by (auto simp: sample_requests_def sample_delete_runs)

theorem one_change_at_a_time_witness:
  "about_to_change (sample_running ! 1) = Some ''/data/repos/acme/web.git''
   \<and> about_to_change (sample_running ! 0) \<noteq> Some ''/data/repos/acme/web.git''"
proof -
  have one: "about_to_change (sample_running ! 1) = Some ''/data/repos/acme/web.git''"
    by (simp add: sample_running_def sample_delete_runs about_to_change_def mutating_def changed_repo_def)
  have "length sample_running = 2"
    by (simp add: sample_running_def)
  with one show ?thesis
    using one_change_at_a_time [OF sample_requests_of sample_step, of 0 1] by auto
qed

end
