(* ===== verification/Spec2Isabelle.thy ===== *)
theory Spec2Isabelle
  imports Releasing Privacy Delivery Edge_Cases Program Concurrent
begin

text \<open>
  A verification development of ubiqo, a self-hosted server that shares project context between
  AI clients. This theory imports all others and holds their description; paths are relative to the root
  of the repository.

  The program. A PostgreSQL database (\<open>internal/store\<close>) holds orgs, users, memberships, projects, device
  tokens, events, memories, proposals and releases. Bare git repositories (\<open>internal/gitstore\<close>) hold the
  artifacts and are the source of truth for them. The service (\<open>internal/core\<close>) combines the two: it
  finds the project and the caller's role, passes the policy (\<open>internal/authz\<close>), acts on git and then on
  the database. A context for a session is compiled from both (\<open>internal/compiler\<close>); versions of releases
  are those of \<open>internal/semver\<close>. The service is reached through MCP tools (\<open>internal/mcpserver\<close>) and
  HTTP (\<open>internal/httpapi\<close>) behind a bearer token, and through the command line (\<open>cmd/ubiqo\<close>), which
  also has the client's commands and hooks.

  How it is modelled. An operation of Go that returns \<open>(T, error)\<close> is a function from a state to an error
  or a result together with the state it leaves (\<open>act\<close> in Effects), so what an error path leaves behind
  is part of the model. The state of the store is the record \<open>db\<close> of tables; that of the git plane the
  opaque world of the host, the mutexes and the trace of the effects so far; the service, the HTTP server
  and the commands put these together (\<open>sys\<close>, \<open>web\<close>, \<open>site\<close>, \<open>process\<close>). What is not the
  program's code is a record of functions given to the definitions, of which nothing is assumed: the
  database's failures, clock, UUIDs, collation and text search (\<open>dbms\<close>), the operating system and git
  (\<open>host\<close>), Go's digests, UUIDs and time formats (\<open>golib\<close>), the MCP SDK (\<open>sdk\<close>), the network and
  disk of a client (\<open>client_env\<close>). So the theorems hold for every failure of these.
\<close>

section \<open>The theories\<close>

text \<open>
  Foundations. Prelude: Go's \<open>strings\<close> functions, decimal numbers and their lemmas. Effects: sequencing,
  error handling and loops; the errors an operation may raise (\<open>raises\<close>), and the relations every step
  of it keeps (\<open>keeps\<close>, with the locale \<open>two_state\<close> whose rules compose them). Errors: the errors of the
  server as a datatype. GoText: UTF-8, \<open>strconv.Quote\<close>. Json: the
  parts of \<open>encoding/json\<close> that the program uses, byte for byte; Json_Facts: what is marshalled is read
  back, what is cut off is not. Flags: the package \<open>flag\<close>. Samples: a small deployment on which theorems
  are exercised.

  Authz (\<open>authz.go\<close>): the policy table, denials; it equals the ladder of roles.

  Semver (\<open>semver.go\<close>): parsing, comparing, bumping on 64-bit words; round trip, \<open>Latest\<close> as a maximum,
  the wrap-around of \<open>Bump\<close>.

  Compiler (\<open>compiler.go\<close>): the bundle byte for byte; independence of the order of its input; the
  envelope of untrusted text.

  Store (\<open>store.go\<close> and \<open>migrations/0001_init.sql\<close>): the tables, their constraints, one definition
  \<open>DB_...\<close> for each method. Store_Facts: the constraints as an invariant (\<open>wf_db\<close>) and the methods that
  only read. History: any sequence of store calls (\<open>db_call\<close>), what is append-only, revocation and
  authentication. Members: the membership tables as maps of roles (locale \<open>register\<close>). Text_Columns: every
  text column holds valid text. Migrate (\<open>Migrate\<close> of \<open>store.go\<close>): statements, transactions, and that
  interrupted migrations resume. Pool (\<open>Open\<close>, \<open>Close\<close>, \<open>ResetForTest\<close>): the open connection pools.

  Paths and Gitstore (\<open>gitstore.go\<close>): paths, references, and one definition \<open>Git_...\<close> for each operation
  as the commands it runs. Gitstore_Facts: properties of traces (locale \<open>trace_lang\<close>): locks, temporary
  clones, what is pushed. Gitstore_Safety: what is written, shown and recorded, and what is refused.
  Concurrent: requests whose effects on git are interleaved in any order finish, and never change one
  repository at the same time.

  Core (\<open>core.go\<close>): one definition \<open>Svc_...\<close> for each method of \<open>Service\<close>. Core_Facts: any call of the
  service (\<open>svc_call\<close>) as steps of the store and of git (locale \<open>sys_relation\<close>). Core_Safety: the gate,
  the protection of main, invariants of all call sequences. Lifecycle: the states of a proposal, git before
  database. Releasing: the choice of a version, tags before rows. Privacy: private memories cannot be
  observed; envelopes; recall of what was remembered.

  Mcp (\<open>mcpserver.go\<close>): registration, handlers, results; every tool is gated by the action it declares.
  Http (\<open>httpapi.go\<close>) and Http_Safety: routing, middleware, metrics; without a live token nothing happens
  (locale \<open>authenticator\<close>), statuses tell the truth, requests are counted once.

  Config (\<open>config.go\<close>): the environment, validation, redaction. Client and Client_Facts (\<open>client.go\<close>):
  the client's commands and hooks; they fail open and lose no summary. Delivery: client and server
  together, through the JSON they exchange: logins and bindings are remembered, a summary that is taken is
  the event of its sender, the limit on its size. Cli (\<open>main.go\<close>) and Ops (\<open>ops.go\<close>,
  \<open>main\<close>): the server's commands. Fsck: what a rebuild adds, reports and restores (locale
  \<open>site_relation\<close>). Cli_Facts: commands need a configured and migrated store; the token of \<open>setup\<close>.
  Edge_Cases: evaluated runs at the edges, where the code surprises. Program: any number of runs of the
  program is a sequence of calls of the store, so the invariants of the database hold of it, and every
  pool it opens is closed.
\<close>

section \<open>Bounds and fuel\<close>

text \<open>
  Every definition is total. \<open>bound_walk\<close> goes up ten directories, the bound of the code.
  \<open>fields_fuel\<close> (words of a line of \<open>git ls-tree\<close>) takes the length of the text as its fuel: each turn
  with a word consumes a character. The JSON parser's fuel is twice the length of the text plus one, since
  a value and its first element may start at one character; \<open>json_fuel_enough\<close> shows that more changes
  nothing. Its depth is bounded by the library's 10000. The other loops recurse on a list or on a text
  that gets shorter.
  Go's \<open>int\<close> is a 64-bit word in Semver; counts and limits elsewhere are \<open>nat\<close> and \<open>int\<close> because the
  code cannot make them overflow.
\<close>

section \<open>Not modelled\<close>

text \<open>
  Concurrency of requests is covered for the git plane (Concurrent) and, at the grain of whole calls of
  the store, by the theorems on \<open>db_call\<close>, which hold of every order of calls; that the result of one request depends on
  another between two of its own steps is not followed through \<open>Core\<close>. Timeouts and contexts, except
  as failures of the database, the network and git at any step. The JSON schemas of tools, the encoding
  of their results, the MCP protocol and the metrics page, which are libraries. The text of error messages,
  other than their data and the denials of the policy. Requests that the mux redirects. Test files, the
  plugin, and deployment files.
\<close>

end
